theory Spec2Isabelle
  imports Main
begin

text \<open>
  The repository holds four master-data screens (Organization, Subsidiary, Location,
  Designation), each a React component with its rows, one form and one read-only view,
  and it holds every screen twice. The eight page components are modelled one by one:

  \<^item> \<open>Organization1\<close>: the third component of src/pages/DesignationPage.tsx
    (lines 607-1227); \<open>Organization2\<close>: the first component of unnamed/part_005
    (lines 1-466), which also checks the tenant code;
  \<^item> \<open>Subsidiary1\<close>, \<open>Subsidiary2\<close>: the second and third component of
    unnamed/part_005 (lines 467-901 and 902-1259);
  \<^item> \<open>Location1\<close>: unnamed/part_006; \<open>Location2\<close>: src/pages/LocationPage.tsx;
  \<^item> \<open>Designation1\<close>, \<open>Designation2\<close>: the first and second component of
    src/pages/DesignationPage.tsx (lines 1-321 and 322-606).

  \<open>Subsidiary1\<close>, \<open>Location1\<close> and \<open>Designation1\<close> show the view in a panel of the
  page, have no duplicate check, and close the view in Add, Edit and Delete. The other
  five check the natural key against the store in \<open>onSubmit\<close>, show the view in a modal
  and never close it from a handler. The effect of the four first pages empties the form
  with \<^verbatim>\<open>reset({...})\<close> of empty strings, the effect of the four second pages with
  \<^verbatim>\<open>reset()\<close>.
\<close>

section \<open>Strings, ids and the validation library\<close>

text \<open>
  A JavaScript string is a sequence of UTF-16 code units. It is modelled as a
  \<open>string\<close> in which every \<open>char\<close> stands for one code unit below 256, so that
  \<open>length\<close> is JavaScript's \<open>.length\<close>. On these code units \<open>toLowerCase\<close> moves
  A-Z (65-90) and the Latin-1 capitals 192-222 (without the multiplication sign 215)
  up by 32 and leaves every other unit alone.
\<close>

definition toLowerCase_unit :: "char \<Rightarrow> char" where
  "toLowerCase_unit c =
     (let n = (of_char c :: nat)
      in if (65 \<le> n \<and> n \<le> 90) \<or> (192 \<le> n \<and> n \<le> 222 \<and> n \<noteq> 215)
         then char_of (n + 32) else c)"

definition toLowerCase :: "string \<Rightarrow> string" where
  "toLowerCase s = map toLowerCase_unit s"

text \<open>
  Record ids are JavaScript numbers that only ever hold the seed's integers and
  \<open>max + 1\<close> of integers; they are modelled as \<open>int\<close>. The expression
  \<^verbatim>\<open>rows.length > 0 ? Math.max(...rows.map((r) => r.id)) + 1 : 1\<close>
  is the same in every page; \<open>nextId\<close> takes the list \<open>rows.map((r) => r.id)\<close>.

  A JavaScript number is a double: \<open>m + 1\<close> is the integer \<open>m + 1\<close> as long as \<open>m\<close> is
  a safe integer, one between \<open>- MAX_SAFE_INTEGER\<close> and \<open>MAX_SAFE_INTEGER\<close>, which is
  2 to the power 53, minus 1; beyond that the sum is rounded. \<open>nextId\<close> is the code's
  expression on safe integers only. \<open>ids_stay_exact ids n\<close> says that \<open>n\<close> additions of
  1 that start from the integers \<open>ids\<close> (or from the 1 of the empty store) stay inside that
  range.
\<close>

definition nextId :: "int list \<Rightarrow> int" where
  "nextId ids = (case ids of [] \<Rightarrow> 1 | i # js \<Rightarrow> fold max js i + 1)"

definition MAX_SAFE_INTEGER :: int where
  "MAX_SAFE_INTEGER = 9007199254740991"

definition isSafeInteger :: "int \<Rightarrow> bool" where
  "isSafeInteger i = (- MAX_SAFE_INTEGER \<le> i \<and> i \<le> MAX_SAFE_INTEGER)"

definition ids_stay_exact :: "int list \<Rightarrow> nat \<Rightarrow> bool" where
  "ids_stay_exact ids n =
     (int n \<le> MAX_SAFE_INTEGER
      \<and> list_all (\<lambda>i. - MAX_SAFE_INTEGER \<le> i \<and> i + int n \<le> MAX_SAFE_INTEGER) ids)"

text \<open>
  The three kinds of field error. \<open>MissingRequiredField\<close> is what a failed yup
  \<^verbatim>\<open>.required(...)\<close> test yields, \<open>FormatViolation\<close> what a failed \<^verbatim>\<open>.email(...)\<close>,
  \<^verbatim>\<open>.matches(...)\<close> or \<^verbatim>\<open>.max(...)\<close> test yields, and \<open>DuplicateKey\<close> is the
  \<^verbatim>\<open>type: "manual"\<close> error that \<open>onSubmit\<close> sets with the message
  "... already exists. It must be unique.".
\<close>

datatype ErrorKind = MissingRequiredField | FormatViolation | DuplicateKey

type_synonym FieldErrors = "(string \<times> ErrorKind) list"

text \<open>The yup string tests the schemas use; \<open>None\<close> means the test passes.\<close>

definition required :: "string \<Rightarrow> ErrorKind option" where
  "required v = (if v = [] then Some MissingRequiredField else None)"

definition isDigit :: "char \<Rightarrow> bool" where
  "isDigit c = (c \<in> set ''0123456789'')"

definition matches_digits :: "nat \<Rightarrow> nat \<Rightarrow> string \<Rightarrow> ErrorKind option" where
  \<comment> \<open>\<^verbatim>\<open>.matches(/^[0-9]{lo,hi}$/, ...)\<close>\<close>
  "matches_digits lo hi v =
     (if lo \<le> length v \<and> length v \<le> hi \<and> list_all isDigit v then None
      else Some FormatViolation)"

definition email :: "(string \<Rightarrow> bool) \<Rightarrow> string \<Rightarrow> ErrorKind option" where
  \<comment> \<open>\<^verbatim>\<open>.email(...)\<close>: yup matches its own e-mail pattern, here the parameter
      \<open>rEmail\<close>, and lets the empty string through.\<close>
  "email rEmail v = (if v = [] \<or> rEmail v then None else Some FormatViolation)"

definition max_length :: "nat \<Rightarrow> string \<Rightarrow> ErrorKind option" where
  \<comment> \<open>\<^verbatim>\<open>.max(n, ...)\<close>\<close>
  "max_length n v = (if length v \<le> n then None else Some FormatViolation)"

fun firstError :: "ErrorKind option list \<Rightarrow> ErrorKind option" where
  "firstError [] = None"
| "firstError (None # ts) = firstError ts"
| "firstError (Some e # ts) = Some e"

definition field :: "string \<Rightarrow> ErrorKind option list \<Rightarrow> FieldErrors" where
  \<comment> \<open>one schema entry: the tests run in the order written, the resolver reports
      the first failure of the field\<close>
  "field name tests = (case firstError tests of None \<Rightarrow> [] | Some e \<Rightarrow> [(name, e)])"

section \<open>Page state and the form library\<close>

text \<open>
  Every page holds the same four pieces of React state (\<open>rows\<close>, \<open>editingId\<close>,
  \<open>isFormOpen\<close> and the viewed record, called \<open>viewOrg\<close>, \<open>viewSub\<close>,
  \<open>viewSubsidiary\<close>, \<open>viewLocation\<close> or \<open>viewDesignation\<close>, here \<open>viewRow\<close>) and
  the state of its react-hook-form form: the edit buffer \<open>formValues\<close>, the default
  values that the form library keeps for the form (\<open>defaultValues\<close>, at first the
  \<^verbatim>\<open>defaultValues\<close> given to \<^verbatim>\<open>useForm\<close>) and \<open>errors\<close>.
\<close>

record ('r, 'f) Page =
  rows :: "'r list"
  editingId :: "int option"
  isFormOpen :: bool
  viewRow :: "'r option"
  formValues :: 'f
  defaultValues :: 'f
  errors :: FieldErrors

text \<open>
  react-hook-form is not part of the repository. Its two operations that the pages
  call are modelled by their contract. \<^verbatim>\<open>reset(values)\<close>, here \<open>reset (Some values)\<close>,
  puts the values into the buffer, keeps them as the new default values of the form and
  clears the errors. \<^verbatim>\<open>reset()\<close>, here \<open>reset None\<close>, puts the form's current default
  values into the buffer and clears the errors: after a \<^verbatim>\<open>reset(values)\<close> these are no
  longer the ones given to \<^verbatim>\<open>useForm\<close>. \<open>setError\<close> records an error for one field.
\<close>

definition reset :: "'f option \<Rightarrow> ('r, 'f) Page \<Rightarrow> ('r, 'f) Page" where
  "reset values s =
     (let v = (case values of Some v \<Rightarrow> v | None \<Rightarrow> defaultValues s)
      in s\<lparr>formValues := v, defaultValues := v, errors := []\<rparr>)"

definition setError :: "string \<Rightarrow> ErrorKind \<Rightarrow> ('r, 'f) Page \<Rightarrow> ('r, 'f) Page" where
  "setError name e s = s\<lparr>errors := (name, e) # filter (\<lambda>p. fst p \<noteq> name) (errors s)\<rparr>"

text \<open>
  What the user can do on a page: the "+ Add New" button, the Edit, View and Delete
  buttons of a table row (Delete carries the answer of \<^verbatim>\<open>window.confirm\<close>), closing
  the view, Cancel, typing into the form and submitting it.
\<close>

datatype ('r, 'f) Event =
  AddNew | Edit 'r | View 'r | CloseView | Delete int bool | Cancel | Input 'f | Submit

text \<open>
  A page handles an event with its handler (\<open>_handle\<close> below dispatches on the event as
  the buttons are wired: the row buttons exist for the rows of the table, the form and
  its Cancel and submit buttons only while \<open>isFormOpen\<close>). After the render that follows,
  React runs the page's \<open>useEffect\<close> (\<open>_prefill\<close> below), which depends on
  \<open>editingRow\<close>, if \<open>editingRow\<close> is not what it was at the previous render; the
  model compares the two records by value. \<open>_step\<close> is the handler followed by that
  effect. Typing leaves the errors alone: they are read right after a submit only.

  The states a page can be in are its first state and whatever a step leads to;
  \<open>fold step es s\<close> is the state that the events \<open>es\<close>, one after the other, lead to
  from \<open>s\<close>.
\<close>

inductive reachable :: "'s \<Rightarrow> ('e \<Rightarrow> 's \<Rightarrow> 's) \<Rightarrow> 's \<Rightarrow> bool"
  for init :: 's and step :: "'e \<Rightarrow> 's \<Rightarrow> 's" where
  reachable_init: "reachable init step init"
| reachable_step: "reachable init step s \<Longrightarrow> reachable init step (step e s)"

text \<open>An identifier that is used without ever being declared.\<close>

datatype JsError = ReferenceError string


section \<open>Subsidiary\<close>

text \<open>
  The interface \<open>Subsidiary\<close> of the types file is the id together with the form
  values, the type that yup infers from the schema of the page. Both pages use the
  same schema and the same \<^verbatim>\<open>defaultValues\<close> of \<^verbatim>\<open>useForm\<close>.
  The field names \<open>locationCode\<close>, \<open>organizationCode\<close> are shared with another record; where it is not the record
  declared last that is meant, the name is written with its record.
\<close>

record SubsidiaryFormValues =
  subsidiaryName :: string
  subsidiaryCode :: string
  subsidiaryDescription :: string
  locationCode :: string
  organizationCode :: string

record Subsidiary = SubsidiaryFormValues +
  id :: int

type_synonym SubsidiaryPage = "(Subsidiary, SubsidiaryFormValues) Page"

definition subsidiarySchema :: "SubsidiaryFormValues \<Rightarrow> FieldErrors" where
  "subsidiarySchema d =
     field ''subsidiaryName'' [required (subsidiaryName d)]
   @ field ''subsidiaryCode'' [required (subsidiaryCode d), max_length 20 (subsidiaryCode d)]
   @ field ''subsidiaryDescription'' [required (subsidiaryDescription d)]
   @ field ''locationCode'' [required (SubsidiaryFormValues.locationCode d)]
   @ field ''organizationCode'' [required (SubsidiaryFormValues.organizationCode d)]"

definition Subsidiary_defaultValues :: SubsidiaryFormValues where
  "Subsidiary_defaultValues =
     \<lparr>subsidiaryName = '''', subsidiaryCode = '''', subsidiaryDescription = '''',
      SubsidiaryFormValues.locationCode = '''', SubsidiaryFormValues.organizationCode = ''''\<rparr>"

definition Subsidiary_new :: "int \<Rightarrow> SubsidiaryFormValues \<Rightarrow> Subsidiary" where
  \<comment> \<open>\<^verbatim>\<open>{ id: n, ...data }\<close>\<close>
  "Subsidiary_new n d =
     \<lparr>subsidiaryName = subsidiaryName d, subsidiaryCode = subsidiaryCode d,
      subsidiaryDescription = subsidiaryDescription d,
      SubsidiaryFormValues.locationCode = SubsidiaryFormValues.locationCode d,
      SubsidiaryFormValues.organizationCode = SubsidiaryFormValues.organizationCode d,
      Subsidiary.id = n\<rparr>"

definition Subsidiary_merge :: "Subsidiary \<Rightarrow> SubsidiaryFormValues \<Rightarrow> Subsidiary" where
  \<comment> \<open>\<^verbatim>\<open>{ ...row, ...data, subsidiaryCode: row.subsidiaryCode }\<close>\<close>
  "Subsidiary_merge row d =
     (row\<lparr>subsidiaryName := subsidiaryName d, subsidiaryCode := subsidiaryCode d,
          subsidiaryDescription := subsidiaryDescription d,
          SubsidiaryFormValues.locationCode := SubsidiaryFormValues.locationCode d,
          SubsidiaryFormValues.organizationCode := SubsidiaryFormValues.organizationCode d\<rparr>)
       \<lparr>subsidiaryCode := subsidiaryCode row\<rparr>"

definition Subsidiary_values :: "Subsidiary \<Rightarrow> SubsidiaryFormValues" where
  \<comment> \<open>the object the prefill effect hands to \<open>reset\<close>\<close>
  "Subsidiary_values r =
     \<lparr>subsidiaryName = subsidiaryName r, subsidiaryCode = subsidiaryCode r,
      subsidiaryDescription = subsidiaryDescription r,
      SubsidiaryFormValues.locationCode = SubsidiaryFormValues.locationCode r,
      SubsidiaryFormValues.organizationCode = SubsidiaryFormValues.organizationCode r\<rparr>"

definition Subsidiary_editingRow :: "SubsidiaryPage \<Rightarrow> Subsidiary option" where
  \<comment> \<open>\<^verbatim>\<open>rows.find((r) => r.id === editingId) ?? null\<close>\<close>
  "Subsidiary_editingRow s = List.find (\<lambda>r. Some (Subsidiary.id r) = editingId s) (rows s)"

text \<open>
  The Subsidiary pages import their seed \<open>initialSubsidiaries\<close> from
  \<^verbatim>\<open>../api/subsidary\<close>, whose records are not fixed here: the first state takes
  the seed as a parameter, a list of records of the interface \<open>Subsidiary\<close> whose
  ids are integers.
\<close>

definition Subsidiary_init :: "Subsidiary list \<Rightarrow> SubsidiaryPage" where
  "Subsidiary_init initialSubsidiaries =
     \<lparr>rows = initialSubsidiaries, editingId = None, isFormOpen = False,
      viewRow = None, formValues = Subsidiary_defaultValues, defaultValues =
          Subsidiary_defaultValues,
      errors = []\<rparr>"

subsection \<open>Subsidiary1: the second document of unnamed/part_005 (lines 467-901)\<close>

definition Subsidiary1_prefill :: "SubsidiaryPage \<Rightarrow> SubsidiaryPage" where
  \<comment> \<open>the body of the \<open>useEffect\<close> on \<open>editingRow\<close>; the object of empty strings
      in its else branch is the one given to \<^verbatim>\<open>useForm\<close>\<close>
  "Subsidiary1_prefill s =
     (case Subsidiary_editingRow s of
        Some r \<Rightarrow> reset (Some (Subsidiary_values r)) s
      | None \<Rightarrow> reset (Some Subsidiary_defaultValues) s)"

definition Subsidiary1_onSubmit :: "SubsidiaryFormValues \<Rightarrow> SubsidiaryPage \<Rightarrow> SubsidiaryPage" where
  "Subsidiary1_onSubmit d s =
     (let s1 =
       (if editingId s = None
        then s\<lparr>rows := rows s @ [Subsidiary_new (nextId (map Subsidiary.id (rows s))) d]\<rparr>
        else s\<lparr>rows := map (\<lambda>row. if Some (Subsidiary.id row) = editingId s
                                    then Subsidiary_merge row d else row) (rows s)\<rparr>)
     in (reset None (s1\<lparr>editingId := None\<rparr>))
          \<lparr>isFormOpen := False\<rparr>)"

definition Subsidiary1_handleEdit :: "Subsidiary \<Rightarrow> SubsidiaryPage \<Rightarrow> SubsidiaryPage" where
  "Subsidiary1_handleEdit row s =
     s\<lparr>editingId := Some (Subsidiary.id row), isFormOpen := True, viewRow := None\<rparr>"

definition Subsidiary1_handleDelete :: "int \<Rightarrow> bool \<Rightarrow> SubsidiaryPage \<Rightarrow> SubsidiaryPage" where
  "Subsidiary1_handleDelete i confirmed s =
     (if confirmed then
        (let s1 = s\<lparr>rows := filter (\<lambda>row. Subsidiary.id row \<noteq> i) (rows s)\<rparr>;
             s2 = (if editingId s = Some i
                   then (reset None (s1\<lparr>editingId := None\<rparr>))
                          \<lparr>isFormOpen := False\<rparr>
                   else s1)
         in if (case viewRow s of Some v \<Rightarrow> Subsidiary.id v = i | None \<Rightarrow> False)
            then s2\<lparr>viewRow := None\<rparr> else s2)
      else s)"

definition Subsidiary1_handleCancel :: "SubsidiaryPage \<Rightarrow> SubsidiaryPage" where
  "Subsidiary1_handleCancel s =
     (reset None (s\<lparr>editingId := None\<rparr>))\<lparr>isFormOpen := False\<rparr>"

definition Subsidiary1_handleAddNew :: "SubsidiaryPage \<Rightarrow> SubsidiaryPage" where
  \<comment> \<open>the handler of the "+ Add New" button\<close>
  "Subsidiary1_handleAddNew s =
     (reset None (s\<lparr>editingId := None\<rparr>))
       \<lparr>isFormOpen := True, viewRow := None\<rparr>"

definition Subsidiary1_handleSubmit :: "SubsidiaryPage \<Rightarrow> SubsidiaryPage" where
  \<comment> \<open>\<^verbatim>\<open>handleSubmit(onSubmit)\<close> with the yup resolver\<close>
  "Subsidiary1_handleSubmit s =
     (let errs = subsidiarySchema (formValues s)
      in if errs = [] then Subsidiary1_onSubmit (formValues s) (s\<lparr>errors := []\<rparr>)
         else s\<lparr>errors := errs\<rparr>)"

fun Subsidiary1_handle :: "(Subsidiary, SubsidiaryFormValues) Event \<Rightarrow> SubsidiaryPage \<Rightarrow>
    SubsidiaryPage" where
  "Subsidiary1_handle AddNew s = Subsidiary1_handleAddNew s"
| "Subsidiary1_handle (Edit row) s =
     (if row \<in> set (rows s) then Subsidiary1_handleEdit row s else s)"
| "Subsidiary1_handle (View row) s =
     (if row \<in> set (rows s) then s\<lparr>viewRow := Some row\<rparr> else s)"
| "Subsidiary1_handle CloseView s = s\<lparr>viewRow := None\<rparr>"
| "Subsidiary1_handle (Delete i c) s =
     (if i \<in> Subsidiary.id ` set (rows s) then Subsidiary1_handleDelete i c s else s)"
| "Subsidiary1_handle Cancel s = (if isFormOpen s then Subsidiary1_handleCancel s else s)"
| "Subsidiary1_handle (Input v) s = (if isFormOpen s then s\<lparr>formValues := v\<rparr> else s)"
| "Subsidiary1_handle Submit s =
     (if isFormOpen s then Subsidiary1_handleSubmit s else s)"

definition Subsidiary1_step :: "(Subsidiary, SubsidiaryFormValues) Event \<Rightarrow> SubsidiaryPage \<Rightarrow>
    SubsidiaryPage" where
  "Subsidiary1_step e s =
     (let s' = Subsidiary1_handle e s
      in if Subsidiary_editingRow s' = Subsidiary_editingRow s then s' else Subsidiary1_prefill
          s')"

subsection \<open>Subsidiary2: the third document of unnamed/part_005 (lines 902-1259)\<close>

definition Subsidiary2_isDuplicate :: "SubsidiaryFormValues \<Rightarrow> SubsidiaryPage \<Rightarrow> bool" where
  "Subsidiary2_isDuplicate d s =
     list_ex (\<lambda>row. toLowerCase (subsidiaryCode row) = toLowerCase (subsidiaryCode d)
                 \<and> Some (Subsidiary.id row) \<noteq> editingId s) (rows s)"

definition Subsidiary2_prefill :: "SubsidiaryPage \<Rightarrow> SubsidiaryPage" where
  \<comment> \<open>the body of the \<open>useEffect\<close> on \<open>editingRow\<close>; its else branch is
      \<^verbatim>\<open>reset()\<close>\<close>
  "Subsidiary2_prefill s =
     (case Subsidiary_editingRow s of
        Some r \<Rightarrow> reset (Some (Subsidiary_values r)) s
      | None \<Rightarrow> reset None s)"

definition Subsidiary2_onSubmit :: "SubsidiaryFormValues \<Rightarrow> SubsidiaryPage \<Rightarrow> SubsidiaryPage" where
  "Subsidiary2_onSubmit d s =
     (if Subsidiary2_isDuplicate d s then setError ''subsidiaryCode'' DuplicateKey s
      else
        (let s1 =
           (if editingId s = None
            then s\<lparr>rows := rows s @ [Subsidiary_new (nextId (map Subsidiary.id (rows s))) d]\<rparr>
            else s\<lparr>rows := map (\<lambda>row. if Some (Subsidiary.id row) = editingId s
                                        then Subsidiary_merge row d else row) (rows s)\<rparr>)
         in (reset None (s1\<lparr>editingId := None\<rparr>))
              \<lparr>isFormOpen := False\<rparr>))"

definition Subsidiary2_handleEdit :: "Subsidiary \<Rightarrow> SubsidiaryPage \<Rightarrow> SubsidiaryPage" where
  "Subsidiary2_handleEdit row s =
     s\<lparr>editingId := Some (Subsidiary.id row), isFormOpen := True\<rparr>"

definition Subsidiary2_handleDelete :: "int \<Rightarrow> bool \<Rightarrow> SubsidiaryPage \<Rightarrow> SubsidiaryPage" where
  "Subsidiary2_handleDelete i confirmed s =
     (if confirmed then
        (let s1 = s\<lparr>rows := filter (\<lambda>row. Subsidiary.id row \<noteq> i) (rows s)\<rparr>
         in if editingId s = Some i
            then (reset None (s1\<lparr>editingId := None\<rparr>))
                   \<lparr>isFormOpen := False\<rparr>
            else s1)
      else s)"

definition Subsidiary2_handleCancel :: "SubsidiaryPage \<Rightarrow> SubsidiaryPage" where
  "Subsidiary2_handleCancel s =
     (reset None (s\<lparr>editingId := None\<rparr>))\<lparr>isFormOpen := False\<rparr>"

definition Subsidiary2_handleAddNew :: "SubsidiaryPage \<Rightarrow> SubsidiaryPage" where
  \<comment> \<open>the handler of the "+ Add New" button\<close>
  "Subsidiary2_handleAddNew s =
     (reset None (s\<lparr>editingId := None\<rparr>))
       \<lparr>isFormOpen := True\<rparr>"

definition Subsidiary2_handleSubmit :: "SubsidiaryPage \<Rightarrow> SubsidiaryPage" where
  \<comment> \<open>\<^verbatim>\<open>handleSubmit(onSubmit)\<close> with the yup resolver\<close>
  "Subsidiary2_handleSubmit s =
     (let errs = subsidiarySchema (formValues s)
      in if errs = [] then Subsidiary2_onSubmit (formValues s) (s\<lparr>errors := []\<rparr>)
         else s\<lparr>errors := errs\<rparr>)"

fun Subsidiary2_handle :: "(Subsidiary, SubsidiaryFormValues) Event \<Rightarrow> SubsidiaryPage \<Rightarrow>
    SubsidiaryPage" where
  "Subsidiary2_handle AddNew s = Subsidiary2_handleAddNew s"
| "Subsidiary2_handle (Edit row) s =
     (if row \<in> set (rows s) then Subsidiary2_handleEdit row s else s)"
| "Subsidiary2_handle (View row) s =
     (if row \<in> set (rows s) then s\<lparr>viewRow := Some row\<rparr> else s)"
| "Subsidiary2_handle CloseView s = s\<lparr>viewRow := None\<rparr>"
| "Subsidiary2_handle (Delete i c) s =
     (if i \<in> Subsidiary.id ` set (rows s) then Subsidiary2_handleDelete i c s else s)"
| "Subsidiary2_handle Cancel s = (if isFormOpen s then Subsidiary2_handleCancel s else s)"
| "Subsidiary2_handle (Input v) s = (if isFormOpen s then s\<lparr>formValues := v\<rparr> else s)"
| "Subsidiary2_handle Submit s =
     (if isFormOpen s then Subsidiary2_handleSubmit s else s)"

definition Subsidiary2_step :: "(Subsidiary, SubsidiaryFormValues) Event \<Rightarrow> SubsidiaryPage \<Rightarrow>
    SubsidiaryPage" where
  "Subsidiary2_step e s =
     (let s' = Subsidiary2_handle e s
      in if Subsidiary_editingRow s' = Subsidiary_editingRow s then s' else Subsidiary2_prefill
          s')"

section \<open>Organization\<close>

text \<open>
  The interface \<open>Organization\<close> of the types file is the id together with the form
  values, the type that yup infers from the schema of the page. Both pages use the
  same schema and the same \<^verbatim>\<open>defaultValues\<close> of \<^verbatim>\<open>useForm\<close>.
  The field names \<open>organizationCode\<close>, \<open>city\<close> are shared with another record; where it is not the record
  declared last that is meant, the name is written with its record.
\<close>

record OrganizationFormValues =
  organizationName :: string
  organizationCode :: string
  registrationNumber :: string
  emailId :: string
  contactNumber :: string
  addressLine1 :: string
  city :: string
  pinCode :: string
  tenantCode :: string
  status :: string
  financialYearStart :: string

record Organization = OrganizationFormValues +
  id :: int

type_synonym OrganizationPage = "(Organization, OrganizationFormValues) Page"

definition organizationSchema :: "(string \<Rightarrow> bool) \<Rightarrow> OrganizationFormValues \<Rightarrow> FieldErrors" where
  "organizationSchema rEmail d =
     field ''organizationName'' [required (organizationName d)]
   @ field ''organizationCode'' [required (organizationCode d)]
   @ field ''registrationNumber'' [required (registrationNumber d)]
   @ field ''emailId'' [email rEmail (emailId d), required (emailId d)]
   @ field ''contactNumber'' [required (contactNumber d), matches_digits 8 15 (contactNumber d)]
   @ field ''addressLine1'' [required (addressLine1 d)]
   @ field ''city'' [required (OrganizationFormValues.city d)]
   @ field ''pinCode'' [required (pinCode d), matches_digits 5 6 (pinCode d)]
   @ field ''tenantCode'' [required (tenantCode d)]
   @ field ''status'' [required (status d)]
   @ field ''financialYearStart'' [required (financialYearStart d)]"

definition Organization_defaultValues :: OrganizationFormValues where
  "Organization_defaultValues =
     \<lparr>organizationName = '''', organizationCode = '''', registrationNumber = '''',
      emailId = '''', contactNumber = '''', addressLine1 = '''',
      OrganizationFormValues.city = '''', pinCode = '''', tenantCode = '''', status = '''',
      financialYearStart = ''''\<rparr>"

definition initialOrganizations :: "Organization list" where
  "initialOrganizations =
     [\<lparr>organizationName = ''Automotive Axles Limited'', organizationCode = ''AAL'',
       registrationNumber = ''7797779699'', emailId = ''info@autoaxle.com'',
       contactNumber = ''9821719750'',
       addressLine1 = ''Hootagalli Industrial Area, Off Hunsur Road,'',
       OrganizationFormValues.city = ''Mysore'', pinCode = '''', tenantCode = ''AAL'',
       status = ''Inactive'', financialYearStart = ''Month 4'', Organization.id = 1\<rparr>]"

definition Organization_new :: "int \<Rightarrow> OrganizationFormValues \<Rightarrow> Organization" where
  \<comment> \<open>\<^verbatim>\<open>{ id: n, ...data }\<close>\<close>
  "Organization_new n d =
     \<lparr>organizationName = organizationName d, organizationCode = organizationCode d,
      registrationNumber = registrationNumber d, emailId = emailId d,
      contactNumber = contactNumber d, addressLine1 = addressLine1 d,
      OrganizationFormValues.city = OrganizationFormValues.city d, pinCode = pinCode d,
      tenantCode = tenantCode d, status = status d,
      financialYearStart = financialYearStart d, Organization.id = n\<rparr>"

definition Organization_merge :: "Organization \<Rightarrow> OrganizationFormValues \<Rightarrow> Organization" where
  \<comment> \<open>\<^verbatim>\<open>{ ...row, ...data, organizationCode: row.organizationCode }\<close>\<close>
  "Organization_merge row d =
     (row\<lparr>organizationName := organizationName d, organizationCode := organizationCode d,
          registrationNumber := registrationNumber d, emailId := emailId d,
          contactNumber := contactNumber d, addressLine1 := addressLine1 d,
          OrganizationFormValues.city := OrganizationFormValues.city d,
          pinCode := pinCode d, tenantCode := tenantCode d, status := status d,
          financialYearStart := financialYearStart d\<rparr>)
       \<lparr>organizationCode := organizationCode row\<rparr>"

definition Organization_values :: "Organization \<Rightarrow> OrganizationFormValues" where
  \<comment> \<open>the object the prefill effect hands to \<open>reset\<close>\<close>
  "Organization_values r =
     \<lparr>organizationName = organizationName r, organizationCode = organizationCode r,
      registrationNumber = registrationNumber r, emailId = emailId r,
      contactNumber = contactNumber r, addressLine1 = addressLine1 r,
      OrganizationFormValues.city = OrganizationFormValues.city r, pinCode = pinCode r,
      tenantCode = tenantCode r, status = status r,
      financialYearStart = financialYearStart r\<rparr>"

definition Organization_editingRow :: "OrganizationPage \<Rightarrow> Organization option" where
  \<comment> \<open>\<^verbatim>\<open>rows.find((r) => r.id === editingId) ?? null\<close>\<close>
  "Organization_editingRow s = List.find (\<lambda>r. Some (Organization.id r) = editingId s) (rows s)"

definition Organization_init :: OrganizationPage where
  "Organization_init =
     \<lparr>rows = initialOrganizations, editingId = None, isFormOpen = False, viewRow = None,
      formValues = Organization_defaultValues, defaultValues = Organization_defaultValues,
          errors = []\<rparr>"

subsection \<open>Organization1: the third document of src/pages/DesignationPage.tsx (lines 607-1227)\<close>

definition Organization1_isDuplicate :: "OrganizationFormValues \<Rightarrow> OrganizationPage \<Rightarrow> bool" where
  "Organization1_isDuplicate d s =
     list_ex (\<lambda>row. toLowerCase (organizationCode row) = toLowerCase (organizationCode d)
                 \<and> Some (Organization.id row) \<noteq> editingId s) (rows s)"

definition Organization1_prefill :: "OrganizationPage \<Rightarrow> OrganizationPage" where
  \<comment> \<open>the body of the \<open>useEffect\<close> on \<open>editingRow\<close>; the object of empty strings
      in its else branch is the one given to \<^verbatim>\<open>useForm\<close>\<close>
  "Organization1_prefill s =
     (case Organization_editingRow s of
        Some r \<Rightarrow> reset (Some (Organization_values r)) s
      | None \<Rightarrow> reset (Some Organization_defaultValues) s)"

definition Organization1_onSubmit :: "OrganizationFormValues \<Rightarrow> OrganizationPage \<Rightarrow>
    OrganizationPage" where
  "Organization1_onSubmit d s =
     (if Organization1_isDuplicate d s then setError ''organizationCode'' DuplicateKey s
      else
        (let s1 =
           (if editingId s = None
            then s\<lparr>rows := rows s @ [Organization_new (nextId (map Organization.id (rows s))) d]\<rparr>
            else s\<lparr>rows := map (\<lambda>row. if Some (Organization.id row) = editingId s
                                        then Organization_merge row d else row) (rows s)\<rparr>)
         in (reset None (s1\<lparr>editingId := None\<rparr>))
              \<lparr>isFormOpen := False\<rparr>))"

definition Organization1_handleEdit :: "Organization \<Rightarrow> OrganizationPage \<Rightarrow> OrganizationPage" where
  "Organization1_handleEdit row s =
     s\<lparr>editingId := Some (Organization.id row), isFormOpen := True\<rparr>"

definition Organization1_handleDelete :: "int \<Rightarrow> bool \<Rightarrow> OrganizationPage \<Rightarrow> OrganizationPage" where
  "Organization1_handleDelete i confirmed s =
     (if confirmed then
        (let s1 = s\<lparr>rows := filter (\<lambda>row. Organization.id row \<noteq> i) (rows s)\<rparr>
         in if editingId s = Some i
            then (reset None (s1\<lparr>editingId := None\<rparr>))
                   \<lparr>isFormOpen := False\<rparr>
            else s1)
      else s)"

definition Organization1_handleCancel :: "OrganizationPage \<Rightarrow> OrganizationPage" where
  "Organization1_handleCancel s =
     (reset None (s\<lparr>editingId := None\<rparr>))\<lparr>isFormOpen := False\<rparr>"

definition Organization1_handleAddNew :: "OrganizationPage \<Rightarrow> OrganizationPage" where
  \<comment> \<open>the handler of the "+ Add New" button\<close>
  "Organization1_handleAddNew s =
     (reset None (s\<lparr>editingId := None\<rparr>))
       \<lparr>isFormOpen := True\<rparr>"

definition Organization1_handleSubmit :: "(string \<Rightarrow> bool) \<Rightarrow> OrganizationPage \<Rightarrow> OrganizationPage"
    where
  \<comment> \<open>\<^verbatim>\<open>handleSubmit(onSubmit)\<close> with the yup resolver\<close>
  "Organization1_handleSubmit rEmail s =
     (let errs = organizationSchema rEmail (formValues s)
      in if errs = [] then Organization1_onSubmit (formValues s) (s\<lparr>errors := []\<rparr>)
         else s\<lparr>errors := errs\<rparr>)"

fun Organization1_handle :: "(string \<Rightarrow> bool) \<Rightarrow> (Organization, OrganizationFormValues) Event \<Rightarrow>
    OrganizationPage \<Rightarrow> OrganizationPage" where
  "Organization1_handle rEmail AddNew s = Organization1_handleAddNew s"
| "Organization1_handle rEmail (Edit row) s =
     (if row \<in> set (rows s) then Organization1_handleEdit row s else s)"
| "Organization1_handle rEmail (View row) s =
     (if row \<in> set (rows s) then s\<lparr>viewRow := Some row\<rparr> else s)"
| "Organization1_handle rEmail CloseView s = s\<lparr>viewRow := None\<rparr>"
| "Organization1_handle rEmail (Delete i c) s =
     (if i \<in> Organization.id ` set (rows s) then Organization1_handleDelete i c s else s)"
| "Organization1_handle rEmail Cancel s = (if isFormOpen s then Organization1_handleCancel s
    else s)"
| "Organization1_handle rEmail (Input v) s = (if isFormOpen s then s\<lparr>formValues := v\<rparr> else s)"
| "Organization1_handle rEmail Submit s =
     (if isFormOpen s then Organization1_handleSubmit rEmail s else s)"

definition Organization1_step :: "(string \<Rightarrow> bool) \<Rightarrow> (Organization, OrganizationFormValues) Event
    \<Rightarrow> OrganizationPage \<Rightarrow> OrganizationPage" where
  "Organization1_step rEmail e s =
     (let s' = Organization1_handle rEmail e s
      in if Organization_editingRow s' = Organization_editingRow s then s' else
          Organization1_prefill s')"

subsection \<open>Organization2: the first document of unnamed/part_005 (lines 1-466)\<close>

definition Organization2_orgCodeDuplicate :: "OrganizationFormValues \<Rightarrow> OrganizationPage \<Rightarrow> bool"
    where
  "Organization2_orgCodeDuplicate d s =
     list_ex (\<lambda>row. toLowerCase (organizationCode row) = toLowerCase (organizationCode d)
                 \<and> Some (Organization.id row) \<noteq> editingId s) (rows s)"

definition Organization2_tenantDuplicate :: "OrganizationFormValues \<Rightarrow> OrganizationPage \<Rightarrow> bool"
    where
  "Organization2_tenantDuplicate d s =
     list_ex (\<lambda>row. toLowerCase (tenantCode row) = toLowerCase (tenantCode d)
                 \<and> Some (Organization.id row) \<noteq> editingId s) (rows s)"

definition Organization2_prefill :: "OrganizationPage \<Rightarrow> OrganizationPage" where
  \<comment> \<open>the body of the \<open>useEffect\<close> on \<open>editingRow\<close>; its else branch is
      \<^verbatim>\<open>reset()\<close>\<close>
  "Organization2_prefill s =
     (case Organization_editingRow s of
        Some r \<Rightarrow> reset (Some (Organization_values r)) s
      | None \<Rightarrow> reset None s)"

definition Organization2_onSubmit :: "OrganizationFormValues \<Rightarrow> OrganizationPage \<Rightarrow>
    OrganizationPage" where
  "Organization2_onSubmit d s =
     (if Organization2_orgCodeDuplicate d s then setError ''organizationCode'' DuplicateKey s
      else if Organization2_tenantDuplicate d s then setError ''tenantCode'' DuplicateKey s
      else
        (let s1 =
           (if editingId s = None
            then s\<lparr>rows := rows s @ [Organization_new (nextId (map Organization.id (rows s))) d]\<rparr>
            else s\<lparr>rows := map (\<lambda>row. if Some (Organization.id row) = editingId s
                                        then Organization_merge row d else row) (rows s)\<rparr>)
         in (reset None (s1\<lparr>editingId := None\<rparr>))
              \<lparr>isFormOpen := False\<rparr>))"

definition Organization2_handleEdit :: "Organization \<Rightarrow> OrganizationPage \<Rightarrow> OrganizationPage" where
  "Organization2_handleEdit row s =
     s\<lparr>editingId := Some (Organization.id row), isFormOpen := True\<rparr>"

definition Organization2_handleDelete :: "int \<Rightarrow> bool \<Rightarrow> OrganizationPage \<Rightarrow> OrganizationPage" where
  "Organization2_handleDelete i confirmed s =
     (if confirmed then
        (let s1 = s\<lparr>rows := filter (\<lambda>row. Organization.id row \<noteq> i) (rows s)\<rparr>
         in if editingId s = Some i
            then (reset None (s1\<lparr>editingId := None\<rparr>))
                   \<lparr>isFormOpen := False\<rparr>
            else s1)
      else s)"

definition Organization2_handleCancel :: "OrganizationPage \<Rightarrow> OrganizationPage" where
  "Organization2_handleCancel s =
     (reset None (s\<lparr>editingId := None\<rparr>))\<lparr>isFormOpen := False\<rparr>"

definition Organization2_handleAddNew :: "OrganizationPage \<Rightarrow> OrganizationPage" where
  \<comment> \<open>the handler of the "+ Add New" button\<close>
  "Organization2_handleAddNew s =
     (reset None (s\<lparr>editingId := None\<rparr>))
       \<lparr>isFormOpen := True\<rparr>"

definition Organization2_handleSubmit :: "(string \<Rightarrow> bool) \<Rightarrow> OrganizationPage \<Rightarrow> OrganizationPage"
    where
  \<comment> \<open>\<^verbatim>\<open>handleSubmit(onSubmit)\<close> with the yup resolver\<close>
  "Organization2_handleSubmit rEmail s =
     (let errs = organizationSchema rEmail (formValues s)
      in if errs = [] then Organization2_onSubmit (formValues s) (s\<lparr>errors := []\<rparr>)
         else s\<lparr>errors := errs\<rparr>)"

fun Organization2_handle :: "(string \<Rightarrow> bool) \<Rightarrow> (Organization, OrganizationFormValues) Event \<Rightarrow>
    OrganizationPage \<Rightarrow> OrganizationPage" where
  "Organization2_handle rEmail AddNew s = Organization2_handleAddNew s"
| "Organization2_handle rEmail (Edit row) s =
     (if row \<in> set (rows s) then Organization2_handleEdit row s else s)"
| "Organization2_handle rEmail (View row) s =
     (if row \<in> set (rows s) then s\<lparr>viewRow := Some row\<rparr> else s)"
| "Organization2_handle rEmail CloseView s = s\<lparr>viewRow := None\<rparr>"
| "Organization2_handle rEmail (Delete i c) s =
     (if i \<in> Organization.id ` set (rows s) then Organization2_handleDelete i c s else s)"
| "Organization2_handle rEmail Cancel s = (if isFormOpen s then Organization2_handleCancel s
    else s)"
| "Organization2_handle rEmail (Input v) s = (if isFormOpen s then s\<lparr>formValues := v\<rparr> else s)"
| "Organization2_handle rEmail Submit s =
     (if isFormOpen s then Organization2_handleSubmit rEmail s else s)"

definition Organization2_step :: "(string \<Rightarrow> bool) \<Rightarrow> (Organization, OrganizationFormValues) Event
    \<Rightarrow> OrganizationPage \<Rightarrow> OrganizationPage" where
  "Organization2_step rEmail e s =
     (let s' = Organization2_handle rEmail e s
      in if Organization_editingRow s' = Organization_editingRow s then s' else
          Organization2_prefill s')"

section \<open>Location\<close>

text \<open>
  The interface \<open>Location\<close> of the types file is the id together with the form
  values, the type that yup infers from the schema of the page. Both pages use the
  same schema and the same \<^verbatim>\<open>defaultValues\<close> of \<^verbatim>\<open>useForm\<close>.
  The field names \<open>locationCode\<close>, \<open>city\<close> are shared with another record; where it is not the record
  declared last that is meant, the name is written with its record.
\<close>

record LocationFormValues =
  locationCode :: string
  locationName :: string
  regionCode :: string
  countryCode :: string
  stateCode :: string
  city :: string
  pincode :: string

record Location = LocationFormValues +
  id :: int

type_synonym LocationPage = "(Location, LocationFormValues) Page"

definition locationSchema :: "LocationFormValues \<Rightarrow> FieldErrors" where
  "locationSchema d =
     field ''locationCode'' [required (locationCode d)]
   @ field ''locationName'' [required (locationName d)]
   @ field ''regionCode'' [required (regionCode d)]
   @ field ''countryCode'' [required (countryCode d)]
   @ field ''stateCode'' [required (stateCode d)]
   @ field ''city'' [required (city d)]
   @ field ''pincode'' [required (pincode d), matches_digits 5 6 (pincode d)]"

definition Location_defaultValues :: LocationFormValues where
  "Location_defaultValues =
     \<lparr>locationCode = '''', locationName = '''', regionCode = '''', countryCode = '''',
      stateCode = '''', city = '''', pincode = ''''\<rparr>"

definition initialLocations :: "Location list" where
  "initialLocations =
     [\<lparr>locationCode = ''AALMYS'', locationName = ''PANTNAGAR'', regionCode = ''UK'',
       countryCode = ''IN'', stateCode = ''UK'', city = ''PANTNAGAR'', pincode = ''12345'',
       Location.id = 1\<rparr>]"

definition Location_new :: "int \<Rightarrow> LocationFormValues \<Rightarrow> Location" where
  \<comment> \<open>\<^verbatim>\<open>{ id: n, ...data }\<close>\<close>
  "Location_new n d =
     \<lparr>locationCode = locationCode d, locationName = locationName d,
      regionCode = regionCode d, countryCode = countryCode d, stateCode = stateCode d,
      city = city d, pincode = pincode d, Location.id = n\<rparr>"

definition Location_merge :: "Location \<Rightarrow> LocationFormValues \<Rightarrow> Location" where
  \<comment> \<open>\<^verbatim>\<open>{ ...row, ...data, locationCode: row.locationCode }\<close>\<close>
  "Location_merge row d =
     (row\<lparr>locationCode := locationCode d, locationName := locationName d,
          regionCode := regionCode d, countryCode := countryCode d,
          stateCode := stateCode d, city := city d, pincode := pincode d\<rparr>)
       \<lparr>locationCode := locationCode row\<rparr>"

definition Location_values :: "Location \<Rightarrow> LocationFormValues" where
  \<comment> \<open>the object the prefill effect hands to \<open>reset\<close>\<close>
  "Location_values r =
     \<lparr>locationCode = locationCode r, locationName = locationName r,
      regionCode = regionCode r, countryCode = countryCode r, stateCode = stateCode r,
      city = city r, pincode = pincode r\<rparr>"

definition Location_editingRow :: "LocationPage \<Rightarrow> Location option" where
  \<comment> \<open>\<^verbatim>\<open>rows.find((r) => r.id === editingId) ?? null\<close>\<close>
  "Location_editingRow s = List.find (\<lambda>r. Some (Location.id r) = editingId s) (rows s)"

definition Location_init :: LocationPage where
  "Location_init =
     \<lparr>rows = initialLocations, editingId = None, isFormOpen = False, viewRow = None,
      formValues = Location_defaultValues, defaultValues = Location_defaultValues, errors = []\<rparr>"

subsection \<open>Location1: unnamed/part_006\<close>

definition Location1_prefill :: "LocationPage \<Rightarrow> LocationPage" where
  \<comment> \<open>the body of the \<open>useEffect\<close> on \<open>editingRow\<close>; the object of empty strings
      in its else branch is the one given to \<^verbatim>\<open>useForm\<close>\<close>
  "Location1_prefill s =
     (case Location_editingRow s of
        Some r \<Rightarrow> reset (Some (Location_values r)) s
      | None \<Rightarrow> reset (Some Location_defaultValues) s)"

definition Location1_onSubmit :: "LocationFormValues \<Rightarrow> LocationPage \<Rightarrow> LocationPage" where
  "Location1_onSubmit d s =
     (let s1 =
       (if editingId s = None
        then s\<lparr>rows := rows s @ [Location_new (nextId (map Location.id (rows s))) d]\<rparr>
        else s\<lparr>rows := map (\<lambda>row. if Some (Location.id row) = editingId s
                                    then Location_merge row d else row) (rows s)\<rparr>)
     in (reset None (s1\<lparr>editingId := None\<rparr>))
          \<lparr>isFormOpen := False\<rparr>)"

definition Location1_handleEdit :: "Location \<Rightarrow> LocationPage \<Rightarrow> LocationPage" where
  "Location1_handleEdit row s =
     s\<lparr>editingId := Some (Location.id row), isFormOpen := True, viewRow := None\<rparr>"

definition Location1_handleDelete :: "int \<Rightarrow> bool \<Rightarrow> LocationPage \<Rightarrow> LocationPage" where
  "Location1_handleDelete i confirmed s =
     (if confirmed then
        (let s1 = s\<lparr>rows := filter (\<lambda>row. Location.id row \<noteq> i) (rows s)\<rparr>;
             s2 = (if editingId s = Some i
                   then (reset None (s1\<lparr>editingId := None\<rparr>))
                          \<lparr>isFormOpen := False\<rparr>
                   else s1)
         in if (case viewRow s of Some v \<Rightarrow> Location.id v = i | None \<Rightarrow> False)
            then s2\<lparr>viewRow := None\<rparr> else s2)
      else s)"

definition Location1_handleCancel :: "LocationPage \<Rightarrow> LocationPage" where
  "Location1_handleCancel s =
     (reset None (s\<lparr>editingId := None\<rparr>))\<lparr>isFormOpen := False\<rparr>"

definition Location1_handleAddNew :: "LocationPage \<Rightarrow> LocationPage" where
  \<comment> \<open>the handler of the "+ Add New" button\<close>
  "Location1_handleAddNew s =
     (reset None (s\<lparr>editingId := None\<rparr>))
       \<lparr>isFormOpen := True, viewRow := None\<rparr>"

definition Location1_handleSubmit :: "LocationPage \<Rightarrow> LocationPage" where
  \<comment> \<open>\<^verbatim>\<open>handleSubmit(onSubmit)\<close> with the yup resolver\<close>
  "Location1_handleSubmit s =
     (let errs = locationSchema (formValues s)
      in if errs = [] then Location1_onSubmit (formValues s) (s\<lparr>errors := []\<rparr>)
         else s\<lparr>errors := errs\<rparr>)"

fun Location1_handle :: "(Location, LocationFormValues) Event \<Rightarrow> LocationPage \<Rightarrow> LocationPage" where
  "Location1_handle AddNew s = Location1_handleAddNew s"
| "Location1_handle (Edit row) s =
     (if row \<in> set (rows s) then Location1_handleEdit row s else s)"
| "Location1_handle (View row) s =
     (if row \<in> set (rows s) then s\<lparr>viewRow := Some row\<rparr> else s)"
| "Location1_handle CloseView s = s\<lparr>viewRow := None\<rparr>"
| "Location1_handle (Delete i c) s =
     (if i \<in> Location.id ` set (rows s) then Location1_handleDelete i c s else s)"
| "Location1_handle Cancel s = (if isFormOpen s then Location1_handleCancel s else s)"
| "Location1_handle (Input v) s = (if isFormOpen s then s\<lparr>formValues := v\<rparr> else s)"
| "Location1_handle Submit s =
     (if isFormOpen s then Location1_handleSubmit s else s)"

definition Location1_step :: "(Location, LocationFormValues) Event \<Rightarrow> LocationPage \<Rightarrow>
    LocationPage" where
  "Location1_step e s =
     (let s' = Location1_handle e s
      in if Location_editingRow s' = Location_editingRow s then s' else Location1_prefill s')"

subsection \<open>Location2: src/pages/LocationPage.tsx\<close>

text \<open>
  This page calls \<open>setError\<close> in \<open>onSubmit\<close> but does not take it out of \<open>useForm\<close>
  (it takes \<open>register\<close>, \<open>handleSubmit\<close>, \<open>reset\<close> and \<open>formState\<close>), and nothing
  else declares it: evaluating the call raises a ReferenceError.
\<close>

definition Location2_isDuplicate :: "LocationFormValues \<Rightarrow> LocationPage \<Rightarrow> bool" where
  "Location2_isDuplicate d s =
     list_ex (\<lambda>row. toLowerCase (locationCode row) = toLowerCase (locationCode d)
                 \<and> Some (Location.id row) \<noteq> editingId s) (rows s)"

definition Location2_prefill :: "LocationPage \<Rightarrow> LocationPage" where
  \<comment> \<open>the body of the \<open>useEffect\<close> on \<open>editingRow\<close>; its else branch is
      \<^verbatim>\<open>reset()\<close>\<close>
  "Location2_prefill s =
     (case Location_editingRow s of
        Some r \<Rightarrow> reset (Some (Location_values r)) s
      | None \<Rightarrow> reset None s)"

definition Location2_onSubmit :: "LocationFormValues \<Rightarrow> LocationPage \<Rightarrow> JsError + LocationPage"
    where
  "Location2_onSubmit d s =
     (if Location2_isDuplicate d s then Inl (ReferenceError ''setError'')
      else
        (let s1 =
           (if editingId s = None
            then s\<lparr>rows := rows s @ [Location_new (nextId (map Location.id (rows s))) d]\<rparr>
            else s\<lparr>rows := map (\<lambda>row. if Some (Location.id row) = editingId s
                                        then Location_merge row d else row) (rows s)\<rparr>)
         in Inr ((reset None (s1\<lparr>editingId := None\<rparr>))
              \<lparr>isFormOpen := False\<rparr>)))"

definition Location2_handleEdit :: "Location \<Rightarrow> LocationPage \<Rightarrow> LocationPage" where
  "Location2_handleEdit row s =
     s\<lparr>editingId := Some (Location.id row), isFormOpen := True\<rparr>"

definition Location2_handleDelete :: "int \<Rightarrow> bool \<Rightarrow> LocationPage \<Rightarrow> LocationPage" where
  "Location2_handleDelete i confirmed s =
     (if confirmed then
        (let s1 = s\<lparr>rows := filter (\<lambda>row. Location.id row \<noteq> i) (rows s)\<rparr>
         in if editingId s = Some i
            then (reset None (s1\<lparr>editingId := None\<rparr>))
                   \<lparr>isFormOpen := False\<rparr>
            else s1)
      else s)"

definition Location2_handleCancel :: "LocationPage \<Rightarrow> LocationPage" where
  "Location2_handleCancel s =
     (reset None (s\<lparr>editingId := None\<rparr>))\<lparr>isFormOpen := False\<rparr>"

definition Location2_handleAddNew :: "LocationPage \<Rightarrow> LocationPage" where
  \<comment> \<open>the handler of the "+ Add New" button\<close>
  "Location2_handleAddNew s =
     (reset None (s\<lparr>editingId := None\<rparr>))
       \<lparr>isFormOpen := True\<rparr>"

definition Location2_handleSubmit :: "LocationPage \<Rightarrow> JsError + LocationPage" where
  \<comment> \<open>\<^verbatim>\<open>handleSubmit(onSubmit)\<close> with the yup resolver\<close>
  "Location2_handleSubmit s =
     (let errs = locationSchema (formValues s)
      in if errs = [] then Location2_onSubmit (formValues s) (s\<lparr>errors := []\<rparr>)
         else Inr (s\<lparr>errors := errs\<rparr>))"

fun Location2_handle :: "(Location, LocationFormValues) Event \<Rightarrow> LocationPage \<Rightarrow> LocationPage" where
  "Location2_handle AddNew s = Location2_handleAddNew s"
| "Location2_handle (Edit row) s =
     (if row \<in> set (rows s) then Location2_handleEdit row s else s)"
| "Location2_handle (View row) s =
     (if row \<in> set (rows s) then s\<lparr>viewRow := Some row\<rparr> else s)"
| "Location2_handle CloseView s = s\<lparr>viewRow := None\<rparr>"
| "Location2_handle (Delete i c) s =
     (if i \<in> Location.id ` set (rows s) then Location2_handleDelete i c s else s)"
| "Location2_handle Cancel s = (if isFormOpen s then Location2_handleCancel s else s)"
| "Location2_handle (Input v) s = (if isFormOpen s then s\<lparr>formValues := v\<rparr> else s)"
| "Location2_handle Submit s =
     (if isFormOpen s
      then (case Location2_handleSubmit s of Inl err \<Rightarrow> s\<lparr>errors := []\<rparr> | Inr s' \<Rightarrow> s')
      else s)"

definition Location2_step :: "(Location, LocationFormValues) Event \<Rightarrow> LocationPage \<Rightarrow>
    LocationPage" where
  "Location2_step e s =
     (let s' = Location2_handle e s
      in if Location_editingRow s' = Location_editingRow s then s' else Location2_prefill s')"

section \<open>Designation\<close>

text \<open>
  The interface \<open>Designation\<close> of the types file is the id together with the form
  values, the type that yup infers from the schema of the page. Both pages use the
  same schema and the same \<^verbatim>\<open>defaultValues\<close> of \<^verbatim>\<open>useForm\<close>.
\<close>

record DesignationFormValues =
  designationCode :: string
  designationName :: string

record Designation = DesignationFormValues +
  id :: int

type_synonym DesignationPage = "(Designation, DesignationFormValues) Page"

definition designationSchema :: "DesignationFormValues \<Rightarrow> FieldErrors" where
  "designationSchema d =
     field ''designationCode'' [required (designationCode d)]
   @ field ''designationName'' [required (designationName d)]"

definition Designation_defaultValues :: DesignationFormValues where
  "Designation_defaultValues =
     \<lparr>designationCode = '''', designationName = ''''\<rparr>"

definition initialDesignations :: "Designation list" where
  "initialDesignations =
     [\<lparr>designationCode = ''DRV'', designationName = ''Driver'', Designation.id = 1\<rparr>,
      \<lparr>designationCode = ''SEC'', designationName = ''Security'', Designation.id = 2\<rparr>]"

definition Designation_new :: "int \<Rightarrow> DesignationFormValues \<Rightarrow> Designation" where
  \<comment> \<open>\<^verbatim>\<open>{ id: n, ...data }\<close>\<close>
  "Designation_new n d =
     \<lparr>designationCode = designationCode d, designationName = designationName d,
      Designation.id = n\<rparr>"

definition Designation_merge :: "Designation \<Rightarrow> DesignationFormValues \<Rightarrow> Designation" where
  \<comment> \<open>\<^verbatim>\<open>{ ...row, ...data, designationCode: row.designationCode }\<close>\<close>
  "Designation_merge row d =
     (row\<lparr>designationCode := designationCode d, designationName := designationName d\<rparr>)
       \<lparr>designationCode := designationCode row\<rparr>"

definition Designation_values :: "Designation \<Rightarrow> DesignationFormValues" where
  \<comment> \<open>the object the prefill effect hands to \<open>reset\<close>\<close>
  "Designation_values r =
     \<lparr>designationCode = designationCode r, designationName = designationName r\<rparr>"

definition Designation_editingRow :: "DesignationPage \<Rightarrow> Designation option" where
  \<comment> \<open>\<^verbatim>\<open>rows.find((r) => r.id === editingId) ?? null\<close>\<close>
  "Designation_editingRow s = List.find (\<lambda>r. Some (Designation.id r) = editingId s) (rows s)"

definition Designation_init :: DesignationPage where
  "Designation_init =
     \<lparr>rows = initialDesignations, editingId = None, isFormOpen = False, viewRow = None,
      formValues = Designation_defaultValues, defaultValues = Designation_defaultValues, errors
          = []\<rparr>"

subsection \<open>Designation1: the first document of src/pages/DesignationPage.tsx (lines 1-321)\<close>

definition Designation1_prefill :: "DesignationPage \<Rightarrow> DesignationPage" where
  \<comment> \<open>the body of the \<open>useEffect\<close> on \<open>editingRow\<close>; the object of empty strings
      in its else branch is the one given to \<^verbatim>\<open>useForm\<close>\<close>
  "Designation1_prefill s =
     (case Designation_editingRow s of
        Some r \<Rightarrow> reset (Some (Designation_values r)) s
      | None \<Rightarrow> reset (Some Designation_defaultValues) s)"

definition Designation1_onSubmit :: "DesignationFormValues \<Rightarrow> DesignationPage \<Rightarrow> DesignationPage"
    where
  "Designation1_onSubmit d s =
     (let s1 =
       (if editingId s = None
        then s\<lparr>rows := rows s @ [Designation_new (nextId (map Designation.id (rows s))) d]\<rparr>
        else s\<lparr>rows := map (\<lambda>row. if Some (Designation.id row) = editingId s
                                    then Designation_merge row d else row) (rows s)\<rparr>)
     in (reset None (s1\<lparr>editingId := None\<rparr>))
          \<lparr>isFormOpen := False\<rparr>)"

definition Designation1_handleEdit :: "Designation \<Rightarrow> DesignationPage \<Rightarrow> DesignationPage" where
  "Designation1_handleEdit row s =
     s\<lparr>editingId := Some (Designation.id row), isFormOpen := True, viewRow := None\<rparr>"

definition Designation1_handleDelete :: "int \<Rightarrow> bool \<Rightarrow> DesignationPage \<Rightarrow> DesignationPage" where
  "Designation1_handleDelete i confirmed s =
     (if confirmed then
        (let s1 = s\<lparr>rows := filter (\<lambda>row. Designation.id row \<noteq> i) (rows s)\<rparr>;
             s2 = (if editingId s = Some i
                   then (reset None (s1\<lparr>editingId := None\<rparr>))
                          \<lparr>isFormOpen := False\<rparr>
                   else s1)
         in if (case viewRow s of Some v \<Rightarrow> Designation.id v = i | None \<Rightarrow> False)
            then s2\<lparr>viewRow := None\<rparr> else s2)
      else s)"

definition Designation1_handleCancel :: "DesignationPage \<Rightarrow> DesignationPage" where
  "Designation1_handleCancel s =
     (reset None (s\<lparr>editingId := None\<rparr>))\<lparr>isFormOpen := False\<rparr>"

definition Designation1_handleAddNew :: "DesignationPage \<Rightarrow> DesignationPage" where
  \<comment> \<open>the handler of the "+ Add New" button\<close>
  "Designation1_handleAddNew s =
     (reset None (s\<lparr>editingId := None\<rparr>))
       \<lparr>isFormOpen := True, viewRow := None\<rparr>"

definition Designation1_handleSubmit :: "DesignationPage \<Rightarrow> DesignationPage" where
  \<comment> \<open>\<^verbatim>\<open>handleSubmit(onSubmit)\<close> with the yup resolver\<close>
  "Designation1_handleSubmit s =
     (let errs = designationSchema (formValues s)
      in if errs = [] then Designation1_onSubmit (formValues s) (s\<lparr>errors := []\<rparr>)
         else s\<lparr>errors := errs\<rparr>)"

fun Designation1_handle :: "(Designation, DesignationFormValues) Event \<Rightarrow> DesignationPage \<Rightarrow>
    DesignationPage" where
  "Designation1_handle AddNew s = Designation1_handleAddNew s"
| "Designation1_handle (Edit row) s =
     (if row \<in> set (rows s) then Designation1_handleEdit row s else s)"
| "Designation1_handle (View row) s =
     (if row \<in> set (rows s) then s\<lparr>viewRow := Some row\<rparr> else s)"
| "Designation1_handle CloseView s = s\<lparr>viewRow := None\<rparr>"
| "Designation1_handle (Delete i c) s =
     (if i \<in> Designation.id ` set (rows s) then Designation1_handleDelete i c s else s)"
| "Designation1_handle Cancel s = (if isFormOpen s then Designation1_handleCancel s else s)"
| "Designation1_handle (Input v) s = (if isFormOpen s then s\<lparr>formValues := v\<rparr> else s)"
| "Designation1_handle Submit s =
     (if isFormOpen s then Designation1_handleSubmit s else s)"

definition Designation1_step :: "(Designation, DesignationFormValues) Event \<Rightarrow> DesignationPage \<Rightarrow>
    DesignationPage" where
  "Designation1_step e s =
     (let s' = Designation1_handle e s
      in if Designation_editingRow s' = Designation_editingRow s then s' else
          Designation1_prefill s')"

subsection \<open>Designation2: the second document of src/pages/DesignationPage.tsx (lines 322-606)\<close>

definition Designation2_isDuplicate :: "DesignationFormValues \<Rightarrow> DesignationPage \<Rightarrow> bool" where
  "Designation2_isDuplicate d s =
     list_ex (\<lambda>row. toLowerCase (designationCode row) = toLowerCase (designationCode d)
                 \<and> Some (Designation.id row) \<noteq> editingId s) (rows s)"

definition Designation2_prefill :: "DesignationPage \<Rightarrow> DesignationPage" where
  \<comment> \<open>the body of the \<open>useEffect\<close> on \<open>editingRow\<close>; its else branch is
      \<^verbatim>\<open>reset()\<close>\<close>
  "Designation2_prefill s =
     (case Designation_editingRow s of
        Some r \<Rightarrow> reset (Some (Designation_values r)) s
      | None \<Rightarrow> reset None s)"

definition Designation2_onSubmit :: "DesignationFormValues \<Rightarrow> DesignationPage \<Rightarrow> DesignationPage"
    where
  "Designation2_onSubmit d s =
     (if Designation2_isDuplicate d s then setError ''designationCode'' DuplicateKey s
      else
        (let s1 =
           (if editingId s = None
            then s\<lparr>rows := rows s @ [Designation_new (nextId (map Designation.id (rows s))) d]\<rparr>
            else s\<lparr>rows := map (\<lambda>row. if Some (Designation.id row) = editingId s
                                        then Designation_merge row d else row) (rows s)\<rparr>)
         in (reset None (s1\<lparr>editingId := None\<rparr>))
              \<lparr>isFormOpen := False\<rparr>))"

definition Designation2_handleEdit :: "Designation \<Rightarrow> DesignationPage \<Rightarrow> DesignationPage" where
  "Designation2_handleEdit row s =
     s\<lparr>editingId := Some (Designation.id row), isFormOpen := True\<rparr>"

definition Designation2_handleDelete :: "int \<Rightarrow> bool \<Rightarrow> DesignationPage \<Rightarrow> DesignationPage" where
  "Designation2_handleDelete i confirmed s =
     (if confirmed then
        (let s1 = s\<lparr>rows := filter (\<lambda>row. Designation.id row \<noteq> i) (rows s)\<rparr>
         in if editingId s = Some i
            then (reset None (s1\<lparr>editingId := None\<rparr>))
                   \<lparr>isFormOpen := False\<rparr>
            else s1)
      else s)"

definition Designation2_handleCancel :: "DesignationPage \<Rightarrow> DesignationPage" where
  "Designation2_handleCancel s =
     (reset None (s\<lparr>editingId := None\<rparr>))\<lparr>isFormOpen := False\<rparr>"

definition Designation2_handleAddNew :: "DesignationPage \<Rightarrow> DesignationPage" where
  \<comment> \<open>the handler of the "+ Add New" button\<close>
  "Designation2_handleAddNew s =
     (reset None (s\<lparr>editingId := None\<rparr>))
       \<lparr>isFormOpen := True\<rparr>"

definition Designation2_handleSubmit :: "DesignationPage \<Rightarrow> DesignationPage" where
  \<comment> \<open>\<^verbatim>\<open>handleSubmit(onSubmit)\<close> with the yup resolver\<close>
  "Designation2_handleSubmit s =
     (let errs = designationSchema (formValues s)
      in if errs = [] then Designation2_onSubmit (formValues s) (s\<lparr>errors := []\<rparr>)
         else s\<lparr>errors := errs\<rparr>)"

fun Designation2_handle :: "(Designation, DesignationFormValues) Event \<Rightarrow> DesignationPage \<Rightarrow>
    DesignationPage" where
  "Designation2_handle AddNew s = Designation2_handleAddNew s"
| "Designation2_handle (Edit row) s =
     (if row \<in> set (rows s) then Designation2_handleEdit row s else s)"
| "Designation2_handle (View row) s =
     (if row \<in> set (rows s) then s\<lparr>viewRow := Some row\<rparr> else s)"
| "Designation2_handle CloseView s = s\<lparr>viewRow := None\<rparr>"
| "Designation2_handle (Delete i c) s =
     (if i \<in> Designation.id ` set (rows s) then Designation2_handleDelete i c s else s)"
| "Designation2_handle Cancel s = (if isFormOpen s then Designation2_handleCancel s else s)"
| "Designation2_handle (Input v) s = (if isFormOpen s then s\<lparr>formValues := v\<rparr> else s)"
| "Designation2_handle Submit s =
     (if isFormOpen s then Designation2_handleSubmit s else s)"

definition Designation2_step :: "(Designation, DesignationFormValues) Event \<Rightarrow> DesignationPage \<Rightarrow>
    DesignationPage" where
  "Designation2_step e s =
     (let s' = Designation2_handle e s
      in if Designation_editingRow s' = Designation_editingRow s then s' else
          Designation2_prefill s')"


section \<open>Properties used in the statements\<close>

text \<open>
  \<open>unique_keys key ident rs\<close>: two records of \<open>rs\<close> whose keys are equal up to case
  are one record (they have the same id).
\<close>

definition unique_keys :: "('r \<Rightarrow> string) \<Rightarrow> ('r \<Rightarrow> int) \<Rightarrow> 'r list \<Rightarrow> bool" where
  "unique_keys key ident rs =
     (\<forall>a\<in>set rs. \<forall>b\<in>set rs. toLowerCase (key a) = toLowerCase (key b) \<longrightarrow> ident a = ident b)"

text \<open>
  \<open>updated ident vals expected i rs rs'\<close>: \<open>rs'\<close> has the records of \<open>rs\<close> in the same
  places with the same ids; the record with id \<open>i\<close> now holds the form values
  \<open>expected\<close>, every other record is as it was.
\<close>

definition updated ::
  "('r \<Rightarrow> int) \<Rightarrow> ('r \<Rightarrow> 'f) \<Rightarrow> ('r \<Rightarrow> 'f) \<Rightarrow> int \<Rightarrow> 'r list \<Rightarrow> 'r list \<Rightarrow> bool" where
  "updated ident vals expected i rs rs' =
     (length rs' = length rs \<and>
      (\<forall>k<length rs. ident (rs' ! k) = ident (rs ! k) \<and>
         (if ident (rs ! k) = i then vals (rs' ! k) = expected (rs ! k)
          else rs' ! k = rs ! k)))"

text \<open>
  \<open>refused s s'\<close>: the store, the form's mode and the buffer of \<open>s'\<close> are those of
  \<open>s\<close>, and the form is open.
\<close>

definition refused :: "('r, 'f) Page \<Rightarrow> ('r, 'f) Page \<Rightarrow> bool" where
  "refused s s' =
     (rows s' = rows s \<and> isFormOpen s' \<and> editingId s' = editingId s
      \<and> formValues s' = formValues s)"

text \<open>
  \<open>removed ident i s s'\<close>: the store of \<open>s'\<close> is the store of \<open>s\<close> without the records
  of id \<open>i\<close>, and if the form of \<open>s\<close> was editing \<open>i\<close>, then in \<open>s'\<close> it is closed and
  edits no record.
\<close>

definition removed :: "('r \<Rightarrow> int) \<Rightarrow> int \<Rightarrow> ('r, 'f) Page \<Rightarrow> ('r, 'f) Page \<Rightarrow> bool" where
  "removed ident i s s' =
     (rows s' = filter (\<lambda>r. ident r \<noteq> i) (rows s) \<and>
      (editingId s = Some i \<longrightarrow> editingId s' = None \<and> \<not> isFormOpen s'))"


section \<open>Example inputs\<close>

text \<open>
  Concrete inputs on which the statements below are evaluated: for every entity a
  valid buffer with a key that is not in the seed, the page with the form open for
  a new record (\<open>_adding\<close>: the first state after Add New and typing the buffer) and
  the page that edits and views the first seed record (\<open>_editing\<close>: the first state
  after Edit, View and typing the buffer). The Subsidiary examples start from a
  one-record seed of their own,
  and \<open>example_rEmail\<close> stands in for the e-mail pattern of yup.
\<close>

definition example_rEmail :: "string \<Rightarrow> bool" where
  "example_rEmail v = (CHR ''@'' \<in> set v)"

definition exampleSubsidiaries :: "Subsidiary list" where
  "exampleSubsidiaries =
     [\<lparr>subsidiaryName = ''Automotive Axles South'', subsidiaryCode = ''AAS'',
       subsidiaryDescription = ''Southern plant'',
       SubsidiaryFormValues.locationCode = ''AALMYS'',
       SubsidiaryFormValues.organizationCode = ''AAL'', Subsidiary.id = 1\<rparr>]"

definition Subsidiary_sample :: SubsidiaryFormValues where
  "Subsidiary_sample =
     \<lparr>subsidiaryName = ''Acme North'', subsidiaryCode = ''ACN'',
      subsidiaryDescription = ''Northern branch'',
      SubsidiaryFormValues.locationCode = ''AALMYS'',
      SubsidiaryFormValues.organizationCode = ''AAL''\<rparr>"

definition Subsidiary_adding :: SubsidiaryPage where
  "Subsidiary_adding = (Subsidiary_init exampleSubsidiaries)\<lparr>isFormOpen := True, formValues :=
      Subsidiary_sample\<rparr>"

definition Subsidiary_editing :: SubsidiaryPage where
  "Subsidiary_editing =
     (Subsidiary_init exampleSubsidiaries)\<lparr>editingId := Some 1, isFormOpen := True, viewRow :=
         Some (hd exampleSubsidiaries),
       formValues := Subsidiary_sample, defaultValues := Subsidiary_values (hd
           exampleSubsidiaries)\<rparr>"

definition Organization_sample :: OrganizationFormValues where
  "Organization_sample =
     \<lparr>organizationName = ''Acme Limited'', organizationCode = ''XYZ'',
      registrationNumber = ''1234567890'', emailId = ''office@acme.example'',
      contactNumber = ''9821719751'', addressLine1 = ''12 Main Road'',
      OrganizationFormValues.city = ''Pune'', pinCode = ''411001'', tenantCode = ''XYZ'',
      status = ''Active'', financialYearStart = ''Month 4''\<rparr>"

definition Organization_adding :: OrganizationPage where
  "Organization_adding = Organization_init\<lparr>isFormOpen := True, formValues := Organization_sample\<rparr>"

definition Organization_editing :: OrganizationPage where
  "Organization_editing =
     Organization_init\<lparr>editingId := Some 1, isFormOpen := True, viewRow := Some (hd
         initialOrganizations),
       formValues := Organization_sample, defaultValues := Organization_values (hd
           initialOrganizations)\<rparr>"

definition Location_sample :: LocationFormValues where
  "Location_sample =
     \<lparr>locationCode = ''BLR'', locationName = ''BENGALURU'', regionCode = ''KA'',
      countryCode = ''IN'', stateCode = ''KA'', city = ''BENGALURU'', pincode = ''123456''\<rparr>"

definition Location_adding :: LocationPage where
  "Location_adding = Location_init\<lparr>isFormOpen := True, formValues := Location_sample\<rparr>"

definition Location_editing :: LocationPage where
  "Location_editing =
     Location_init\<lparr>editingId := Some 1, isFormOpen := True, viewRow := Some (hd initialLocations),
       formValues := Location_sample, defaultValues := Location_values (hd initialLocations)\<rparr>"

definition Designation_sample :: DesignationFormValues where
  "Designation_sample =
     \<lparr>designationCode = ''MGR'', designationName = ''Manager''\<rparr>"

definition Designation_adding :: DesignationPage where
  "Designation_adding = Designation_init\<lparr>isFormOpen := True, formValues := Designation_sample\<rparr>"

definition Designation_editing :: DesignationPage where
  "Designation_editing =
     Designation_init\<lparr>editingId := Some 1, isFormOpen := True, viewRow := Some (hd
         initialDesignations),
       formValues := Designation_sample, defaultValues := Designation_values (hd
           initialDesignations)\<rparr>"


section \<open>Ids, form operations and key uniqueness\<close>

lemma nextId_Nil: "nextId [] = 1"
  by (simp add: nextId_def)

lemma nextId_Max: "ids \<noteq> [] \<Longrightarrow> nextId ids = Max (set ids) + 1"
proof (cases ids)
  case Nil
  assume "ids \<noteq> []"
  with Nil show ?thesis by simp
next
  case (Cons i js)
  have "fold max js i = Max (set (i # js))"
    by (rule Max.set_eq_fold [symmetric])
  with Cons show ?thesis by (simp add: nextId_def)
qed

lemma nextId_gt: "i \<in> set ids \<Longrightarrow> i < nextId ids"
proof -
  assume a: "i \<in> set ids"
  then have "ids \<noteq> []" by auto
  moreover have "i \<le> Max (set ids)" using a by simp
  ultimately show ?thesis by (simp add: nextId_Max)
qed

lemma nextId_fresh: "nextId (map f rs) \<notin> f ` set rs"
  using nextId_gt [of "nextId (map f rs)" "map f rs"] by auto

lemma nextId_rows: "nextId (map f rs) = (if rs = [] then 1 else Max (f ` set rs) + 1)"
  by (simp add: nextId_Nil nextId_Max)

lemma nextId_bounds:
  assumes b: "\<forall>i\<in>set ids. lo \<le> i \<and> i \<le> u" and lo: "lo \<le> 1" and u: "0 \<le> u"
  shows "lo \<le> nextId ids \<and> nextId ids \<le> u + 1"
proof (cases "ids = []")
  case True
  with lo u show ?thesis by (simp add: nextId_Nil)
next
  case False
  then have "Max (set ids) \<in> set ids" by simp
  with b have "lo \<le> Max (set ids) \<and> Max (set ids) \<le> u" by blast
  with False show ?thesis by (simp add: nextId_Max)
qed

lemma filter_nextId: "filter (\<lambda>row. f row \<noteq> nextId (map f rs)) rs = rs"
proof -
  have "\<forall>x\<in>set rs. f x \<noteq> nextId (map f rs)"
    using nextId_fresh [of f rs] by (auto simp add: image_iff)
  then show ?thesis
    by (simp add: filter_id_conv)
qed

lemma reset_simps [simp]:
  "rows (reset v s) = rows s" "editingId (reset v s) = editingId s"
  "isFormOpen (reset v s) = isFormOpen s" "viewRow (reset v s) = viewRow s"
  "formValues (reset (Some w) s) = w" "formValues (reset None s) = defaultValues s"
  "defaultValues (reset (Some w) s) = w" "defaultValues (reset None s) = defaultValues s"
  "errors (reset v s) = []"
  by (simp_all add: reset_def Let_def)

lemma setError_simps [simp]:
  "rows (setError f k s) = rows s" "editingId (setError f k s) = editingId s"
  "isFormOpen (setError f k s) = isFormOpen s" "viewRow (setError f k s) = viewRow s"
  "formValues (setError f k s) = formValues s"
  "(f, k) \<in> set (errors (setError f k s))"
  by (simp_all add: setError_def)

lemma field_set: "(f, k) \<in> set (field name tests) \<longleftrightarrow> f = name \<and> firstError tests = Some k"
  by (auto simp add: field_def split: option.split)

lemma reachable_invariant:
  assumes "reachable init step s" and "P init" and "\<And>e t. P t \<Longrightarrow> P (step e t)"
  shows "P s"
  using assms by (induction rule: reachable.induct) auto

lemma fold_invariant:
  assumes "P s" and st: "\<And>e t. P t \<Longrightarrow> P (step e t)"
  shows "P (fold step es s)"
  using assms(1) by (induction es arbitrary: s) (simp_all add: st)

lemma fold_counted_invariant:
  assumes "B k s" and st: "\<And>e t j. B j t \<Longrightarrow> B (Suc j) (step e t)"
  shows "B (k + length es) (fold step es s)"
  using assms(1)
proof (induction es arbitrary: s k)
  case Nil
  then show ?case by simp
next
  case (Cons e es)
  from Cons.prems have "B (Suc k) (step e s)" by (rule st)
  then have "B (Suc k + length es) (fold step es (step e s))" by (rule Cons.IH)
  then show ?case by simp
qed

lemma ids_exact_fold:
  fixes s :: "('r, 'f) Page" and step :: "'e \<Rightarrow> ('r, 'f) Page \<Rightarrow> ('r, 'f) Page"
  assumes ex: "ids_stay_exact (map ident (rows s)) (length es)"
    and st: "\<And>e (t :: ('r, 'f) Page) lo u.
               \<forall>r\<in>set (rows t). lo \<le> ident r \<and> ident r \<le> u \<Longrightarrow> lo \<le> 1 \<Longrightarrow> 0 \<le> u
               \<Longrightarrow> \<forall>r\<in>set (rows (step e t)). lo \<le> ident r \<and> ident r \<le> u + 1"
    and r: "r \<in> set (rows (fold step es s))"
  shows "isSafeInteger (ident r)"
proof -
  let ?n = "int (length es)"
  let ?B = "\<lambda>j (t :: ('r, 'f) Page). \<forall>r\<in>set (rows t).
              - MAX_SAFE_INTEGER \<le> ident r \<and> ident r \<le> MAX_SAFE_INTEGER - ?n + int j"
  from ex have n: "?n \<le> MAX_SAFE_INTEGER"
    and all: "\<forall>r\<in>set (rows s). - MAX_SAFE_INTEGER \<le> ident r \<and> ident r + ?n \<le> MAX_SAFE_INTEGER"
    by (simp_all add: ids_stay_exact_def list_all_iff)
  have m: "- MAX_SAFE_INTEGER \<le> 1" by (simp add: MAX_SAFE_INTEGER_def)
  from all have "?B 0 s" by auto
  moreover have "\<And>e t j. ?B j t \<Longrightarrow> ?B (Suc j) (step e t)"
  proof -
    fix e t j
    assume b: "?B j t"
    from n have u: "0 \<le> MAX_SAFE_INTEGER - ?n + int j" by simp
    have "\<forall>r\<in>set (rows (step e t)). - MAX_SAFE_INTEGER \<le> ident r
        \<and> ident r \<le> MAX_SAFE_INTEGER - ?n + int j + 1"
      using b m u by (rule st)
    then show "?B (Suc j) (step e t)" by (simp add: algebra_simps)
  qed
  ultimately have "?B (0 + length es) (fold step es s)"
    by (rule fold_counted_invariant)
  with r show ?thesis by (simp add: isSafeInteger_def)
qed

lemma unique_keys_filter: "unique_keys key ident rs \<Longrightarrow> unique_keys key ident (filter P rs)"
  by (auto simp add: unique_keys_def)

lemma unique_keys_map:
  assumes u: "unique_keys key ident rs"
    and k: "\<And>r. key (f r) = key r" and i: "\<And>r. ident (f r) = ident r"
  shows "unique_keys key ident (map f rs)"
proof -
  have "\<forall>a\<in>set rs. \<forall>b\<in>set rs.
          toLowerCase (key (f a)) = toLowerCase (key (f b)) \<longrightarrow> ident (f a) = ident (f b)"
    using u unfolding unique_keys_def k i by blast
  then show ?thesis unfolding unique_keys_def set_map by blast
qed

lemma unique_keys_snoc:
  assumes u: "unique_keys key ident rs"
    and new: "\<forall>a\<in>set rs. toLowerCase (key a) \<noteq> toLowerCase (key r)"
  shows "unique_keys key ident (rs @ [r])"
  unfolding unique_keys_def
proof (intro ballI impI)
  fix a b
  assume a: "a \<in> set (rs @ [r])" and b: "b \<in> set (rs @ [r])"
    and eq: "toLowerCase (key a) = toLowerCase (key b)"
  from a b have "a \<in> set rs \<and> b \<in> set rs \<or> a = r \<and> b = r
      \<or> a \<in> set rs \<and> b = r \<or> a = r \<and> b \<in> set rs"
    by auto
  then show "ident a = ident b"
  proof (elim disjE conjE)
    assume "a \<in> set rs" "b \<in> set rs"
    with u eq show ?thesis unfolding unique_keys_def by blast
  next
    assume "a = r" "b = r"
    then show ?thesis by simp
  next
    assume "a \<in> set rs" "b = r"
    with new eq show ?thesis by blast
  next
    assume "a = r" "b \<in> set rs"
    with new eq show ?thesis by metis
  qed
qed

lemma unique_keys_update:
  assumes u: "unique_keys key ident rs"
    and other: "\<forall>b\<in>set rs. ident b \<noteq> i \<longrightarrow> toLowerCase (key b) \<noteq> toLowerCase k"
    and f: "\<And>r. ident (f r) = ident r" "\<And>r. key (f r) = k"
  shows "unique_keys key ident (map (\<lambda>row. if ident row = i then f row else row) rs)"
  unfolding unique_keys_def
proof (intro ballI impI)
  fix a' b'
  let ?g = "\<lambda>row. if ident row = i then f row else row"
  assume "a' \<in> set (map ?g rs)" and "b' \<in> set (map ?g rs)"
    and eq: "toLowerCase (key a') = toLowerCase (key b')"
  then obtain a b where a: "a \<in> set rs" "a' = ?g a" and b: "b \<in> set rs" "b' = ?g b"
    by auto
  have ida: "ident a' = ident a" and idb: "ident b' = ident b"
    using a b f by auto
  show "ident a' = ident b'"
  proof (cases "ident a = i")
    case ai: True
    show ?thesis
    proof (cases "ident b = i")
      case True
      with ai ida idb show ?thesis by simp
    next
      case False
      with ai a b f eq have "toLowerCase k = toLowerCase (key b)" by simp
      with other b(1) False show ?thesis by auto
    qed
  next
    case an: False
    show ?thesis
    proof (cases "ident b = i")
      case True
      with an a b f eq have "toLowerCase (key a) = toLowerCase k" by simp
      with other a(1) an show ?thesis by auto
    next
      case False
      with an a b eq have "toLowerCase (key a) = toLowerCase (key b)" by simp
      with u a(1) b(1) have "ident a = ident b" unfolding unique_keys_def by blast
      with ida idb show ?thesis by simp
    qed
  qed
qed

lemma unique_keys_own:
  assumes u: "unique_keys key ident rs" and R: "R \<in> set rs"
    and eq: "toLowerCase k = toLowerCase (key R)"
  shows "\<not> list_ex (\<lambda>row. toLowerCase (key row) = toLowerCase k
                        \<and> Some (ident row) \<noteq> Some (ident R)) rs"
proof
  assume "list_ex (\<lambda>row. toLowerCase (key row) = toLowerCase k
                        \<and> Some (ident row) \<noteq> Some (ident R)) rs"
  then obtain row where row: "row \<in> set rs" "toLowerCase (key row) = toLowerCase k"
      "ident row \<noteq> ident R"
    unfolding list_ex_iff by blast
  from row(2) eq have "toLowerCase (key row) = toLowerCase (key R)" by (rule trans)
  with u row(1) R have "ident row = ident R" unfolding unique_keys_def by blast
  with row(3) show False by contradiction
qed

section \<open>What the pages do to the store\<close>

subsection \<open>Subsidiary\<close>

lemma Subsidiary_editingRow_None: "editingId s = None \<Longrightarrow> Subsidiary_editingRow s = None"
  by (simp add: Subsidiary_editingRow_def find_None_iff)

lemma Subsidiary_new_simps [simp]:
  "Subsidiary.id (Subsidiary_new n d) = n"
  "subsidiaryCode (Subsidiary_new n d) = subsidiaryCode d"
  "Subsidiary_values (Subsidiary_new n d) = d"
  by (simp_all add: Subsidiary_new_def Subsidiary_values_def)

lemma Subsidiary_merge_simps [simp]:
  "Subsidiary.id (Subsidiary_merge row d) = Subsidiary.id row"
  "subsidiaryCode (Subsidiary_merge row d) = subsidiaryCode row"
  "Subsidiary_values (Subsidiary_merge row d) = d\<lparr>subsidiaryCode := subsidiaryCode row\<rparr>"
  by (simp_all add: Subsidiary_merge_def Subsidiary_values_def)

lemma Subsidiary_ids_update [simp]:
  "Subsidiary.id \<circ> (\<lambda>row. if P row then Subsidiary_merge row d else row) = Subsidiary.id"
  by (rule ext) simp

subsection \<open>Subsidiary1\<close>

lemma Subsidiary1_prefill_simps [simp]:
  "rows (Subsidiary1_prefill s) = rows s" "editingId (Subsidiary1_prefill s) = editingId s"
  "isFormOpen (Subsidiary1_prefill s) = isFormOpen s" "viewRow (Subsidiary1_prefill s) = viewRow
      s"
  by (simp_all add: Subsidiary1_prefill_def split: option.split)

lemma Subsidiary1_prefill_closed:
  "editingId s = None \<Longrightarrow> formValues (Subsidiary1_prefill s) = Subsidiary_defaultValues"
  by (simp add: Subsidiary1_prefill_def Subsidiary_editingRow_None)

lemma Subsidiary1_step_simps [simp]:
  "rows (Subsidiary1_step e s) = rows (Subsidiary1_handle e s)"
  "editingId (Subsidiary1_step e s) = editingId (Subsidiary1_handle e s)"
  "isFormOpen (Subsidiary1_step e s) = isFormOpen (Subsidiary1_handle e s)"
  "viewRow (Subsidiary1_step e s) = viewRow (Subsidiary1_handle e s)"
  by (simp_all add: Subsidiary1_step_def Let_def)

lemma Subsidiary1_handle_rows:
  "rows (Subsidiary1_handle e s) = rows s
   \<or> (\<exists>i. rows (Subsidiary1_handle e s) = filter (\<lambda>row. Subsidiary.id row \<noteq> i) (rows s))
   \<or> (\<exists>d. editingId s = None
        \<and> rows (Subsidiary1_handle e s)
            = rows s @ [Subsidiary_new (nextId (map Subsidiary.id (rows s))) d])
   \<or> (\<exists>d i. editingId s = Some i
        \<and> rows (Subsidiary1_handle e s)
            = map (\<lambda>row. if Subsidiary.id row = i then Subsidiary_merge row d else row) (rows s))"
  by (cases e; cases "editingId s")
     (auto simp add: Subsidiary1_handleAddNew_def Subsidiary1_handleEdit_def
         Subsidiary1_handleDelete_def
        Subsidiary1_handleCancel_def Subsidiary1_handleSubmit_def Subsidiary1_onSubmit_def
        Let_def)

lemma Subsidiary1_handle_distinct:
  "distinct (map Subsidiary.id (rows s))
   \<Longrightarrow> distinct (map Subsidiary.id (rows (Subsidiary1_handle e s)))"
  using Subsidiary1_handle_rows [of e s]
  by (auto simp add: distinct_map_filter nextId_fresh)

lemma Subsidiary1_typed:
  "Subsidiary1_step (Input v) s = (if isFormOpen s then s\<lparr>formValues := v\<rparr> else s)"
  by (simp add: Subsidiary1_step_def Subsidiary_editingRow_def)

lemma Subsidiary1_created:
  assumes "editingId s = None" and "isFormOpen s" and "subsidiarySchema (formValues s) = []"
  shows "rows (Subsidiary1_step Submit s)
           = rows s @ [Subsidiary_new (nextId (map Subsidiary.id (rows s))) (formValues s)]"
    and "editingId (Subsidiary1_step Submit s) = None"
  using assms by (simp_all add: Subsidiary1_handleSubmit_def Subsidiary1_onSubmit_def)

lemma Subsidiary1_step_bounds:
  assumes "\<forall>r\<in>set (rows s). lo \<le> Subsidiary.id r \<and> Subsidiary.id r \<le> u" and "lo \<le> 1" and "0 \<le> u"
  shows "\<forall>r\<in>set (rows (Subsidiary1_step e s)). lo \<le> Subsidiary.id r \<and> Subsidiary.id r \<le> u + 1"
proof -
  have n: "lo \<le> nextId (map Subsidiary.id (rows s)) \<and> nextId (map Subsidiary.id (rows s)) \<le> u + 1"
    using assms by (intro nextId_bounds) auto
  show ?thesis
    using Subsidiary1_handle_rows [of e s] assms(1) n
    by (elim disjE exE conjE) (auto simp add: image_iff)
qed

subsection \<open>Subsidiary2\<close>

lemma Subsidiary2_prefill_simps [simp]:
  "rows (Subsidiary2_prefill s) = rows s" "editingId (Subsidiary2_prefill s) = editingId s"
  "isFormOpen (Subsidiary2_prefill s) = isFormOpen s" "viewRow (Subsidiary2_prefill s) = viewRow
      s"
  by (simp_all add: Subsidiary2_prefill_def split: option.split)

lemma Subsidiary2_prefill_closed:
  "editingId s = None \<Longrightarrow> formValues (Subsidiary2_prefill s) = defaultValues s"
  by (simp add: Subsidiary2_prefill_def Subsidiary_editingRow_None)

lemma Subsidiary2_step_simps [simp]:
  "rows (Subsidiary2_step e s) = rows (Subsidiary2_handle e s)"
  "editingId (Subsidiary2_step e s) = editingId (Subsidiary2_handle e s)"
  "isFormOpen (Subsidiary2_step e s) = isFormOpen (Subsidiary2_handle e s)"
  "viewRow (Subsidiary2_step e s) = viewRow (Subsidiary2_handle e s)"
  by (simp_all add: Subsidiary2_step_def Let_def)

lemma Subsidiary2_handle_rows:
  "rows (Subsidiary2_handle e s) = rows s
   \<or> (\<exists>i. rows (Subsidiary2_handle e s) = filter (\<lambda>row. Subsidiary.id row \<noteq> i) (rows s))
   \<or> (\<exists>d. editingId s = None \<and> \<not> Subsidiary2_isDuplicate d s
        \<and> rows (Subsidiary2_handle e s)
            = rows s @ [Subsidiary_new (nextId (map Subsidiary.id (rows s))) d])
   \<or> (\<exists>d i. editingId s = Some i \<and> \<not> Subsidiary2_isDuplicate d s
        \<and> rows (Subsidiary2_handle e s)
            = map (\<lambda>row. if Subsidiary.id row = i then Subsidiary_merge row d else row) (rows s))"
  by (cases e; cases "editingId s")
     (auto simp add: Subsidiary2_handleAddNew_def Subsidiary2_handleEdit_def
         Subsidiary2_handleDelete_def
        Subsidiary2_handleCancel_def Subsidiary2_handleSubmit_def Subsidiary2_onSubmit_def
        Subsidiary2_isDuplicate_def Let_def)

lemma Subsidiary2_handle_distinct:
  "distinct (map Subsidiary.id (rows s))
   \<Longrightarrow> distinct (map Subsidiary.id (rows (Subsidiary2_handle e s)))"
  using Subsidiary2_handle_rows [of e s]
  by (auto simp add: distinct_map_filter nextId_fresh)

lemma Subsidiary2_typed:
  "Subsidiary2_step (Input v) s = (if isFormOpen s then s\<lparr>formValues := v\<rparr> else s)"
  by (simp add: Subsidiary2_step_def Subsidiary_editingRow_def)

lemma Subsidiary2_created:
  assumes "editingId s = None" and "isFormOpen s" and "subsidiarySchema (formValues s) = []"
    and "\<not> Subsidiary2_isDuplicate (formValues s) s"
  shows "rows (Subsidiary2_step Submit s)
           = rows s @ [Subsidiary_new (nextId (map Subsidiary.id (rows s))) (formValues s)]"
    and "editingId (Subsidiary2_step Submit s) = None"
  using assms by (simp_all add: Subsidiary2_handleSubmit_def Subsidiary2_onSubmit_def
      Subsidiary2_isDuplicate_def)

lemma Subsidiary2_step_bounds:
  assumes "\<forall>r\<in>set (rows s). lo \<le> Subsidiary.id r \<and> Subsidiary.id r \<le> u" and "lo \<le> 1" and "0 \<le> u"
  shows "\<forall>r\<in>set (rows (Subsidiary2_step e s)). lo \<le> Subsidiary.id r \<and> Subsidiary.id r \<le> u + 1"
proof -
  have n: "lo \<le> nextId (map Subsidiary.id (rows s)) \<and> nextId (map Subsidiary.id (rows s)) \<le> u + 1"
    using assms by (intro nextId_bounds) auto
  show ?thesis
    using Subsidiary2_handle_rows [of e s] assms(1) n
    by (elim disjE exE conjE) (auto simp add: image_iff)
qed

lemma Subsidiary2_handle_unique:
  "unique_keys subsidiaryCode Subsidiary.id (rows s)
   \<Longrightarrow> unique_keys subsidiaryCode Subsidiary.id (rows (Subsidiary2_handle e s))"
  using Subsidiary2_handle_rows [of e s]
  by (elim disjE exE conjE)
     (auto simp add: Subsidiary2_isDuplicate_def list_ex_iff
        intro!: unique_keys_filter unique_keys_snoc unique_keys_map)

subsection \<open>Organization\<close>

lemma Organization_editingRow_None: "editingId s = None \<Longrightarrow> Organization_editingRow s = None"
  by (simp add: Organization_editingRow_def find_None_iff)

lemma Organization_new_simps [simp]:
  "Organization.id (Organization_new n d) = n"
  "organizationCode (Organization_new n d) = organizationCode d"
  "tenantCode (Organization_new n d) = tenantCode d"
  "Organization_values (Organization_new n d) = d"
  by (simp_all add: Organization_new_def Organization_values_def)

lemma Organization_merge_simps [simp]:
  "Organization.id (Organization_merge row d) = Organization.id row"
  "organizationCode (Organization_merge row d) = organizationCode row"
  "tenantCode (Organization_merge row d) = tenantCode d"
  "Organization_values (Organization_merge row d) = d\<lparr>organizationCode := organizationCode row\<rparr>"
  by (simp_all add: Organization_merge_def Organization_values_def)

lemma Organization_ids_update [simp]:
  "Organization.id \<circ> (\<lambda>row. if P row then Organization_merge row d else row) = Organization.id"
  by (rule ext) simp

subsection \<open>Organization1\<close>

lemma Organization1_prefill_simps [simp]:
  "rows (Organization1_prefill s) = rows s" "editingId (Organization1_prefill s) = editingId s"
  "isFormOpen (Organization1_prefill s) = isFormOpen s" "viewRow (Organization1_prefill s) =
      viewRow s"
  by (simp_all add: Organization1_prefill_def split: option.split)

lemma Organization1_prefill_closed:
  "editingId s = None \<Longrightarrow> formValues (Organization1_prefill s) = Organization_defaultValues"
  by (simp add: Organization1_prefill_def Organization_editingRow_None)

lemma Organization1_step_simps [simp]:
  "rows (Organization1_step rEmail e s) = rows (Organization1_handle rEmail e s)"
  "editingId (Organization1_step rEmail e s) = editingId (Organization1_handle rEmail e s)"
  "isFormOpen (Organization1_step rEmail e s) = isFormOpen (Organization1_handle rEmail e s)"
  "viewRow (Organization1_step rEmail e s) = viewRow (Organization1_handle rEmail e s)"
  by (simp_all add: Organization1_step_def Let_def)

lemma Organization1_handle_rows:
  "rows (Organization1_handle rEmail e s) = rows s
   \<or> (\<exists>i. rows (Organization1_handle rEmail e s) = filter (\<lambda>row. Organization.id row \<noteq> i) (rows
       s))
   \<or> (\<exists>d. editingId s = None \<and> \<not> Organization1_isDuplicate d s
        \<and> rows (Organization1_handle rEmail e s)
            = rows s @ [Organization_new (nextId (map Organization.id (rows s))) d])
   \<or> (\<exists>d i. editingId s = Some i \<and> \<not> Organization1_isDuplicate d s
        \<and> rows (Organization1_handle rEmail e s)
            = map (\<lambda>row. if Organization.id row = i then Organization_merge row d else row)
                (rows s))"
  by (cases e; cases "editingId s")
     (auto simp add: Organization1_handleAddNew_def Organization1_handleEdit_def
        Organization1_handleDelete_def Organization1_handleCancel_def
        Organization1_handleSubmit_def Organization1_onSubmit_def
        Organization1_isDuplicate_def Let_def)

lemma Organization1_handle_distinct:
  "distinct (map Organization.id (rows s))
   \<Longrightarrow> distinct (map Organization.id (rows (Organization1_handle rEmail e s)))"
  using Organization1_handle_rows [of rEmail e s]
  by (auto simp add: distinct_map_filter nextId_fresh)

lemma Organization1_typed:
  "Organization1_step rEmail (Input v) s = (if isFormOpen s then s\<lparr>formValues := v\<rparr> else s)"
  by (simp add: Organization1_step_def Organization_editingRow_def)

lemma Organization1_created:
  assumes "editingId s = None" and "isFormOpen s" and "organizationSchema rEmail (formValues s)
      = []"
    and "\<not> Organization1_isDuplicate (formValues s) s"
  shows "rows (Organization1_step rEmail Submit s)
           = rows s @ [Organization_new (nextId (map Organization.id (rows s))) (formValues s)]"
    and "editingId (Organization1_step rEmail Submit s) = None"
  using assms by (simp_all add: Organization1_handleSubmit_def Organization1_onSubmit_def
        Organization1_isDuplicate_def)

lemma Organization1_step_bounds:
  assumes "\<forall>r\<in>set (rows s). lo \<le> Organization.id r \<and> Organization.id r \<le> u" and "lo \<le> 1" and "0
      \<le> u"
  shows "\<forall>r\<in>set (rows (Organization1_step rEmail e s)). lo \<le> Organization.id r \<and> Organization.id
      r \<le> u + 1"
proof -
  have n: "lo \<le> nextId (map Organization.id (rows s)) \<and> nextId (map Organization.id (rows s)) \<le>
      u + 1"
    using assms by (intro nextId_bounds) auto
  show ?thesis
    using Organization1_handle_rows [of rEmail e s] assms(1) n
    by (elim disjE exE conjE) (auto simp add: image_iff)
qed

lemma Organization1_handle_unique:
  "unique_keys organizationCode Organization.id (rows s)
   \<Longrightarrow> unique_keys organizationCode Organization.id (rows (Organization1_handle rEmail e s))"
  using Organization1_handle_rows [of rEmail e s]
  by (elim disjE exE conjE)
     (auto simp add: Organization1_isDuplicate_def list_ex_iff
        intro!: unique_keys_filter unique_keys_snoc unique_keys_map)

subsection \<open>Organization2\<close>

lemma Organization2_prefill_simps [simp]:
  "rows (Organization2_prefill s) = rows s" "editingId (Organization2_prefill s) = editingId s"
  "isFormOpen (Organization2_prefill s) = isFormOpen s" "viewRow (Organization2_prefill s) =
      viewRow s"
  by (simp_all add: Organization2_prefill_def split: option.split)

lemma Organization2_prefill_closed:
  "editingId s = None \<Longrightarrow> formValues (Organization2_prefill s) = defaultValues s"
  by (simp add: Organization2_prefill_def Organization_editingRow_None)

lemma Organization2_step_simps [simp]:
  "rows (Organization2_step rEmail e s) = rows (Organization2_handle rEmail e s)"
  "editingId (Organization2_step rEmail e s) = editingId (Organization2_handle rEmail e s)"
  "isFormOpen (Organization2_step rEmail e s) = isFormOpen (Organization2_handle rEmail e s)"
  "viewRow (Organization2_step rEmail e s) = viewRow (Organization2_handle rEmail e s)"
  by (simp_all add: Organization2_step_def Let_def)

lemma Organization2_handle_rows:
  "rows (Organization2_handle rEmail e s) = rows s
   \<or> (\<exists>i. rows (Organization2_handle rEmail e s) = filter (\<lambda>row. Organization.id row \<noteq> i) (rows
       s))
   \<or> (\<exists>d. editingId s = None \<and> \<not> Organization2_orgCodeDuplicate d s
        \<and> \<not> Organization2_tenantDuplicate d s
        \<and> rows (Organization2_handle rEmail e s)
            = rows s @ [Organization_new (nextId (map Organization.id (rows s))) d])
   \<or> (\<exists>d i. editingId s = Some i \<and> \<not> Organization2_orgCodeDuplicate d s
        \<and> \<not> Organization2_tenantDuplicate d s
        \<and> rows (Organization2_handle rEmail e s)
            = map (\<lambda>row. if Organization.id row = i then Organization_merge row d else row)
                (rows s))"
  by (cases e; cases "editingId s")
     (auto simp add: Organization2_handleAddNew_def Organization2_handleEdit_def
        Organization2_handleDelete_def Organization2_handleCancel_def
        Organization2_handleSubmit_def Organization2_onSubmit_def
        Organization2_orgCodeDuplicate_def Organization2_tenantDuplicate_def Let_def)

lemma Organization2_handle_distinct:
  "distinct (map Organization.id (rows s))
   \<Longrightarrow> distinct (map Organization.id (rows (Organization2_handle rEmail e s)))"
  using Organization2_handle_rows [of rEmail e s]
  by (auto simp add: distinct_map_filter nextId_fresh)

lemma Organization2_typed:
  "Organization2_step rEmail (Input v) s = (if isFormOpen s then s\<lparr>formValues := v\<rparr> else s)"
  by (simp add: Organization2_step_def Organization_editingRow_def)

lemma Organization2_created:
  assumes "editingId s = None" and "isFormOpen s" and "organizationSchema rEmail (formValues s)
      = []"
    and "\<not> Organization2_orgCodeDuplicate (formValues s) s"
    and "\<not> Organization2_tenantDuplicate (formValues s) s"
  shows "rows (Organization2_step rEmail Submit s)
           = rows s @ [Organization_new (nextId (map Organization.id (rows s))) (formValues s)]"
    and "editingId (Organization2_step rEmail Submit s) = None"
  using assms by (simp_all add: Organization2_handleSubmit_def Organization2_onSubmit_def
        Organization2_orgCodeDuplicate_def Organization2_tenantDuplicate_def)

lemma Organization2_step_bounds:
  assumes "\<forall>r\<in>set (rows s). lo \<le> Organization.id r \<and> Organization.id r \<le> u" and "lo \<le> 1" and "0
      \<le> u"
  shows "\<forall>r\<in>set (rows (Organization2_step rEmail e s)). lo \<le> Organization.id r \<and> Organization.id
      r \<le> u + 1"
proof -
  have n: "lo \<le> nextId (map Organization.id (rows s)) \<and> nextId (map Organization.id (rows s)) \<le>
      u + 1"
    using assms by (intro nextId_bounds) auto
  show ?thesis
    using Organization2_handle_rows [of rEmail e s] assms(1) n
    by (elim disjE exE conjE) (auto simp add: image_iff)
qed

lemma Organization2_handle_unique:
  "unique_keys organizationCode Organization.id (rows s)
   \<Longrightarrow> unique_keys organizationCode Organization.id (rows (Organization2_handle rEmail e s))"
  using Organization2_handle_rows [of rEmail e s]
  by (elim disjE exE conjE)
     (auto simp add: Organization2_orgCodeDuplicate_def list_ex_iff
        intro!: unique_keys_filter unique_keys_snoc unique_keys_map)

lemma Organization2_handle_tenant:
  "unique_keys tenantCode Organization.id (rows s)
   \<Longrightarrow> unique_keys tenantCode Organization.id (rows (Organization2_handle rEmail e s))"
  using Organization2_handle_rows [of rEmail e s]
  by (elim disjE exE conjE)
     (auto simp add: Organization2_tenantDuplicate_def list_ex_iff
        intro!: unique_keys_filter unique_keys_snoc unique_keys_update)

subsection \<open>Location\<close>

lemma Location_editingRow_None: "editingId s = None \<Longrightarrow> Location_editingRow s = None"
  by (simp add: Location_editingRow_def find_None_iff)

lemma Location_new_simps [simp]:
  "Location.id (Location_new n d) = n"
  "locationCode (Location_new n d) = locationCode d"
  "Location_values (Location_new n d) = d"
  by (simp_all add: Location_new_def Location_values_def)

lemma Location_merge_simps [simp]:
  "Location.id (Location_merge row d) = Location.id row"
  "locationCode (Location_merge row d) = locationCode row"
  "Location_values (Location_merge row d) = d\<lparr>locationCode := locationCode row\<rparr>"
  by (simp_all add: Location_merge_def Location_values_def)

lemma Location_ids_update [simp]:
  "Location.id \<circ> (\<lambda>row. if P row then Location_merge row d else row) = Location.id"
  by (rule ext) simp

subsection \<open>Location1\<close>

lemma Location1_prefill_simps [simp]:
  "rows (Location1_prefill s) = rows s" "editingId (Location1_prefill s) = editingId s"
  "isFormOpen (Location1_prefill s) = isFormOpen s" "viewRow (Location1_prefill s) = viewRow s"
  by (simp_all add: Location1_prefill_def split: option.split)

lemma Location1_prefill_closed:
  "editingId s = None \<Longrightarrow> formValues (Location1_prefill s) = Location_defaultValues"
  by (simp add: Location1_prefill_def Location_editingRow_None)

lemma Location1_step_simps [simp]:
  "rows (Location1_step e s) = rows (Location1_handle e s)"
  "editingId (Location1_step e s) = editingId (Location1_handle e s)"
  "isFormOpen (Location1_step e s) = isFormOpen (Location1_handle e s)"
  "viewRow (Location1_step e s) = viewRow (Location1_handle e s)"
  by (simp_all add: Location1_step_def Let_def)

lemma Location1_handle_rows:
  "rows (Location1_handle e s) = rows s
   \<or> (\<exists>i. rows (Location1_handle e s) = filter (\<lambda>row. Location.id row \<noteq> i) (rows s))
   \<or> (\<exists>d. editingId s = None
        \<and> rows (Location1_handle e s)
            = rows s @ [Location_new (nextId (map Location.id (rows s))) d])
   \<or> (\<exists>d i. editingId s = Some i
        \<and> rows (Location1_handle e s)
            = map (\<lambda>row. if Location.id row = i then Location_merge row d else row) (rows s))"
  by (cases e; cases "editingId s")
     (auto simp add: Location1_handleAddNew_def Location1_handleEdit_def
         Location1_handleDelete_def
        Location1_handleCancel_def Location1_handleSubmit_def Location1_onSubmit_def Let_def)

lemma Location1_handle_distinct:
  "distinct (map Location.id (rows s))
   \<Longrightarrow> distinct (map Location.id (rows (Location1_handle e s)))"
  using Location1_handle_rows [of e s]
  by (auto simp add: distinct_map_filter nextId_fresh)

lemma Location1_typed:
  "Location1_step (Input v) s = (if isFormOpen s then s\<lparr>formValues := v\<rparr> else s)"
  by (simp add: Location1_step_def Location_editingRow_def)

lemma Location1_created:
  assumes "editingId s = None" and "isFormOpen s" and "locationSchema (formValues s) = []"
  shows "rows (Location1_step Submit s)
           = rows s @ [Location_new (nextId (map Location.id (rows s))) (formValues s)]"
    and "editingId (Location1_step Submit s) = None"
  using assms by (simp_all add: Location1_handleSubmit_def Location1_onSubmit_def)

lemma Location1_step_bounds:
  assumes "\<forall>r\<in>set (rows s). lo \<le> Location.id r \<and> Location.id r \<le> u" and "lo \<le> 1" and "0 \<le> u"
  shows "\<forall>r\<in>set (rows (Location1_step e s)). lo \<le> Location.id r \<and> Location.id r \<le> u + 1"
proof -
  have n: "lo \<le> nextId (map Location.id (rows s)) \<and> nextId (map Location.id (rows s)) \<le> u + 1"
    using assms by (intro nextId_bounds) auto
  show ?thesis
    using Location1_handle_rows [of e s] assms(1) n
    by (elim disjE exE conjE) (auto simp add: image_iff)
qed

subsection \<open>Location2\<close>

lemma Location2_prefill_simps [simp]:
  "rows (Location2_prefill s) = rows s" "editingId (Location2_prefill s) = editingId s"
  "isFormOpen (Location2_prefill s) = isFormOpen s" "viewRow (Location2_prefill s) = viewRow s"
  by (simp_all add: Location2_prefill_def split: option.split)

lemma Location2_prefill_closed:
  "editingId s = None \<Longrightarrow> formValues (Location2_prefill s) = defaultValues s"
  by (simp add: Location2_prefill_def Location_editingRow_None)

lemma Location2_step_simps [simp]:
  "rows (Location2_step e s) = rows (Location2_handle e s)"
  "editingId (Location2_step e s) = editingId (Location2_handle e s)"
  "isFormOpen (Location2_step e s) = isFormOpen (Location2_handle e s)"
  "viewRow (Location2_step e s) = viewRow (Location2_handle e s)"
  by (simp_all add: Location2_step_def Let_def)

lemma Location2_handle_rows:
  "rows (Location2_handle e s) = rows s
   \<or> (\<exists>i. rows (Location2_handle e s) = filter (\<lambda>row. Location.id row \<noteq> i) (rows s))
   \<or> (\<exists>d. editingId s = None \<and> \<not> Location2_isDuplicate d s
        \<and> rows (Location2_handle e s)
            = rows s @ [Location_new (nextId (map Location.id (rows s))) d])
   \<or> (\<exists>d i. editingId s = Some i \<and> \<not> Location2_isDuplicate d s
        \<and> rows (Location2_handle e s)
            = map (\<lambda>row. if Location.id row = i then Location_merge row d else row) (rows s))"
  by (cases e; cases "editingId s")
     (auto simp add: Location2_handleAddNew_def Location2_handleEdit_def
         Location2_handleDelete_def
        Location2_handleCancel_def Location2_handleSubmit_def Location2_onSubmit_def
        Location2_isDuplicate_def Let_def)

lemma Location2_handle_distinct:
  "distinct (map Location.id (rows s))
   \<Longrightarrow> distinct (map Location.id (rows (Location2_handle e s)))"
  using Location2_handle_rows [of e s]
  by (auto simp add: distinct_map_filter nextId_fresh)

lemma Location2_typed:
  "Location2_step (Input v) s = (if isFormOpen s then s\<lparr>formValues := v\<rparr> else s)"
  by (simp add: Location2_step_def Location_editingRow_def)

lemma Location2_created:
  assumes "editingId s = None" and "isFormOpen s" and "locationSchema (formValues s) = []"
    and "\<not> Location2_isDuplicate (formValues s) s"
  shows "rows (Location2_step Submit s)
           = rows s @ [Location_new (nextId (map Location.id (rows s))) (formValues s)]"
    and "editingId (Location2_step Submit s) = None"
  using assms by (simp_all add: Location2_handleSubmit_def Location2_onSubmit_def
      Location2_isDuplicate_def)

lemma Location2_step_bounds:
  assumes "\<forall>r\<in>set (rows s). lo \<le> Location.id r \<and> Location.id r \<le> u" and "lo \<le> 1" and "0 \<le> u"
  shows "\<forall>r\<in>set (rows (Location2_step e s)). lo \<le> Location.id r \<and> Location.id r \<le> u + 1"
proof -
  have n: "lo \<le> nextId (map Location.id (rows s)) \<and> nextId (map Location.id (rows s)) \<le> u + 1"
    using assms by (intro nextId_bounds) auto
  show ?thesis
    using Location2_handle_rows [of e s] assms(1) n
    by (elim disjE exE conjE) (auto simp add: image_iff)
qed

lemma Location2_handle_unique:
  "unique_keys locationCode Location.id (rows s)
   \<Longrightarrow> unique_keys locationCode Location.id (rows (Location2_handle e s))"
  using Location2_handle_rows [of e s]
  by (elim disjE exE conjE)
     (auto simp add: Location2_isDuplicate_def list_ex_iff
        intro!: unique_keys_filter unique_keys_snoc unique_keys_map)

subsection \<open>Designation\<close>

lemma Designation_editingRow_None: "editingId s = None \<Longrightarrow> Designation_editingRow s = None"
  by (simp add: Designation_editingRow_def find_None_iff)

lemma Designation_new_simps [simp]:
  "Designation.id (Designation_new n d) = n"
  "designationCode (Designation_new n d) = designationCode d"
  "Designation_values (Designation_new n d) = d"
  by (simp_all add: Designation_new_def Designation_values_def)

lemma Designation_merge_simps [simp]:
  "Designation.id (Designation_merge row d) = Designation.id row"
  "designationCode (Designation_merge row d) = designationCode row"
  "Designation_values (Designation_merge row d) = d\<lparr>designationCode := designationCode row\<rparr>"
  by (simp_all add: Designation_merge_def Designation_values_def)

lemma Designation_ids_update [simp]:
  "Designation.id \<circ> (\<lambda>row. if P row then Designation_merge row d else row) = Designation.id"
  by (rule ext) simp

subsection \<open>Designation1\<close>

lemma Designation1_prefill_simps [simp]:
  "rows (Designation1_prefill s) = rows s" "editingId (Designation1_prefill s) = editingId s"
  "isFormOpen (Designation1_prefill s) = isFormOpen s" "viewRow (Designation1_prefill s) =
      viewRow s"
  by (simp_all add: Designation1_prefill_def split: option.split)

lemma Designation1_prefill_closed:
  "editingId s = None \<Longrightarrow> formValues (Designation1_prefill s) = Designation_defaultValues"
  by (simp add: Designation1_prefill_def Designation_editingRow_None)

lemma Designation1_step_simps [simp]:
  "rows (Designation1_step e s) = rows (Designation1_handle e s)"
  "editingId (Designation1_step e s) = editingId (Designation1_handle e s)"
  "isFormOpen (Designation1_step e s) = isFormOpen (Designation1_handle e s)"
  "viewRow (Designation1_step e s) = viewRow (Designation1_handle e s)"
  by (simp_all add: Designation1_step_def Let_def)

lemma Designation1_handle_rows:
  "rows (Designation1_handle e s) = rows s
   \<or> (\<exists>i. rows (Designation1_handle e s) = filter (\<lambda>row. Designation.id row \<noteq> i) (rows s))
   \<or> (\<exists>d. editingId s = None
        \<and> rows (Designation1_handle e s)
            = rows s @ [Designation_new (nextId (map Designation.id (rows s))) d])
   \<or> (\<exists>d i. editingId s = Some i
        \<and> rows (Designation1_handle e s)
            = map (\<lambda>row. if Designation.id row = i then Designation_merge row d else row) (rows
                s))"
  by (cases e; cases "editingId s")
     (auto simp add: Designation1_handleAddNew_def Designation1_handleEdit_def
        Designation1_handleDelete_def Designation1_handleCancel_def
        Designation1_handleSubmit_def Designation1_onSubmit_def Let_def)

lemma Designation1_handle_distinct:
  "distinct (map Designation.id (rows s))
   \<Longrightarrow> distinct (map Designation.id (rows (Designation1_handle e s)))"
  using Designation1_handle_rows [of e s]
  by (auto simp add: distinct_map_filter nextId_fresh)

lemma Designation1_typed:
  "Designation1_step (Input v) s = (if isFormOpen s then s\<lparr>formValues := v\<rparr> else s)"
  by (simp add: Designation1_step_def Designation_editingRow_def)

lemma Designation1_created:
  assumes "editingId s = None" and "isFormOpen s" and "designationSchema (formValues s) = []"
  shows "rows (Designation1_step Submit s)
           = rows s @ [Designation_new (nextId (map Designation.id (rows s))) (formValues s)]"
    and "editingId (Designation1_step Submit s) = None"
  using assms by (simp_all add: Designation1_handleSubmit_def Designation1_onSubmit_def)

lemma Designation1_step_bounds:
  assumes "\<forall>r\<in>set (rows s). lo \<le> Designation.id r \<and> Designation.id r \<le> u" and "lo \<le> 1" and "0 \<le> u"
  shows "\<forall>r\<in>set (rows (Designation1_step e s)). lo \<le> Designation.id r \<and> Designation.id r \<le> u + 1"
proof -
  have n: "lo \<le> nextId (map Designation.id (rows s)) \<and> nextId (map Designation.id (rows s)) \<le> u
      + 1"
    using assms by (intro nextId_bounds) auto
  show ?thesis
    using Designation1_handle_rows [of e s] assms(1) n
    by (elim disjE exE conjE) (auto simp add: image_iff)
qed

subsection \<open>Designation2\<close>

lemma Designation2_prefill_simps [simp]:
  "rows (Designation2_prefill s) = rows s" "editingId (Designation2_prefill s) = editingId s"
  "isFormOpen (Designation2_prefill s) = isFormOpen s" "viewRow (Designation2_prefill s) =
      viewRow s"
  by (simp_all add: Designation2_prefill_def split: option.split)

lemma Designation2_prefill_closed:
  "editingId s = None \<Longrightarrow> formValues (Designation2_prefill s) = defaultValues s"
  by (simp add: Designation2_prefill_def Designation_editingRow_None)

lemma Designation2_step_simps [simp]:
  "rows (Designation2_step e s) = rows (Designation2_handle e s)"
  "editingId (Designation2_step e s) = editingId (Designation2_handle e s)"
  "isFormOpen (Designation2_step e s) = isFormOpen (Designation2_handle e s)"
  "viewRow (Designation2_step e s) = viewRow (Designation2_handle e s)"
  by (simp_all add: Designation2_step_def Let_def)

lemma Designation2_handle_rows:
  "rows (Designation2_handle e s) = rows s
   \<or> (\<exists>i. rows (Designation2_handle e s) = filter (\<lambda>row. Designation.id row \<noteq> i) (rows s))
   \<or> (\<exists>d. editingId s = None \<and> \<not> Designation2_isDuplicate d s
        \<and> rows (Designation2_handle e s)
            = rows s @ [Designation_new (nextId (map Designation.id (rows s))) d])
   \<or> (\<exists>d i. editingId s = Some i \<and> \<not> Designation2_isDuplicate d s
        \<and> rows (Designation2_handle e s)
            = map (\<lambda>row. if Designation.id row = i then Designation_merge row d else row) (rows
                s))"
  by (cases e; cases "editingId s")
     (auto simp add: Designation2_handleAddNew_def Designation2_handleEdit_def
        Designation2_handleDelete_def Designation2_handleCancel_def
        Designation2_handleSubmit_def Designation2_onSubmit_def Designation2_isDuplicate_def
        Let_def)

lemma Designation2_handle_distinct:
  "distinct (map Designation.id (rows s))
   \<Longrightarrow> distinct (map Designation.id (rows (Designation2_handle e s)))"
  using Designation2_handle_rows [of e s]
  by (auto simp add: distinct_map_filter nextId_fresh)

lemma Designation2_typed:
  "Designation2_step (Input v) s = (if isFormOpen s then s\<lparr>formValues := v\<rparr> else s)"
  by (simp add: Designation2_step_def Designation_editingRow_def)

lemma Designation2_created:
  assumes "editingId s = None" and "isFormOpen s" and "designationSchema (formValues s) = []"
    and "\<not> Designation2_isDuplicate (formValues s) s"
  shows "rows (Designation2_step Submit s)
           = rows s @ [Designation_new (nextId (map Designation.id (rows s))) (formValues s)]"
    and "editingId (Designation2_step Submit s) = None"
  using assms by (simp_all add: Designation2_handleSubmit_def Designation2_onSubmit_def
      Designation2_isDuplicate_def)

lemma Designation2_step_bounds:
  assumes "\<forall>r\<in>set (rows s). lo \<le> Designation.id r \<and> Designation.id r \<le> u" and "lo \<le> 1" and "0 \<le> u"
  shows "\<forall>r\<in>set (rows (Designation2_step e s)). lo \<le> Designation.id r \<and> Designation.id r \<le> u + 1"
proof -
  have n: "lo \<le> nextId (map Designation.id (rows s)) \<and> nextId (map Designation.id (rows s)) \<le> u
      + 1"
    using assms by (intro nextId_bounds) auto
  show ?thesis
    using Designation2_handle_rows [of e s] assms(1) n
    by (elim disjE exE conjE) (auto simp add: image_iff)
qed

lemma Designation2_handle_unique:
  "unique_keys designationCode Designation.id (rows s)
   \<Longrightarrow> unique_keys designationCode Designation.id (rows (Designation2_handle e s))"
  using Designation2_handle_rows [of e s]
  by (elim disjE exE conjE)
     (auto simp add: Designation2_isDuplicate_def list_ex_iff
        intro!: unique_keys_filter unique_keys_snoc unique_keys_map)


section \<open>Validation outcomes and reachable stores\<close>

lemma subsidiarySchema_no_duplicate: "(f, DuplicateKey) \<notin> set (subsidiarySchema d)"
  by (auto simp add: subsidiarySchema_def field_set required_def max_length_def split: if_splits)

lemma organizationSchema_no_duplicate: "(f, DuplicateKey) \<notin> set (organizationSchema rEmail d)"
  by (auto simp add: organizationSchema_def field_set required_def email_def matches_digits_def
      split: if_splits)

lemma locationSchema_no_duplicate: "(f, DuplicateKey) \<notin> set (locationSchema d)"
  by (auto simp add: locationSchema_def field_set required_def matches_digits_def split:
      if_splits)

lemma designationSchema_no_duplicate: "(f, DuplicateKey) \<notin> set (designationSchema d)"
  by (auto simp add: designationSchema_def field_set required_def split: if_splits)

lemma initialOrganizations_unique: "unique_keys organizationCode Organization.id
    initialOrganizations"
  by code_simp

lemma initialOrganizations_unique_tenant: "unique_keys tenantCode Organization.id
    initialOrganizations"
  by code_simp

lemma initialLocations_unique: "unique_keys locationCode Location.id initialLocations"
  by code_simp

lemma initialDesignations_unique: "unique_keys designationCode Designation.id initialDesignations"
  by code_simp

lemma Organization1_outcome:
  "errors (Organization1_handleSubmit rEmail s) =
     (if organizationSchema rEmail (formValues s) \<noteq> [] then organizationSchema rEmail
         (formValues s)
      else if Organization1_isDuplicate (formValues s) s then [(''organizationCode'',
          DuplicateKey)]
      else [])"
  by (simp add: Organization1_handleSubmit_def Organization1_onSubmit_def Let_def setError_def
        Organization1_isDuplicate_def)

lemma Organization1_reachable_distinct:
  "reachable Organization_init (Organization1_step rEmail) s
   \<Longrightarrow> distinct (map Organization.id (rows s))"
  by (erule reachable_invariant)
     (simp_all add: Organization_init_def initialOrganizations_def Organization1_handle_distinct)

lemma Organization1_reachable_unique:
  "reachable Organization_init (Organization1_step rEmail) s
   \<Longrightarrow> unique_keys organizationCode Organization.id (rows s)"
  by (erule reachable_invariant)
     (simp_all add: Organization_init_def initialOrganizations_unique Organization1_handle_unique)

lemma Organization2_outcome:
  "errors (Organization2_handleSubmit rEmail s) =
     (if organizationSchema rEmail (formValues s) \<noteq> [] then organizationSchema rEmail
         (formValues s)
      else if Organization2_orgCodeDuplicate (formValues s) s then [(''organizationCode'',
          DuplicateKey)]
      else if Organization2_tenantDuplicate (formValues s) s then [(''tenantCode'', DuplicateKey)]
      else [])"
  by (simp add: Organization2_handleSubmit_def Organization2_onSubmit_def Let_def setError_def
        Organization2_orgCodeDuplicate_def Organization2_tenantDuplicate_def)

lemma Organization2_reachable_distinct:
  "reachable Organization_init (Organization2_step rEmail) s
   \<Longrightarrow> distinct (map Organization.id (rows s))"
  by (erule reachable_invariant)
     (simp_all add: Organization_init_def initialOrganizations_def Organization2_handle_distinct)

lemma Organization2_reachable_unique:
  "reachable Organization_init (Organization2_step rEmail) s
   \<Longrightarrow> unique_keys organizationCode Organization.id (rows s)"
  by (erule reachable_invariant)
     (simp_all add: Organization_init_def initialOrganizations_unique Organization2_handle_unique)

lemma Organization2_reachable_unique_tenant:
  "reachable Organization_init (Organization2_step rEmail) s
   \<Longrightarrow> unique_keys tenantCode Organization.id (rows s)"
  by (erule reachable_invariant)
     (simp_all add: Organization_init_def initialOrganizations_unique_tenant
         Organization2_handle_tenant)

lemma Subsidiary1_outcome:
  "errors (Subsidiary1_handleSubmit s) = subsidiarySchema (formValues s)"
  by (simp add: Subsidiary1_handleSubmit_def Subsidiary1_onSubmit_def Let_def setError_def)

lemma Subsidiary1_reachable_distinct:
  "distinct (map Subsidiary.id seed)
   \<Longrightarrow> reachable (Subsidiary_init seed) Subsidiary1_step s
   \<Longrightarrow> distinct (map Subsidiary.id (rows s))"
  by (erule reachable_invariant)
     (simp_all add: Subsidiary_init_def Subsidiary1_handle_distinct)

lemma Subsidiary2_outcome:
  "errors (Subsidiary2_handleSubmit s) =
     (if subsidiarySchema (formValues s) \<noteq> [] then subsidiarySchema (formValues s)
      else if Subsidiary2_isDuplicate (formValues s) s then [(''subsidiaryCode'', DuplicateKey)]
      else [])"
  by (simp add: Subsidiary2_handleSubmit_def Subsidiary2_onSubmit_def Let_def setError_def
        Subsidiary2_isDuplicate_def)

lemma Subsidiary2_reachable_distinct:
  "distinct (map Subsidiary.id seed)
   \<Longrightarrow> reachable (Subsidiary_init seed) Subsidiary2_step s
   \<Longrightarrow> distinct (map Subsidiary.id (rows s))"
  by (erule reachable_invariant)
     (simp_all add: Subsidiary_init_def Subsidiary2_handle_distinct)

lemma Subsidiary2_reachable_unique:
  "unique_keys subsidiaryCode Subsidiary.id seed
   \<Longrightarrow> reachable (Subsidiary_init seed) Subsidiary2_step s
   \<Longrightarrow> unique_keys subsidiaryCode Subsidiary.id (rows s)"
  by (erule reachable_invariant)
     (simp_all add: Subsidiary_init_def Subsidiary2_handle_unique)

lemma Location1_outcome:
  "errors (Location1_handleSubmit s) = locationSchema (formValues s)"
  by (simp add: Location1_handleSubmit_def Location1_onSubmit_def Let_def setError_def)

lemma Location1_reachable_distinct:
  "reachable Location_init Location1_step s
   \<Longrightarrow> distinct (map Location.id (rows s))"
  by (erule reachable_invariant)
     (simp_all add: Location_init_def initialLocations_def Location1_handle_distinct)

lemma Location2_outcome:
  "map_sum (\<lambda>e. e) errors (Location2_handleSubmit s) =
     (if locationSchema (formValues s) \<noteq> [] then Inr (locationSchema (formValues s))
      else if Location2_isDuplicate (formValues s) s then Inl (ReferenceError ''setError'')
      else Inr [])"
  by (simp add: Location2_handleSubmit_def Location2_onSubmit_def Let_def setError_def
        Location2_isDuplicate_def)

lemma Location2_reachable_distinct:
  "reachable Location_init Location2_step s
   \<Longrightarrow> distinct (map Location.id (rows s))"
  by (erule reachable_invariant)
     (simp_all add: Location_init_def initialLocations_def Location2_handle_distinct)

lemma Location2_reachable_unique:
  "reachable Location_init Location2_step s
   \<Longrightarrow> unique_keys locationCode Location.id (rows s)"
  by (erule reachable_invariant)
     (simp_all add: Location_init_def initialLocations_unique Location2_handle_unique)

lemma Designation1_outcome:
  "errors (Designation1_handleSubmit s) = designationSchema (formValues s)"
  by (simp add: Designation1_handleSubmit_def Designation1_onSubmit_def Let_def setError_def)

lemma Designation1_reachable_distinct:
  "reachable Designation_init Designation1_step s
   \<Longrightarrow> distinct (map Designation.id (rows s))"
  by (erule reachable_invariant)
     (simp_all add: Designation_init_def initialDesignations_def Designation1_handle_distinct)

lemma Designation2_outcome:
  "errors (Designation2_handleSubmit s) =
     (if designationSchema (formValues s) \<noteq> [] then designationSchema (formValues s)
      else if Designation2_isDuplicate (formValues s) s then [(''designationCode'', DuplicateKey)]
      else [])"
  by (simp add: Designation2_handleSubmit_def Designation2_onSubmit_def Let_def setError_def
        Designation2_isDuplicate_def)

lemma Designation2_reachable_distinct:
  "reachable Designation_init Designation2_step s
   \<Longrightarrow> distinct (map Designation.id (rows s))"
  by (erule reachable_invariant)
     (simp_all add: Designation_init_def initialDesignations_def Designation2_handle_distinct)

lemma Designation2_reachable_unique:
  "reachable Designation_init Designation2_step s
   \<Longrightarrow> unique_keys designationCode Designation.id (rows s)"
  by (erule reachable_invariant)
     (simp_all add: Designation_init_def initialDesignations_unique Designation2_handle_unique)


section \<open>C1: duplicate keys\<close>

lemma Organization1_duplicate_rejected:
  "(rowO \<in> set (rows sO) \<longrightarrow>
   toLowerCase (organizationCode rowO) = toLowerCase (organizationCode dO) \<longrightarrow>
   Some (Organization.id rowO) \<noteq> editingId sO \<longrightarrow>
   rows (Organization1_onSubmit dO sO) = rows sO
     \<and> (''organizationCode'', DuplicateKey) \<in> set (errors (Organization1_onSubmit dO sO)))"
  by (auto simp add: Organization1_onSubmit_def Organization1_isDuplicate_def list_ex_iff)

lemma Organization2_duplicate_rejected:
  "(rowO' \<in> set (rows sO') \<longrightarrow>
   toLowerCase (organizationCode rowO') = toLowerCase (organizationCode dO') \<longrightarrow>
   Some (Organization.id rowO') \<noteq> editingId sO' \<longrightarrow>
   rows (Organization2_onSubmit dO' sO') = rows sO'
     \<and> (''organizationCode'', DuplicateKey) \<in> set (errors (Organization2_onSubmit dO' sO')))"
  by (auto simp add: Organization2_onSubmit_def Organization2_orgCodeDuplicate_def list_ex_iff)

lemma Subsidiary2_duplicate_rejected:
  "(rowS' \<in> set (rows sS') \<longrightarrow>
   toLowerCase (subsidiaryCode rowS') = toLowerCase (subsidiaryCode dS') \<longrightarrow>
   Some (Subsidiary.id rowS') \<noteq> editingId sS' \<longrightarrow>
   rows (Subsidiary2_onSubmit dS' sS') = rows sS'
     \<and> (''subsidiaryCode'', DuplicateKey) \<in> set (errors (Subsidiary2_onSubmit dS' sS')))"
  by (auto simp add: Subsidiary2_onSubmit_def Subsidiary2_isDuplicate_def list_ex_iff)

lemma Location2_duplicate_store:
  "(rowL' \<in> set (rows sL') \<longrightarrow>
   toLowerCase (locationCode rowL') = toLowerCase (locationCode (formValues sL')) \<longrightarrow>
   Some (Location.id rowL') \<noteq> editingId sL' \<longrightarrow>
   rows (Location2_step Submit sL') = rows sL')"
  by (auto simp add: Location2_handleSubmit_def Location2_onSubmit_def
        Location2_isDuplicate_def list_ex_iff Let_def split: sum.split)

lemma Designation2_duplicate_rejected:
  "(rowD' \<in> set (rows sD') \<longrightarrow>
   toLowerCase (designationCode rowD') = toLowerCase (designationCode dD') \<longrightarrow>
   Some (Designation.id rowD') \<noteq> editingId sD' \<longrightarrow>
   rows (Designation2_onSubmit dD' sD') = rows sD'
     \<and> (''designationCode'', DuplicateKey) \<in> set (errors (Designation2_onSubmit dD' sD')))"
  by (auto simp add: Designation2_onSubmit_def Designation2_isDuplicate_def list_ex_iff)

text \<open>
  Where a page carries the duplicate check and reports it (both Organization pages, the
  second Subsidiary page and the second Designation page): if the store holds a record,
  other than the one being edited, whose key equals the submitted key up to case,
  \<open>onSubmit\<close> leaves the store as it is and sets a \<open>DuplicateKey\<close> error on the
  key field. On the second Location page such a submit leaves the store as it is.
\<close>

theorem duplicate_key_rejected_where_checked:
  "(rowO \<in> set (rows sO) \<longrightarrow>
     toLowerCase (organizationCode rowO) = toLowerCase (organizationCode dO) \<longrightarrow>
     Some (Organization.id rowO) \<noteq> editingId sO \<longrightarrow>
     rows (Organization1_onSubmit dO sO) = rows sO
     \<and> (''organizationCode'', DuplicateKey) \<in> set (errors (Organization1_onSubmit dO sO)))
   \<and> (rowO' \<in> set (rows sO') \<longrightarrow>
     toLowerCase (organizationCode rowO') = toLowerCase (organizationCode dO') \<longrightarrow>
     Some (Organization.id rowO') \<noteq> editingId sO' \<longrightarrow>
     rows (Organization2_onSubmit dO' sO') = rows sO'
     \<and> (''organizationCode'', DuplicateKey) \<in> set (errors (Organization2_onSubmit dO' sO')))
   \<and> (rowS' \<in> set (rows sS') \<longrightarrow>
     toLowerCase (subsidiaryCode rowS') = toLowerCase (subsidiaryCode dS') \<longrightarrow>
     Some (Subsidiary.id rowS') \<noteq> editingId sS' \<longrightarrow>
     rows (Subsidiary2_onSubmit dS' sS') = rows sS'
     \<and> (''subsidiaryCode'', DuplicateKey) \<in> set (errors (Subsidiary2_onSubmit dS' sS')))
   \<and> (rowL' \<in> set (rows sL') \<longrightarrow>
     toLowerCase (locationCode rowL') = toLowerCase (locationCode (formValues sL')) \<longrightarrow>
     Some (Location.id rowL') \<noteq> editingId sL' \<longrightarrow>
     rows (Location2_step Submit sL') = rows sL')
   \<and> (rowD' \<in> set (rows sD') \<longrightarrow>
     toLowerCase (designationCode rowD') = toLowerCase (designationCode dD') \<longrightarrow>
     Some (Designation.id rowD') \<noteq> editingId sD' \<longrightarrow>
     rows (Designation2_onSubmit dD' sD') = rows sD'
     \<and> (''designationCode'', DuplicateKey) \<in> set (errors (Designation2_onSubmit dD' sD')))"
  by (intro conjI Organization1_duplicate_rejected Organization2_duplicate_rejected
        Subsidiary2_duplicate_rejected Location2_duplicate_store
        Designation2_duplicate_rejected)

text \<open>
  The first Subsidiary, Location and Designation pages have no duplicate check. On the
  Location page of unnamed/part_006 the seed holds the key AALMYS; Add New, a valid
  buffer with the key aalmys and the submit append the record (its id is 2) without any
  error, and the form closes.
\<close>

theorem duplicate_key_accepted_without_check:
  "toLowerCase (locationCode (hd initialLocations)) = toLowerCase ''aalmys''
   \<and> locationSchema (Location_sample\<lparr>locationCode := ''aalmys''\<rparr>) = []
   \<and> rows (fold Location1_step
         [AddNew, Input (Location_sample\<lparr>locationCode := ''aalmys''\<rparr>), Submit]
         Location_init)
     = initialLocations @ [Location_new 2 (Location_sample\<lparr>locationCode := ''aalmys''\<rparr>)]
   \<and> errors (fold Location1_step
         [AddNew, Input (Location_sample\<lparr>locationCode := ''aalmys''\<rparr>), Submit]
         Location_init)
     = []
   \<and> isFormOpen (fold Location1_step
         [AddNew, Input (Location_sample\<lparr>locationCode := ''aalmys''\<rparr>), Submit]
         Location_init)
     = False"
  by code_simp

text \<open>
  The statement above at the example inputs: every hypothesis holds there.
\<close>

theorem duplicate_key_rejected_where_checked_witness:
  "(hd initialOrganizations) \<in> set (rows Organization_adding)
   \<and> toLowerCase (organizationCode (hd initialOrganizations)) = toLowerCase (organizationCode
       (Organization_sample\<lparr>organizationCode := ''aal''\<rparr>))
   \<and> Some (Organization.id (hd initialOrganizations)) \<noteq> editingId Organization_adding
   \<and> (rows (Organization1_onSubmit (Organization_sample\<lparr>organizationCode := ''aal''\<rparr>)
       Organization_adding) = rows Organization_adding
     \<and> (''organizationCode'', DuplicateKey) \<in> set (errors (Organization1_onSubmit
         (Organization_sample\<lparr>organizationCode := ''aal''\<rparr>) Organization_adding)))
   \<and> (hd initialOrganizations) \<in> set (rows Organization_adding)
   \<and> toLowerCase (organizationCode (hd initialOrganizations)) = toLowerCase (organizationCode
       (Organization_sample\<lparr>organizationCode := ''aal''\<rparr>))
   \<and> Some (Organization.id (hd initialOrganizations)) \<noteq> editingId Organization_adding
   \<and> (rows (Organization2_onSubmit (Organization_sample\<lparr>organizationCode := ''aal''\<rparr>)
       Organization_adding) = rows Organization_adding
     \<and> (''organizationCode'', DuplicateKey) \<in> set (errors (Organization2_onSubmit
         (Organization_sample\<lparr>organizationCode := ''aal''\<rparr>) Organization_adding)))
   \<and> (hd exampleSubsidiaries) \<in> set (rows Subsidiary_adding)
   \<and> toLowerCase (subsidiaryCode (hd exampleSubsidiaries)) = toLowerCase (subsidiaryCode
       (Subsidiary_sample\<lparr>subsidiaryCode := ''aas''\<rparr>))
   \<and> Some (Subsidiary.id (hd exampleSubsidiaries)) \<noteq> editingId Subsidiary_adding
   \<and> (rows (Subsidiary2_onSubmit (Subsidiary_sample\<lparr>subsidiaryCode := ''aas''\<rparr>)
       Subsidiary_adding) = rows Subsidiary_adding
     \<and> (''subsidiaryCode'', DuplicateKey) \<in> set (errors (Subsidiary2_onSubmit
         (Subsidiary_sample\<lparr>subsidiaryCode := ''aas''\<rparr>) Subsidiary_adding)))
   \<and> (hd initialLocations) \<in> set (rows (Location_adding\<lparr>formValues :=
       (Location_sample\<lparr>locationCode := ''aalmys''\<rparr>)\<rparr>))
   \<and> toLowerCase (locationCode (hd initialLocations)) = toLowerCase (locationCode (formValues
       (Location_adding\<lparr>formValues := (Location_sample\<lparr>locationCode := ''aalmys''\<rparr>)\<rparr>)))
   \<and> Some (Location.id (hd initialLocations)) \<noteq> editingId (Location_adding\<lparr>formValues :=
       (Location_sample\<lparr>locationCode := ''aalmys''\<rparr>)\<rparr>)
   \<and> rows (Location2_step Submit (Location_adding\<lparr>formValues := (Location_sample\<lparr>locationCode :=
       ''aalmys''\<rparr>)\<rparr>)) = rows (Location_adding\<lparr>formValues := (Location_sample\<lparr>locationCode :=
       ''aalmys''\<rparr>)\<rparr>)
   \<and> (hd initialDesignations) \<in> set (rows Designation_adding)
   \<and> toLowerCase (designationCode (hd initialDesignations)) = toLowerCase (designationCode
       (Designation_sample\<lparr>designationCode := ''drv''\<rparr>))
   \<and> Some (Designation.id (hd initialDesignations)) \<noteq> editingId Designation_adding
   \<and> (rows (Designation2_onSubmit (Designation_sample\<lparr>designationCode := ''drv''\<rparr>)
       Designation_adding) = rows Designation_adding
     \<and> (''designationCode'', DuplicateKey) \<in> set (errors (Designation2_onSubmit
         (Designation_sample\<lparr>designationCode := ''drv''\<rparr>) Designation_adding)))"
proof -
  note T = duplicate_key_rejected_where_checked
    [where sO = "Organization_adding"
       and rowO = "hd initialOrganizations"
       and dO = "Organization_sample\<lparr>organizationCode := ''aal''\<rparr>"
       and sO' = "Organization_adding"
       and rowO' = "hd initialOrganizations"
       and dO' = "Organization_sample\<lparr>organizationCode := ''aal''\<rparr>"
       and sS' = "Subsidiary_adding"
       and rowS' = "hd exampleSubsidiaries"
       and dS' = "Subsidiary_sample\<lparr>subsidiaryCode := ''aas''\<rparr>"
       and sL' = "Location_adding\<lparr>formValues := (Location_sample\<lparr>locationCode := ''aalmys''\<rparr>)\<rparr>"
       and rowL' = "hd initialLocations"
       and sD' = "Designation_adding"
       and rowD' = "hd initialDesignations"
       and dD' = "Designation_sample\<lparr>designationCode := ''drv''\<rparr>"]
  have h1_1: "(hd initialOrganizations) \<in> set (rows Organization_adding)"
    by code_simp
  have h1_2: "toLowerCase (organizationCode (hd initialOrganizations)) = toLowerCase
      (organizationCode (Organization_sample\<lparr>organizationCode := ''aal''\<rparr>))"
    by code_simp
  have h1_3: "Some (Organization.id (hd initialOrganizations)) \<noteq> editingId Organization_adding"
    by code_simp
  have c1: "rows (Organization1_onSubmit (Organization_sample\<lparr>organizationCode := ''aal''\<rparr>)
      Organization_adding) = rows Organization_adding
     \<and> (''organizationCode'', DuplicateKey) \<in> set (errors (Organization1_onSubmit
         (Organization_sample\<lparr>organizationCode := ''aal''\<rparr>) Organization_adding))"
    by (rule T [THEN conjunct1, THEN mp, OF h1_1, THEN mp, OF h1_2, THEN mp, OF h1_3])
  have h2_1: "(hd initialOrganizations) \<in> set (rows Organization_adding)"
    by code_simp
  have h2_2: "toLowerCase (organizationCode (hd initialOrganizations)) = toLowerCase
      (organizationCode (Organization_sample\<lparr>organizationCode := ''aal''\<rparr>))"
    by code_simp
  have h2_3: "Some (Organization.id (hd initialOrganizations)) \<noteq> editingId Organization_adding"
    by code_simp
  have c2: "rows (Organization2_onSubmit (Organization_sample\<lparr>organizationCode := ''aal''\<rparr>)
      Organization_adding) = rows Organization_adding
     \<and> (''organizationCode'', DuplicateKey) \<in> set (errors (Organization2_onSubmit
         (Organization_sample\<lparr>organizationCode := ''aal''\<rparr>) Organization_adding))"
    by (rule T [THEN conjunct2, THEN conjunct1, THEN mp, OF h2_1, THEN mp, OF h2_2, THEN mp, OF
        h2_3])
  have h3_1: "(hd exampleSubsidiaries) \<in> set (rows Subsidiary_adding)"
    by code_simp
  have h3_2: "toLowerCase (subsidiaryCode (hd exampleSubsidiaries)) = toLowerCase
      (subsidiaryCode (Subsidiary_sample\<lparr>subsidiaryCode := ''aas''\<rparr>))"
    by code_simp
  have h3_3: "Some (Subsidiary.id (hd exampleSubsidiaries)) \<noteq> editingId Subsidiary_adding"
    by code_simp
  have c3: "rows (Subsidiary2_onSubmit (Subsidiary_sample\<lparr>subsidiaryCode := ''aas''\<rparr>)
      Subsidiary_adding) = rows Subsidiary_adding
     \<and> (''subsidiaryCode'', DuplicateKey) \<in> set (errors (Subsidiary2_onSubmit
         (Subsidiary_sample\<lparr>subsidiaryCode := ''aas''\<rparr>) Subsidiary_adding))"
    by (rule T [THEN conjunct2, THEN conjunct2, THEN conjunct1, THEN mp, OF h3_1, THEN mp, OF
        h3_2, THEN mp, OF h3_3])
  have h4_1: "(hd initialLocations) \<in> set (rows (Location_adding\<lparr>formValues :=
      (Location_sample\<lparr>locationCode := ''aalmys''\<rparr>)\<rparr>))"
    by code_simp
  have h4_2: "toLowerCase (locationCode (hd initialLocations)) = toLowerCase (locationCode
      (formValues (Location_adding\<lparr>formValues := (Location_sample\<lparr>locationCode :=
      ''aalmys''\<rparr>)\<rparr>)))"
    by code_simp
  have h4_3: "Some (Location.id (hd initialLocations)) \<noteq> editingId (Location_adding\<lparr>formValues
      := (Location_sample\<lparr>locationCode := ''aalmys''\<rparr>)\<rparr>)"
    by code_simp
  have c4: "rows (Location2_step Submit (Location_adding\<lparr>formValues :=
      (Location_sample\<lparr>locationCode := ''aalmys''\<rparr>)\<rparr>)) = rows (Location_adding\<lparr>formValues :=
      (Location_sample\<lparr>locationCode := ''aalmys''\<rparr>)\<rparr>)"
    by (rule T [THEN conjunct2, THEN conjunct2, THEN conjunct2, THEN conjunct1, THEN mp, OF
        h4_1, THEN mp, OF h4_2, THEN mp, OF h4_3])
  have h5_1: "(hd initialDesignations) \<in> set (rows Designation_adding)"
    by code_simp
  have h5_2: "toLowerCase (designationCode (hd initialDesignations)) = toLowerCase
      (designationCode (Designation_sample\<lparr>designationCode := ''drv''\<rparr>))"
    by code_simp
  have h5_3: "Some (Designation.id (hd initialDesignations)) \<noteq> editingId Designation_adding"
    by code_simp
  have c5: "rows (Designation2_onSubmit (Designation_sample\<lparr>designationCode := ''drv''\<rparr>)
      Designation_adding) = rows Designation_adding
     \<and> (''designationCode'', DuplicateKey) \<in> set (errors (Designation2_onSubmit
         (Designation_sample\<lparr>designationCode := ''drv''\<rparr>) Designation_adding))"
    by (rule T [THEN conjunct2, THEN conjunct2, THEN conjunct2, THEN conjunct2, THEN mp, OF
        h5_1, THEN mp, OF h5_2, THEN mp, OF h5_3])
  show ?thesis
    using h1_1 h1_2 h1_3 c1 h2_1 h2_2 h2_3 c2 h3_1 h3_2 h3_3 c3 h4_1 h4_2 h4_3 c4 h5_1 h5_2 h5_3
      c5
    by blast
qed

text \<open>
  C1. A submit that carries the key of a stored record should be rejected with a
  \<open>DuplicateKey\<close> error on the key field, on all four entities. The Location page of
  src/pages/LocationPage.tsx does not do that. Its seed holds the key AALMYS; after Add
  New and a valid buffer with the key aalmys, \<open>onSubmit\<close> finds the duplicate and then
  evaluates the undeclared \<open>setError\<close>: a ReferenceError. After the submit the page
  has no error on any field (the store is unchanged and the form is still open). The
  same steps on the second Designation page (seed key DRV, buffer key drv) set the
  error on \<open>designationCode\<close>.
\<close>

theorem duplicate_key_on_Location_page_sets_no_error:
  "toLowerCase (locationCode (hd initialLocations)) = toLowerCase ''aalmys''
   \<and> locationSchema (Location_sample\<lparr>locationCode := ''aalmys''\<rparr>) = []
   \<and> Location2_onSubmit (Location_sample\<lparr>locationCode := ''aalmys''\<rparr>)
       (fold Location2_step
          [AddNew, Input (Location_sample\<lparr>locationCode := ''aalmys''\<rparr>)] Location_init)
     = Inl (ReferenceError ''setError'')
   \<and> errors (fold Location2_step
         [AddNew, Input (Location_sample\<lparr>locationCode := ''aalmys''\<rparr>), Submit]
         Location_init)
     = []
   \<and> rows (fold Location2_step
         [AddNew, Input (Location_sample\<lparr>locationCode := ''aalmys''\<rparr>), Submit]
         Location_init)
     = initialLocations
   \<and> isFormOpen (fold Location2_step
         [AddNew, Input (Location_sample\<lparr>locationCode := ''aalmys''\<rparr>), Submit]
         Location_init)
   \<and> errors (fold Designation2_step
         [AddNew, Input (Designation_sample\<lparr>designationCode := ''drv''\<rparr>), Submit]
         Designation_init)
     = [(''designationCode'', DuplicateKey)]"
  by code_simp


section \<open>C2: the natural key survives an update\<close>

lemma Organization1_update_keeps_key:
  "(editingId sO = Some iO \<longrightarrow>
   \<not> Organization1_isDuplicate dO sO \<longrightarrow>
   updated Organization.id Organization_values
       (\<lambda>r. dO\<lparr>organizationCode := organizationCode r\<rparr>) iO (rows sO)
       (rows (Organization1_onSubmit dO sO)))"
  by (simp add: Organization1_onSubmit_def updated_def)

lemma Organization2_update_keeps_key:
  "(editingId sO' = Some iO' \<longrightarrow>
   \<not> Organization2_orgCodeDuplicate dO' sO' \<longrightarrow>
   \<not> Organization2_tenantDuplicate dO' sO' \<longrightarrow>
   updated Organization.id Organization_values
       (\<lambda>r. dO'\<lparr>organizationCode := organizationCode r\<rparr>) iO' (rows sO')
       (rows (Organization2_onSubmit dO' sO')))"
  by (simp add: Organization2_onSubmit_def updated_def)

lemma Subsidiary1_update_keeps_key:
  "(editingId sS = Some iS \<longrightarrow>
   updated Subsidiary.id Subsidiary_values
       (\<lambda>r. dS\<lparr>subsidiaryCode := subsidiaryCode r\<rparr>) iS (rows sS)
       (rows (Subsidiary1_onSubmit dS sS)))"
  by (simp add: Subsidiary1_onSubmit_def updated_def)

lemma Subsidiary2_update_keeps_key:
  "(editingId sS' = Some iS' \<longrightarrow>
   \<not> Subsidiary2_isDuplicate dS' sS' \<longrightarrow>
   updated Subsidiary.id Subsidiary_values
       (\<lambda>r. dS'\<lparr>subsidiaryCode := subsidiaryCode r\<rparr>) iS' (rows sS')
       (rows (Subsidiary2_onSubmit dS' sS')))"
  by (simp add: Subsidiary2_onSubmit_def updated_def)

lemma Location1_update_keeps_key:
  "(editingId sL = Some iL \<longrightarrow>
   updated Location.id Location_values
       (\<lambda>r. dL\<lparr>locationCode := locationCode r\<rparr>) iL (rows sL)
       (rows (Location1_onSubmit dL sL)))"
  by (simp add: Location1_onSubmit_def updated_def)

lemma Location2_update_keeps_key:
  "(editingId sL' = Some iL' \<longrightarrow>
   \<not> Location2_isDuplicate dL' sL' \<longrightarrow>
   (\<exists>t. Location2_onSubmit dL' sL' = Inr t \<and>
     updated Location.id Location_values
       (\<lambda>r. dL'\<lparr>locationCode := locationCode r\<rparr>) iL' (rows sL') (rows t)))"
  by (simp add: Location2_onSubmit_def updated_def)

lemma Designation1_update_keeps_key:
  "(editingId sD = Some iD \<longrightarrow>
   updated Designation.id Designation_values
       (\<lambda>r. dD\<lparr>designationCode := designationCode r\<rparr>) iD (rows sD)
       (rows (Designation1_onSubmit dD sD)))"
  by (simp add: Designation1_onSubmit_def updated_def)

lemma Designation2_update_keeps_key:
  "(editingId sD' = Some iD' \<longrightarrow>
   \<not> Designation2_isDuplicate dD' sD' \<longrightarrow>
   updated Designation.id Designation_values
       (\<lambda>r. dD'\<lparr>designationCode := designationCode r\<rparr>) iD' (rows sD')
       (rows (Designation2_onSubmit dD' sD')))"
  by (simp add: Designation2_onSubmit_def updated_def)

text \<open>
  C2. On every page, an update (the form is editing the record of id \<open>i\<close> and
  \<open>onSubmit\<close> gets past the duplicate check, where there is one) keeps every record
  in its place with its id; the record of id \<open>i\<close> keeps its stored natural key,
  whatever key the buffer carries, and takes all its other fields from the buffer;
  the other records do not change.
\<close>

theorem update_keeps_natural_key:
  "(editingId sO = Some iO \<longrightarrow>
     \<not> Organization1_isDuplicate dO sO \<longrightarrow>
     updated Organization.id Organization_values
       (\<lambda>r. dO\<lparr>organizationCode := organizationCode r\<rparr>) iO (rows sO)
       (rows (Organization1_onSubmit dO sO)))
   \<and> (editingId sO' = Some iO' \<longrightarrow>
     \<not> Organization2_orgCodeDuplicate dO' sO' \<longrightarrow>
     \<not> Organization2_tenantDuplicate dO' sO' \<longrightarrow>
     updated Organization.id Organization_values
       (\<lambda>r. dO'\<lparr>organizationCode := organizationCode r\<rparr>) iO' (rows sO')
       (rows (Organization2_onSubmit dO' sO')))
   \<and> (editingId sS = Some iS \<longrightarrow>
     updated Subsidiary.id Subsidiary_values
       (\<lambda>r. dS\<lparr>subsidiaryCode := subsidiaryCode r\<rparr>) iS (rows sS)
       (rows (Subsidiary1_onSubmit dS sS)))
   \<and> (editingId sS' = Some iS' \<longrightarrow>
     \<not> Subsidiary2_isDuplicate dS' sS' \<longrightarrow>
     updated Subsidiary.id Subsidiary_values
       (\<lambda>r. dS'\<lparr>subsidiaryCode := subsidiaryCode r\<rparr>) iS' (rows sS')
       (rows (Subsidiary2_onSubmit dS' sS')))
   \<and> (editingId sL = Some iL \<longrightarrow>
     updated Location.id Location_values
       (\<lambda>r. dL\<lparr>locationCode := locationCode r\<rparr>) iL (rows sL)
       (rows (Location1_onSubmit dL sL)))
   \<and> (editingId sL' = Some iL' \<longrightarrow>
     \<not> Location2_isDuplicate dL' sL' \<longrightarrow>
     (\<exists>t. Location2_onSubmit dL' sL' = Inr t \<and>
     updated Location.id Location_values
       (\<lambda>r. dL'\<lparr>locationCode := locationCode r\<rparr>) iL' (rows sL') (rows t)))
   \<and> (editingId sD = Some iD \<longrightarrow>
     updated Designation.id Designation_values
       (\<lambda>r. dD\<lparr>designationCode := designationCode r\<rparr>) iD (rows sD)
       (rows (Designation1_onSubmit dD sD)))
   \<and> (editingId sD' = Some iD' \<longrightarrow>
     \<not> Designation2_isDuplicate dD' sD' \<longrightarrow>
     updated Designation.id Designation_values
       (\<lambda>r. dD'\<lparr>designationCode := designationCode r\<rparr>) iD' (rows sD')
       (rows (Designation2_onSubmit dD' sD')))"
  by (intro conjI Organization1_update_keeps_key Organization2_update_keeps_key
        Subsidiary1_update_keeps_key Subsidiary2_update_keeps_key Location1_update_keeps_key
        Location2_update_keeps_key Designation1_update_keeps_key
        Designation2_update_keeps_key)

text \<open>
  The statement of C2 at the example inputs: every hypothesis holds there.
\<close>

theorem update_keeps_natural_key_witness:
  "editingId Organization_editing = Some 1
   \<and> \<not> Organization1_isDuplicate Organization_sample Organization_editing
   \<and> updated Organization.id Organization_values
       (\<lambda>r. Organization_sample\<lparr>organizationCode := organizationCode r\<rparr>) 1 (rows
           Organization_editing)
       (rows (Organization1_onSubmit Organization_sample Organization_editing))
   \<and> editingId Organization_editing = Some 1
   \<and> \<not> Organization2_orgCodeDuplicate Organization_sample Organization_editing
   \<and> \<not> Organization2_tenantDuplicate Organization_sample Organization_editing
   \<and> updated Organization.id Organization_values
       (\<lambda>r. Organization_sample\<lparr>organizationCode := organizationCode r\<rparr>) 1 (rows
           Organization_editing)
       (rows (Organization2_onSubmit Organization_sample Organization_editing))
   \<and> editingId Subsidiary_editing = Some 1
   \<and> updated Subsidiary.id Subsidiary_values
       (\<lambda>r. Subsidiary_sample\<lparr>subsidiaryCode := subsidiaryCode r\<rparr>) 1 (rows Subsidiary_editing)
       (rows (Subsidiary1_onSubmit Subsidiary_sample Subsidiary_editing))
   \<and> editingId Subsidiary_editing = Some 1
   \<and> \<not> Subsidiary2_isDuplicate Subsidiary_sample Subsidiary_editing
   \<and> updated Subsidiary.id Subsidiary_values
       (\<lambda>r. Subsidiary_sample\<lparr>subsidiaryCode := subsidiaryCode r\<rparr>) 1 (rows Subsidiary_editing)
       (rows (Subsidiary2_onSubmit Subsidiary_sample Subsidiary_editing))
   \<and> editingId Location_editing = Some 1
   \<and> updated Location.id Location_values
       (\<lambda>r. Location_sample\<lparr>locationCode := locationCode r\<rparr>) 1 (rows Location_editing)
       (rows (Location1_onSubmit Location_sample Location_editing))
   \<and> editingId Location_editing = Some 1
   \<and> \<not> Location2_isDuplicate Location_sample Location_editing
   \<and> ((\<exists>t. Location2_onSubmit Location_sample Location_editing = Inr t \<and>
     updated Location.id Location_values
       (\<lambda>r. Location_sample\<lparr>locationCode := locationCode r\<rparr>) 1 (rows Location_editing) (rows t)))
   \<and> editingId Designation_editing = Some 1
   \<and> updated Designation.id Designation_values
       (\<lambda>r. Designation_sample\<lparr>designationCode := designationCode r\<rparr>) 1 (rows Designation_editing)
       (rows (Designation1_onSubmit Designation_sample Designation_editing))
   \<and> editingId Designation_editing = Some 1
   \<and> \<not> Designation2_isDuplicate Designation_sample Designation_editing
   \<and> updated Designation.id Designation_values
       (\<lambda>r. Designation_sample\<lparr>designationCode := designationCode r\<rparr>) 1 (rows Designation_editing)
       (rows (Designation2_onSubmit Designation_sample Designation_editing))
   \<and> map organizationCode
       (rows (Organization2_onSubmit Organization_sample Organization_editing)) = [''AAL'']
   \<and> map organizationName
       (rows (Organization2_onSubmit Organization_sample Organization_editing))
     = [''Acme Limited'']"
proof -
  note T = update_keeps_natural_key
    [where sO = "Organization_editing"
       and iO = "1"
       and dO = "Organization_sample"
       and sO' = "Organization_editing"
       and iO' = "1"
       and dO' = "Organization_sample"
       and sS = "Subsidiary_editing"
       and iS = "1"
       and dS = "Subsidiary_sample"
       and sS' = "Subsidiary_editing"
       and iS' = "1"
       and dS' = "Subsidiary_sample"
       and sL = "Location_editing"
       and iL = "1"
       and dL = "Location_sample"
       and sL' = "Location_editing"
       and iL' = "1"
       and dL' = "Location_sample"
       and sD = "Designation_editing"
       and iD = "1"
       and dD = "Designation_sample"
       and sD' = "Designation_editing"
       and iD' = "1"
       and dD' = "Designation_sample"]
  have h1_1: "editingId Organization_editing = Some 1"
    by code_simp
  have h1_2: "\<not> Organization1_isDuplicate Organization_sample Organization_editing"
    by code_simp
  have c1: "updated Organization.id Organization_values
       (\<lambda>r. Organization_sample\<lparr>organizationCode := organizationCode r\<rparr>) 1 (rows
           Organization_editing)
       (rows (Organization1_onSubmit Organization_sample Organization_editing))"
    by (rule T [THEN conjunct1, THEN mp, OF h1_1, THEN mp, OF h1_2])
  have h2_1: "editingId Organization_editing = Some 1"
    by code_simp
  have h2_2: "\<not> Organization2_orgCodeDuplicate Organization_sample Organization_editing"
    by code_simp
  have h2_3: "\<not> Organization2_tenantDuplicate Organization_sample Organization_editing"
    by code_simp
  have c2: "updated Organization.id Organization_values
       (\<lambda>r. Organization_sample\<lparr>organizationCode := organizationCode r\<rparr>) 1 (rows
           Organization_editing)
       (rows (Organization2_onSubmit Organization_sample Organization_editing))"
    by (rule T [THEN conjunct2, THEN conjunct1, THEN mp, OF h2_1, THEN mp, OF h2_2, THEN mp, OF
        h2_3])
  have h3_1: "editingId Subsidiary_editing = Some 1"
    by code_simp
  have c3: "updated Subsidiary.id Subsidiary_values
       (\<lambda>r. Subsidiary_sample\<lparr>subsidiaryCode := subsidiaryCode r\<rparr>) 1 (rows Subsidiary_editing)
       (rows (Subsidiary1_onSubmit Subsidiary_sample Subsidiary_editing))"
    by (rule T [THEN conjunct2, THEN conjunct2, THEN conjunct1, THEN mp, OF h3_1])
  have h4_1: "editingId Subsidiary_editing = Some 1"
    by code_simp
  have h4_2: "\<not> Subsidiary2_isDuplicate Subsidiary_sample Subsidiary_editing"
    by code_simp
  have c4: "updated Subsidiary.id Subsidiary_values
       (\<lambda>r. Subsidiary_sample\<lparr>subsidiaryCode := subsidiaryCode r\<rparr>) 1 (rows Subsidiary_editing)
       (rows (Subsidiary2_onSubmit Subsidiary_sample Subsidiary_editing))"
    by (rule T [THEN conjunct2, THEN conjunct2, THEN conjunct2, THEN conjunct1, THEN mp, OF
        h4_1, THEN mp, OF h4_2])
  have h5_1: "editingId Location_editing = Some 1"
    by code_simp
  have c5: "updated Location.id Location_values
       (\<lambda>r. Location_sample\<lparr>locationCode := locationCode r\<rparr>) 1 (rows Location_editing)
       (rows (Location1_onSubmit Location_sample Location_editing))"
    by (rule T [THEN conjunct2, THEN conjunct2, THEN conjunct2, THEN conjunct2, THEN conjunct1,
        THEN mp, OF h5_1])
  have h6_1: "editingId Location_editing = Some 1"
    by code_simp
  have h6_2: "\<not> Location2_isDuplicate Location_sample Location_editing"
    by code_simp
  have c6: "(\<exists>t. Location2_onSubmit Location_sample Location_editing = Inr t \<and>
     updated Location.id Location_values
       (\<lambda>r. Location_sample\<lparr>locationCode := locationCode r\<rparr>) 1 (rows Location_editing) (rows t))"
    by (rule T [THEN conjunct2, THEN conjunct2, THEN conjunct2, THEN conjunct2, THEN conjunct2,
        THEN conjunct1, THEN mp, OF h6_1, THEN mp, OF h6_2])
  have h7_1: "editingId Designation_editing = Some 1"
    by code_simp
  have c7: "updated Designation.id Designation_values
       (\<lambda>r. Designation_sample\<lparr>designationCode := designationCode r\<rparr>) 1 (rows Designation_editing)
       (rows (Designation1_onSubmit Designation_sample Designation_editing))"
    by (rule T [THEN conjunct2, THEN conjunct2, THEN conjunct2, THEN conjunct2, THEN conjunct2,
        THEN conjunct2, THEN conjunct1, THEN mp, OF h7_1])
  have h8_1: "editingId Designation_editing = Some 1"
    by code_simp
  have h8_2: "\<not> Designation2_isDuplicate Designation_sample Designation_editing"
    by code_simp
  have c8: "updated Designation.id Designation_values
       (\<lambda>r. Designation_sample\<lparr>designationCode := designationCode r\<rparr>) 1 (rows Designation_editing)
       (rows (Designation2_onSubmit Designation_sample Designation_editing))"
    by (rule T [THEN conjunct2, THEN conjunct2, THEN conjunct2, THEN conjunct2, THEN conjunct2,
        THEN conjunct2, THEN conjunct2, THEN mp, OF h8_1, THEN mp, OF h8_2])
  have x1: "map organizationCode
       (rows (Organization2_onSubmit Organization_sample Organization_editing)) = [''AAL'']"
    by code_simp
  have x2: "map organizationName
       (rows (Organization2_onSubmit Organization_sample Organization_editing))
     = [''Acme Limited'']"
    by code_simp
  show ?thesis
    using h1_1 h1_2 c1 h2_1 h2_2 h2_3 c2 h3_1 c3 h4_1 h4_2 c4 h5_1 c5 h6_1 h6_2 c6 h7_1 c7 h8_1
      h8_2 c8 x1 x2
    by blast
qed


section \<open>C3: create\<close>

lemma Organization1_create_appends:
  "(editingId sO = None \<longrightarrow>
   organizationSchema rEmail (formValues sO) = [] \<longrightarrow>
   \<not> Organization1_isDuplicate (formValues sO) sO \<longrightarrow>
   (\<exists>r. rows (Organization1_handleSubmit rEmail sO) = rows sO @ [r]
        \<and> Organization.id r = (if rows sO = [] then 1
                              else Max (Organization.id ` set (rows sO)) + 1)
        \<and> Organization_values r = formValues sO))"
  by (simp add: Organization1_handleSubmit_def Organization1_onSubmit_def
        Organization1_isDuplicate_def nextId_rows)

lemma Organization2_create_appends:
  "(editingId sO' = None \<longrightarrow>
   organizationSchema rEmail (formValues sO') = [] \<longrightarrow>
   \<not> Organization2_orgCodeDuplicate (formValues sO') sO' \<longrightarrow>
   \<not> Organization2_tenantDuplicate (formValues sO') sO' \<longrightarrow>
   (\<exists>r. rows (Organization2_handleSubmit rEmail sO') = rows sO' @ [r]
        \<and> Organization.id r = (if rows sO' = [] then 1
                              else Max (Organization.id ` set (rows sO')) + 1)
        \<and> Organization_values r = formValues sO'))"
  by (simp add: Organization2_handleSubmit_def Organization2_onSubmit_def
        Organization2_orgCodeDuplicate_def Organization2_tenantDuplicate_def nextId_rows)

lemma Subsidiary1_create_appends:
  "(editingId sS = None \<longrightarrow>
   subsidiarySchema (formValues sS) = [] \<longrightarrow>
   (\<exists>r. rows (Subsidiary1_handleSubmit sS) = rows sS @ [r]
        \<and> Subsidiary.id r = (if rows sS = [] then 1
                              else Max (Subsidiary.id ` set (rows sS)) + 1)
        \<and> Subsidiary_values r = formValues sS))"
  by (simp add: Subsidiary1_handleSubmit_def Subsidiary1_onSubmit_def nextId_rows)

lemma Subsidiary2_create_appends:
  "(editingId sS' = None \<longrightarrow>
   subsidiarySchema (formValues sS') = [] \<longrightarrow>
   \<not> Subsidiary2_isDuplicate (formValues sS') sS' \<longrightarrow>
   (\<exists>r. rows (Subsidiary2_handleSubmit sS') = rows sS' @ [r]
        \<and> Subsidiary.id r = (if rows sS' = [] then 1
                              else Max (Subsidiary.id ` set (rows sS')) + 1)
        \<and> Subsidiary_values r = formValues sS'))"
  by (simp add: Subsidiary2_handleSubmit_def Subsidiary2_onSubmit_def Subsidiary2_isDuplicate_def
        nextId_rows)

lemma Location1_create_appends:
  "(editingId sL = None \<longrightarrow>
   locationSchema (formValues sL) = [] \<longrightarrow>
   (\<exists>r. rows (Location1_handleSubmit sL) = rows sL @ [r]
        \<and> Location.id r = (if rows sL = [] then 1
                              else Max (Location.id ` set (rows sL)) + 1)
        \<and> Location_values r = formValues sL))"
  by (simp add: Location1_handleSubmit_def Location1_onSubmit_def nextId_rows)

lemma Location2_create_appends:
  "(editingId sL' = None \<longrightarrow>
   locationSchema (formValues sL') = [] \<longrightarrow>
   \<not> Location2_isDuplicate (formValues sL') sL' \<longrightarrow>
   (\<exists>t r. Location2_handleSubmit sL' = Inr t
        \<and> rows t = rows sL' @ [r]
        \<and> Location.id r = (if rows sL' = [] then 1
                              else Max (Location.id ` set (rows sL')) + 1)
        \<and> Location_values r = formValues sL'))"
  by (simp add: Location2_handleSubmit_def Location2_onSubmit_def Location2_isDuplicate_def
        nextId_rows)

lemma Designation1_create_appends:
  "(editingId sD = None \<longrightarrow>
   designationSchema (formValues sD) = [] \<longrightarrow>
   (\<exists>r. rows (Designation1_handleSubmit sD) = rows sD @ [r]
        \<and> Designation.id r = (if rows sD = [] then 1
                              else Max (Designation.id ` set (rows sD)) + 1)
        \<and> Designation_values r = formValues sD))"
  by (simp add: Designation1_handleSubmit_def Designation1_onSubmit_def nextId_rows)

lemma Designation2_create_appends:
  "(editingId sD' = None \<longrightarrow>
   designationSchema (formValues sD') = [] \<longrightarrow>
   \<not> Designation2_isDuplicate (formValues sD') sD' \<longrightarrow>
   (\<exists>r. rows (Designation2_handleSubmit sD') = rows sD' @ [r]
        \<and> Designation.id r = (if rows sD' = [] then 1
                              else Max (Designation.id ` set (rows sD')) + 1)
        \<and> Designation_values r = formValues sD'))"
  by (simp add: Designation2_handleSubmit_def Designation2_onSubmit_def
      Designation2_isDuplicate_def
        nextId_rows)

text \<open>
  C3. On every page, submitting a buffer that passes the schema (and the duplicate check,
  where there is one) while no record is being edited appends exactly one record to the
  store: its id is 1 if the store was empty and the largest stored id plus 1 otherwise,
  and its other fields are the buffer's. The records stored before are unchanged.
\<close>

theorem create_appends_record_with_next_id:
  "(editingId sO = None \<longrightarrow>
     organizationSchema rEmail (formValues sO) = [] \<longrightarrow>
     \<not> Organization1_isDuplicate (formValues sO) sO \<longrightarrow>
     (\<exists>r. rows (Organization1_handleSubmit rEmail sO) = rows sO @ [r]
        \<and> Organization.id r = (if rows sO = [] then 1
                              else Max (Organization.id ` set (rows sO)) + 1)
        \<and> Organization_values r = formValues sO))
   \<and> (editingId sO' = None \<longrightarrow>
     organizationSchema rEmail (formValues sO') = [] \<longrightarrow>
     \<not> Organization2_orgCodeDuplicate (formValues sO') sO' \<longrightarrow>
     \<not> Organization2_tenantDuplicate (formValues sO') sO' \<longrightarrow>
     (\<exists>r. rows (Organization2_handleSubmit rEmail sO') = rows sO' @ [r]
        \<and> Organization.id r = (if rows sO' = [] then 1
                              else Max (Organization.id ` set (rows sO')) + 1)
        \<and> Organization_values r = formValues sO'))
   \<and> (editingId sS = None \<longrightarrow>
     subsidiarySchema (formValues sS) = [] \<longrightarrow>
     (\<exists>r. rows (Subsidiary1_handleSubmit sS) = rows sS @ [r]
        \<and> Subsidiary.id r = (if rows sS = [] then 1
                              else Max (Subsidiary.id ` set (rows sS)) + 1)
        \<and> Subsidiary_values r = formValues sS))
   \<and> (editingId sS' = None \<longrightarrow>
     subsidiarySchema (formValues sS') = [] \<longrightarrow>
     \<not> Subsidiary2_isDuplicate (formValues sS') sS' \<longrightarrow>
     (\<exists>r. rows (Subsidiary2_handleSubmit sS') = rows sS' @ [r]
        \<and> Subsidiary.id r = (if rows sS' = [] then 1
                              else Max (Subsidiary.id ` set (rows sS')) + 1)
        \<and> Subsidiary_values r = formValues sS'))
   \<and> (editingId sL = None \<longrightarrow>
     locationSchema (formValues sL) = [] \<longrightarrow>
     (\<exists>r. rows (Location1_handleSubmit sL) = rows sL @ [r]
        \<and> Location.id r = (if rows sL = [] then 1
                              else Max (Location.id ` set (rows sL)) + 1)
        \<and> Location_values r = formValues sL))
   \<and> (editingId sL' = None \<longrightarrow>
     locationSchema (formValues sL') = [] \<longrightarrow>
     \<not> Location2_isDuplicate (formValues sL') sL' \<longrightarrow>
     (\<exists>t r. Location2_handleSubmit sL' = Inr t
        \<and> rows t = rows sL' @ [r]
        \<and> Location.id r = (if rows sL' = [] then 1
                              else Max (Location.id ` set (rows sL')) + 1)
        \<and> Location_values r = formValues sL'))
   \<and> (editingId sD = None \<longrightarrow>
     designationSchema (formValues sD) = [] \<longrightarrow>
     (\<exists>r. rows (Designation1_handleSubmit sD) = rows sD @ [r]
        \<and> Designation.id r = (if rows sD = [] then 1
                              else Max (Designation.id ` set (rows sD)) + 1)
        \<and> Designation_values r = formValues sD))
   \<and> (editingId sD' = None \<longrightarrow>
     designationSchema (formValues sD') = [] \<longrightarrow>
     \<not> Designation2_isDuplicate (formValues sD') sD' \<longrightarrow>
     (\<exists>r. rows (Designation2_handleSubmit sD') = rows sD' @ [r]
        \<and> Designation.id r = (if rows sD' = [] then 1
                              else Max (Designation.id ` set (rows sD')) + 1)
        \<and> Designation_values r = formValues sD'))"
  by (intro conjI Organization1_create_appends Organization2_create_appends
      Subsidiary1_create_appends
        Subsidiary2_create_appends Location1_create_appends Location2_create_appends
        Designation1_create_appends Designation2_create_appends)

text \<open>
  The statement of C3 at the example inputs: every hypothesis holds there.
\<close>

theorem create_appends_record_with_next_id_witness:
  "editingId Organization_adding = None
   \<and> organizationSchema example_rEmail (formValues Organization_adding) = []
   \<and> \<not> Organization1_isDuplicate (formValues Organization_adding) Organization_adding
   \<and> ((\<exists>r. rows (Organization1_handleSubmit example_rEmail Organization_adding) = rows
       Organization_adding @ [r]
        \<and> Organization.id r = (if rows Organization_adding = [] then 1
                              else Max (Organization.id ` set (rows Organization_adding)) + 1)
        \<and> Organization_values r = formValues Organization_adding))
   \<and> editingId Organization_adding = None
   \<and> organizationSchema example_rEmail (formValues Organization_adding) = []
   \<and> \<not> Organization2_orgCodeDuplicate (formValues Organization_adding) Organization_adding
   \<and> \<not> Organization2_tenantDuplicate (formValues Organization_adding) Organization_adding
   \<and> ((\<exists>r. rows (Organization2_handleSubmit example_rEmail Organization_adding) = rows
       Organization_adding @ [r]
        \<and> Organization.id r = (if rows Organization_adding = [] then 1
                              else Max (Organization.id ` set (rows Organization_adding)) + 1)
        \<and> Organization_values r = formValues Organization_adding))
   \<and> editingId Subsidiary_adding = None
   \<and> subsidiarySchema (formValues Subsidiary_adding) = []
   \<and> ((\<exists>r. rows (Subsidiary1_handleSubmit Subsidiary_adding) = rows Subsidiary_adding @ [r]
        \<and> Subsidiary.id r = (if rows Subsidiary_adding = [] then 1
                              else Max (Subsidiary.id ` set (rows Subsidiary_adding)) + 1)
        \<and> Subsidiary_values r = formValues Subsidiary_adding))
   \<and> editingId Subsidiary_adding = None
   \<and> subsidiarySchema (formValues Subsidiary_adding) = []
   \<and> \<not> Subsidiary2_isDuplicate (formValues Subsidiary_adding) Subsidiary_adding
   \<and> ((\<exists>r. rows (Subsidiary2_handleSubmit Subsidiary_adding) = rows Subsidiary_adding @ [r]
        \<and> Subsidiary.id r = (if rows Subsidiary_adding = [] then 1
                              else Max (Subsidiary.id ` set (rows Subsidiary_adding)) + 1)
        \<and> Subsidiary_values r = formValues Subsidiary_adding))
   \<and> editingId Location_adding = None
   \<and> locationSchema (formValues Location_adding) = []
   \<and> ((\<exists>r. rows (Location1_handleSubmit Location_adding) = rows Location_adding @ [r]
        \<and> Location.id r = (if rows Location_adding = [] then 1
                              else Max (Location.id ` set (rows Location_adding)) + 1)
        \<and> Location_values r = formValues Location_adding))
   \<and> editingId Location_adding = None
   \<and> locationSchema (formValues Location_adding) = []
   \<and> \<not> Location2_isDuplicate (formValues Location_adding) Location_adding
   \<and> ((\<exists>t r. Location2_handleSubmit Location_adding = Inr t
        \<and> rows t = rows Location_adding @ [r]
        \<and> Location.id r = (if rows Location_adding = [] then 1
                              else Max (Location.id ` set (rows Location_adding)) + 1)
        \<and> Location_values r = formValues Location_adding))
   \<and> editingId Designation_adding = None
   \<and> designationSchema (formValues Designation_adding) = []
   \<and> ((\<exists>r. rows (Designation1_handleSubmit Designation_adding) = rows Designation_adding @ [r]
        \<and> Designation.id r = (if rows Designation_adding = [] then 1
                              else Max (Designation.id ` set (rows Designation_adding)) + 1)
        \<and> Designation_values r = formValues Designation_adding))
   \<and> editingId Designation_adding = None
   \<and> designationSchema (formValues Designation_adding) = []
   \<and> \<not> Designation2_isDuplicate (formValues Designation_adding) Designation_adding
   \<and> ((\<exists>r. rows (Designation2_handleSubmit Designation_adding) = rows Designation_adding @ [r]
        \<and> Designation.id r = (if rows Designation_adding = [] then 1
                              else Max (Designation.id ` set (rows Designation_adding)) + 1)
        \<and> Designation_values r = formValues Designation_adding))
   \<and> rows (Designation2_handleSubmit Designation_adding)
     = initialDesignations
       @ [\<lparr>designationCode = ''MGR'', designationName = ''Manager'', Designation.id = 3\<rparr>]"
proof -
  note T = create_appends_record_with_next_id
    [where rEmail = example_rEmail
       and sO = "Organization_adding"
       and sO' = "Organization_adding"
       and sS = "Subsidiary_adding"
       and sS' = "Subsidiary_adding"
       and sL = "Location_adding"
       and sL' = "Location_adding"
       and sD = "Designation_adding"
       and sD' = "Designation_adding"]
  have h1_1: "editingId Organization_adding = None"
    by code_simp
  have h1_2: "organizationSchema example_rEmail (formValues Organization_adding) = []"
    by code_simp
  have h1_3: "\<not> Organization1_isDuplicate (formValues Organization_adding) Organization_adding"
    by code_simp
  have c1: "(\<exists>r. rows (Organization1_handleSubmit example_rEmail Organization_adding) = rows
      Organization_adding @ [r]
        \<and> Organization.id r = (if rows Organization_adding = [] then 1
                              else Max (Organization.id ` set (rows Organization_adding)) + 1)
        \<and> Organization_values r = formValues Organization_adding)"
    by (rule T [THEN conjunct1, THEN mp, OF h1_1, THEN mp, OF h1_2, THEN mp, OF h1_3])
  have h2_1: "editingId Organization_adding = None"
    by code_simp
  have h2_2: "organizationSchema example_rEmail (formValues Organization_adding) = []"
    by code_simp
  have h2_3: "\<not> Organization2_orgCodeDuplicate (formValues Organization_adding)
      Organization_adding"
    by code_simp
  have h2_4: "\<not> Organization2_tenantDuplicate (formValues Organization_adding)
      Organization_adding"
    by code_simp
  have c2: "(\<exists>r. rows (Organization2_handleSubmit example_rEmail Organization_adding) = rows
      Organization_adding @ [r]
        \<and> Organization.id r = (if rows Organization_adding = [] then 1
                              else Max (Organization.id ` set (rows Organization_adding)) + 1)
        \<and> Organization_values r = formValues Organization_adding)"
    by (rule T [THEN conjunct2, THEN conjunct1, THEN mp, OF h2_1, THEN mp, OF h2_2, THEN mp, OF
        h2_3, THEN mp, OF h2_4])
  have h3_1: "editingId Subsidiary_adding = None"
    by code_simp
  have h3_2: "subsidiarySchema (formValues Subsidiary_adding) = []"
    by code_simp
  have c3: "(\<exists>r. rows (Subsidiary1_handleSubmit Subsidiary_adding) = rows Subsidiary_adding @ [r]
        \<and> Subsidiary.id r = (if rows Subsidiary_adding = [] then 1
                              else Max (Subsidiary.id ` set (rows Subsidiary_adding)) + 1)
        \<and> Subsidiary_values r = formValues Subsidiary_adding)"
    by (rule T [THEN conjunct2, THEN conjunct2, THEN conjunct1, THEN mp, OF h3_1, THEN mp, OF
        h3_2])
  have h4_1: "editingId Subsidiary_adding = None"
    by code_simp
  have h4_2: "subsidiarySchema (formValues Subsidiary_adding) = []"
    by code_simp
  have h4_3: "\<not> Subsidiary2_isDuplicate (formValues Subsidiary_adding) Subsidiary_adding"
    by code_simp
  have c4: "(\<exists>r. rows (Subsidiary2_handleSubmit Subsidiary_adding) = rows Subsidiary_adding @ [r]
        \<and> Subsidiary.id r = (if rows Subsidiary_adding = [] then 1
                              else Max (Subsidiary.id ` set (rows Subsidiary_adding)) + 1)
        \<and> Subsidiary_values r = formValues Subsidiary_adding)"
    by (rule T [THEN conjunct2, THEN conjunct2, THEN conjunct2, THEN conjunct1, THEN mp, OF
        h4_1, THEN mp, OF h4_2, THEN mp, OF h4_3])
  have h5_1: "editingId Location_adding = None"
    by code_simp
  have h5_2: "locationSchema (formValues Location_adding) = []"
    by code_simp
  have c5: "(\<exists>r. rows (Location1_handleSubmit Location_adding) = rows Location_adding @ [r]
        \<and> Location.id r = (if rows Location_adding = [] then 1
                              else Max (Location.id ` set (rows Location_adding)) + 1)
        \<and> Location_values r = formValues Location_adding)"
    by (rule T [THEN conjunct2, THEN conjunct2, THEN conjunct2, THEN conjunct2, THEN conjunct1,
        THEN mp, OF h5_1, THEN mp, OF h5_2])
  have h6_1: "editingId Location_adding = None"
    by code_simp
  have h6_2: "locationSchema (formValues Location_adding) = []"
    by code_simp
  have h6_3: "\<not> Location2_isDuplicate (formValues Location_adding) Location_adding"
    by code_simp
  have c6: "(\<exists>t r. Location2_handleSubmit Location_adding = Inr t
        \<and> rows t = rows Location_adding @ [r]
        \<and> Location.id r = (if rows Location_adding = [] then 1
                              else Max (Location.id ` set (rows Location_adding)) + 1)
        \<and> Location_values r = formValues Location_adding)"
    by (rule T [THEN conjunct2, THEN conjunct2, THEN conjunct2, THEN conjunct2, THEN conjunct2,
        THEN conjunct1, THEN mp, OF h6_1, THEN mp, OF h6_2, THEN mp, OF h6_3])
  have h7_1: "editingId Designation_adding = None"
    by code_simp
  have h7_2: "designationSchema (formValues Designation_adding) = []"
    by code_simp
  have c7: "(\<exists>r. rows (Designation1_handleSubmit Designation_adding) = rows Designation_adding @
      [r]
        \<and> Designation.id r = (if rows Designation_adding = [] then 1
                              else Max (Designation.id ` set (rows Designation_adding)) + 1)
        \<and> Designation_values r = formValues Designation_adding)"
    by (rule T [THEN conjunct2, THEN conjunct2, THEN conjunct2, THEN conjunct2, THEN conjunct2,
        THEN conjunct2, THEN conjunct1, THEN mp, OF h7_1, THEN mp, OF h7_2])
  have h8_1: "editingId Designation_adding = None"
    by code_simp
  have h8_2: "designationSchema (formValues Designation_adding) = []"
    by code_simp
  have h8_3: "\<not> Designation2_isDuplicate (formValues Designation_adding) Designation_adding"
    by code_simp
  have c8: "(\<exists>r. rows (Designation2_handleSubmit Designation_adding) = rows Designation_adding @
      [r]
        \<and> Designation.id r = (if rows Designation_adding = [] then 1
                              else Max (Designation.id ` set (rows Designation_adding)) + 1)
        \<and> Designation_values r = formValues Designation_adding)"
    by (rule T [THEN conjunct2, THEN conjunct2, THEN conjunct2, THEN conjunct2, THEN conjunct2,
        THEN conjunct2, THEN conjunct2, THEN mp, OF h8_1, THEN mp, OF h8_2, THEN mp, OF h8_3])
  have x1: "rows (Designation2_handleSubmit Designation_adding)
     = initialDesignations
       @ [\<lparr>designationCode = ''MGR'', designationName = ''Manager'', Designation.id = 3\<rparr>]"
    by code_simp
  show ?thesis
    using h1_1 h1_2 h1_3 c1 h2_1 h2_2 h2_3 h2_4 c2 h3_1 h3_2 c3 h4_1 h4_2 h4_3 c4 h5_1 h5_2 c5
      h6_1 h6_2 h6_3 c6 h7_1 h7_2 c7 h8_1 h8_2 h8_3 c8 x1
    by blast
qed


section \<open>C4: ids\<close>

lemma Organization1_ids_distinct:
  "(ids_stay_exact (map Organization.id initialOrganizations) (length esO) \<longrightarrow>
   distinct (map Organization.id (rows (fold (Organization1_step rEmail) esO
       Organization_init))))"
  by (auto intro!: fold_invariant [where P = "\<lambda>t. distinct (map Organization.id (rows t))"]
        simp add: Organization_init_def initialOrganizations_def Organization1_handle_distinct)

lemma Organization1_ids_exact:
  "(ids_stay_exact (map Organization.id initialOrganizations) (length esO) \<longrightarrow>
   rO \<in> set (rows (fold (Organization1_step rEmail) esO Organization_init)) \<longrightarrow>
   isSafeInteger (Organization.id rO))"
proof (intro impI)
  assume ex: "ids_stay_exact (map Organization.id initialOrganizations) (length esO)"
    and r: "rO \<in> set (rows (fold (Organization1_step rEmail) esO Organization_init))"
  from ex have "ids_stay_exact (map Organization.id (rows Organization_init)) (length esO)"
    by (simp add: Organization_init_def)
  then show "isSafeInteger (Organization.id rO)"
    using Organization1_step_bounds r by (rule ids_exact_fold)
qed

lemma Organization1_id_assigned_again:
  "(editingId sO = None \<longrightarrow>
   isFormOpen sO \<longrightarrow>
   ids_stay_exact (map Organization.id (rows sO)) 1 \<longrightarrow>
   organizationSchema rEmail (formValues sO) = [] \<longrightarrow>
   \<not> Organization1_isDuplicate (formValues sO) sO \<longrightarrow>
   organizationSchema rEmail dO = [] \<longrightarrow>
   \<not> Organization1_isDuplicate dO sO \<longrightarrow>
   rows (fold (Organization1_step rEmail)
             [Submit, Delete (nextId (map Organization.id (rows sO))) True, AddNew, Input dO,
                 Submit] sO)
       = rows sO @ [Organization_new (nextId (map Organization.id (rows sO))) dO])"
proof (intro impI)
  assume e: "editingId sO = None"
    and o: "isFormOpen sO"
    and x: "ids_stay_exact (map Organization.id (rows sO)) 1"
    and v: "organizationSchema rEmail (formValues sO) = []"
    and nd: "\<not> Organization1_isDuplicate (formValues sO) sO"
    and v2: "organizationSchema rEmail dO = []"
    and nd2: "\<not> Organization1_isDuplicate dO sO"
  let ?n = "nextId (map Organization.id (rows sO))"
  define s1 where "s1 = Organization1_step rEmail Submit sO"
  define s2 where "s2 = Organization1_step rEmail (Delete ?n True) s1"
  define s3 where "s3 = Organization1_step rEmail AddNew s2"
  define s4 where "s4 = Organization1_step rEmail (Input dO) s3"
  have r1: "rows s1 = rows sO @ [Organization_new ?n (formValues sO)]"
    unfolding s1_def using e o v nd by (rule Organization1_created(1))
  have e1: "editingId s1 = None"
    unfolding s1_def using e o v nd by (rule Organization1_created(2))
  have r2: "rows s2 = rows sO" and e2: "editingId s2 = None"
    unfolding s2_def using r1 e1 by (simp_all add: Organization1_handleDelete_def Let_def
        filter_nextId)
  have r3: "rows s3 = rows sO" and e3: "editingId s3 = None" and o3: "isFormOpen s3"
    unfolding s3_def using r2 e2 by (simp_all add: Organization1_handleAddNew_def)
  have r4: "rows s4 = rows sO" and e4: "editingId s4 = None" and o4: "isFormOpen s4"
    and f4: "formValues s4 = dO"
    unfolding s4_def using r3 e3 o3 by (simp_all add: Organization1_typed)
  have v4: "organizationSchema rEmail (formValues s4) = []"
    unfolding f4 by (rule v2)
  have nd4: "\<not> Organization1_isDuplicate (formValues s4) s4"
    using nd2 by (simp add: Organization1_isDuplicate_def r4 e4 f4 e)
  have "rows (Organization1_step rEmail Submit s4)
          = rows s4 @ [Organization_new (nextId (map Organization.id (rows s4))) (formValues s4)]"
    using e4 o4 v4 nd4 by (rule Organization1_created(1))
  moreover have "fold (Organization1_step rEmail) [Submit, Delete ?n True, AddNew, Input dO,
      Submit] sO
      = Organization1_step rEmail Submit s4"
    by (simp add: s4_def s3_def s2_def s1_def)
  ultimately show "rows (fold (Organization1_step rEmail)
             [Submit, Delete (nextId (map Organization.id (rows sO))) True, AddNew, Input dO,
                 Submit] sO)
       = rows sO @ [Organization_new (nextId (map Organization.id (rows sO))) dO]"
    by (simp add: r4 f4)
qed

lemma Organization2_ids_distinct:
  "(ids_stay_exact (map Organization.id initialOrganizations) (length esO') \<longrightarrow>
   distinct (map Organization.id (rows (fold (Organization2_step rEmail) esO'
       Organization_init))))"
  by (auto intro!: fold_invariant [where P = "\<lambda>t. distinct (map Organization.id (rows t))"]
        simp add: Organization_init_def initialOrganizations_def Organization2_handle_distinct)

lemma Organization2_ids_exact:
  "(ids_stay_exact (map Organization.id initialOrganizations) (length esO') \<longrightarrow>
   rO' \<in> set (rows (fold (Organization2_step rEmail) esO' Organization_init)) \<longrightarrow>
   isSafeInteger (Organization.id rO'))"
proof (intro impI)
  assume ex: "ids_stay_exact (map Organization.id initialOrganizations) (length esO')"
    and r: "rO' \<in> set (rows (fold (Organization2_step rEmail) esO' Organization_init))"
  from ex have "ids_stay_exact (map Organization.id (rows Organization_init)) (length esO')"
    by (simp add: Organization_init_def)
  then show "isSafeInteger (Organization.id rO')"
    using Organization2_step_bounds r by (rule ids_exact_fold)
qed

lemma Organization2_id_assigned_again:
  "(editingId sO' = None \<longrightarrow>
   isFormOpen sO' \<longrightarrow>
   ids_stay_exact (map Organization.id (rows sO')) 1 \<longrightarrow>
   organizationSchema rEmail (formValues sO') = [] \<longrightarrow>
   \<not> Organization2_orgCodeDuplicate (formValues sO') sO' \<longrightarrow>
   \<not> Organization2_tenantDuplicate (formValues sO') sO' \<longrightarrow>
   organizationSchema rEmail dO' = [] \<longrightarrow>
   \<not> Organization2_orgCodeDuplicate dO' sO' \<longrightarrow>
   \<not> Organization2_tenantDuplicate dO' sO' \<longrightarrow>
   rows (fold (Organization2_step rEmail)
             [Submit, Delete (nextId (map Organization.id (rows sO'))) True, AddNew, Input dO',
                 Submit] sO')
       = rows sO' @ [Organization_new (nextId (map Organization.id (rows sO'))) dO'])"
proof (intro impI)
  assume e: "editingId sO' = None"
    and o: "isFormOpen sO'"
    and x: "ids_stay_exact (map Organization.id (rows sO')) 1"
    and v: "organizationSchema rEmail (formValues sO') = []"
    and nd: "\<not> Organization2_orgCodeDuplicate (formValues sO') sO'"
    and nt: "\<not> Organization2_tenantDuplicate (formValues sO') sO'"
    and v2: "organizationSchema rEmail dO' = []"
    and nd2: "\<not> Organization2_orgCodeDuplicate dO' sO'"
    and nt2: "\<not> Organization2_tenantDuplicate dO' sO'"
  let ?n = "nextId (map Organization.id (rows sO'))"
  define s1 where "s1 = Organization2_step rEmail Submit sO'"
  define s2 where "s2 = Organization2_step rEmail (Delete ?n True) s1"
  define s3 where "s3 = Organization2_step rEmail AddNew s2"
  define s4 where "s4 = Organization2_step rEmail (Input dO') s3"
  have r1: "rows s1 = rows sO' @ [Organization_new ?n (formValues sO')]"
    unfolding s1_def using e o v nd nt by (rule Organization2_created(1))
  have e1: "editingId s1 = None"
    unfolding s1_def using e o v nd nt by (rule Organization2_created(2))
  have r2: "rows s2 = rows sO'" and e2: "editingId s2 = None"
    unfolding s2_def using r1 e1 by (simp_all add: Organization2_handleDelete_def Let_def
        filter_nextId)
  have r3: "rows s3 = rows sO'" and e3: "editingId s3 = None" and o3: "isFormOpen s3"
    unfolding s3_def using r2 e2 by (simp_all add: Organization2_handleAddNew_def)
  have r4: "rows s4 = rows sO'" and e4: "editingId s4 = None" and o4: "isFormOpen s4"
    and f4: "formValues s4 = dO'"
    unfolding s4_def using r3 e3 o3 by (simp_all add: Organization2_typed)
  have v4: "organizationSchema rEmail (formValues s4) = []"
    unfolding f4 by (rule v2)
  have nd4: "\<not> Organization2_orgCodeDuplicate (formValues s4) s4"
    using nd2 by (simp add: Organization2_orgCodeDuplicate_def r4 e4 f4 e)
  have nt4: "\<not> Organization2_tenantDuplicate (formValues s4) s4"
    using nt2 by (simp add: Organization2_tenantDuplicate_def r4 e4 f4 e)
  have "rows (Organization2_step rEmail Submit s4)
          = rows s4 @ [Organization_new (nextId (map Organization.id (rows s4))) (formValues s4)]"
    using e4 o4 v4 nd4 nt4 by (rule Organization2_created(1))
  moreover have "fold (Organization2_step rEmail) [Submit, Delete ?n True, AddNew, Input dO',
      Submit] sO'
      = Organization2_step rEmail Submit s4"
    by (simp add: s4_def s3_def s2_def s1_def)
  ultimately show "rows (fold (Organization2_step rEmail)
             [Submit, Delete (nextId (map Organization.id (rows sO'))) True, AddNew, Input dO',
                 Submit] sO')
       = rows sO' @ [Organization_new (nextId (map Organization.id (rows sO'))) dO']"
    by (simp add: r4 f4)
qed

lemma Subsidiary1_ids_distinct:
  "(distinct (map Subsidiary.id seedS) \<longrightarrow>
   ids_stay_exact (map Subsidiary.id seedS) (length esS) \<longrightarrow>
   distinct (map Subsidiary.id (rows (fold Subsidiary1_step esS (Subsidiary_init seedS)))))"
  by (auto intro!: fold_invariant [where P = "\<lambda>t. distinct (map Subsidiary.id (rows t))"]
        simp add: Subsidiary_init_def Subsidiary1_handle_distinct)

lemma Subsidiary1_ids_exact:
  "(ids_stay_exact (map Subsidiary.id seedS) (length esS) \<longrightarrow>
   rS \<in> set (rows (fold Subsidiary1_step esS (Subsidiary_init seedS))) \<longrightarrow>
   isSafeInteger (Subsidiary.id rS))"
proof (intro impI)
  assume ex: "ids_stay_exact (map Subsidiary.id seedS) (length esS)"
    and r: "rS \<in> set (rows (fold Subsidiary1_step esS (Subsidiary_init seedS)))"
  from ex have "ids_stay_exact (map Subsidiary.id (rows (Subsidiary_init seedS))) (length esS)"
    by (simp add: Subsidiary_init_def)
  then show "isSafeInteger (Subsidiary.id rS)"
    using Subsidiary1_step_bounds r by (rule ids_exact_fold)
qed

lemma Subsidiary1_id_assigned_again:
  "(editingId sS = None \<longrightarrow>
   isFormOpen sS \<longrightarrow>
   ids_stay_exact (map Subsidiary.id (rows sS)) 1 \<longrightarrow>
   subsidiarySchema (formValues sS) = [] \<longrightarrow>
   subsidiarySchema dS = [] \<longrightarrow>
   rows (fold Subsidiary1_step
             [Submit, Delete (nextId (map Subsidiary.id (rows sS))) True, AddNew, Input dS,
                 Submit] sS)
       = rows sS @ [Subsidiary_new (nextId (map Subsidiary.id (rows sS))) dS])"
proof (intro impI)
  assume e: "editingId sS = None"
    and o: "isFormOpen sS"
    and x: "ids_stay_exact (map Subsidiary.id (rows sS)) 1"
    and v: "subsidiarySchema (formValues sS) = []"
    and v2: "subsidiarySchema dS = []"
  let ?n = "nextId (map Subsidiary.id (rows sS))"
  define s1 where "s1 = Subsidiary1_step Submit sS"
  define s2 where "s2 = Subsidiary1_step (Delete ?n True) s1"
  define s3 where "s3 = Subsidiary1_step AddNew s2"
  define s4 where "s4 = Subsidiary1_step (Input dS) s3"
  have r1: "rows s1 = rows sS @ [Subsidiary_new ?n (formValues sS)]"
    unfolding s1_def using e o v  by (rule Subsidiary1_created(1))
  have e1: "editingId s1 = None"
    unfolding s1_def using e o v  by (rule Subsidiary1_created(2))
  have r2: "rows s2 = rows sS" and e2: "editingId s2 = None"
    unfolding s2_def using r1 e1 by (simp_all add: Subsidiary1_handleDelete_def Let_def
        filter_nextId)
  have r3: "rows s3 = rows sS" and e3: "editingId s3 = None" and o3: "isFormOpen s3"
    unfolding s3_def using r2 e2 by (simp_all add: Subsidiary1_handleAddNew_def)
  have r4: "rows s4 = rows sS" and e4: "editingId s4 = None" and o4: "isFormOpen s4"
    and f4: "formValues s4 = dS"
    unfolding s4_def using r3 e3 o3 by (simp_all add: Subsidiary1_typed)
  have v4: "subsidiarySchema (formValues s4) = []"
    unfolding f4 by (rule v2)
  have "rows (Subsidiary1_step Submit s4)
          = rows s4 @ [Subsidiary_new (nextId (map Subsidiary.id (rows s4))) (formValues s4)]"
    using e4 o4 v4  by (rule Subsidiary1_created(1))
  moreover have "fold Subsidiary1_step [Submit, Delete ?n True, AddNew, Input dS, Submit] sS
      = Subsidiary1_step Submit s4"
    by (simp add: s4_def s3_def s2_def s1_def)
  ultimately show "rows (fold Subsidiary1_step
             [Submit, Delete (nextId (map Subsidiary.id (rows sS))) True, AddNew, Input dS,
                 Submit] sS)
       = rows sS @ [Subsidiary_new (nextId (map Subsidiary.id (rows sS))) dS]"
    by (simp add: r4 f4)
qed

lemma Subsidiary2_ids_distinct:
  "(distinct (map Subsidiary.id seedS') \<longrightarrow>
   ids_stay_exact (map Subsidiary.id seedS') (length esS') \<longrightarrow>
   distinct (map Subsidiary.id (rows (fold Subsidiary2_step esS' (Subsidiary_init seedS')))))"
  by (auto intro!: fold_invariant [where P = "\<lambda>t. distinct (map Subsidiary.id (rows t))"]
        simp add: Subsidiary_init_def Subsidiary2_handle_distinct)

lemma Subsidiary2_ids_exact:
  "(ids_stay_exact (map Subsidiary.id seedS') (length esS') \<longrightarrow>
   rS' \<in> set (rows (fold Subsidiary2_step esS' (Subsidiary_init seedS'))) \<longrightarrow>
   isSafeInteger (Subsidiary.id rS'))"
proof (intro impI)
  assume ex: "ids_stay_exact (map Subsidiary.id seedS') (length esS')"
    and r: "rS' \<in> set (rows (fold Subsidiary2_step esS' (Subsidiary_init seedS')))"
  from ex have "ids_stay_exact (map Subsidiary.id (rows (Subsidiary_init seedS'))) (length esS')"
    by (simp add: Subsidiary_init_def)
  then show "isSafeInteger (Subsidiary.id rS')"
    using Subsidiary2_step_bounds r by (rule ids_exact_fold)
qed

lemma Subsidiary2_id_assigned_again:
  "(editingId sS' = None \<longrightarrow>
   isFormOpen sS' \<longrightarrow>
   ids_stay_exact (map Subsidiary.id (rows sS')) 1 \<longrightarrow>
   subsidiarySchema (formValues sS') = [] \<longrightarrow>
   \<not> Subsidiary2_isDuplicate (formValues sS') sS' \<longrightarrow>
   subsidiarySchema dS' = [] \<longrightarrow>
   \<not> Subsidiary2_isDuplicate dS' sS' \<longrightarrow>
   rows (fold Subsidiary2_step
             [Submit, Delete (nextId (map Subsidiary.id (rows sS'))) True, AddNew, Input dS',
                 Submit] sS')
       = rows sS' @ [Subsidiary_new (nextId (map Subsidiary.id (rows sS'))) dS'])"
proof (intro impI)
  assume e: "editingId sS' = None"
    and o: "isFormOpen sS'"
    and x: "ids_stay_exact (map Subsidiary.id (rows sS')) 1"
    and v: "subsidiarySchema (formValues sS') = []"
    and nd: "\<not> Subsidiary2_isDuplicate (formValues sS') sS'"
    and v2: "subsidiarySchema dS' = []"
    and nd2: "\<not> Subsidiary2_isDuplicate dS' sS'"
  let ?n = "nextId (map Subsidiary.id (rows sS'))"
  define s1 where "s1 = Subsidiary2_step Submit sS'"
  define s2 where "s2 = Subsidiary2_step (Delete ?n True) s1"
  define s3 where "s3 = Subsidiary2_step AddNew s2"
  define s4 where "s4 = Subsidiary2_step (Input dS') s3"
  have r1: "rows s1 = rows sS' @ [Subsidiary_new ?n (formValues sS')]"
    unfolding s1_def using e o v nd by (rule Subsidiary2_created(1))
  have e1: "editingId s1 = None"
    unfolding s1_def using e o v nd by (rule Subsidiary2_created(2))
  have r2: "rows s2 = rows sS'" and e2: "editingId s2 = None"
    unfolding s2_def using r1 e1 by (simp_all add: Subsidiary2_handleDelete_def Let_def
        filter_nextId)
  have r3: "rows s3 = rows sS'" and e3: "editingId s3 = None" and o3: "isFormOpen s3"
    unfolding s3_def using r2 e2 by (simp_all add: Subsidiary2_handleAddNew_def)
  have r4: "rows s4 = rows sS'" and e4: "editingId s4 = None" and o4: "isFormOpen s4"
    and f4: "formValues s4 = dS'"
    unfolding s4_def using r3 e3 o3 by (simp_all add: Subsidiary2_typed)
  have v4: "subsidiarySchema (formValues s4) = []"
    unfolding f4 by (rule v2)
  have nd4: "\<not> Subsidiary2_isDuplicate (formValues s4) s4"
    using nd2 by (simp add: Subsidiary2_isDuplicate_def r4 e4 f4 e)
  have "rows (Subsidiary2_step Submit s4)
          = rows s4 @ [Subsidiary_new (nextId (map Subsidiary.id (rows s4))) (formValues s4)]"
    using e4 o4 v4 nd4 by (rule Subsidiary2_created(1))
  moreover have "fold Subsidiary2_step [Submit, Delete ?n True, AddNew, Input dS', Submit] sS'
      = Subsidiary2_step Submit s4"
    by (simp add: s4_def s3_def s2_def s1_def)
  ultimately show "rows (fold Subsidiary2_step
             [Submit, Delete (nextId (map Subsidiary.id (rows sS'))) True, AddNew, Input dS',
                 Submit] sS')
       = rows sS' @ [Subsidiary_new (nextId (map Subsidiary.id (rows sS'))) dS']"
    by (simp add: r4 f4)
qed

lemma Location1_ids_distinct:
  "(ids_stay_exact (map Location.id initialLocations) (length esL) \<longrightarrow>
   distinct (map Location.id (rows (fold Location1_step esL Location_init))))"
  by (auto intro!: fold_invariant [where P = "\<lambda>t. distinct (map Location.id (rows t))"]
        simp add: Location_init_def initialLocations_def Location1_handle_distinct)

lemma Location1_ids_exact:
  "(ids_stay_exact (map Location.id initialLocations) (length esL) \<longrightarrow>
   rL \<in> set (rows (fold Location1_step esL Location_init)) \<longrightarrow>
   isSafeInteger (Location.id rL))"
proof (intro impI)
  assume ex: "ids_stay_exact (map Location.id initialLocations) (length esL)"
    and r: "rL \<in> set (rows (fold Location1_step esL Location_init))"
  from ex have "ids_stay_exact (map Location.id (rows Location_init)) (length esL)"
    by (simp add: Location_init_def)
  then show "isSafeInteger (Location.id rL)"
    using Location1_step_bounds r by (rule ids_exact_fold)
qed

lemma Location1_id_assigned_again:
  "(editingId sL = None \<longrightarrow>
   isFormOpen sL \<longrightarrow>
   ids_stay_exact (map Location.id (rows sL)) 1 \<longrightarrow>
   locationSchema (formValues sL) = [] \<longrightarrow>
   locationSchema dL = [] \<longrightarrow>
   rows (fold Location1_step
             [Submit, Delete (nextId (map Location.id (rows sL))) True, AddNew, Input dL,
                 Submit] sL)
       = rows sL @ [Location_new (nextId (map Location.id (rows sL))) dL])"
proof (intro impI)
  assume e: "editingId sL = None"
    and o: "isFormOpen sL"
    and x: "ids_stay_exact (map Location.id (rows sL)) 1"
    and v: "locationSchema (formValues sL) = []"
    and v2: "locationSchema dL = []"
  let ?n = "nextId (map Location.id (rows sL))"
  define s1 where "s1 = Location1_step Submit sL"
  define s2 where "s2 = Location1_step (Delete ?n True) s1"
  define s3 where "s3 = Location1_step AddNew s2"
  define s4 where "s4 = Location1_step (Input dL) s3"
  have r1: "rows s1 = rows sL @ [Location_new ?n (formValues sL)]"
    unfolding s1_def using e o v  by (rule Location1_created(1))
  have e1: "editingId s1 = None"
    unfolding s1_def using e o v  by (rule Location1_created(2))
  have r2: "rows s2 = rows sL" and e2: "editingId s2 = None"
    unfolding s2_def using r1 e1 by (simp_all add: Location1_handleDelete_def Let_def
        filter_nextId)
  have r3: "rows s3 = rows sL" and e3: "editingId s3 = None" and o3: "isFormOpen s3"
    unfolding s3_def using r2 e2 by (simp_all add: Location1_handleAddNew_def)
  have r4: "rows s4 = rows sL" and e4: "editingId s4 = None" and o4: "isFormOpen s4"
    and f4: "formValues s4 = dL"
    unfolding s4_def using r3 e3 o3 by (simp_all add: Location1_typed)
  have v4: "locationSchema (formValues s4) = []"
    unfolding f4 by (rule v2)
  have "rows (Location1_step Submit s4)
          = rows s4 @ [Location_new (nextId (map Location.id (rows s4))) (formValues s4)]"
    using e4 o4 v4  by (rule Location1_created(1))
  moreover have "fold Location1_step [Submit, Delete ?n True, AddNew, Input dL, Submit] sL
      = Location1_step Submit s4"
    by (simp add: s4_def s3_def s2_def s1_def)
  ultimately show "rows (fold Location1_step
             [Submit, Delete (nextId (map Location.id (rows sL))) True, AddNew, Input dL,
                 Submit] sL)
       = rows sL @ [Location_new (nextId (map Location.id (rows sL))) dL]"
    by (simp add: r4 f4)
qed

lemma Location2_ids_distinct:
  "(ids_stay_exact (map Location.id initialLocations) (length esL') \<longrightarrow>
   distinct (map Location.id (rows (fold Location2_step esL' Location_init))))"
  by (auto intro!: fold_invariant [where P = "\<lambda>t. distinct (map Location.id (rows t))"]
        simp add: Location_init_def initialLocations_def Location2_handle_distinct)

lemma Location2_ids_exact:
  "(ids_stay_exact (map Location.id initialLocations) (length esL') \<longrightarrow>
   rL' \<in> set (rows (fold Location2_step esL' Location_init)) \<longrightarrow>
   isSafeInteger (Location.id rL'))"
proof (intro impI)
  assume ex: "ids_stay_exact (map Location.id initialLocations) (length esL')"
    and r: "rL' \<in> set (rows (fold Location2_step esL' Location_init))"
  from ex have "ids_stay_exact (map Location.id (rows Location_init)) (length esL')"
    by (simp add: Location_init_def)
  then show "isSafeInteger (Location.id rL')"
    using Location2_step_bounds r by (rule ids_exact_fold)
qed

lemma Location2_id_assigned_again:
  "(editingId sL' = None \<longrightarrow>
   isFormOpen sL' \<longrightarrow>
   ids_stay_exact (map Location.id (rows sL')) 1 \<longrightarrow>
   locationSchema (formValues sL') = [] \<longrightarrow>
   \<not> Location2_isDuplicate (formValues sL') sL' \<longrightarrow>
   locationSchema dL' = [] \<longrightarrow>
   \<not> Location2_isDuplicate dL' sL' \<longrightarrow>
   rows (fold Location2_step
             [Submit, Delete (nextId (map Location.id (rows sL'))) True, AddNew, Input dL',
                 Submit] sL')
       = rows sL' @ [Location_new (nextId (map Location.id (rows sL'))) dL'])"
proof (intro impI)
  assume e: "editingId sL' = None"
    and o: "isFormOpen sL'"
    and x: "ids_stay_exact (map Location.id (rows sL')) 1"
    and v: "locationSchema (formValues sL') = []"
    and nd: "\<not> Location2_isDuplicate (formValues sL') sL'"
    and v2: "locationSchema dL' = []"
    and nd2: "\<not> Location2_isDuplicate dL' sL'"
  let ?n = "nextId (map Location.id (rows sL'))"
  define s1 where "s1 = Location2_step Submit sL'"
  define s2 where "s2 = Location2_step (Delete ?n True) s1"
  define s3 where "s3 = Location2_step AddNew s2"
  define s4 where "s4 = Location2_step (Input dL') s3"
  have r1: "rows s1 = rows sL' @ [Location_new ?n (formValues sL')]"
    unfolding s1_def using e o v nd by (rule Location2_created(1))
  have e1: "editingId s1 = None"
    unfolding s1_def using e o v nd by (rule Location2_created(2))
  have r2: "rows s2 = rows sL'" and e2: "editingId s2 = None"
    unfolding s2_def using r1 e1 by (simp_all add: Location2_handleDelete_def Let_def
        filter_nextId)
  have r3: "rows s3 = rows sL'" and e3: "editingId s3 = None" and o3: "isFormOpen s3"
    unfolding s3_def using r2 e2 by (simp_all add: Location2_handleAddNew_def)
  have r4: "rows s4 = rows sL'" and e4: "editingId s4 = None" and o4: "isFormOpen s4"
    and f4: "formValues s4 = dL'"
    unfolding s4_def using r3 e3 o3 by (simp_all add: Location2_typed)
  have v4: "locationSchema (formValues s4) = []"
    unfolding f4 by (rule v2)
  have nd4: "\<not> Location2_isDuplicate (formValues s4) s4"
    using nd2 by (simp add: Location2_isDuplicate_def r4 e4 f4 e)
  have "rows (Location2_step Submit s4)
          = rows s4 @ [Location_new (nextId (map Location.id (rows s4))) (formValues s4)]"
    using e4 o4 v4 nd4 by (rule Location2_created(1))
  moreover have "fold Location2_step [Submit, Delete ?n True, AddNew, Input dL', Submit] sL'
      = Location2_step Submit s4"
    by (simp add: s4_def s3_def s2_def s1_def)
  ultimately show "rows (fold Location2_step
             [Submit, Delete (nextId (map Location.id (rows sL'))) True, AddNew, Input dL',
                 Submit] sL')
       = rows sL' @ [Location_new (nextId (map Location.id (rows sL'))) dL']"
    by (simp add: r4 f4)
qed

lemma Designation1_ids_distinct:
  "(ids_stay_exact (map Designation.id initialDesignations) (length esD) \<longrightarrow>
   distinct (map Designation.id (rows (fold Designation1_step esD Designation_init))))"
  by (auto intro!: fold_invariant [where P = "\<lambda>t. distinct (map Designation.id (rows t))"]
        simp add: Designation_init_def initialDesignations_def Designation1_handle_distinct)

lemma Designation1_ids_exact:
  "(ids_stay_exact (map Designation.id initialDesignations) (length esD) \<longrightarrow>
   rD \<in> set (rows (fold Designation1_step esD Designation_init)) \<longrightarrow>
   isSafeInteger (Designation.id rD))"
proof (intro impI)
  assume ex: "ids_stay_exact (map Designation.id initialDesignations) (length esD)"
    and r: "rD \<in> set (rows (fold Designation1_step esD Designation_init))"
  from ex have "ids_stay_exact (map Designation.id (rows Designation_init)) (length esD)"
    by (simp add: Designation_init_def)
  then show "isSafeInteger (Designation.id rD)"
    using Designation1_step_bounds r by (rule ids_exact_fold)
qed

lemma Designation1_id_assigned_again:
  "(editingId sD = None \<longrightarrow>
   isFormOpen sD \<longrightarrow>
   ids_stay_exact (map Designation.id (rows sD)) 1 \<longrightarrow>
   designationSchema (formValues sD) = [] \<longrightarrow>
   designationSchema dD = [] \<longrightarrow>
   rows (fold Designation1_step
             [Submit, Delete (nextId (map Designation.id (rows sD))) True, AddNew, Input dD,
                 Submit] sD)
       = rows sD @ [Designation_new (nextId (map Designation.id (rows sD))) dD])"
proof (intro impI)
  assume e: "editingId sD = None"
    and o: "isFormOpen sD"
    and x: "ids_stay_exact (map Designation.id (rows sD)) 1"
    and v: "designationSchema (formValues sD) = []"
    and v2: "designationSchema dD = []"
  let ?n = "nextId (map Designation.id (rows sD))"
  define s1 where "s1 = Designation1_step Submit sD"
  define s2 where "s2 = Designation1_step (Delete ?n True) s1"
  define s3 where "s3 = Designation1_step AddNew s2"
  define s4 where "s4 = Designation1_step (Input dD) s3"
  have r1: "rows s1 = rows sD @ [Designation_new ?n (formValues sD)]"
    unfolding s1_def using e o v  by (rule Designation1_created(1))
  have e1: "editingId s1 = None"
    unfolding s1_def using e o v  by (rule Designation1_created(2))
  have r2: "rows s2 = rows sD" and e2: "editingId s2 = None"
    unfolding s2_def using r1 e1 by (simp_all add: Designation1_handleDelete_def Let_def
        filter_nextId)
  have r3: "rows s3 = rows sD" and e3: "editingId s3 = None" and o3: "isFormOpen s3"
    unfolding s3_def using r2 e2 by (simp_all add: Designation1_handleAddNew_def)
  have r4: "rows s4 = rows sD" and e4: "editingId s4 = None" and o4: "isFormOpen s4"
    and f4: "formValues s4 = dD"
    unfolding s4_def using r3 e3 o3 by (simp_all add: Designation1_typed)
  have v4: "designationSchema (formValues s4) = []"
    unfolding f4 by (rule v2)
  have "rows (Designation1_step Submit s4)
          = rows s4 @ [Designation_new (nextId (map Designation.id (rows s4))) (formValues s4)]"
    using e4 o4 v4  by (rule Designation1_created(1))
  moreover have "fold Designation1_step [Submit, Delete ?n True, AddNew, Input dD, Submit] sD
      = Designation1_step Submit s4"
    by (simp add: s4_def s3_def s2_def s1_def)
  ultimately show "rows (fold Designation1_step
             [Submit, Delete (nextId (map Designation.id (rows sD))) True, AddNew, Input dD,
                 Submit] sD)
       = rows sD @ [Designation_new (nextId (map Designation.id (rows sD))) dD]"
    by (simp add: r4 f4)
qed

lemma Designation2_ids_distinct:
  "(ids_stay_exact (map Designation.id initialDesignations) (length esD') \<longrightarrow>
   distinct (map Designation.id (rows (fold Designation2_step esD' Designation_init))))"
  by (auto intro!: fold_invariant [where P = "\<lambda>t. distinct (map Designation.id (rows t))"]
        simp add: Designation_init_def initialDesignations_def Designation2_handle_distinct)

lemma Designation2_ids_exact:
  "(ids_stay_exact (map Designation.id initialDesignations) (length esD') \<longrightarrow>
   rD' \<in> set (rows (fold Designation2_step esD' Designation_init)) \<longrightarrow>
   isSafeInteger (Designation.id rD'))"
proof (intro impI)
  assume ex: "ids_stay_exact (map Designation.id initialDesignations) (length esD')"
    and r: "rD' \<in> set (rows (fold Designation2_step esD' Designation_init))"
  from ex have "ids_stay_exact (map Designation.id (rows Designation_init)) (length esD')"
    by (simp add: Designation_init_def)
  then show "isSafeInteger (Designation.id rD')"
    using Designation2_step_bounds r by (rule ids_exact_fold)
qed

lemma Designation2_id_assigned_again:
  "(editingId sD' = None \<longrightarrow>
   isFormOpen sD' \<longrightarrow>
   ids_stay_exact (map Designation.id (rows sD')) 1 \<longrightarrow>
   designationSchema (formValues sD') = [] \<longrightarrow>
   \<not> Designation2_isDuplicate (formValues sD') sD' \<longrightarrow>
   designationSchema dD' = [] \<longrightarrow>
   \<not> Designation2_isDuplicate dD' sD' \<longrightarrow>
   rows (fold Designation2_step
             [Submit, Delete (nextId (map Designation.id (rows sD'))) True, AddNew, Input dD',
                 Submit] sD')
       = rows sD' @ [Designation_new (nextId (map Designation.id (rows sD'))) dD'])"
proof (intro impI)
  assume e: "editingId sD' = None"
    and o: "isFormOpen sD'"
    and x: "ids_stay_exact (map Designation.id (rows sD')) 1"
    and v: "designationSchema (formValues sD') = []"
    and nd: "\<not> Designation2_isDuplicate (formValues sD') sD'"
    and v2: "designationSchema dD' = []"
    and nd2: "\<not> Designation2_isDuplicate dD' sD'"
  let ?n = "nextId (map Designation.id (rows sD'))"
  define s1 where "s1 = Designation2_step Submit sD'"
  define s2 where "s2 = Designation2_step (Delete ?n True) s1"
  define s3 where "s3 = Designation2_step AddNew s2"
  define s4 where "s4 = Designation2_step (Input dD') s3"
  have r1: "rows s1 = rows sD' @ [Designation_new ?n (formValues sD')]"
    unfolding s1_def using e o v nd by (rule Designation2_created(1))
  have e1: "editingId s1 = None"
    unfolding s1_def using e o v nd by (rule Designation2_created(2))
  have r2: "rows s2 = rows sD'" and e2: "editingId s2 = None"
    unfolding s2_def using r1 e1 by (simp_all add: Designation2_handleDelete_def Let_def
        filter_nextId)
  have r3: "rows s3 = rows sD'" and e3: "editingId s3 = None" and o3: "isFormOpen s3"
    unfolding s3_def using r2 e2 by (simp_all add: Designation2_handleAddNew_def)
  have r4: "rows s4 = rows sD'" and e4: "editingId s4 = None" and o4: "isFormOpen s4"
    and f4: "formValues s4 = dD'"
    unfolding s4_def using r3 e3 o3 by (simp_all add: Designation2_typed)
  have v4: "designationSchema (formValues s4) = []"
    unfolding f4 by (rule v2)
  have nd4: "\<not> Designation2_isDuplicate (formValues s4) s4"
    using nd2 by (simp add: Designation2_isDuplicate_def r4 e4 f4 e)
  have "rows (Designation2_step Submit s4)
          = rows s4 @ [Designation_new (nextId (map Designation.id (rows s4))) (formValues s4)]"
    using e4 o4 v4 nd4 by (rule Designation2_created(1))
  moreover have "fold Designation2_step [Submit, Delete ?n True, AddNew, Input dD', Submit] sD'
      = Designation2_step Submit s4"
    by (simp add: s4_def s3_def s2_def s1_def)
  ultimately show "rows (fold Designation2_step
             [Submit, Delete (nextId (map Designation.id (rows sD'))) True, AddNew, Input dD',
                 Submit] sD')
       = rows sD' @ [Designation_new (nextId (map Designation.id (rows sD'))) dD']"
    by (simp add: r4 f4)
qed

text \<open>
  C4 (as amended). On every page, in the state after any sequence of events from the
  first state, the ids of the stored records are pairwise distinct and are safe
  integers. This holds as long as the ids stay exact: the seed holds safe integers and
  the events are fewer than the additions of 1 that lead out of the safe integers; for
  the Subsidiary pages the seed is any list of records with distinct ids. Ids are not
  retired: when a create is followed by the delete of the new record, the next create
  assigns the id of the deleted record again.
\<close>

theorem ids_distinct_in_reachable_states:
  "(ids_stay_exact (map Organization.id initialOrganizations) (length esO) \<longrightarrow>
     distinct (map Organization.id (rows (fold (Organization1_step rEmail) esO
         Organization_init))))
   \<and> (ids_stay_exact (map Organization.id initialOrganizations) (length esO) \<longrightarrow>
     rO \<in> set (rows (fold (Organization1_step rEmail) esO Organization_init)) \<longrightarrow>
     isSafeInteger (Organization.id rO))
   \<and> (editingId sO = None \<longrightarrow>
     isFormOpen sO \<longrightarrow>
     ids_stay_exact (map Organization.id (rows sO)) 1 \<longrightarrow>
     organizationSchema rEmail (formValues sO) = [] \<longrightarrow>
     \<not> Organization1_isDuplicate (formValues sO) sO \<longrightarrow>
     organizationSchema rEmail dO = [] \<longrightarrow>
     \<not> Organization1_isDuplicate dO sO \<longrightarrow>
     rows (fold (Organization1_step rEmail)
             [Submit, Delete (nextId (map Organization.id (rows sO))) True, AddNew, Input dO,
                 Submit] sO)
       = rows sO @ [Organization_new (nextId (map Organization.id (rows sO))) dO])
   \<and> (ids_stay_exact (map Organization.id initialOrganizations) (length esO') \<longrightarrow>
     distinct (map Organization.id (rows (fold (Organization2_step rEmail) esO'
         Organization_init))))
   \<and> (ids_stay_exact (map Organization.id initialOrganizations) (length esO') \<longrightarrow>
     rO' \<in> set (rows (fold (Organization2_step rEmail) esO' Organization_init)) \<longrightarrow>
     isSafeInteger (Organization.id rO'))
   \<and> (editingId sO' = None \<longrightarrow>
     isFormOpen sO' \<longrightarrow>
     ids_stay_exact (map Organization.id (rows sO')) 1 \<longrightarrow>
     organizationSchema rEmail (formValues sO') = [] \<longrightarrow>
     \<not> Organization2_orgCodeDuplicate (formValues sO') sO' \<longrightarrow>
     \<not> Organization2_tenantDuplicate (formValues sO') sO' \<longrightarrow>
     organizationSchema rEmail dO' = [] \<longrightarrow>
     \<not> Organization2_orgCodeDuplicate dO' sO' \<longrightarrow>
     \<not> Organization2_tenantDuplicate dO' sO' \<longrightarrow>
     rows (fold (Organization2_step rEmail)
             [Submit, Delete (nextId (map Organization.id (rows sO'))) True, AddNew, Input dO',
                 Submit] sO')
       = rows sO' @ [Organization_new (nextId (map Organization.id (rows sO'))) dO'])
   \<and> (distinct (map Subsidiary.id seedS) \<longrightarrow>
     ids_stay_exact (map Subsidiary.id seedS) (length esS) \<longrightarrow>
     distinct (map Subsidiary.id (rows (fold Subsidiary1_step esS (Subsidiary_init seedS)))))
   \<and> (ids_stay_exact (map Subsidiary.id seedS) (length esS) \<longrightarrow>
     rS \<in> set (rows (fold Subsidiary1_step esS (Subsidiary_init seedS))) \<longrightarrow>
     isSafeInteger (Subsidiary.id rS))
   \<and> (editingId sS = None \<longrightarrow>
     isFormOpen sS \<longrightarrow>
     ids_stay_exact (map Subsidiary.id (rows sS)) 1 \<longrightarrow>
     subsidiarySchema (formValues sS) = [] \<longrightarrow>
     subsidiarySchema dS = [] \<longrightarrow>
     rows (fold Subsidiary1_step
             [Submit, Delete (nextId (map Subsidiary.id (rows sS))) True, AddNew, Input dS,
                 Submit] sS)
       = rows sS @ [Subsidiary_new (nextId (map Subsidiary.id (rows sS))) dS])
   \<and> (distinct (map Subsidiary.id seedS') \<longrightarrow>
     ids_stay_exact (map Subsidiary.id seedS') (length esS') \<longrightarrow>
     distinct (map Subsidiary.id (rows (fold Subsidiary2_step esS' (Subsidiary_init seedS')))))
   \<and> (ids_stay_exact (map Subsidiary.id seedS') (length esS') \<longrightarrow>
     rS' \<in> set (rows (fold Subsidiary2_step esS' (Subsidiary_init seedS'))) \<longrightarrow>
     isSafeInteger (Subsidiary.id rS'))
   \<and> (editingId sS' = None \<longrightarrow>
     isFormOpen sS' \<longrightarrow>
     ids_stay_exact (map Subsidiary.id (rows sS')) 1 \<longrightarrow>
     subsidiarySchema (formValues sS') = [] \<longrightarrow>
     \<not> Subsidiary2_isDuplicate (formValues sS') sS' \<longrightarrow>
     subsidiarySchema dS' = [] \<longrightarrow>
     \<not> Subsidiary2_isDuplicate dS' sS' \<longrightarrow>
     rows (fold Subsidiary2_step
             [Submit, Delete (nextId (map Subsidiary.id (rows sS'))) True, AddNew, Input dS',
                 Submit] sS')
       = rows sS' @ [Subsidiary_new (nextId (map Subsidiary.id (rows sS'))) dS'])
   \<and> (ids_stay_exact (map Location.id initialLocations) (length esL) \<longrightarrow>
     distinct (map Location.id (rows (fold Location1_step esL Location_init))))
   \<and> (ids_stay_exact (map Location.id initialLocations) (length esL) \<longrightarrow>
     rL \<in> set (rows (fold Location1_step esL Location_init)) \<longrightarrow>
     isSafeInteger (Location.id rL))
   \<and> (editingId sL = None \<longrightarrow>
     isFormOpen sL \<longrightarrow>
     ids_stay_exact (map Location.id (rows sL)) 1 \<longrightarrow>
     locationSchema (formValues sL) = [] \<longrightarrow>
     locationSchema dL = [] \<longrightarrow>
     rows (fold Location1_step
             [Submit, Delete (nextId (map Location.id (rows sL))) True, AddNew, Input dL,
                 Submit] sL)
       = rows sL @ [Location_new (nextId (map Location.id (rows sL))) dL])
   \<and> (ids_stay_exact (map Location.id initialLocations) (length esL') \<longrightarrow>
     distinct (map Location.id (rows (fold Location2_step esL' Location_init))))
   \<and> (ids_stay_exact (map Location.id initialLocations) (length esL') \<longrightarrow>
     rL' \<in> set (rows (fold Location2_step esL' Location_init)) \<longrightarrow>
     isSafeInteger (Location.id rL'))
   \<and> (editingId sL' = None \<longrightarrow>
     isFormOpen sL' \<longrightarrow>
     ids_stay_exact (map Location.id (rows sL')) 1 \<longrightarrow>
     locationSchema (formValues sL') = [] \<longrightarrow>
     \<not> Location2_isDuplicate (formValues sL') sL' \<longrightarrow>
     locationSchema dL' = [] \<longrightarrow>
     \<not> Location2_isDuplicate dL' sL' \<longrightarrow>
     rows (fold Location2_step
             [Submit, Delete (nextId (map Location.id (rows sL'))) True, AddNew, Input dL',
                 Submit] sL')
       = rows sL' @ [Location_new (nextId (map Location.id (rows sL'))) dL'])
   \<and> (ids_stay_exact (map Designation.id initialDesignations) (length esD) \<longrightarrow>
     distinct (map Designation.id (rows (fold Designation1_step esD Designation_init))))
   \<and> (ids_stay_exact (map Designation.id initialDesignations) (length esD) \<longrightarrow>
     rD \<in> set (rows (fold Designation1_step esD Designation_init)) \<longrightarrow>
     isSafeInteger (Designation.id rD))
   \<and> (editingId sD = None \<longrightarrow>
     isFormOpen sD \<longrightarrow>
     ids_stay_exact (map Designation.id (rows sD)) 1 \<longrightarrow>
     designationSchema (formValues sD) = [] \<longrightarrow>
     designationSchema dD = [] \<longrightarrow>
     rows (fold Designation1_step
             [Submit, Delete (nextId (map Designation.id (rows sD))) True, AddNew, Input dD,
                 Submit] sD)
       = rows sD @ [Designation_new (nextId (map Designation.id (rows sD))) dD])
   \<and> (ids_stay_exact (map Designation.id initialDesignations) (length esD') \<longrightarrow>
     distinct (map Designation.id (rows (fold Designation2_step esD' Designation_init))))
   \<and> (ids_stay_exact (map Designation.id initialDesignations) (length esD') \<longrightarrow>
     rD' \<in> set (rows (fold Designation2_step esD' Designation_init)) \<longrightarrow>
     isSafeInteger (Designation.id rD'))
   \<and> (editingId sD' = None \<longrightarrow>
     isFormOpen sD' \<longrightarrow>
     ids_stay_exact (map Designation.id (rows sD')) 1 \<longrightarrow>
     designationSchema (formValues sD') = [] \<longrightarrow>
     \<not> Designation2_isDuplicate (formValues sD') sD' \<longrightarrow>
     designationSchema dD' = [] \<longrightarrow>
     \<not> Designation2_isDuplicate dD' sD' \<longrightarrow>
     rows (fold Designation2_step
             [Submit, Delete (nextId (map Designation.id (rows sD'))) True, AddNew, Input dD',
                 Submit] sD')
       = rows sD' @ [Designation_new (nextId (map Designation.id (rows sD'))) dD'])"
  by (intro conjI Organization1_ids_distinct Organization1_ids_exact
      Organization1_id_assigned_again
        Organization2_ids_distinct Organization2_ids_exact Organization2_id_assigned_again
        Subsidiary1_ids_distinct Subsidiary1_ids_exact Subsidiary1_id_assigned_again
        Subsidiary2_ids_distinct Subsidiary2_ids_exact Subsidiary2_id_assigned_again
        Location1_ids_distinct Location1_ids_exact Location1_id_assigned_again
        Location2_ids_distinct Location2_ids_exact Location2_id_assigned_again
        Designation1_ids_distinct Designation1_ids_exact Designation1_id_assigned_again
        Designation2_ids_distinct Designation2_ids_exact Designation2_id_assigned_again)

text \<open>
  The claim as stated fails: nothing remembers a deleted id. On the first Designation
  page: create MGR (it gets id 3), delete the record of id 3, create OPS: the new
  record gets id 3 again.
\<close>

theorem deleted_id_assigned_again_counterexample:
  "map Designation.id
       (rows (fold Designation1_step [AddNew, Input Designation_sample, Submit]
                Designation_init)) = [1, 2, 3]
   \<and> map Designation.id
       (rows (fold Designation1_step
                [AddNew, Input Designation_sample, Submit, Delete 3 True]
                Designation_init)) = [1, 2]
   \<and> rows (fold Designation1_step
         [AddNew, Input Designation_sample, Submit, Delete 3 True, AddNew,
          Input \<lparr>designationCode = ''OPS'', designationName = ''Operator''\<rparr>, Submit]
         Designation_init)
     = initialDesignations
       @ [\<lparr>designationCode = ''OPS'', designationName = ''Operator'', Designation.id = 3\<rparr>]"
  by code_simp

text \<open>
  The statement of C4 at the example inputs: every hypothesis holds there.
\<close>

theorem ids_distinct_in_reachable_states_witness:
  "ids_stay_exact (map Organization.id initialOrganizations) (length [AddNew, Input
      Organization_sample, Submit, Delete 2 True, AddNew,
           Input Organization_sample, Submit])
   \<and> distinct (map Organization.id (rows (fold (Organization1_step example_rEmail) [AddNew,
       Input Organization_sample, Submit, Delete 2 True, AddNew,
           Input Organization_sample, Submit] Organization_init)))
   \<and> ids_stay_exact (map Organization.id initialOrganizations) (length [AddNew, Input
       Organization_sample, Submit, Delete 2 True, AddNew,
           Input Organization_sample, Submit])
   \<and> (Organization_new 2 Organization_sample) \<in> set (rows (fold (Organization1_step
       example_rEmail) [AddNew, Input Organization_sample, Submit, Delete 2 True, AddNew,
           Input Organization_sample, Submit] Organization_init))
   \<and> isSafeInteger (Organization.id (Organization_new 2 Organization_sample))
   \<and> editingId Organization_adding = None
   \<and> isFormOpen Organization_adding
   \<and> ids_stay_exact (map Organization.id (rows Organization_adding)) 1
   \<and> organizationSchema example_rEmail (formValues Organization_adding) = []
   \<and> \<not> Organization1_isDuplicate (formValues Organization_adding) Organization_adding
   \<and> organizationSchema example_rEmail Organization_sample = []
   \<and> \<not> Organization1_isDuplicate Organization_sample Organization_adding
   \<and> rows (fold (Organization1_step example_rEmail)
             [Submit, Delete (nextId (map Organization.id (rows Organization_adding))) True,
                 AddNew, Input Organization_sample, Submit] Organization_adding)
       = rows Organization_adding @ [Organization_new (nextId (map Organization.id (rows
           Organization_adding))) Organization_sample]
   \<and> ids_stay_exact (map Organization.id initialOrganizations) (length [AddNew, Input
       Organization_sample, Submit, Delete 2 True, AddNew,
           Input Organization_sample, Submit])
   \<and> distinct (map Organization.id (rows (fold (Organization2_step example_rEmail) [AddNew,
       Input Organization_sample, Submit, Delete 2 True, AddNew,
           Input Organization_sample, Submit] Organization_init)))
   \<and> ids_stay_exact (map Organization.id initialOrganizations) (length [AddNew, Input
       Organization_sample, Submit, Delete 2 True, AddNew,
           Input Organization_sample, Submit])
   \<and> (Organization_new 2 Organization_sample) \<in> set (rows (fold (Organization2_step
       example_rEmail) [AddNew, Input Organization_sample, Submit, Delete 2 True, AddNew,
           Input Organization_sample, Submit] Organization_init))
   \<and> isSafeInteger (Organization.id (Organization_new 2 Organization_sample))
   \<and> editingId Organization_adding = None
   \<and> isFormOpen Organization_adding
   \<and> ids_stay_exact (map Organization.id (rows Organization_adding)) 1
   \<and> organizationSchema example_rEmail (formValues Organization_adding) = []
   \<and> \<not> Organization2_orgCodeDuplicate (formValues Organization_adding) Organization_adding
   \<and> \<not> Organization2_tenantDuplicate (formValues Organization_adding) Organization_adding
   \<and> organizationSchema example_rEmail Organization_sample = []
   \<and> \<not> Organization2_orgCodeDuplicate Organization_sample Organization_adding
   \<and> \<not> Organization2_tenantDuplicate Organization_sample Organization_adding
   \<and> rows (fold (Organization2_step example_rEmail)
             [Submit, Delete (nextId (map Organization.id (rows Organization_adding))) True,
                 AddNew, Input Organization_sample, Submit] Organization_adding)
       = rows Organization_adding @ [Organization_new (nextId (map Organization.id (rows
           Organization_adding))) Organization_sample]
   \<and> distinct (map Subsidiary.id exampleSubsidiaries)
   \<and> ids_stay_exact (map Subsidiary.id exampleSubsidiaries) (length [AddNew, Input
       Subsidiary_sample, Submit, Delete 2 True, AddNew,
           Input Subsidiary_sample, Submit])
   \<and> distinct (map Subsidiary.id (rows (fold Subsidiary1_step [AddNew, Input Subsidiary_sample,
       Submit, Delete 2 True, AddNew,
           Input Subsidiary_sample, Submit] (Subsidiary_init exampleSubsidiaries))))
   \<and> ids_stay_exact (map Subsidiary.id exampleSubsidiaries) (length [AddNew, Input
       Subsidiary_sample, Submit, Delete 2 True, AddNew,
           Input Subsidiary_sample, Submit])
   \<and> (Subsidiary_new 2 Subsidiary_sample) \<in> set (rows (fold Subsidiary1_step [AddNew, Input
       Subsidiary_sample, Submit, Delete 2 True, AddNew,
           Input Subsidiary_sample, Submit] (Subsidiary_init exampleSubsidiaries)))
   \<and> isSafeInteger (Subsidiary.id (Subsidiary_new 2 Subsidiary_sample))
   \<and> editingId Subsidiary_adding = None
   \<and> isFormOpen Subsidiary_adding
   \<and> ids_stay_exact (map Subsidiary.id (rows Subsidiary_adding)) 1
   \<and> subsidiarySchema (formValues Subsidiary_adding) = []
   \<and> subsidiarySchema Subsidiary_sample = []
   \<and> rows (fold Subsidiary1_step
             [Submit, Delete (nextId (map Subsidiary.id (rows Subsidiary_adding))) True, AddNew,
                 Input Subsidiary_sample, Submit] Subsidiary_adding)
       = rows Subsidiary_adding @ [Subsidiary_new (nextId (map Subsidiary.id (rows
           Subsidiary_adding))) Subsidiary_sample]
   \<and> distinct (map Subsidiary.id exampleSubsidiaries)
   \<and> ids_stay_exact (map Subsidiary.id exampleSubsidiaries) (length [AddNew, Input
       Subsidiary_sample, Submit, Delete 2 True, AddNew,
           Input Subsidiary_sample, Submit])
   \<and> distinct (map Subsidiary.id (rows (fold Subsidiary2_step [AddNew, Input Subsidiary_sample,
       Submit, Delete 2 True, AddNew,
           Input Subsidiary_sample, Submit] (Subsidiary_init exampleSubsidiaries))))
   \<and> ids_stay_exact (map Subsidiary.id exampleSubsidiaries) (length [AddNew, Input
       Subsidiary_sample, Submit, Delete 2 True, AddNew,
           Input Subsidiary_sample, Submit])
   \<and> (Subsidiary_new 2 Subsidiary_sample) \<in> set (rows (fold Subsidiary2_step [AddNew, Input
       Subsidiary_sample, Submit, Delete 2 True, AddNew,
           Input Subsidiary_sample, Submit] (Subsidiary_init exampleSubsidiaries)))
   \<and> isSafeInteger (Subsidiary.id (Subsidiary_new 2 Subsidiary_sample))
   \<and> editingId Subsidiary_adding = None
   \<and> isFormOpen Subsidiary_adding
   \<and> ids_stay_exact (map Subsidiary.id (rows Subsidiary_adding)) 1
   \<and> subsidiarySchema (formValues Subsidiary_adding) = []
   \<and> \<not> Subsidiary2_isDuplicate (formValues Subsidiary_adding) Subsidiary_adding
   \<and> subsidiarySchema Subsidiary_sample = []
   \<and> \<not> Subsidiary2_isDuplicate Subsidiary_sample Subsidiary_adding
   \<and> rows (fold Subsidiary2_step
             [Submit, Delete (nextId (map Subsidiary.id (rows Subsidiary_adding))) True, AddNew,
                 Input Subsidiary_sample, Submit] Subsidiary_adding)
       = rows Subsidiary_adding @ [Subsidiary_new (nextId (map Subsidiary.id (rows
           Subsidiary_adding))) Subsidiary_sample]
   \<and> ids_stay_exact (map Location.id initialLocations) (length [AddNew, Input Location_sample,
       Submit, Delete 2 True, AddNew,
           Input Location_sample, Submit])
   \<and> distinct (map Location.id (rows (fold Location1_step [AddNew, Input Location_sample,
       Submit, Delete 2 True, AddNew,
           Input Location_sample, Submit] Location_init)))
   \<and> ids_stay_exact (map Location.id initialLocations) (length [AddNew, Input Location_sample,
       Submit, Delete 2 True, AddNew,
           Input Location_sample, Submit])
   \<and> (Location_new 2 Location_sample) \<in> set (rows (fold Location1_step [AddNew, Input
       Location_sample, Submit, Delete 2 True, AddNew,
           Input Location_sample, Submit] Location_init))
   \<and> isSafeInteger (Location.id (Location_new 2 Location_sample))
   \<and> editingId Location_adding = None
   \<and> isFormOpen Location_adding
   \<and> ids_stay_exact (map Location.id (rows Location_adding)) 1
   \<and> locationSchema (formValues Location_adding) = []
   \<and> locationSchema Location_sample = []
   \<and> rows (fold Location1_step
             [Submit, Delete (nextId (map Location.id (rows Location_adding))) True, AddNew,
                 Input Location_sample, Submit] Location_adding)
       = rows Location_adding @ [Location_new (nextId (map Location.id (rows Location_adding)))
           Location_sample]
   \<and> ids_stay_exact (map Location.id initialLocations) (length [AddNew, Input Location_sample,
       Submit, Delete 2 True, AddNew,
           Input Location_sample, Submit])
   \<and> distinct (map Location.id (rows (fold Location2_step [AddNew, Input Location_sample,
       Submit, Delete 2 True, AddNew,
           Input Location_sample, Submit] Location_init)))
   \<and> ids_stay_exact (map Location.id initialLocations) (length [AddNew, Input Location_sample,
       Submit, Delete 2 True, AddNew,
           Input Location_sample, Submit])
   \<and> (Location_new 2 Location_sample) \<in> set (rows (fold Location2_step [AddNew, Input
       Location_sample, Submit, Delete 2 True, AddNew,
           Input Location_sample, Submit] Location_init))
   \<and> isSafeInteger (Location.id (Location_new 2 Location_sample))
   \<and> editingId Location_adding = None
   \<and> isFormOpen Location_adding
   \<and> ids_stay_exact (map Location.id (rows Location_adding)) 1
   \<and> locationSchema (formValues Location_adding) = []
   \<and> \<not> Location2_isDuplicate (formValues Location_adding) Location_adding
   \<and> locationSchema Location_sample = []
   \<and> \<not> Location2_isDuplicate Location_sample Location_adding
   \<and> rows (fold Location2_step
             [Submit, Delete (nextId (map Location.id (rows Location_adding))) True, AddNew,
                 Input Location_sample, Submit] Location_adding)
       = rows Location_adding @ [Location_new (nextId (map Location.id (rows Location_adding)))
           Location_sample]
   \<and> ids_stay_exact (map Designation.id initialDesignations) (length [AddNew, Input
       Designation_sample, Submit, Delete 3 True, AddNew,
           Input Designation_sample, Submit])
   \<and> distinct (map Designation.id (rows (fold Designation1_step [AddNew, Input
       Designation_sample, Submit, Delete 3 True, AddNew,
           Input Designation_sample, Submit] Designation_init)))
   \<and> ids_stay_exact (map Designation.id initialDesignations) (length [AddNew, Input
       Designation_sample, Submit, Delete 3 True, AddNew,
           Input Designation_sample, Submit])
   \<and> (Designation_new 3 Designation_sample) \<in> set (rows (fold Designation1_step [AddNew, Input
       Designation_sample, Submit, Delete 3 True, AddNew,
           Input Designation_sample, Submit] Designation_init))
   \<and> isSafeInteger (Designation.id (Designation_new 3 Designation_sample))
   \<and> editingId Designation_adding = None
   \<and> isFormOpen Designation_adding
   \<and> ids_stay_exact (map Designation.id (rows Designation_adding)) 1
   \<and> designationSchema (formValues Designation_adding) = []
   \<and> designationSchema Designation_sample = []
   \<and> rows (fold Designation1_step
             [Submit, Delete (nextId (map Designation.id (rows Designation_adding))) True,
                 AddNew, Input Designation_sample, Submit] Designation_adding)
       = rows Designation_adding @ [Designation_new (nextId (map Designation.id (rows
           Designation_adding))) Designation_sample]
   \<and> ids_stay_exact (map Designation.id initialDesignations) (length [AddNew, Input
       Designation_sample, Submit, Delete 3 True, AddNew,
           Input Designation_sample, Submit])
   \<and> distinct (map Designation.id (rows (fold Designation2_step [AddNew, Input
       Designation_sample, Submit, Delete 3 True, AddNew,
           Input Designation_sample, Submit] Designation_init)))
   \<and> ids_stay_exact (map Designation.id initialDesignations) (length [AddNew, Input
       Designation_sample, Submit, Delete 3 True, AddNew,
           Input Designation_sample, Submit])
   \<and> (Designation_new 3 Designation_sample) \<in> set (rows (fold Designation2_step [AddNew, Input
       Designation_sample, Submit, Delete 3 True, AddNew,
           Input Designation_sample, Submit] Designation_init))
   \<and> isSafeInteger (Designation.id (Designation_new 3 Designation_sample))
   \<and> editingId Designation_adding = None
   \<and> isFormOpen Designation_adding
   \<and> ids_stay_exact (map Designation.id (rows Designation_adding)) 1
   \<and> designationSchema (formValues Designation_adding) = []
   \<and> \<not> Designation2_isDuplicate (formValues Designation_adding) Designation_adding
   \<and> designationSchema Designation_sample = []
   \<and> \<not> Designation2_isDuplicate Designation_sample Designation_adding
   \<and> rows (fold Designation2_step
             [Submit, Delete (nextId (map Designation.id (rows Designation_adding))) True,
                 AddNew, Input Designation_sample, Submit] Designation_adding)
       = rows Designation_adding @ [Designation_new (nextId (map Designation.id (rows
           Designation_adding))) Designation_sample]
   \<and> map Designation.id
       (rows (fold Designation1_step
                [AddNew, Input Designation_sample, Submit, Delete 3 True, AddNew,
                 Input Designation_sample, Submit]
                Designation_init)) = [1, 2, 3]
   \<and> Location_adding = fold Location2_step [AddNew, Input Location_sample] Location_init
   \<and> rows (fold Location2_step
         [Submit, Delete (nextId (map Location.id (rows Location_adding))) True, AddNew,
          Input Location_sample, Submit]
         Location_adding)
     = initialLocations @ [Location_new 2 Location_sample]"
proof -
  note T = ids_distinct_in_reachable_states
    [where rEmail = example_rEmail
       and esO = "[AddNew, Input Organization_sample, Submit, Delete 2 True, AddNew,
           Input Organization_sample, Submit]"
       and rO = "Organization_new 2 Organization_sample"
       and sO = "Organization_adding"
       and dO = "Organization_sample"
       and esO' = "[AddNew, Input Organization_sample, Submit, Delete 2 True, AddNew,
           Input Organization_sample, Submit]"
       and rO' = "Organization_new 2 Organization_sample"
       and sO' = "Organization_adding"
       and dO' = "Organization_sample"
       and seedS = "exampleSubsidiaries"
       and esS = "[AddNew, Input Subsidiary_sample, Submit, Delete 2 True, AddNew,
           Input Subsidiary_sample, Submit]"
       and rS = "Subsidiary_new 2 Subsidiary_sample"
       and sS = "Subsidiary_adding"
       and dS = "Subsidiary_sample"
       and seedS' = "exampleSubsidiaries"
       and esS' = "[AddNew, Input Subsidiary_sample, Submit, Delete 2 True, AddNew,
           Input Subsidiary_sample, Submit]"
       and rS' = "Subsidiary_new 2 Subsidiary_sample"
       and sS' = "Subsidiary_adding"
       and dS' = "Subsidiary_sample"
       and esL = "[AddNew, Input Location_sample, Submit, Delete 2 True, AddNew,
           Input Location_sample, Submit]"
       and rL = "Location_new 2 Location_sample"
       and sL = "Location_adding"
       and dL = "Location_sample"
       and esL' = "[AddNew, Input Location_sample, Submit, Delete 2 True, AddNew,
           Input Location_sample, Submit]"
       and rL' = "Location_new 2 Location_sample"
       and sL' = "Location_adding"
       and dL' = "Location_sample"
       and esD = "[AddNew, Input Designation_sample, Submit, Delete 3 True, AddNew,
           Input Designation_sample, Submit]"
       and rD = "Designation_new 3 Designation_sample"
       and sD = "Designation_adding"
       and dD = "Designation_sample"
       and esD' = "[AddNew, Input Designation_sample, Submit, Delete 3 True, AddNew,
           Input Designation_sample, Submit]"
       and rD' = "Designation_new 3 Designation_sample"
       and sD' = "Designation_adding"
       and dD' = "Designation_sample"]
  have h1_1: "ids_stay_exact (map Organization.id initialOrganizations) (length [AddNew, Input
      Organization_sample, Submit, Delete 2 True, AddNew,
           Input Organization_sample, Submit])"
    by code_simp
  have c1: "distinct (map Organization.id (rows (fold (Organization1_step example_rEmail)
      [AddNew, Input Organization_sample, Submit, Delete 2 True, AddNew,
           Input Organization_sample, Submit] Organization_init)))"
    by (rule T [THEN conjunct1, THEN mp, OF h1_1])
  have h2_1: "ids_stay_exact (map Organization.id initialOrganizations) (length [AddNew, Input
      Organization_sample, Submit, Delete 2 True, AddNew,
           Input Organization_sample, Submit])"
    by code_simp
  have h2_2: "(Organization_new 2 Organization_sample) \<in> set (rows (fold (Organization1_step
      example_rEmail) [AddNew, Input Organization_sample, Submit, Delete 2 True, AddNew,
           Input Organization_sample, Submit] Organization_init))"
    by code_simp
  have c2: "isSafeInteger (Organization.id (Organization_new 2 Organization_sample))"
    by (rule T [THEN conjunct2, THEN conjunct1, THEN mp, OF h2_1, THEN mp, OF h2_2])
  have h3_1: "editingId Organization_adding = None"
    by code_simp
  have h3_2: "isFormOpen Organization_adding"
    by code_simp
  have h3_3: "ids_stay_exact (map Organization.id (rows Organization_adding)) 1"
    by code_simp
  have h3_4: "organizationSchema example_rEmail (formValues Organization_adding) = []"
    by code_simp
  have h3_5: "\<not> Organization1_isDuplicate (formValues Organization_adding) Organization_adding"
    by code_simp
  have h3_6: "organizationSchema example_rEmail Organization_sample = []"
    by code_simp
  have h3_7: "\<not> Organization1_isDuplicate Organization_sample Organization_adding"
    by code_simp
  have c3: "rows (fold (Organization1_step example_rEmail)
             [Submit, Delete (nextId (map Organization.id (rows Organization_adding))) True,
                 AddNew, Input Organization_sample, Submit] Organization_adding)
       = rows Organization_adding @ [Organization_new (nextId (map Organization.id (rows
           Organization_adding))) Organization_sample]"
    by (rule T [THEN conjunct2, THEN conjunct2, THEN conjunct1, THEN mp, OF h3_1, THEN mp, OF
        h3_2, THEN mp, OF h3_3, THEN mp, OF h3_4, THEN mp, OF h3_5, THEN mp, OF h3_6, THEN mp,
        OF h3_7])
  have h4_1: "ids_stay_exact (map Organization.id initialOrganizations) (length [AddNew, Input
      Organization_sample, Submit, Delete 2 True, AddNew,
           Input Organization_sample, Submit])"
    by code_simp
  have c4: "distinct (map Organization.id (rows (fold (Organization2_step example_rEmail)
      [AddNew, Input Organization_sample, Submit, Delete 2 True, AddNew,
           Input Organization_sample, Submit] Organization_init)))"
    by (rule T [THEN conjunct2, THEN conjunct2, THEN conjunct2, THEN conjunct1, THEN mp, OF h4_1])
  have h5_1: "ids_stay_exact (map Organization.id initialOrganizations) (length [AddNew, Input
      Organization_sample, Submit, Delete 2 True, AddNew,
           Input Organization_sample, Submit])"
    by code_simp
  have h5_2: "(Organization_new 2 Organization_sample) \<in> set (rows (fold (Organization2_step
      example_rEmail) [AddNew, Input Organization_sample, Submit, Delete 2 True, AddNew,
           Input Organization_sample, Submit] Organization_init))"
    by code_simp
  have c5: "isSafeInteger (Organization.id (Organization_new 2 Organization_sample))"
    by (rule T [THEN conjunct2, THEN conjunct2, THEN conjunct2, THEN conjunct2, THEN conjunct1,
        THEN mp, OF h5_1, THEN mp, OF h5_2])
  have h6_1: "editingId Organization_adding = None"
    by code_simp
  have h6_2: "isFormOpen Organization_adding"
    by code_simp
  have h6_3: "ids_stay_exact (map Organization.id (rows Organization_adding)) 1"
    by code_simp
  have h6_4: "organizationSchema example_rEmail (formValues Organization_adding) = []"
    by code_simp
  have h6_5: "\<not> Organization2_orgCodeDuplicate (formValues Organization_adding)
      Organization_adding"
    by code_simp
  have h6_6: "\<not> Organization2_tenantDuplicate (formValues Organization_adding)
      Organization_adding"
    by code_simp
  have h6_7: "organizationSchema example_rEmail Organization_sample = []"
    by code_simp
  have h6_8: "\<not> Organization2_orgCodeDuplicate Organization_sample Organization_adding"
    by code_simp
  have h6_9: "\<not> Organization2_tenantDuplicate Organization_sample Organization_adding"
    by code_simp
  have c6: "rows (fold (Organization2_step example_rEmail)
             [Submit, Delete (nextId (map Organization.id (rows Organization_adding))) True,
                 AddNew, Input Organization_sample, Submit] Organization_adding)
       = rows Organization_adding @ [Organization_new (nextId (map Organization.id (rows
           Organization_adding))) Organization_sample]"
    by (rule T [THEN conjunct2, THEN conjunct2, THEN conjunct2, THEN conjunct2, THEN conjunct2,
        THEN conjunct1, THEN mp, OF h6_1, THEN mp, OF h6_2, THEN mp, OF h6_3, THEN mp, OF h6_4,
        THEN mp, OF h6_5, THEN mp, OF h6_6, THEN mp, OF h6_7, THEN mp, OF h6_8, THEN mp, OF h6_9])
  have h7_1: "distinct (map Subsidiary.id exampleSubsidiaries)"
    by code_simp
  have h7_2: "ids_stay_exact (map Subsidiary.id exampleSubsidiaries) (length [AddNew, Input
      Subsidiary_sample, Submit, Delete 2 True, AddNew,
           Input Subsidiary_sample, Submit])"
    by code_simp
  have c7: "distinct (map Subsidiary.id (rows (fold Subsidiary1_step [AddNew, Input
      Subsidiary_sample, Submit, Delete 2 True, AddNew,
           Input Subsidiary_sample, Submit] (Subsidiary_init exampleSubsidiaries))))"
    by (rule T [THEN conjunct2, THEN conjunct2, THEN conjunct2, THEN conjunct2, THEN conjunct2,
        THEN conjunct2, THEN conjunct1, THEN mp, OF h7_1, THEN mp, OF h7_2])
  have h8_1: "ids_stay_exact (map Subsidiary.id exampleSubsidiaries) (length [AddNew, Input
      Subsidiary_sample, Submit, Delete 2 True, AddNew,
           Input Subsidiary_sample, Submit])"
    by code_simp
  have h8_2: "(Subsidiary_new 2 Subsidiary_sample) \<in> set (rows (fold Subsidiary1_step [AddNew,
      Input Subsidiary_sample, Submit, Delete 2 True, AddNew,
           Input Subsidiary_sample, Submit] (Subsidiary_init exampleSubsidiaries)))"
    by code_simp
  have c8: "isSafeInteger (Subsidiary.id (Subsidiary_new 2 Subsidiary_sample))"
    by (rule T [THEN conjunct2, THEN conjunct2, THEN conjunct2, THEN conjunct2, THEN conjunct2,
        THEN conjunct2, THEN conjunct2, THEN conjunct1, THEN mp, OF h8_1, THEN mp, OF h8_2])
  have h9_1: "editingId Subsidiary_adding = None"
    by code_simp
  have h9_2: "isFormOpen Subsidiary_adding"
    by code_simp
  have h9_3: "ids_stay_exact (map Subsidiary.id (rows Subsidiary_adding)) 1"
    by code_simp
  have h9_4: "subsidiarySchema (formValues Subsidiary_adding) = []"
    by code_simp
  have h9_5: "subsidiarySchema Subsidiary_sample = []"
    by code_simp
  have c9: "rows (fold Subsidiary1_step
             [Submit, Delete (nextId (map Subsidiary.id (rows Subsidiary_adding))) True, AddNew,
                 Input Subsidiary_sample, Submit] Subsidiary_adding)
       = rows Subsidiary_adding @ [Subsidiary_new (nextId (map Subsidiary.id (rows
           Subsidiary_adding))) Subsidiary_sample]"
    by (rule T [THEN conjunct2, THEN conjunct2, THEN conjunct2, THEN conjunct2, THEN conjunct2,
        THEN conjunct2, THEN conjunct2, THEN conjunct2, THEN conjunct1, THEN mp, OF h9_1, THEN
        mp, OF h9_2, THEN mp, OF h9_3, THEN mp, OF h9_4, THEN mp, OF h9_5])
  have h10_1: "distinct (map Subsidiary.id exampleSubsidiaries)"
    by code_simp
  have h10_2: "ids_stay_exact (map Subsidiary.id exampleSubsidiaries) (length [AddNew, Input
      Subsidiary_sample, Submit, Delete 2 True, AddNew,
           Input Subsidiary_sample, Submit])"
    by code_simp
  have c10: "distinct (map Subsidiary.id (rows (fold Subsidiary2_step [AddNew, Input
      Subsidiary_sample, Submit, Delete 2 True, AddNew,
           Input Subsidiary_sample, Submit] (Subsidiary_init exampleSubsidiaries))))"
    by (rule T [THEN conjunct2, THEN conjunct2, THEN conjunct2, THEN conjunct2, THEN conjunct2,
        THEN conjunct2, THEN conjunct2, THEN conjunct2, THEN conjunct2, THEN conjunct1, THEN mp,
        OF h10_1, THEN mp, OF h10_2])
  have h11_1: "ids_stay_exact (map Subsidiary.id exampleSubsidiaries) (length [AddNew, Input
      Subsidiary_sample, Submit, Delete 2 True, AddNew,
           Input Subsidiary_sample, Submit])"
    by code_simp
  have h11_2: "(Subsidiary_new 2 Subsidiary_sample) \<in> set (rows (fold Subsidiary2_step [AddNew,
      Input Subsidiary_sample, Submit, Delete 2 True, AddNew,
           Input Subsidiary_sample, Submit] (Subsidiary_init exampleSubsidiaries)))"
    by code_simp
  have c11: "isSafeInteger (Subsidiary.id (Subsidiary_new 2 Subsidiary_sample))"
    by (rule T [THEN conjunct2, THEN conjunct2, THEN conjunct2, THEN conjunct2, THEN conjunct2,
        THEN conjunct2, THEN conjunct2, THEN conjunct2, THEN conjunct2, THEN conjunct2, THEN
        conjunct1, THEN mp, OF h11_1, THEN mp, OF h11_2])
  have h12_1: "editingId Subsidiary_adding = None"
    by code_simp
  have h12_2: "isFormOpen Subsidiary_adding"
    by code_simp
  have h12_3: "ids_stay_exact (map Subsidiary.id (rows Subsidiary_adding)) 1"
    by code_simp
  have h12_4: "subsidiarySchema (formValues Subsidiary_adding) = []"
    by code_simp
  have h12_5: "\<not> Subsidiary2_isDuplicate (formValues Subsidiary_adding) Subsidiary_adding"
    by code_simp
  have h12_6: "subsidiarySchema Subsidiary_sample = []"
    by code_simp
  have h12_7: "\<not> Subsidiary2_isDuplicate Subsidiary_sample Subsidiary_adding"
    by code_simp
  have c12: "rows (fold Subsidiary2_step
             [Submit, Delete (nextId (map Subsidiary.id (rows Subsidiary_adding))) True, AddNew,
                 Input Subsidiary_sample, Submit] Subsidiary_adding)
       = rows Subsidiary_adding @ [Subsidiary_new (nextId (map Subsidiary.id (rows
           Subsidiary_adding))) Subsidiary_sample]"
    by (rule T [THEN conjunct2, THEN conjunct2, THEN conjunct2, THEN conjunct2, THEN conjunct2,
        THEN conjunct2, THEN conjunct2, THEN conjunct2, THEN conjunct2, THEN conjunct2, THEN
        conjunct2, THEN conjunct1, THEN mp, OF h12_1, THEN mp, OF h12_2, THEN mp, OF h12_3, THEN
        mp, OF h12_4, THEN mp, OF h12_5, THEN mp, OF h12_6, THEN mp, OF h12_7])
  have h13_1: "ids_stay_exact (map Location.id initialLocations) (length [AddNew, Input
      Location_sample, Submit, Delete 2 True, AddNew,
           Input Location_sample, Submit])"
    by code_simp
  have c13: "distinct (map Location.id (rows (fold Location1_step [AddNew, Input
      Location_sample, Submit, Delete 2 True, AddNew,
           Input Location_sample, Submit] Location_init)))"
    by (rule T [THEN conjunct2, THEN conjunct2, THEN conjunct2, THEN conjunct2, THEN conjunct2,
        THEN conjunct2, THEN conjunct2, THEN conjunct2, THEN conjunct2, THEN conjunct2, THEN
        conjunct2, THEN conjunct2, THEN conjunct1, THEN mp, OF h13_1])
  have h14_1: "ids_stay_exact (map Location.id initialLocations) (length [AddNew, Input
      Location_sample, Submit, Delete 2 True, AddNew,
           Input Location_sample, Submit])"
    by code_simp
  have h14_2: "(Location_new 2 Location_sample) \<in> set (rows (fold Location1_step [AddNew, Input
      Location_sample, Submit, Delete 2 True, AddNew,
           Input Location_sample, Submit] Location_init))"
    by code_simp
  have c14: "isSafeInteger (Location.id (Location_new 2 Location_sample))"
    by (rule T [THEN conjunct2, THEN conjunct2, THEN conjunct2, THEN conjunct2, THEN conjunct2,
        THEN conjunct2, THEN conjunct2, THEN conjunct2, THEN conjunct2, THEN conjunct2, THEN
        conjunct2, THEN conjunct2, THEN conjunct2, THEN conjunct1, THEN mp, OF h14_1, THEN mp,
        OF h14_2])
  have h15_1: "editingId Location_adding = None"
    by code_simp
  have h15_2: "isFormOpen Location_adding"
    by code_simp
  have h15_3: "ids_stay_exact (map Location.id (rows Location_adding)) 1"
    by code_simp
  have h15_4: "locationSchema (formValues Location_adding) = []"
    by code_simp
  have h15_5: "locationSchema Location_sample = []"
    by code_simp
  have c15: "rows (fold Location1_step
             [Submit, Delete (nextId (map Location.id (rows Location_adding))) True, AddNew,
                 Input Location_sample, Submit] Location_adding)
       = rows Location_adding @ [Location_new (nextId (map Location.id (rows Location_adding)))
           Location_sample]"
    by (rule T [THEN conjunct2, THEN conjunct2, THEN conjunct2, THEN conjunct2, THEN conjunct2,
        THEN conjunct2, THEN conjunct2, THEN conjunct2, THEN conjunct2, THEN conjunct2, THEN
        conjunct2, THEN conjunct2, THEN conjunct2, THEN conjunct2, THEN conjunct1, THEN mp, OF
        h15_1, THEN mp, OF h15_2, THEN mp, OF h15_3, THEN mp, OF h15_4, THEN mp, OF h15_5])
  have h16_1: "ids_stay_exact (map Location.id initialLocations) (length [AddNew, Input
      Location_sample, Submit, Delete 2 True, AddNew,
           Input Location_sample, Submit])"
    by code_simp
  have c16: "distinct (map Location.id (rows (fold Location2_step [AddNew, Input
      Location_sample, Submit, Delete 2 True, AddNew,
           Input Location_sample, Submit] Location_init)))"
    by (rule T [THEN conjunct2, THEN conjunct2, THEN conjunct2, THEN conjunct2, THEN conjunct2,
        THEN conjunct2, THEN conjunct2, THEN conjunct2, THEN conjunct2, THEN conjunct2, THEN
        conjunct2, THEN conjunct2, THEN conjunct2, THEN conjunct2, THEN conjunct2, THEN
        conjunct1, THEN mp, OF h16_1])
  have h17_1: "ids_stay_exact (map Location.id initialLocations) (length [AddNew, Input
      Location_sample, Submit, Delete 2 True, AddNew,
           Input Location_sample, Submit])"
    by code_simp
  have h17_2: "(Location_new 2 Location_sample) \<in> set (rows (fold Location2_step [AddNew, Input
      Location_sample, Submit, Delete 2 True, AddNew,
           Input Location_sample, Submit] Location_init))"
    by code_simp
  have c17: "isSafeInteger (Location.id (Location_new 2 Location_sample))"
    by (rule T [THEN conjunct2, THEN conjunct2, THEN conjunct2, THEN conjunct2, THEN conjunct2,
        THEN conjunct2, THEN conjunct2, THEN conjunct2, THEN conjunct2, THEN conjunct2, THEN
        conjunct2, THEN conjunct2, THEN conjunct2, THEN conjunct2, THEN conjunct2, THEN
        conjunct2, THEN conjunct1, THEN mp, OF h17_1, THEN mp, OF h17_2])
  have h18_1: "editingId Location_adding = None"
    by code_simp
  have h18_2: "isFormOpen Location_adding"
    by code_simp
  have h18_3: "ids_stay_exact (map Location.id (rows Location_adding)) 1"
    by code_simp
  have h18_4: "locationSchema (formValues Location_adding) = []"
    by code_simp
  have h18_5: "\<not> Location2_isDuplicate (formValues Location_adding) Location_adding"
    by code_simp
  have h18_6: "locationSchema Location_sample = []"
    by code_simp
  have h18_7: "\<not> Location2_isDuplicate Location_sample Location_adding"
    by code_simp
  have c18: "rows (fold Location2_step
             [Submit, Delete (nextId (map Location.id (rows Location_adding))) True, AddNew,
                 Input Location_sample, Submit] Location_adding)
       = rows Location_adding @ [Location_new (nextId (map Location.id (rows Location_adding)))
           Location_sample]"
    by (rule T [THEN conjunct2, THEN conjunct2, THEN conjunct2, THEN conjunct2, THEN conjunct2,
        THEN conjunct2, THEN conjunct2, THEN conjunct2, THEN conjunct2, THEN conjunct2, THEN
        conjunct2, THEN conjunct2, THEN conjunct2, THEN conjunct2, THEN conjunct2, THEN
        conjunct2, THEN conjunct2, THEN conjunct1, THEN mp, OF h18_1, THEN mp, OF h18_2, THEN
        mp, OF h18_3, THEN mp, OF h18_4, THEN mp, OF h18_5, THEN mp, OF h18_6, THEN mp, OF h18_7])
  have h19_1: "ids_stay_exact (map Designation.id initialDesignations) (length [AddNew, Input
      Designation_sample, Submit, Delete 3 True, AddNew,
           Input Designation_sample, Submit])"
    by code_simp
  have c19: "distinct (map Designation.id (rows (fold Designation1_step [AddNew, Input
      Designation_sample, Submit, Delete 3 True, AddNew,
           Input Designation_sample, Submit] Designation_init)))"
    by (rule T [THEN conjunct2, THEN conjunct2, THEN conjunct2, THEN conjunct2, THEN conjunct2,
        THEN conjunct2, THEN conjunct2, THEN conjunct2, THEN conjunct2, THEN conjunct2, THEN
        conjunct2, THEN conjunct2, THEN conjunct2, THEN conjunct2, THEN conjunct2, THEN
        conjunct2, THEN conjunct2, THEN conjunct2, THEN conjunct1, THEN mp, OF h19_1])
  have h20_1: "ids_stay_exact (map Designation.id initialDesignations) (length [AddNew, Input
      Designation_sample, Submit, Delete 3 True, AddNew,
           Input Designation_sample, Submit])"
    by code_simp
  have h20_2: "(Designation_new 3 Designation_sample) \<in> set (rows (fold Designation1_step
      [AddNew, Input Designation_sample, Submit, Delete 3 True, AddNew,
           Input Designation_sample, Submit] Designation_init))"
    by code_simp
  have c20: "isSafeInteger (Designation.id (Designation_new 3 Designation_sample))"
    by (rule T [THEN conjunct2, THEN conjunct2, THEN conjunct2, THEN conjunct2, THEN conjunct2,
        THEN conjunct2, THEN conjunct2, THEN conjunct2, THEN conjunct2, THEN conjunct2, THEN
        conjunct2, THEN conjunct2, THEN conjunct2, THEN conjunct2, THEN conjunct2, THEN
        conjunct2, THEN conjunct2, THEN conjunct2, THEN conjunct2, THEN conjunct1, THEN mp, OF
        h20_1, THEN mp, OF h20_2])
  have h21_1: "editingId Designation_adding = None"
    by code_simp
  have h21_2: "isFormOpen Designation_adding"
    by code_simp
  have h21_3: "ids_stay_exact (map Designation.id (rows Designation_adding)) 1"
    by code_simp
  have h21_4: "designationSchema (formValues Designation_adding) = []"
    by code_simp
  have h21_5: "designationSchema Designation_sample = []"
    by code_simp
  have c21: "rows (fold Designation1_step
             [Submit, Delete (nextId (map Designation.id (rows Designation_adding))) True,
                 AddNew, Input Designation_sample, Submit] Designation_adding)
       = rows Designation_adding @ [Designation_new (nextId (map Designation.id (rows
           Designation_adding))) Designation_sample]"
    by (rule T [THEN conjunct2, THEN conjunct2, THEN conjunct2, THEN conjunct2, THEN conjunct2,
        THEN conjunct2, THEN conjunct2, THEN conjunct2, THEN conjunct2, THEN conjunct2, THEN
        conjunct2, THEN conjunct2, THEN conjunct2, THEN conjunct2, THEN conjunct2, THEN
        conjunct2, THEN conjunct2, THEN conjunct2, THEN conjunct2, THEN conjunct2, THEN
        conjunct1, THEN mp, OF h21_1, THEN mp, OF h21_2, THEN mp, OF h21_3, THEN mp, OF h21_4,
        THEN mp, OF h21_5])
  have h22_1: "ids_stay_exact (map Designation.id initialDesignations) (length [AddNew, Input
      Designation_sample, Submit, Delete 3 True, AddNew,
           Input Designation_sample, Submit])"
    by code_simp
  have c22: "distinct (map Designation.id (rows (fold Designation2_step [AddNew, Input
      Designation_sample, Submit, Delete 3 True, AddNew,
           Input Designation_sample, Submit] Designation_init)))"
    by (rule T [THEN conjunct2, THEN conjunct2, THEN conjunct2, THEN conjunct2, THEN conjunct2,
        THEN conjunct2, THEN conjunct2, THEN conjunct2, THEN conjunct2, THEN conjunct2, THEN
        conjunct2, THEN conjunct2, THEN conjunct2, THEN conjunct2, THEN conjunct2, THEN
        conjunct2, THEN conjunct2, THEN conjunct2, THEN conjunct2, THEN conjunct2, THEN
        conjunct2, THEN conjunct1, THEN mp, OF h22_1])
  have h23_1: "ids_stay_exact (map Designation.id initialDesignations) (length [AddNew, Input
      Designation_sample, Submit, Delete 3 True, AddNew,
           Input Designation_sample, Submit])"
    by code_simp
  have h23_2: "(Designation_new 3 Designation_sample) \<in> set (rows (fold Designation2_step
      [AddNew, Input Designation_sample, Submit, Delete 3 True, AddNew,
           Input Designation_sample, Submit] Designation_init))"
    by code_simp
  have c23: "isSafeInteger (Designation.id (Designation_new 3 Designation_sample))"
    by (rule T [THEN conjunct2, THEN conjunct2, THEN conjunct2, THEN conjunct2, THEN conjunct2,
        THEN conjunct2, THEN conjunct2, THEN conjunct2, THEN conjunct2, THEN conjunct2, THEN
        conjunct2, THEN conjunct2, THEN conjunct2, THEN conjunct2, THEN conjunct2, THEN
        conjunct2, THEN conjunct2, THEN conjunct2, THEN conjunct2, THEN conjunct2, THEN
        conjunct2, THEN conjunct2, THEN conjunct1, THEN mp, OF h23_1, THEN mp, OF h23_2])
  have h24_1: "editingId Designation_adding = None"
    by code_simp
  have h24_2: "isFormOpen Designation_adding"
    by code_simp
  have h24_3: "ids_stay_exact (map Designation.id (rows Designation_adding)) 1"
    by code_simp
  have h24_4: "designationSchema (formValues Designation_adding) = []"
    by code_simp
  have h24_5: "\<not> Designation2_isDuplicate (formValues Designation_adding) Designation_adding"
    by code_simp
  have h24_6: "designationSchema Designation_sample = []"
    by code_simp
  have h24_7: "\<not> Designation2_isDuplicate Designation_sample Designation_adding"
    by code_simp
  have c24: "rows (fold Designation2_step
             [Submit, Delete (nextId (map Designation.id (rows Designation_adding))) True,
                 AddNew, Input Designation_sample, Submit] Designation_adding)
       = rows Designation_adding @ [Designation_new (nextId (map Designation.id (rows
           Designation_adding))) Designation_sample]"
    by (rule T [THEN conjunct2, THEN conjunct2, THEN conjunct2, THEN conjunct2, THEN conjunct2,
        THEN conjunct2, THEN conjunct2, THEN conjunct2, THEN conjunct2, THEN conjunct2, THEN
        conjunct2, THEN conjunct2, THEN conjunct2, THEN conjunct2, THEN conjunct2, THEN
        conjunct2, THEN conjunct2, THEN conjunct2, THEN conjunct2, THEN conjunct2, THEN
        conjunct2, THEN conjunct2, THEN conjunct2, THEN mp, OF h24_1, THEN mp, OF h24_2, THEN
        mp, OF h24_3, THEN mp, OF h24_4, THEN mp, OF h24_5, THEN mp, OF h24_6, THEN mp, OF h24_7])
  have x1: "map Designation.id
       (rows (fold Designation1_step
                [AddNew, Input Designation_sample, Submit, Delete 3 True, AddNew,
                 Input Designation_sample, Submit]
                Designation_init)) = [1, 2, 3]"
    by code_simp
  have x2: "Location_adding = fold Location2_step [AddNew, Input Location_sample] Location_init"
    by code_simp
  have x3: "rows (fold Location2_step
         [Submit, Delete (nextId (map Location.id (rows Location_adding))) True, AddNew,
          Input Location_sample, Submit]
         Location_adding)
     = initialLocations @ [Location_new 2 Location_sample]"
    by code_simp
  show ?thesis
    using h1_1 c1 h2_1 h2_2 c2 h3_1 h3_2 h3_3 h3_4 h3_5 h3_6 h3_7 c3 h4_1 c4 h5_1 h5_2 c5 h6_1
      h6_2 h6_3 h6_4 h6_5 h6_6 h6_7 h6_8 h6_9 c6 h7_1 h7_2 c7 h8_1 h8_2 c8 h9_1 h9_2 h9_3
      h9_4 h9_5 c9 h10_1 h10_2 c10 h11_1 h11_2 c11 h12_1 h12_2 h12_3 h12_4 h12_5 h12_6 h12_7
      c12 h13_1 c13 h14_1 h14_2 c14 h15_1 h15_2 h15_3 h15_4 h15_5 c15 h16_1 c16 h17_1 h17_2
      c17 h18_1 h18_2 h18_3 h18_4 h18_5 h18_6 h18_7 c18 h19_1 c19 h20_1 h20_2 c20 h21_1
      h21_2 h21_3 h21_4 h21_5 c21 h22_1 c22 h23_1 h23_2 c23 h24_1 h24_2 h24_3 h24_4 h24_5
      h24_6 h24_7 c24 x1 x2 x3
    by blast
qed


section \<open>C5: a failed validation\<close>

lemma Organization1_failed_submit:
  "(isFormOpen sO \<longrightarrow>
   (organizationSchema rEmail (formValues sO) \<noteq> []
       \<or> Organization1_isDuplicate (formValues sO) sO) \<longrightarrow>
   refused sO (Organization1_step rEmail Submit sO))"
  by (auto simp add: refused_def Organization1_step_def Organization_editingRow_def
        Organization1_handleSubmit_def Organization1_onSubmit_def
        Organization1_isDuplicate_def Let_def)

lemma Organization2_failed_submit:
  "(isFormOpen sO' \<longrightarrow>
   (organizationSchema rEmail (formValues sO') \<noteq> []
       \<or> Organization2_orgCodeDuplicate (formValues sO') sO'
       \<or> Organization2_tenantDuplicate (formValues sO') sO') \<longrightarrow>
   refused sO' (Organization2_step rEmail Submit sO'))"
  by (auto simp add: refused_def Organization2_step_def Organization_editingRow_def
        Organization2_handleSubmit_def Organization2_onSubmit_def
        Organization2_orgCodeDuplicate_def Organization2_tenantDuplicate_def Let_def)

lemma Subsidiary1_failed_submit:
  "(isFormOpen sS \<longrightarrow>
   subsidiarySchema (formValues sS) \<noteq> [] \<longrightarrow>
   refused sS (Subsidiary1_step Submit sS))"
  by (auto simp add: refused_def Subsidiary1_step_def Subsidiary_editingRow_def
        Subsidiary1_handleSubmit_def Subsidiary1_onSubmit_def Let_def)

lemma Subsidiary2_failed_submit:
  "(isFormOpen sS' \<longrightarrow>
   (subsidiarySchema (formValues sS') \<noteq> []
       \<or> Subsidiary2_isDuplicate (formValues sS') sS') \<longrightarrow>
   refused sS' (Subsidiary2_step Submit sS'))"
  by (auto simp add: refused_def Subsidiary2_step_def Subsidiary_editingRow_def
        Subsidiary2_handleSubmit_def Subsidiary2_onSubmit_def Subsidiary2_isDuplicate_def
        Let_def)

lemma Location1_failed_submit:
  "(isFormOpen sL \<longrightarrow>
   locationSchema (formValues sL) \<noteq> [] \<longrightarrow>
   refused sL (Location1_step Submit sL))"
  by (auto simp add: refused_def Location1_step_def Location_editingRow_def
        Location1_handleSubmit_def Location1_onSubmit_def Let_def)

lemma Location2_failed_submit:
  "(isFormOpen sL' \<longrightarrow>
   (locationSchema (formValues sL') \<noteq> []
       \<or> Location2_isDuplicate (formValues sL') sL') \<longrightarrow>
   refused sL' (Location2_step Submit sL'))"
  by (auto simp add: refused_def Location2_step_def Location_editingRow_def
        Location2_handleSubmit_def Location2_onSubmit_def Location2_isDuplicate_def Let_def)

lemma Designation1_failed_submit:
  "(isFormOpen sD \<longrightarrow>
   designationSchema (formValues sD) \<noteq> [] \<longrightarrow>
   refused sD (Designation1_step Submit sD))"
  by (auto simp add: refused_def Designation1_step_def Designation_editingRow_def
        Designation1_handleSubmit_def Designation1_onSubmit_def Let_def)

lemma Designation2_failed_submit:
  "(isFormOpen sD' \<longrightarrow>
   (designationSchema (formValues sD') \<noteq> []
       \<or> Designation2_isDuplicate (formValues sD') sD') \<longrightarrow>
   refused sD' (Designation2_step Submit sD'))"
  by (auto simp add: refused_def Designation2_step_def Designation_editingRow_def
        Designation2_handleSubmit_def Designation2_onSubmit_def Designation2_isDuplicate_def
        Let_def)

text \<open>
  C5. On every page, a submit of the open form whose validation fails (the schema
  reports a missing or malformed field, or the page's duplicate check finds the key, on
  the second Organization page also the tenant code) leaves the store, the
  creating/editing mode and the buffer as they were, and the form stays open. This
  includes the duplicate key on the Location page of src/pages/LocationPage.tsx.
\<close>

theorem failed_submit_leaves_page_unchanged:
  "(isFormOpen sO \<longrightarrow>
     (organizationSchema rEmail (formValues sO) \<noteq> []
       \<or> Organization1_isDuplicate (formValues sO) sO) \<longrightarrow>
     refused sO (Organization1_step rEmail Submit sO))
   \<and> (isFormOpen sO' \<longrightarrow>
     (organizationSchema rEmail (formValues sO') \<noteq> []
       \<or> Organization2_orgCodeDuplicate (formValues sO') sO'
       \<or> Organization2_tenantDuplicate (formValues sO') sO') \<longrightarrow>
     refused sO' (Organization2_step rEmail Submit sO'))
   \<and> (isFormOpen sS \<longrightarrow>
     subsidiarySchema (formValues sS) \<noteq> [] \<longrightarrow>
     refused sS (Subsidiary1_step Submit sS))
   \<and> (isFormOpen sS' \<longrightarrow>
     (subsidiarySchema (formValues sS') \<noteq> []
       \<or> Subsidiary2_isDuplicate (formValues sS') sS') \<longrightarrow>
     refused sS' (Subsidiary2_step Submit sS'))
   \<and> (isFormOpen sL \<longrightarrow>
     locationSchema (formValues sL) \<noteq> [] \<longrightarrow>
     refused sL (Location1_step Submit sL))
   \<and> (isFormOpen sL' \<longrightarrow>
     (locationSchema (formValues sL') \<noteq> []
       \<or> Location2_isDuplicate (formValues sL') sL') \<longrightarrow>
     refused sL' (Location2_step Submit sL'))
   \<and> (isFormOpen sD \<longrightarrow>
     designationSchema (formValues sD) \<noteq> [] \<longrightarrow>
     refused sD (Designation1_step Submit sD))
   \<and> (isFormOpen sD' \<longrightarrow>
     (designationSchema (formValues sD') \<noteq> []
       \<or> Designation2_isDuplicate (formValues sD') sD') \<longrightarrow>
     refused sD' (Designation2_step Submit sD'))"
  by (intro conjI Organization1_failed_submit Organization2_failed_submit
      Subsidiary1_failed_submit
        Subsidiary2_failed_submit Location1_failed_submit Location2_failed_submit
        Designation1_failed_submit Designation2_failed_submit)

text \<open>
  The statement of C5 at the example inputs: every hypothesis holds there.
\<close>

theorem failed_submit_leaves_page_unchanged_witness:
  "isFormOpen (Organization_adding\<lparr>formValues := (Organization_sample\<lparr>organizationCode :=
      ''aal''\<rparr>)\<rparr>)
   \<and> Organization1_isDuplicate (formValues (Organization_adding\<lparr>formValues :=
       (Organization_sample\<lparr>organizationCode := ''aal''\<rparr>)\<rparr>)) (Organization_adding\<lparr>formValues :=
       (Organization_sample\<lparr>organizationCode := ''aal''\<rparr>)\<rparr>)
   \<and> refused (Organization_adding\<lparr>formValues := (Organization_sample\<lparr>organizationCode :=
       ''aal''\<rparr>)\<rparr>) (Organization1_step example_rEmail Submit (Organization_adding\<lparr>formValues :=
       (Organization_sample\<lparr>organizationCode := ''aal''\<rparr>)\<rparr>))
   \<and> isFormOpen (Organization_adding\<lparr>formValues := (Organization_sample\<lparr>organizationCode :=
       ''aal''\<rparr>)\<rparr>)
   \<and> Organization2_orgCodeDuplicate (formValues (Organization_adding\<lparr>formValues :=
       (Organization_sample\<lparr>organizationCode := ''aal''\<rparr>)\<rparr>)) (Organization_adding\<lparr>formValues :=
       (Organization_sample\<lparr>organizationCode := ''aal''\<rparr>)\<rparr>)
   \<and> refused (Organization_adding\<lparr>formValues := (Organization_sample\<lparr>organizationCode :=
       ''aal''\<rparr>)\<rparr>) (Organization2_step example_rEmail Submit (Organization_adding\<lparr>formValues :=
       (Organization_sample\<lparr>organizationCode := ''aal''\<rparr>)\<rparr>))
   \<and> isFormOpen ((Subsidiary_init exampleSubsidiaries)\<lparr>isFormOpen := True\<rparr>)
   \<and> subsidiarySchema (formValues ((Subsidiary_init exampleSubsidiaries)\<lparr>isFormOpen := True\<rparr>)) \<noteq>
       []
   \<and> refused ((Subsidiary_init exampleSubsidiaries)\<lparr>isFormOpen := True\<rparr>) (Subsidiary1_step
       Submit ((Subsidiary_init exampleSubsidiaries)\<lparr>isFormOpen := True\<rparr>))
   \<and> isFormOpen (Subsidiary_adding\<lparr>formValues := (Subsidiary_sample\<lparr>subsidiaryCode := ''aas''\<rparr>)\<rparr>)
   \<and> Subsidiary2_isDuplicate (formValues (Subsidiary_adding\<lparr>formValues :=
       (Subsidiary_sample\<lparr>subsidiaryCode := ''aas''\<rparr>)\<rparr>)) (Subsidiary_adding\<lparr>formValues :=
       (Subsidiary_sample\<lparr>subsidiaryCode := ''aas''\<rparr>)\<rparr>)
   \<and> refused (Subsidiary_adding\<lparr>formValues := (Subsidiary_sample\<lparr>subsidiaryCode := ''aas''\<rparr>)\<rparr>)
       (Subsidiary2_step Submit (Subsidiary_adding\<lparr>formValues :=
       (Subsidiary_sample\<lparr>subsidiaryCode := ''aas''\<rparr>)\<rparr>))
   \<and> isFormOpen (Location_init\<lparr>isFormOpen := True\<rparr>)
   \<and> locationSchema (formValues (Location_init\<lparr>isFormOpen := True\<rparr>)) \<noteq> []
   \<and> refused (Location_init\<lparr>isFormOpen := True\<rparr>) (Location1_step Submit
       (Location_init\<lparr>isFormOpen := True\<rparr>))
   \<and> isFormOpen (Location_adding\<lparr>formValues := (Location_sample\<lparr>locationCode := ''aalmys''\<rparr>)\<rparr>)
   \<and> Location2_isDuplicate (formValues (Location_adding\<lparr>formValues :=
       (Location_sample\<lparr>locationCode := ''aalmys''\<rparr>)\<rparr>)) (Location_adding\<lparr>formValues :=
       (Location_sample\<lparr>locationCode := ''aalmys''\<rparr>)\<rparr>)
   \<and> refused (Location_adding\<lparr>formValues := (Location_sample\<lparr>locationCode := ''aalmys''\<rparr>)\<rparr>)
       (Location2_step Submit (Location_adding\<lparr>formValues := (Location_sample\<lparr>locationCode :=
       ''aalmys''\<rparr>)\<rparr>))
   \<and> isFormOpen (Designation_init\<lparr>isFormOpen := True\<rparr>)
   \<and> designationSchema (formValues (Designation_init\<lparr>isFormOpen := True\<rparr>)) \<noteq> []
   \<and> refused (Designation_init\<lparr>isFormOpen := True\<rparr>) (Designation1_step Submit
       (Designation_init\<lparr>isFormOpen := True\<rparr>))
   \<and> isFormOpen (Designation_adding\<lparr>formValues := (Designation_sample\<lparr>designationCode :=
       ''drv''\<rparr>)\<rparr>)
   \<and> Designation2_isDuplicate (formValues (Designation_adding\<lparr>formValues :=
       (Designation_sample\<lparr>designationCode := ''drv''\<rparr>)\<rparr>)) (Designation_adding\<lparr>formValues :=
       (Designation_sample\<lparr>designationCode := ''drv''\<rparr>)\<rparr>)
   \<and> refused (Designation_adding\<lparr>formValues := (Designation_sample\<lparr>designationCode :=
       ''drv''\<rparr>)\<rparr>) (Designation2_step Submit (Designation_adding\<lparr>formValues :=
       (Designation_sample\<lparr>designationCode := ''drv''\<rparr>)\<rparr>))"
proof -
  note T = failed_submit_leaves_page_unchanged
    [where rEmail = example_rEmail
       and sO = "Organization_adding\<lparr>formValues := (Organization_sample\<lparr>organizationCode :=
           ''aal''\<rparr>)\<rparr>"
       and sO' = "Organization_adding\<lparr>formValues := (Organization_sample\<lparr>organizationCode :=
           ''aal''\<rparr>)\<rparr>"
       and sS = "(Subsidiary_init exampleSubsidiaries)\<lparr>isFormOpen := True\<rparr>"
       and sS' = "Subsidiary_adding\<lparr>formValues := (Subsidiary_sample\<lparr>subsidiaryCode := ''aas''\<rparr>)\<rparr>"
       and sL = "Location_init\<lparr>isFormOpen := True\<rparr>"
       and sL' = "Location_adding\<lparr>formValues := (Location_sample\<lparr>locationCode := ''aalmys''\<rparr>)\<rparr>"
       and sD = "Designation_init\<lparr>isFormOpen := True\<rparr>"
       and sD' = "Designation_adding\<lparr>formValues := (Designation_sample\<lparr>designationCode :=
           ''drv''\<rparr>)\<rparr>"]
  have h1_1: "isFormOpen (Organization_adding\<lparr>formValues :=
      (Organization_sample\<lparr>organizationCode := ''aal''\<rparr>)\<rparr>)"
    by code_simp
  have w1_2: "Organization1_isDuplicate (formValues (Organization_adding\<lparr>formValues :=
      (Organization_sample\<lparr>organizationCode := ''aal''\<rparr>)\<rparr>)) (Organization_adding\<lparr>formValues :=
      (Organization_sample\<lparr>organizationCode := ''aal''\<rparr>)\<rparr>)"
    by code_simp
  have h1_2: "(organizationSchema example_rEmail (formValues (Organization_adding\<lparr>formValues :=
      (Organization_sample\<lparr>organizationCode := ''aal''\<rparr>)\<rparr>)) \<noteq> []
       \<or> Organization1_isDuplicate (formValues (Organization_adding\<lparr>formValues :=
           (Organization_sample\<lparr>organizationCode := ''aal''\<rparr>)\<rparr>)) (Organization_adding\<lparr>formValues
           := (Organization_sample\<lparr>organizationCode := ''aal''\<rparr>)\<rparr>))"
    using w1_2 by blast
  have c1: "refused (Organization_adding\<lparr>formValues := (Organization_sample\<lparr>organizationCode :=
      ''aal''\<rparr>)\<rparr>) (Organization1_step example_rEmail Submit (Organization_adding\<lparr>formValues :=
      (Organization_sample\<lparr>organizationCode := ''aal''\<rparr>)\<rparr>))"
    by (rule T [THEN conjunct1, THEN mp, OF h1_1, THEN mp, OF h1_2])
  have h2_1: "isFormOpen (Organization_adding\<lparr>formValues :=
      (Organization_sample\<lparr>organizationCode := ''aal''\<rparr>)\<rparr>)"
    by code_simp
  have w2_2: "Organization2_orgCodeDuplicate (formValues (Organization_adding\<lparr>formValues :=
      (Organization_sample\<lparr>organizationCode := ''aal''\<rparr>)\<rparr>)) (Organization_adding\<lparr>formValues :=
      (Organization_sample\<lparr>organizationCode := ''aal''\<rparr>)\<rparr>)"
    by code_simp
  have h2_2: "(organizationSchema example_rEmail (formValues (Organization_adding\<lparr>formValues :=
      (Organization_sample\<lparr>organizationCode := ''aal''\<rparr>)\<rparr>)) \<noteq> []
       \<or> Organization2_orgCodeDuplicate (formValues (Organization_adding\<lparr>formValues :=
           (Organization_sample\<lparr>organizationCode := ''aal''\<rparr>)\<rparr>)) (Organization_adding\<lparr>formValues
           := (Organization_sample\<lparr>organizationCode := ''aal''\<rparr>)\<rparr>)
       \<or> Organization2_tenantDuplicate (formValues (Organization_adding\<lparr>formValues :=
           (Organization_sample\<lparr>organizationCode := ''aal''\<rparr>)\<rparr>)) (Organization_adding\<lparr>formValues
           := (Organization_sample\<lparr>organizationCode := ''aal''\<rparr>)\<rparr>))"
    using w2_2 by blast
  have c2: "refused (Organization_adding\<lparr>formValues := (Organization_sample\<lparr>organizationCode :=
      ''aal''\<rparr>)\<rparr>) (Organization2_step example_rEmail Submit (Organization_adding\<lparr>formValues :=
      (Organization_sample\<lparr>organizationCode := ''aal''\<rparr>)\<rparr>))"
    by (rule T [THEN conjunct2, THEN conjunct1, THEN mp, OF h2_1, THEN mp, OF h2_2])
  have h3_1: "isFormOpen ((Subsidiary_init exampleSubsidiaries)\<lparr>isFormOpen := True\<rparr>)"
    by code_simp
  have h3_2: "subsidiarySchema (formValues ((Subsidiary_init exampleSubsidiaries)\<lparr>isFormOpen :=
      True\<rparr>)) \<noteq> []"
    by code_simp
  have c3: "refused ((Subsidiary_init exampleSubsidiaries)\<lparr>isFormOpen := True\<rparr>)
      (Subsidiary1_step Submit ((Subsidiary_init exampleSubsidiaries)\<lparr>isFormOpen := True\<rparr>))"
    by (rule T [THEN conjunct2, THEN conjunct2, THEN conjunct1, THEN mp, OF h3_1, THEN mp, OF
        h3_2])
  have h4_1: "isFormOpen (Subsidiary_adding\<lparr>formValues := (Subsidiary_sample\<lparr>subsidiaryCode :=
      ''aas''\<rparr>)\<rparr>)"
    by code_simp
  have w4_2: "Subsidiary2_isDuplicate (formValues (Subsidiary_adding\<lparr>formValues :=
      (Subsidiary_sample\<lparr>subsidiaryCode := ''aas''\<rparr>)\<rparr>)) (Subsidiary_adding\<lparr>formValues :=
      (Subsidiary_sample\<lparr>subsidiaryCode := ''aas''\<rparr>)\<rparr>)"
    by code_simp
  have h4_2: "(subsidiarySchema (formValues (Subsidiary_adding\<lparr>formValues :=
      (Subsidiary_sample\<lparr>subsidiaryCode := ''aas''\<rparr>)\<rparr>)) \<noteq> []
       \<or> Subsidiary2_isDuplicate (formValues (Subsidiary_adding\<lparr>formValues :=
           (Subsidiary_sample\<lparr>subsidiaryCode := ''aas''\<rparr>)\<rparr>)) (Subsidiary_adding\<lparr>formValues :=
           (Subsidiary_sample\<lparr>subsidiaryCode := ''aas''\<rparr>)\<rparr>))"
    using w4_2 by blast
  have c4: "refused (Subsidiary_adding\<lparr>formValues := (Subsidiary_sample\<lparr>subsidiaryCode :=
      ''aas''\<rparr>)\<rparr>) (Subsidiary2_step Submit (Subsidiary_adding\<lparr>formValues :=
      (Subsidiary_sample\<lparr>subsidiaryCode := ''aas''\<rparr>)\<rparr>))"
    by (rule T [THEN conjunct2, THEN conjunct2, THEN conjunct2, THEN conjunct1, THEN mp, OF
        h4_1, THEN mp, OF h4_2])
  have h5_1: "isFormOpen (Location_init\<lparr>isFormOpen := True\<rparr>)"
    by code_simp
  have h5_2: "locationSchema (formValues (Location_init\<lparr>isFormOpen := True\<rparr>)) \<noteq> []"
    by code_simp
  have c5: "refused (Location_init\<lparr>isFormOpen := True\<rparr>) (Location1_step Submit
      (Location_init\<lparr>isFormOpen := True\<rparr>))"
    by (rule T [THEN conjunct2, THEN conjunct2, THEN conjunct2, THEN conjunct2, THEN conjunct1,
        THEN mp, OF h5_1, THEN mp, OF h5_2])
  have h6_1: "isFormOpen (Location_adding\<lparr>formValues := (Location_sample\<lparr>locationCode :=
      ''aalmys''\<rparr>)\<rparr>)"
    by code_simp
  have w6_2: "Location2_isDuplicate (formValues (Location_adding\<lparr>formValues :=
      (Location_sample\<lparr>locationCode := ''aalmys''\<rparr>)\<rparr>)) (Location_adding\<lparr>formValues :=
      (Location_sample\<lparr>locationCode := ''aalmys''\<rparr>)\<rparr>)"
    by code_simp
  have h6_2: "(locationSchema (formValues (Location_adding\<lparr>formValues :=
      (Location_sample\<lparr>locationCode := ''aalmys''\<rparr>)\<rparr>)) \<noteq> []
       \<or> Location2_isDuplicate (formValues (Location_adding\<lparr>formValues :=
           (Location_sample\<lparr>locationCode := ''aalmys''\<rparr>)\<rparr>)) (Location_adding\<lparr>formValues :=
           (Location_sample\<lparr>locationCode := ''aalmys''\<rparr>)\<rparr>))"
    using w6_2 by blast
  have c6: "refused (Location_adding\<lparr>formValues := (Location_sample\<lparr>locationCode :=
      ''aalmys''\<rparr>)\<rparr>) (Location2_step Submit (Location_adding\<lparr>formValues :=
      (Location_sample\<lparr>locationCode := ''aalmys''\<rparr>)\<rparr>))"
    by (rule T [THEN conjunct2, THEN conjunct2, THEN conjunct2, THEN conjunct2, THEN conjunct2,
        THEN conjunct1, THEN mp, OF h6_1, THEN mp, OF h6_2])
  have h7_1: "isFormOpen (Designation_init\<lparr>isFormOpen := True\<rparr>)"
    by code_simp
  have h7_2: "designationSchema (formValues (Designation_init\<lparr>isFormOpen := True\<rparr>)) \<noteq> []"
    by code_simp
  have c7: "refused (Designation_init\<lparr>isFormOpen := True\<rparr>) (Designation1_step Submit
      (Designation_init\<lparr>isFormOpen := True\<rparr>))"
    by (rule T [THEN conjunct2, THEN conjunct2, THEN conjunct2, THEN conjunct2, THEN conjunct2,
        THEN conjunct2, THEN conjunct1, THEN mp, OF h7_1, THEN mp, OF h7_2])
  have h8_1: "isFormOpen (Designation_adding\<lparr>formValues := (Designation_sample\<lparr>designationCode
      := ''drv''\<rparr>)\<rparr>)"
    by code_simp
  have w8_2: "Designation2_isDuplicate (formValues (Designation_adding\<lparr>formValues :=
      (Designation_sample\<lparr>designationCode := ''drv''\<rparr>)\<rparr>)) (Designation_adding\<lparr>formValues :=
      (Designation_sample\<lparr>designationCode := ''drv''\<rparr>)\<rparr>)"
    by code_simp
  have h8_2: "(designationSchema (formValues (Designation_adding\<lparr>formValues :=
      (Designation_sample\<lparr>designationCode := ''drv''\<rparr>)\<rparr>)) \<noteq> []
       \<or> Designation2_isDuplicate (formValues (Designation_adding\<lparr>formValues :=
           (Designation_sample\<lparr>designationCode := ''drv''\<rparr>)\<rparr>)) (Designation_adding\<lparr>formValues :=
           (Designation_sample\<lparr>designationCode := ''drv''\<rparr>)\<rparr>))"
    using w8_2 by blast
  have c8: "refused (Designation_adding\<lparr>formValues := (Designation_sample\<lparr>designationCode :=
      ''drv''\<rparr>)\<rparr>) (Designation2_step Submit (Designation_adding\<lparr>formValues :=
      (Designation_sample\<lparr>designationCode := ''drv''\<rparr>)\<rparr>))"
    by (rule T [THEN conjunct2, THEN conjunct2, THEN conjunct2, THEN conjunct2, THEN conjunct2,
        THEN conjunct2, THEN conjunct2, THEN mp, OF h8_1, THEN mp, OF h8_2])
  show ?thesis
    using h1_1 w1_2 c1 h2_1 w2_2 c2 h3_1 h3_2 c3 h4_1 w4_2 c4 h5_1 h5_2 c5 h6_1 w6_2 c6 h7_1
      h7_2 c7 h8_1 w8_2 c8
    by blast
qed


section \<open>C6: delete\<close>

lemma Organization1_delete_removes:
  "(RO \<in> set (rows sO) \<longrightarrow>
   removed Organization.id (Organization.id RO) sO
       (Organization1_step rEmail (Delete (Organization.id RO) True) sO))"
  by (auto simp add: removed_def Organization1_handleDelete_def Let_def)

lemma Organization1_delete_empties_buffer:
  "(RO \<in> set (rows sO) \<longrightarrow>
   editingId sO = Some (Organization.id RO) \<longrightarrow>
   formValues (Organization1_step rEmail (Delete (Organization.id RO) True) sO) =
       Organization_defaultValues)"
proof (intro impI)
  assume R: "RO \<in> set (rows sO)" and e: "editingId sO = Some (Organization.id RO)"
  let ?t = "Organization1_handle rEmail (Delete (Organization.id RO) True) sO"
  have t: "editingId ?t = None"
    using R e by (simp add: Organization1_handleDelete_def Let_def)
  then have "Organization_editingRow ?t = None"
    by (rule Organization_editingRow_None)
  moreover have "Organization_editingRow sO \<noteq> None"
    using R e by (auto simp add: Organization_editingRow_def find_None_iff)
  ultimately have "Organization1_step rEmail (Delete (Organization.id RO) True) sO =
      Organization1_prefill ?t"
    using R by (auto simp add: Organization1_step_def Let_def)
  then show "formValues (Organization1_step rEmail (Delete (Organization.id RO) True) sO) =
      Organization_defaultValues"
    using t by (simp add: Organization1_prefill_closed)
qed

lemma Organization1_delete_keeps_view:
  "(RO \<in> set (rows sO) \<longrightarrow>
   viewRow (Organization1_step rEmail (Delete (Organization.id RO) True) sO) = viewRow sO)"
  by (simp add: Organization1_handleDelete_def Let_def)

lemma Organization2_delete_removes:
  "(RO' \<in> set (rows sO') \<longrightarrow>
   removed Organization.id (Organization.id RO') sO'
       (Organization2_step rEmail (Delete (Organization.id RO') True) sO'))"
  by (auto simp add: removed_def Organization2_handleDelete_def Let_def)

lemma Organization2_delete_keeps_view:
  "(RO' \<in> set (rows sO') \<longrightarrow>
   viewRow (Organization2_step rEmail (Delete (Organization.id RO') True) sO') = viewRow sO')"
  by (simp add: Organization2_handleDelete_def Let_def)

lemma Subsidiary1_delete_removes:
  "(RS \<in> set (rows sS) \<longrightarrow>
   removed Subsidiary.id (Subsidiary.id RS) sS
       (Subsidiary1_step (Delete (Subsidiary.id RS) True) sS))"
  by (auto simp add: removed_def Subsidiary1_handleDelete_def Let_def)

lemma Subsidiary1_delete_empties_buffer:
  "(RS \<in> set (rows sS) \<longrightarrow>
   editingId sS = Some (Subsidiary.id RS) \<longrightarrow>
   formValues (Subsidiary1_step (Delete (Subsidiary.id RS) True) sS) = Subsidiary_defaultValues)"
proof (intro impI)
  assume R: "RS \<in> set (rows sS)" and e: "editingId sS = Some (Subsidiary.id RS)"
  let ?t = "Subsidiary1_handle (Delete (Subsidiary.id RS) True) sS"
  have t: "editingId ?t = None"
    using R e by (simp add: Subsidiary1_handleDelete_def Let_def)
  then have "Subsidiary_editingRow ?t = None"
    by (rule Subsidiary_editingRow_None)
  moreover have "Subsidiary_editingRow sS \<noteq> None"
    using R e by (auto simp add: Subsidiary_editingRow_def find_None_iff)
  ultimately have "Subsidiary1_step (Delete (Subsidiary.id RS) True) sS = Subsidiary1_prefill ?t"
    using R by (auto simp add: Subsidiary1_step_def Let_def)
  then show "formValues (Subsidiary1_step (Delete (Subsidiary.id RS) True) sS) =
      Subsidiary_defaultValues"
    using t by (simp add: Subsidiary1_prefill_closed)
qed

lemma Subsidiary1_delete_closes_view:
  "(RS \<in> set (rows sS) \<longrightarrow>
   viewRow sS = Some vS \<longrightarrow>
   Subsidiary.id vS = Subsidiary.id RS \<longrightarrow>
   viewRow (Subsidiary1_step (Delete (Subsidiary.id RS) True) sS) = None)"
  by (simp add: Subsidiary1_handleDelete_def Let_def)

lemma Subsidiary2_delete_removes:
  "(RS' \<in> set (rows sS') \<longrightarrow>
   removed Subsidiary.id (Subsidiary.id RS') sS'
       (Subsidiary2_step (Delete (Subsidiary.id RS') True) sS'))"
  by (auto simp add: removed_def Subsidiary2_handleDelete_def Let_def)

lemma Subsidiary2_delete_keeps_view:
  "(RS' \<in> set (rows sS') \<longrightarrow>
   viewRow (Subsidiary2_step (Delete (Subsidiary.id RS') True) sS') = viewRow sS')"
  by (simp add: Subsidiary2_handleDelete_def Let_def)

lemma Location1_delete_removes:
  "(RL \<in> set (rows sL) \<longrightarrow>
   removed Location.id (Location.id RL) sL
       (Location1_step (Delete (Location.id RL) True) sL))"
  by (auto simp add: removed_def Location1_handleDelete_def Let_def)

lemma Location1_delete_empties_buffer:
  "(RL \<in> set (rows sL) \<longrightarrow>
   editingId sL = Some (Location.id RL) \<longrightarrow>
   formValues (Location1_step (Delete (Location.id RL) True) sL) = Location_defaultValues)"
proof (intro impI)
  assume R: "RL \<in> set (rows sL)" and e: "editingId sL = Some (Location.id RL)"
  let ?t = "Location1_handle (Delete (Location.id RL) True) sL"
  have t: "editingId ?t = None"
    using R e by (simp add: Location1_handleDelete_def Let_def)
  then have "Location_editingRow ?t = None"
    by (rule Location_editingRow_None)
  moreover have "Location_editingRow sL \<noteq> None"
    using R e by (auto simp add: Location_editingRow_def find_None_iff)
  ultimately have "Location1_step (Delete (Location.id RL) True) sL = Location1_prefill ?t"
    using R by (auto simp add: Location1_step_def Let_def)
  then show "formValues (Location1_step (Delete (Location.id RL) True) sL) =
      Location_defaultValues"
    using t by (simp add: Location1_prefill_closed)
qed

lemma Location1_delete_closes_view:
  "(RL \<in> set (rows sL) \<longrightarrow>
   viewRow sL = Some vL \<longrightarrow>
   Location.id vL = Location.id RL \<longrightarrow>
   viewRow (Location1_step (Delete (Location.id RL) True) sL) = None)"
  by (simp add: Location1_handleDelete_def Let_def)

lemma Location2_delete_removes:
  "(RL' \<in> set (rows sL') \<longrightarrow>
   removed Location.id (Location.id RL') sL'
       (Location2_step (Delete (Location.id RL') True) sL'))"
  by (auto simp add: removed_def Location2_handleDelete_def Let_def)

lemma Location2_delete_keeps_view:
  "(RL' \<in> set (rows sL') \<longrightarrow>
   viewRow (Location2_step (Delete (Location.id RL') True) sL') = viewRow sL')"
  by (simp add: Location2_handleDelete_def Let_def)

lemma Designation1_delete_removes:
  "(RD \<in> set (rows sD) \<longrightarrow>
   removed Designation.id (Designation.id RD) sD
       (Designation1_step (Delete (Designation.id RD) True) sD))"
  by (auto simp add: removed_def Designation1_handleDelete_def Let_def)

lemma Designation1_delete_empties_buffer:
  "(RD \<in> set (rows sD) \<longrightarrow>
   editingId sD = Some (Designation.id RD) \<longrightarrow>
   formValues (Designation1_step (Delete (Designation.id RD) True) sD) =
       Designation_defaultValues)"
proof (intro impI)
  assume R: "RD \<in> set (rows sD)" and e: "editingId sD = Some (Designation.id RD)"
  let ?t = "Designation1_handle (Delete (Designation.id RD) True) sD"
  have t: "editingId ?t = None"
    using R e by (simp add: Designation1_handleDelete_def Let_def)
  then have "Designation_editingRow ?t = None"
    by (rule Designation_editingRow_None)
  moreover have "Designation_editingRow sD \<noteq> None"
    using R e by (auto simp add: Designation_editingRow_def find_None_iff)
  ultimately have "Designation1_step (Delete (Designation.id RD) True) sD = Designation1_prefill
      ?t"
    using R by (auto simp add: Designation1_step_def Let_def)
  then show "formValues (Designation1_step (Delete (Designation.id RD) True) sD) =
      Designation_defaultValues"
    using t by (simp add: Designation1_prefill_closed)
qed

lemma Designation1_delete_closes_view:
  "(RD \<in> set (rows sD) \<longrightarrow>
   viewRow sD = Some vD \<longrightarrow>
   Designation.id vD = Designation.id RD \<longrightarrow>
   viewRow (Designation1_step (Delete (Designation.id RD) True) sD) = None)"
  by (simp add: Designation1_handleDelete_def Let_def)

lemma Designation2_delete_removes:
  "(RD' \<in> set (rows sD') \<longrightarrow>
   removed Designation.id (Designation.id RD') sD'
       (Designation2_step (Delete (Designation.id RD') True) sD'))"
  by (auto simp add: removed_def Designation2_handleDelete_def Let_def)

lemma Designation2_delete_keeps_view:
  "(RD' \<in> set (rows sD') \<longrightarrow>
   viewRow (Designation2_step (Delete (Designation.id RD') True) sD') = viewRow sD')"
  by (simp add: Designation2_handleDelete_def Let_def)

text \<open>
  C6 (as amended). On every page, a confirmed delete of a stored record R removes the
  records of R's id from the store and, if the form was editing R, closes the form,
  which then edits no record. On the four first pages the buffer is then back at the
  empty default values. On the first Subsidiary, Location and Designation pages a view
  of R is closed as well; on the other pages (both Organization pages, the second
  Subsidiary, Location and Designation pages) the viewed record stays as it was.
\<close>

theorem delete_removes_record_and_closes_form:
  "(RO \<in> set (rows sO) \<longrightarrow>
     removed Organization.id (Organization.id RO) sO
       (Organization1_step rEmail (Delete (Organization.id RO) True) sO))
   \<and> (RO \<in> set (rows sO) \<longrightarrow>
     editingId sO = Some (Organization.id RO) \<longrightarrow>
     formValues (Organization1_step rEmail (Delete (Organization.id RO) True) sO) =
         Organization_defaultValues)
   \<and> (RO \<in> set (rows sO) \<longrightarrow>
     viewRow (Organization1_step rEmail (Delete (Organization.id RO) True) sO) = viewRow sO)
   \<and> (RO' \<in> set (rows sO') \<longrightarrow>
     removed Organization.id (Organization.id RO') sO'
       (Organization2_step rEmail (Delete (Organization.id RO') True) sO'))
   \<and> (RO' \<in> set (rows sO') \<longrightarrow>
     viewRow (Organization2_step rEmail (Delete (Organization.id RO') True) sO') = viewRow sO')
   \<and> (RS \<in> set (rows sS) \<longrightarrow>
     removed Subsidiary.id (Subsidiary.id RS) sS
       (Subsidiary1_step (Delete (Subsidiary.id RS) True) sS))
   \<and> (RS \<in> set (rows sS) \<longrightarrow>
     editingId sS = Some (Subsidiary.id RS) \<longrightarrow>
     formValues (Subsidiary1_step (Delete (Subsidiary.id RS) True) sS) = Subsidiary_defaultValues)
   \<and> (RS \<in> set (rows sS) \<longrightarrow>
     viewRow sS = Some vS \<longrightarrow>
     Subsidiary.id vS = Subsidiary.id RS \<longrightarrow>
     viewRow (Subsidiary1_step (Delete (Subsidiary.id RS) True) sS) = None)
   \<and> (RS' \<in> set (rows sS') \<longrightarrow>
     removed Subsidiary.id (Subsidiary.id RS') sS'
       (Subsidiary2_step (Delete (Subsidiary.id RS') True) sS'))
   \<and> (RS' \<in> set (rows sS') \<longrightarrow>
     viewRow (Subsidiary2_step (Delete (Subsidiary.id RS') True) sS') = viewRow sS')
   \<and> (RL \<in> set (rows sL) \<longrightarrow>
     removed Location.id (Location.id RL) sL
       (Location1_step (Delete (Location.id RL) True) sL))
   \<and> (RL \<in> set (rows sL) \<longrightarrow>
     editingId sL = Some (Location.id RL) \<longrightarrow>
     formValues (Location1_step (Delete (Location.id RL) True) sL) = Location_defaultValues)
   \<and> (RL \<in> set (rows sL) \<longrightarrow>
     viewRow sL = Some vL \<longrightarrow>
     Location.id vL = Location.id RL \<longrightarrow>
     viewRow (Location1_step (Delete (Location.id RL) True) sL) = None)
   \<and> (RL' \<in> set (rows sL') \<longrightarrow>
     removed Location.id (Location.id RL') sL'
       (Location2_step (Delete (Location.id RL') True) sL'))
   \<and> (RL' \<in> set (rows sL') \<longrightarrow>
     viewRow (Location2_step (Delete (Location.id RL') True) sL') = viewRow sL')
   \<and> (RD \<in> set (rows sD) \<longrightarrow>
     removed Designation.id (Designation.id RD) sD
       (Designation1_step (Delete (Designation.id RD) True) sD))
   \<and> (RD \<in> set (rows sD) \<longrightarrow>
     editingId sD = Some (Designation.id RD) \<longrightarrow>
     formValues (Designation1_step (Delete (Designation.id RD) True) sD) =
         Designation_defaultValues)
   \<and> (RD \<in> set (rows sD) \<longrightarrow>
     viewRow sD = Some vD \<longrightarrow>
     Designation.id vD = Designation.id RD \<longrightarrow>
     viewRow (Designation1_step (Delete (Designation.id RD) True) sD) = None)
   \<and> (RD' \<in> set (rows sD') \<longrightarrow>
     removed Designation.id (Designation.id RD') sD'
       (Designation2_step (Delete (Designation.id RD') True) sD'))
   \<and> (RD' \<in> set (rows sD') \<longrightarrow>
     viewRow (Designation2_step (Delete (Designation.id RD') True) sD') = viewRow sD')"
  by (intro conjI Organization1_delete_removes Organization1_delete_empties_buffer
        Organization1_delete_keeps_view Organization2_delete_removes
        Organization2_delete_keeps_view Subsidiary1_delete_removes
        Subsidiary1_delete_empties_buffer Subsidiary1_delete_closes_view
        Subsidiary2_delete_removes Subsidiary2_delete_keeps_view Location1_delete_removes
        Location1_delete_empties_buffer Location1_delete_closes_view
        Location2_delete_removes Location2_delete_keeps_view Designation1_delete_removes
        Designation1_delete_empties_buffer Designation1_delete_closes_view
        Designation2_delete_removes Designation2_delete_keeps_view)

text \<open>
  The claim as stated fails on the Organization page of unnamed/part_005: Edit and then
  View on the seed record (id 1), then the confirmed Delete of that record: the store
  is empty and the form is closed, but the view still shows the deleted record.
\<close>

theorem delete_leaves_view_open_counterexample:
  "rows (fold (Organization2_step example_rEmail)
         [Edit (hd initialOrganizations), View (hd initialOrganizations), Delete 1 True]
         Organization_init)
     = []
   \<and> isFormOpen (fold (Organization2_step example_rEmail)
         [Edit (hd initialOrganizations), View (hd initialOrganizations), Delete 1 True]
         Organization_init)
     = False
   \<and> viewRow (fold (Organization2_step example_rEmail)
         [Edit (hd initialOrganizations), View (hd initialOrganizations), Delete 1 True]
         Organization_init)
     = Some (hd initialOrganizations)"
  by code_simp

text \<open>
  The statement of C6 at the example inputs: every hypothesis holds there.
\<close>

theorem delete_removes_record_and_closes_form_witness:
  "(hd initialOrganizations) \<in> set (rows Organization_editing)
   \<and> removed Organization.id (Organization.id (hd initialOrganizations)) Organization_editing
       (Organization1_step example_rEmail (Delete (Organization.id (hd initialOrganizations))
           True) Organization_editing)
   \<and> (hd initialOrganizations) \<in> set (rows Organization_editing)
   \<and> editingId Organization_editing = Some (Organization.id (hd initialOrganizations))
   \<and> formValues (Organization1_step example_rEmail (Delete (Organization.id (hd
       initialOrganizations)) True) Organization_editing) = Organization_defaultValues
   \<and> (hd initialOrganizations) \<in> set (rows Organization_editing)
   \<and> viewRow (Organization1_step example_rEmail (Delete (Organization.id (hd
       initialOrganizations)) True) Organization_editing) = viewRow Organization_editing
   \<and> (hd initialOrganizations) \<in> set (rows Organization_editing)
   \<and> removed Organization.id (Organization.id (hd initialOrganizations)) Organization_editing
       (Organization2_step example_rEmail (Delete (Organization.id (hd initialOrganizations))
           True) Organization_editing)
   \<and> (hd initialOrganizations) \<in> set (rows Organization_editing)
   \<and> viewRow (Organization2_step example_rEmail (Delete (Organization.id (hd
       initialOrganizations)) True) Organization_editing) = viewRow Organization_editing
   \<and> (hd exampleSubsidiaries) \<in> set (rows Subsidiary_editing)
   \<and> removed Subsidiary.id (Subsidiary.id (hd exampleSubsidiaries)) Subsidiary_editing
       (Subsidiary1_step (Delete (Subsidiary.id (hd exampleSubsidiaries)) True)
           Subsidiary_editing)
   \<and> (hd exampleSubsidiaries) \<in> set (rows Subsidiary_editing)
   \<and> editingId Subsidiary_editing = Some (Subsidiary.id (hd exampleSubsidiaries))
   \<and> formValues (Subsidiary1_step (Delete (Subsidiary.id (hd exampleSubsidiaries)) True)
       Subsidiary_editing) = Subsidiary_defaultValues
   \<and> (hd exampleSubsidiaries) \<in> set (rows Subsidiary_editing)
   \<and> viewRow Subsidiary_editing = Some (hd exampleSubsidiaries)
   \<and> Subsidiary.id (hd exampleSubsidiaries) = Subsidiary.id (hd exampleSubsidiaries)
   \<and> viewRow (Subsidiary1_step (Delete (Subsidiary.id (hd exampleSubsidiaries)) True)
       Subsidiary_editing) = None
   \<and> (hd exampleSubsidiaries) \<in> set (rows Subsidiary_editing)
   \<and> removed Subsidiary.id (Subsidiary.id (hd exampleSubsidiaries)) Subsidiary_editing
       (Subsidiary2_step (Delete (Subsidiary.id (hd exampleSubsidiaries)) True)
           Subsidiary_editing)
   \<and> (hd exampleSubsidiaries) \<in> set (rows Subsidiary_editing)
   \<and> viewRow (Subsidiary2_step (Delete (Subsidiary.id (hd exampleSubsidiaries)) True)
       Subsidiary_editing) = viewRow Subsidiary_editing
   \<and> (hd initialLocations) \<in> set (rows Location_editing)
   \<and> removed Location.id (Location.id (hd initialLocations)) Location_editing
       (Location1_step (Delete (Location.id (hd initialLocations)) True) Location_editing)
   \<and> (hd initialLocations) \<in> set (rows Location_editing)
   \<and> editingId Location_editing = Some (Location.id (hd initialLocations))
   \<and> formValues (Location1_step (Delete (Location.id (hd initialLocations)) True)
       Location_editing) = Location_defaultValues
   \<and> (hd initialLocations) \<in> set (rows Location_editing)
   \<and> viewRow Location_editing = Some (hd initialLocations)
   \<and> Location.id (hd initialLocations) = Location.id (hd initialLocations)
   \<and> viewRow (Location1_step (Delete (Location.id (hd initialLocations)) True) Location_editing)
       = None
   \<and> (hd initialLocations) \<in> set (rows Location_editing)
   \<and> removed Location.id (Location.id (hd initialLocations)) Location_editing
       (Location2_step (Delete (Location.id (hd initialLocations)) True) Location_editing)
   \<and> (hd initialLocations) \<in> set (rows Location_editing)
   \<and> viewRow (Location2_step (Delete (Location.id (hd initialLocations)) True) Location_editing)
       = viewRow Location_editing
   \<and> (hd initialDesignations) \<in> set (rows Designation_editing)
   \<and> removed Designation.id (Designation.id (hd initialDesignations)) Designation_editing
       (Designation1_step (Delete (Designation.id (hd initialDesignations)) True)
           Designation_editing)
   \<and> (hd initialDesignations) \<in> set (rows Designation_editing)
   \<and> editingId Designation_editing = Some (Designation.id (hd initialDesignations))
   \<and> formValues (Designation1_step (Delete (Designation.id (hd initialDesignations)) True)
       Designation_editing) = Designation_defaultValues
   \<and> (hd initialDesignations) \<in> set (rows Designation_editing)
   \<and> viewRow Designation_editing = Some (hd initialDesignations)
   \<and> Designation.id (hd initialDesignations) = Designation.id (hd initialDesignations)
   \<and> viewRow (Designation1_step (Delete (Designation.id (hd initialDesignations)) True)
       Designation_editing) = None
   \<and> (hd initialDesignations) \<in> set (rows Designation_editing)
   \<and> removed Designation.id (Designation.id (hd initialDesignations)) Designation_editing
       (Designation2_step (Delete (Designation.id (hd initialDesignations)) True)
           Designation_editing)
   \<and> (hd initialDesignations) \<in> set (rows Designation_editing)
   \<and> viewRow (Designation2_step (Delete (Designation.id (hd initialDesignations)) True)
       Designation_editing) = viewRow Designation_editing
   \<and> Location_editing
     = fold Location1_step
         [Edit (hd initialLocations), View (hd initialLocations), Input Location_sample]
         Location_init
   \<and> Designation_editing
     = fold Designation2_step
         [Edit (hd initialDesignations), View (hd initialDesignations),
          Input Designation_sample]
         Designation_init
   \<and> rows (Location1_step (Delete 1 True) Location_editing) = []
   \<and> editingId (Location1_step (Delete 1 True) Location_editing) = None
   \<and> isFormOpen (Location1_step (Delete 1 True) Location_editing) = False
   \<and> formValues (Location1_step (Delete 1 True) Location_editing) = Location_defaultValues
   \<and> rows (Designation2_step (Delete 1 True) Designation_editing)
     = [\<lparr>designationCode = ''SEC'', designationName = ''Security'', Designation.id = 2\<rparr>]
   \<and> isFormOpen (Designation2_step (Delete 1 True) Designation_editing) = False"
proof -
  note T = delete_removes_record_and_closes_form
    [where rEmail = example_rEmail
       and sO = "Organization_editing"
       and RO = "hd initialOrganizations"
       and sO' = "Organization_editing"
       and RO' = "hd initialOrganizations"
       and sS = "Subsidiary_editing"
       and RS = "hd exampleSubsidiaries"
       and vS = "hd exampleSubsidiaries"
       and sS' = "Subsidiary_editing"
       and RS' = "hd exampleSubsidiaries"
       and sL = "Location_editing"
       and RL = "hd initialLocations"
       and vL = "hd initialLocations"
       and sL' = "Location_editing"
       and RL' = "hd initialLocations"
       and sD = "Designation_editing"
       and RD = "hd initialDesignations"
       and vD = "hd initialDesignations"
       and sD' = "Designation_editing"
       and RD' = "hd initialDesignations"]
  have h1_1: "(hd initialOrganizations) \<in> set (rows Organization_editing)"
    by code_simp
  have c1: "removed Organization.id (Organization.id (hd initialOrganizations))
      Organization_editing
       (Organization1_step example_rEmail (Delete (Organization.id (hd initialOrganizations))
           True) Organization_editing)"
    by (rule T [THEN conjunct1, THEN mp, OF h1_1])
  have h2_1: "(hd initialOrganizations) \<in> set (rows Organization_editing)"
    by code_simp
  have h2_2: "editingId Organization_editing = Some (Organization.id (hd initialOrganizations))"
    by code_simp
  have c2: "formValues (Organization1_step example_rEmail (Delete (Organization.id (hd
      initialOrganizations)) True) Organization_editing) = Organization_defaultValues"
    by (rule T [THEN conjunct2, THEN conjunct1, THEN mp, OF h2_1, THEN mp, OF h2_2])
  have h3_1: "(hd initialOrganizations) \<in> set (rows Organization_editing)"
    by code_simp
  have c3: "viewRow (Organization1_step example_rEmail (Delete (Organization.id (hd
      initialOrganizations)) True) Organization_editing) = viewRow Organization_editing"
    by (rule T [THEN conjunct2, THEN conjunct2, THEN conjunct1, THEN mp, OF h3_1])
  have h4_1: "(hd initialOrganizations) \<in> set (rows Organization_editing)"
    by code_simp
  have c4: "removed Organization.id (Organization.id (hd initialOrganizations))
      Organization_editing
       (Organization2_step example_rEmail (Delete (Organization.id (hd initialOrganizations))
           True) Organization_editing)"
    by (rule T [THEN conjunct2, THEN conjunct2, THEN conjunct2, THEN conjunct1, THEN mp, OF h4_1])
  have h5_1: "(hd initialOrganizations) \<in> set (rows Organization_editing)"
    by code_simp
  have c5: "viewRow (Organization2_step example_rEmail (Delete (Organization.id (hd
      initialOrganizations)) True) Organization_editing) = viewRow Organization_editing"
    by (rule T [THEN conjunct2, THEN conjunct2, THEN conjunct2, THEN conjunct2, THEN conjunct1,
        THEN mp, OF h5_1])
  have h6_1: "(hd exampleSubsidiaries) \<in> set (rows Subsidiary_editing)"
    by code_simp
  have c6: "removed Subsidiary.id (Subsidiary.id (hd exampleSubsidiaries)) Subsidiary_editing
       (Subsidiary1_step (Delete (Subsidiary.id (hd exampleSubsidiaries)) True)
           Subsidiary_editing)"
    by (rule T [THEN conjunct2, THEN conjunct2, THEN conjunct2, THEN conjunct2, THEN conjunct2,
        THEN conjunct1, THEN mp, OF h6_1])
  have h7_1: "(hd exampleSubsidiaries) \<in> set (rows Subsidiary_editing)"
    by code_simp
  have h7_2: "editingId Subsidiary_editing = Some (Subsidiary.id (hd exampleSubsidiaries))"
    by code_simp
  have c7: "formValues (Subsidiary1_step (Delete (Subsidiary.id (hd exampleSubsidiaries)) True)
      Subsidiary_editing) = Subsidiary_defaultValues"
    by (rule T [THEN conjunct2, THEN conjunct2, THEN conjunct2, THEN conjunct2, THEN conjunct2,
        THEN conjunct2, THEN conjunct1, THEN mp, OF h7_1, THEN mp, OF h7_2])
  have h8_1: "(hd exampleSubsidiaries) \<in> set (rows Subsidiary_editing)"
    by code_simp
  have h8_2: "viewRow Subsidiary_editing = Some (hd exampleSubsidiaries)"
    by code_simp
  have h8_3: "Subsidiary.id (hd exampleSubsidiaries) = Subsidiary.id (hd exampleSubsidiaries)"
    by code_simp
  have c8: "viewRow (Subsidiary1_step (Delete (Subsidiary.id (hd exampleSubsidiaries)) True)
      Subsidiary_editing) = None"
    by (rule T [THEN conjunct2, THEN conjunct2, THEN conjunct2, THEN conjunct2, THEN conjunct2,
        THEN conjunct2, THEN conjunct2, THEN conjunct1, THEN mp, OF h8_1, THEN mp, OF h8_2, THEN
        mp, OF h8_3])
  have h9_1: "(hd exampleSubsidiaries) \<in> set (rows Subsidiary_editing)"
    by code_simp
  have c9: "removed Subsidiary.id (Subsidiary.id (hd exampleSubsidiaries)) Subsidiary_editing
       (Subsidiary2_step (Delete (Subsidiary.id (hd exampleSubsidiaries)) True)
           Subsidiary_editing)"
    by (rule T [THEN conjunct2, THEN conjunct2, THEN conjunct2, THEN conjunct2, THEN conjunct2,
        THEN conjunct2, THEN conjunct2, THEN conjunct2, THEN conjunct1, THEN mp, OF h9_1])
  have h10_1: "(hd exampleSubsidiaries) \<in> set (rows Subsidiary_editing)"
    by code_simp
  have c10: "viewRow (Subsidiary2_step (Delete (Subsidiary.id (hd exampleSubsidiaries)) True)
      Subsidiary_editing) = viewRow Subsidiary_editing"
    by (rule T [THEN conjunct2, THEN conjunct2, THEN conjunct2, THEN conjunct2, THEN conjunct2,
        THEN conjunct2, THEN conjunct2, THEN conjunct2, THEN conjunct2, THEN conjunct1, THEN mp,
        OF h10_1])
  have h11_1: "(hd initialLocations) \<in> set (rows Location_editing)"
    by code_simp
  have c11: "removed Location.id (Location.id (hd initialLocations)) Location_editing
       (Location1_step (Delete (Location.id (hd initialLocations)) True) Location_editing)"
    by (rule T [THEN conjunct2, THEN conjunct2, THEN conjunct2, THEN conjunct2, THEN conjunct2,
        THEN conjunct2, THEN conjunct2, THEN conjunct2, THEN conjunct2, THEN conjunct2, THEN
        conjunct1, THEN mp, OF h11_1])
  have h12_1: "(hd initialLocations) \<in> set (rows Location_editing)"
    by code_simp
  have h12_2: "editingId Location_editing = Some (Location.id (hd initialLocations))"
    by code_simp
  have c12: "formValues (Location1_step (Delete (Location.id (hd initialLocations)) True)
      Location_editing) = Location_defaultValues"
    by (rule T [THEN conjunct2, THEN conjunct2, THEN conjunct2, THEN conjunct2, THEN conjunct2,
        THEN conjunct2, THEN conjunct2, THEN conjunct2, THEN conjunct2, THEN conjunct2, THEN
        conjunct2, THEN conjunct1, THEN mp, OF h12_1, THEN mp, OF h12_2])
  have h13_1: "(hd initialLocations) \<in> set (rows Location_editing)"
    by code_simp
  have h13_2: "viewRow Location_editing = Some (hd initialLocations)"
    by code_simp
  have h13_3: "Location.id (hd initialLocations) = Location.id (hd initialLocations)"
    by code_simp
  have c13: "viewRow (Location1_step (Delete (Location.id (hd initialLocations)) True)
      Location_editing) = None"
    by (rule T [THEN conjunct2, THEN conjunct2, THEN conjunct2, THEN conjunct2, THEN conjunct2,
        THEN conjunct2, THEN conjunct2, THEN conjunct2, THEN conjunct2, THEN conjunct2, THEN
        conjunct2, THEN conjunct2, THEN conjunct1, THEN mp, OF h13_1, THEN mp, OF h13_2, THEN
        mp, OF h13_3])
  have h14_1: "(hd initialLocations) \<in> set (rows Location_editing)"
    by code_simp
  have c14: "removed Location.id (Location.id (hd initialLocations)) Location_editing
       (Location2_step (Delete (Location.id (hd initialLocations)) True) Location_editing)"
    by (rule T [THEN conjunct2, THEN conjunct2, THEN conjunct2, THEN conjunct2, THEN conjunct2,
        THEN conjunct2, THEN conjunct2, THEN conjunct2, THEN conjunct2, THEN conjunct2, THEN
        conjunct2, THEN conjunct2, THEN conjunct2, THEN conjunct1, THEN mp, OF h14_1])
  have h15_1: "(hd initialLocations) \<in> set (rows Location_editing)"
    by code_simp
  have c15: "viewRow (Location2_step (Delete (Location.id (hd initialLocations)) True)
      Location_editing) = viewRow Location_editing"
    by (rule T [THEN conjunct2, THEN conjunct2, THEN conjunct2, THEN conjunct2, THEN conjunct2,
        THEN conjunct2, THEN conjunct2, THEN conjunct2, THEN conjunct2, THEN conjunct2, THEN
        conjunct2, THEN conjunct2, THEN conjunct2, THEN conjunct2, THEN conjunct1, THEN mp, OF
        h15_1])
  have h16_1: "(hd initialDesignations) \<in> set (rows Designation_editing)"
    by code_simp
  have c16: "removed Designation.id (Designation.id (hd initialDesignations)) Designation_editing
       (Designation1_step (Delete (Designation.id (hd initialDesignations)) True)
           Designation_editing)"
    by (rule T [THEN conjunct2, THEN conjunct2, THEN conjunct2, THEN conjunct2, THEN conjunct2,
        THEN conjunct2, THEN conjunct2, THEN conjunct2, THEN conjunct2, THEN conjunct2, THEN
        conjunct2, THEN conjunct2, THEN conjunct2, THEN conjunct2, THEN conjunct2, THEN
        conjunct1, THEN mp, OF h16_1])
  have h17_1: "(hd initialDesignations) \<in> set (rows Designation_editing)"
    by code_simp
  have h17_2: "editingId Designation_editing = Some (Designation.id (hd initialDesignations))"
    by code_simp
  have c17: "formValues (Designation1_step (Delete (Designation.id (hd initialDesignations))
      True) Designation_editing) = Designation_defaultValues"
    by (rule T [THEN conjunct2, THEN conjunct2, THEN conjunct2, THEN conjunct2, THEN conjunct2,
        THEN conjunct2, THEN conjunct2, THEN conjunct2, THEN conjunct2, THEN conjunct2, THEN
        conjunct2, THEN conjunct2, THEN conjunct2, THEN conjunct2, THEN conjunct2, THEN
        conjunct2, THEN conjunct1, THEN mp, OF h17_1, THEN mp, OF h17_2])
  have h18_1: "(hd initialDesignations) \<in> set (rows Designation_editing)"
    by code_simp
  have h18_2: "viewRow Designation_editing = Some (hd initialDesignations)"
    by code_simp
  have h18_3: "Designation.id (hd initialDesignations) = Designation.id (hd initialDesignations)"
    by code_simp
  have c18: "viewRow (Designation1_step (Delete (Designation.id (hd initialDesignations)) True)
      Designation_editing) = None"
    by (rule T [THEN conjunct2, THEN conjunct2, THEN conjunct2, THEN conjunct2, THEN conjunct2,
        THEN conjunct2, THEN conjunct2, THEN conjunct2, THEN conjunct2, THEN conjunct2, THEN
        conjunct2, THEN conjunct2, THEN conjunct2, THEN conjunct2, THEN conjunct2, THEN
        conjunct2, THEN conjunct2, THEN conjunct1, THEN mp, OF h18_1, THEN mp, OF h18_2, THEN
        mp, OF h18_3])
  have h19_1: "(hd initialDesignations) \<in> set (rows Designation_editing)"
    by code_simp
  have c19: "removed Designation.id (Designation.id (hd initialDesignations)) Designation_editing
       (Designation2_step (Delete (Designation.id (hd initialDesignations)) True)
           Designation_editing)"
    by (rule T [THEN conjunct2, THEN conjunct2, THEN conjunct2, THEN conjunct2, THEN conjunct2,
        THEN conjunct2, THEN conjunct2, THEN conjunct2, THEN conjunct2, THEN conjunct2, THEN
        conjunct2, THEN conjunct2, THEN conjunct2, THEN conjunct2, THEN conjunct2, THEN
        conjunct2, THEN conjunct2, THEN conjunct2, THEN conjunct1, THEN mp, OF h19_1])
  have h20_1: "(hd initialDesignations) \<in> set (rows Designation_editing)"
    by code_simp
  have c20: "viewRow (Designation2_step (Delete (Designation.id (hd initialDesignations)) True)
      Designation_editing) = viewRow Designation_editing"
    by (rule T [THEN conjunct2, THEN conjunct2, THEN conjunct2, THEN conjunct2, THEN conjunct2,
        THEN conjunct2, THEN conjunct2, THEN conjunct2, THEN conjunct2, THEN conjunct2, THEN
        conjunct2, THEN conjunct2, THEN conjunct2, THEN conjunct2, THEN conjunct2, THEN
        conjunct2, THEN conjunct2, THEN conjunct2, THEN conjunct2, THEN mp, OF h20_1])
  have x1: "Location_editing
     = fold Location1_step
         [Edit (hd initialLocations), View (hd initialLocations), Input Location_sample]
         Location_init"
    by code_simp
  have x2: "Designation_editing
     = fold Designation2_step
         [Edit (hd initialDesignations), View (hd initialDesignations),
          Input Designation_sample]
         Designation_init"
    by code_simp
  have x3: "rows (Location1_step (Delete 1 True) Location_editing) = []"
    by code_simp
  have x4: "editingId (Location1_step (Delete 1 True) Location_editing) = None"
    by code_simp
  have x5: "isFormOpen (Location1_step (Delete 1 True) Location_editing) = False"
    by code_simp
  have x6: "formValues (Location1_step (Delete 1 True) Location_editing) = Location_defaultValues"
    by code_simp
  have x7: "rows (Designation2_step (Delete 1 True) Designation_editing)
     = [\<lparr>designationCode = ''SEC'', designationName = ''Security'', Designation.id = 2\<rparr>]"
    by code_simp
  have x8: "isFormOpen (Designation2_step (Delete 1 True) Designation_editing) = False"
    by code_simp
  show ?thesis
    using h1_1 c1 h2_1 h2_2 c2 h3_1 c3 h4_1 c4 h5_1 c5 h6_1 c6 h7_1 h7_2 c7 h8_1 h8_2 h8_3 c8
      h9_1 c9 h10_1 c10 h11_1 c11 h12_1 h12_2 c12 h13_1 h13_2 h13_3 c13 h14_1 c14 h15_1 c15
      h16_1 c16 h17_1 h17_2 c17 h18_1 h18_2 h18_3 c18 h19_1 c19 h20_1 c20 x1 x2 x3 x4 x5 x6
      x7 x8
    by blast
qed

text \<open>
  The buffer on the four second pages. Their effect and their handlers empty the form
  with \<^verbatim>\<open>reset()\<close>, which returns to the values that the last Edit has prefilled. On
  the second Designation page, after Edit and the confirmed Delete of the seed record
  DRV the buffer of the closed form holds the values of DRV, and Add New opens the form
  with them. On the first Designation page the buffer is empty in both states.
\<close>

theorem buffer_after_delete_on_second_pages:
  "formValues (fold Designation2_step [Edit (hd initialDesignations), Delete 1 True]
               Designation_init)
     = \<lparr>designationCode = ''DRV'', designationName = ''Driver''\<rparr>
   \<and> isFormOpen (fold Designation2_step
               [Edit (hd initialDesignations), Delete 1 True, AddNew]
               Designation_init)
   \<and> formValues (fold Designation2_step
               [Edit (hd initialDesignations), Delete 1 True, AddNew]
               Designation_init)
     = \<lparr>designationCode = ''DRV'', designationName = ''Driver''\<rparr>
   \<and> formValues (fold Designation1_step [Edit (hd initialDesignations), Delete 1 True]
               Designation_init)
     = Designation_defaultValues
   \<and> formValues (fold Designation1_step
               [Edit (hd initialDesignations), Delete 1 True, AddNew]
               Designation_init)
     = Designation_defaultValues"
  by code_simp


section \<open>C7: the record being edited is not its own duplicate\<close>

lemma Organization1_own_key_passes:
  "(reachable Organization_init (Organization1_step rEmail) sO \<longrightarrow>
   RO \<in> set (rows sO) \<longrightarrow>
   editingId sO = Some (Organization.id RO) \<longrightarrow>
   toLowerCase (organizationCode dO) = toLowerCase (organizationCode RO) \<longrightarrow>
   \<not> Organization1_isDuplicate dO sO)"
proof (intro impI)
  assume r: "reachable Organization_init (Organization1_step rEmail) sO"
    and R: "RO \<in> set (rows sO)"
    and e: "editingId sO = Some (Organization.id RO)"
    and eq: "toLowerCase (organizationCode dO) = toLowerCase (organizationCode RO)"
  have u: "unique_keys organizationCode Organization.id (rows sO)"
    by (rule Organization1_reachable_unique [OF r])
  show "\<not> Organization1_isDuplicate dO sO"
    using unique_keys_own [OF u R eq] e by (simp add: Organization1_isDuplicate_def)
qed

lemma Organization2_own_key_passes:
  "(reachable Organization_init (Organization2_step rEmail) sO' \<longrightarrow>
   RO' \<in> set (rows sO') \<longrightarrow>
   editingId sO' = Some (Organization.id RO') \<longrightarrow>
   toLowerCase (organizationCode dO') = toLowerCase (organizationCode RO') \<longrightarrow>
   \<not> Organization2_orgCodeDuplicate dO' sO')"
proof (intro impI)
  assume r: "reachable Organization_init (Organization2_step rEmail) sO'"
    and R: "RO' \<in> set (rows sO')"
    and e: "editingId sO' = Some (Organization.id RO')"
    and eq: "toLowerCase (organizationCode dO') = toLowerCase (organizationCode RO')"
  have u: "unique_keys organizationCode Organization.id (rows sO')"
    by (rule Organization2_reachable_unique [OF r])
  show "\<not> Organization2_orgCodeDuplicate dO' sO'"
    using unique_keys_own [OF u R eq] e by (simp add: Organization2_orgCodeDuplicate_def)
qed

lemma Organization2_own_tenant_passes:
  "(reachable Organization_init (Organization2_step rEmail) sO' \<longrightarrow>
   RO' \<in> set (rows sO') \<longrightarrow>
   editingId sO' = Some (Organization.id RO') \<longrightarrow>
   toLowerCase (tenantCode dO') = toLowerCase (tenantCode RO') \<longrightarrow>
   \<not> Organization2_tenantDuplicate dO' sO')"
proof (intro impI)
  assume r: "reachable Organization_init (Organization2_step rEmail) sO'"
    and R: "RO' \<in> set (rows sO')"
    and e: "editingId sO' = Some (Organization.id RO')"
    and eq: "toLowerCase (tenantCode dO') = toLowerCase (tenantCode RO')"
  have u: "unique_keys tenantCode Organization.id (rows sO')"
    by (rule Organization2_reachable_unique_tenant [OF r])
  show "\<not> Organization2_tenantDuplicate dO' sO'"
    using unique_keys_own [OF u R eq] e by (simp add: Organization2_tenantDuplicate_def)
qed

lemma Subsidiary1_no_duplicate_error:
  "(fS, DuplicateKey) \<notin> set (errors (Subsidiary1_handleSubmit sS))"
  by (simp add: Subsidiary1_outcome subsidiarySchema_no_duplicate)

lemma Subsidiary2_own_key_passes:
  "(unique_keys subsidiaryCode Subsidiary.id seedS' \<longrightarrow>
   reachable (Subsidiary_init seedS') Subsidiary2_step sS' \<longrightarrow>
   RS' \<in> set (rows sS') \<longrightarrow>
   editingId sS' = Some (Subsidiary.id RS') \<longrightarrow>
   toLowerCase (subsidiaryCode dS') = toLowerCase (subsidiaryCode RS') \<longrightarrow>
   \<not> Subsidiary2_isDuplicate dS' sS')"
proof (intro impI)
  assume sd: "unique_keys subsidiaryCode Subsidiary.id seedS'"
    and r: "reachable (Subsidiary_init seedS') Subsidiary2_step sS'"
    and R: "RS' \<in> set (rows sS')"
    and e: "editingId sS' = Some (Subsidiary.id RS')"
    and eq: "toLowerCase (subsidiaryCode dS') = toLowerCase (subsidiaryCode RS')"
  have u: "unique_keys subsidiaryCode Subsidiary.id (rows sS')"
    by (rule Subsidiary2_reachable_unique [OF sd r])
  show "\<not> Subsidiary2_isDuplicate dS' sS'"
    using unique_keys_own [OF u R eq] e by (simp add: Subsidiary2_isDuplicate_def)
qed

lemma Location1_no_duplicate_error:
  "(fL, DuplicateKey) \<notin> set (errors (Location1_handleSubmit sL))"
  by (simp add: Location1_outcome locationSchema_no_duplicate)

lemma Location2_own_key_passes:
  "(reachable Location_init Location2_step sL' \<longrightarrow>
   RL' \<in> set (rows sL') \<longrightarrow>
   editingId sL' = Some (Location.id RL') \<longrightarrow>
   toLowerCase (locationCode dL') = toLowerCase (locationCode RL') \<longrightarrow>
   \<not> Location2_isDuplicate dL' sL')"
proof (intro impI)
  assume r: "reachable Location_init Location2_step sL'"
    and R: "RL' \<in> set (rows sL')"
    and e: "editingId sL' = Some (Location.id RL')"
    and eq: "toLowerCase (locationCode dL') = toLowerCase (locationCode RL')"
  have u: "unique_keys locationCode Location.id (rows sL')"
    by (rule Location2_reachable_unique [OF r])
  show "\<not> Location2_isDuplicate dL' sL'"
    using unique_keys_own [OF u R eq] e by (simp add: Location2_isDuplicate_def)
qed

lemma Designation1_no_duplicate_error:
  "(fD, DuplicateKey) \<notin> set (errors (Designation1_handleSubmit sD))"
  by (simp add: Designation1_outcome designationSchema_no_duplicate)

lemma Designation2_own_key_passes:
  "(reachable Designation_init Designation2_step sD' \<longrightarrow>
   RD' \<in> set (rows sD') \<longrightarrow>
   editingId sD' = Some (Designation.id RD') \<longrightarrow>
   toLowerCase (designationCode dD') = toLowerCase (designationCode RD') \<longrightarrow>
   \<not> Designation2_isDuplicate dD' sD')"
proof (intro impI)
  assume r: "reachable Designation_init Designation2_step sD'"
    and R: "RD' \<in> set (rows sD')"
    and e: "editingId sD' = Some (Designation.id RD')"
    and eq: "toLowerCase (designationCode dD') = toLowerCase (designationCode RD')"
  have u: "unique_keys designationCode Designation.id (rows sD')"
    by (rule Designation2_reachable_unique [OF r])
  show "\<not> Designation2_isDuplicate dD' sD'"
    using unique_keys_own [OF u R eq] e by (simp add: Designation2_isDuplicate_def)
qed

text \<open>
  C7. In every reachable state of a page with a duplicate check (for the second
  Subsidiary page: from a seed whose keys are unique up to case), if the form edits the
  stored record R and the submitted key equals R's key up to case, the duplicate check
  does not fire; on the second Organization page the same holds for the tenant code.
  The pages without a duplicate check never report a \<open>DuplicateKey\<close> error.
\<close>

theorem own_key_passes_duplicate_check:
  "(reachable Organization_init (Organization1_step rEmail) sO \<longrightarrow>
     RO \<in> set (rows sO) \<longrightarrow>
     editingId sO = Some (Organization.id RO) \<longrightarrow>
     toLowerCase (organizationCode dO) = toLowerCase (organizationCode RO) \<longrightarrow>
     \<not> Organization1_isDuplicate dO sO)
   \<and> (reachable Organization_init (Organization2_step rEmail) sO' \<longrightarrow>
     RO' \<in> set (rows sO') \<longrightarrow>
     editingId sO' = Some (Organization.id RO') \<longrightarrow>
     toLowerCase (organizationCode dO') = toLowerCase (organizationCode RO') \<longrightarrow>
     \<not> Organization2_orgCodeDuplicate dO' sO')
   \<and> (reachable Organization_init (Organization2_step rEmail) sO' \<longrightarrow>
     RO' \<in> set (rows sO') \<longrightarrow>
     editingId sO' = Some (Organization.id RO') \<longrightarrow>
     toLowerCase (tenantCode dO') = toLowerCase (tenantCode RO') \<longrightarrow>
     \<not> Organization2_tenantDuplicate dO' sO')
   \<and> (fS, DuplicateKey) \<notin> set (errors (Subsidiary1_handleSubmit sS))
   \<and> (unique_keys subsidiaryCode Subsidiary.id seedS' \<longrightarrow>
     reachable (Subsidiary_init seedS') Subsidiary2_step sS' \<longrightarrow>
     RS' \<in> set (rows sS') \<longrightarrow>
     editingId sS' = Some (Subsidiary.id RS') \<longrightarrow>
     toLowerCase (subsidiaryCode dS') = toLowerCase (subsidiaryCode RS') \<longrightarrow>
     \<not> Subsidiary2_isDuplicate dS' sS')
   \<and> (fL, DuplicateKey) \<notin> set (errors (Location1_handleSubmit sL))
   \<and> (reachable Location_init Location2_step sL' \<longrightarrow>
     RL' \<in> set (rows sL') \<longrightarrow>
     editingId sL' = Some (Location.id RL') \<longrightarrow>
     toLowerCase (locationCode dL') = toLowerCase (locationCode RL') \<longrightarrow>
     \<not> Location2_isDuplicate dL' sL')
   \<and> (fD, DuplicateKey) \<notin> set (errors (Designation1_handleSubmit sD))
   \<and> (reachable Designation_init Designation2_step sD' \<longrightarrow>
     RD' \<in> set (rows sD') \<longrightarrow>
     editingId sD' = Some (Designation.id RD') \<longrightarrow>
     toLowerCase (designationCode dD') = toLowerCase (designationCode RD') \<longrightarrow>
     \<not> Designation2_isDuplicate dD' sD')"
  by (intro conjI Organization1_own_key_passes Organization2_own_key_passes
        Organization2_own_tenant_passes Subsidiary1_no_duplicate_error
        Subsidiary2_own_key_passes Location1_no_duplicate_error Location2_own_key_passes
        Designation1_no_duplicate_error Designation2_own_key_passes)

text \<open>
  The statement of C7 at the example inputs: every hypothesis holds there.
\<close>

theorem own_key_passes_duplicate_check_witness:
  "reachable Organization_init (Organization1_step example_rEmail) (Organization1_step
      example_rEmail (Edit (hd initialOrganizations)) Organization_init)
   \<and> (hd initialOrganizations) \<in> set (rows (Organization1_step example_rEmail (Edit (hd
       initialOrganizations)) Organization_init))
   \<and> editingId (Organization1_step example_rEmail (Edit (hd initialOrganizations))
       Organization_init) = Some (Organization.id (hd initialOrganizations))
   \<and> toLowerCase (organizationCode (Organization_sample\<lparr>organizationCode := ''aal''\<rparr>)) =
       toLowerCase (organizationCode (hd initialOrganizations))
   \<and> \<not> Organization1_isDuplicate (Organization_sample\<lparr>organizationCode := ''aal''\<rparr>)
       (Organization1_step example_rEmail (Edit (hd initialOrganizations)) Organization_init)
   \<and> reachable Organization_init (Organization2_step example_rEmail) (Organization2_step
       example_rEmail (Edit (hd initialOrganizations)) Organization_init)
   \<and> (hd initialOrganizations) \<in> set (rows (Organization2_step example_rEmail (Edit (hd
       initialOrganizations)) Organization_init))
   \<and> editingId (Organization2_step example_rEmail (Edit (hd initialOrganizations))
       Organization_init) = Some (Organization.id (hd initialOrganizations))
   \<and> toLowerCase (organizationCode (Organization_sample\<lparr>organizationCode := ''aal'', tenantCode
       := ''aal''\<rparr>)) = toLowerCase (organizationCode (hd initialOrganizations))
   \<and> \<not> Organization2_orgCodeDuplicate (Organization_sample\<lparr>organizationCode := ''aal'',
       tenantCode := ''aal''\<rparr>) (Organization2_step example_rEmail (Edit (hd
       initialOrganizations)) Organization_init)
   \<and> reachable Organization_init (Organization2_step example_rEmail) (Organization2_step
       example_rEmail (Edit (hd initialOrganizations)) Organization_init)
   \<and> (hd initialOrganizations) \<in> set (rows (Organization2_step example_rEmail (Edit (hd
       initialOrganizations)) Organization_init))
   \<and> editingId (Organization2_step example_rEmail (Edit (hd initialOrganizations))
       Organization_init) = Some (Organization.id (hd initialOrganizations))
   \<and> toLowerCase (tenantCode (Organization_sample\<lparr>organizationCode := ''aal'', tenantCode :=
       ''aal''\<rparr>)) = toLowerCase (tenantCode (hd initialOrganizations))
   \<and> \<not> Organization2_tenantDuplicate (Organization_sample\<lparr>organizationCode := ''aal'',
       tenantCode := ''aal''\<rparr>) (Organization2_step example_rEmail (Edit (hd
       initialOrganizations)) Organization_init)
   \<and> (''subsidiaryCode'', DuplicateKey) \<notin> set (errors (Subsidiary1_handleSubmit
       Subsidiary_editing))
   \<and> unique_keys subsidiaryCode Subsidiary.id exampleSubsidiaries
   \<and> reachable (Subsidiary_init exampleSubsidiaries) Subsidiary2_step (Subsidiary2_step (Edit
       (hd exampleSubsidiaries)) (Subsidiary_init exampleSubsidiaries))
   \<and> (hd exampleSubsidiaries) \<in> set (rows (Subsidiary2_step (Edit (hd exampleSubsidiaries))
       (Subsidiary_init exampleSubsidiaries)))
   \<and> editingId (Subsidiary2_step (Edit (hd exampleSubsidiaries)) (Subsidiary_init
       exampleSubsidiaries)) = Some (Subsidiary.id (hd exampleSubsidiaries))
   \<and> toLowerCase (subsidiaryCode (Subsidiary_sample\<lparr>subsidiaryCode := ''aas''\<rparr>)) = toLowerCase
       (subsidiaryCode (hd exampleSubsidiaries))
   \<and> \<not> Subsidiary2_isDuplicate (Subsidiary_sample\<lparr>subsidiaryCode := ''aas''\<rparr>) (Subsidiary2_step
       (Edit (hd exampleSubsidiaries)) (Subsidiary_init exampleSubsidiaries))
   \<and> (''locationCode'', DuplicateKey) \<notin> set (errors (Location1_handleSubmit Location_editing))
   \<and> reachable Location_init Location2_step (Location2_step (Edit (hd initialLocations))
       Location_init)
   \<and> (hd initialLocations) \<in> set (rows (Location2_step (Edit (hd initialLocations))
       Location_init))
   \<and> editingId (Location2_step (Edit (hd initialLocations)) Location_init) = Some (Location.id
       (hd initialLocations))
   \<and> toLowerCase (locationCode (Location_sample\<lparr>locationCode := ''aalmys''\<rparr>)) = toLowerCase
       (locationCode (hd initialLocations))
   \<and> \<not> Location2_isDuplicate (Location_sample\<lparr>locationCode := ''aalmys''\<rparr>) (Location2_step (Edit
       (hd initialLocations)) Location_init)
   \<and> (''designationCode'', DuplicateKey) \<notin> set (errors (Designation1_handleSubmit
       Designation_editing))
   \<and> reachable Designation_init Designation2_step (Designation2_step (Edit (hd
       initialDesignations)) Designation_init)
   \<and> (hd initialDesignations) \<in> set (rows (Designation2_step (Edit (hd initialDesignations))
       Designation_init))
   \<and> editingId (Designation2_step (Edit (hd initialDesignations)) Designation_init) = Some
       (Designation.id (hd initialDesignations))
   \<and> toLowerCase (designationCode (Designation_sample\<lparr>designationCode := ''drv''\<rparr>)) =
       toLowerCase (designationCode (hd initialDesignations))
   \<and> \<not> Designation2_isDuplicate (Designation_sample\<lparr>designationCode := ''drv''\<rparr>)
       (Designation2_step (Edit (hd initialDesignations)) Designation_init)"
proof -
  note T = own_key_passes_duplicate_check
    [where rEmail = example_rEmail
       and sO = "Organization1_step example_rEmail (Edit (hd initialOrganizations))
           Organization_init"
       and RO = "hd initialOrganizations"
       and dO = "Organization_sample\<lparr>organizationCode := ''aal''\<rparr>"
       and sO' = "Organization2_step example_rEmail (Edit (hd initialOrganizations))
           Organization_init"
       and RO' = "hd initialOrganizations"
       and dO' = "Organization_sample\<lparr>organizationCode := ''aal'', tenantCode := ''aal''\<rparr>"
       and sS = "Subsidiary_editing"
       and fS = "''subsidiaryCode''"
       and seedS' = "exampleSubsidiaries"
       and sS' = "Subsidiary2_step (Edit (hd exampleSubsidiaries)) (Subsidiary_init
           exampleSubsidiaries)"
       and RS' = "hd exampleSubsidiaries"
       and dS' = "Subsidiary_sample\<lparr>subsidiaryCode := ''aas''\<rparr>"
       and sL = "Location_editing"
       and fL = "''locationCode''"
       and sL' = "Location2_step (Edit (hd initialLocations)) Location_init"
       and RL' = "hd initialLocations"
       and dL' = "Location_sample\<lparr>locationCode := ''aalmys''\<rparr>"
       and sD = "Designation_editing"
       and fD = "''designationCode''"
       and sD' = "Designation2_step (Edit (hd initialDesignations)) Designation_init"
       and RD' = "hd initialDesignations"
       and dD' = "Designation_sample\<lparr>designationCode := ''drv''\<rparr>"]
  have h1_1: "reachable Organization_init (Organization1_step example_rEmail)
      (Organization1_step example_rEmail (Edit (hd initialOrganizations)) Organization_init)"
    by (rule reachable_step [OF reachable_init])
  have h1_2: "(hd initialOrganizations) \<in> set (rows (Organization1_step example_rEmail (Edit (hd
      initialOrganizations)) Organization_init))"
    by code_simp
  have h1_3: "editingId (Organization1_step example_rEmail (Edit (hd initialOrganizations))
      Organization_init) = Some (Organization.id (hd initialOrganizations))"
    by code_simp
  have h1_4: "toLowerCase (organizationCode (Organization_sample\<lparr>organizationCode := ''aal''\<rparr>))
      = toLowerCase (organizationCode (hd initialOrganizations))"
    by code_simp
  have c1: "\<not> Organization1_isDuplicate (Organization_sample\<lparr>organizationCode := ''aal''\<rparr>)
      (Organization1_step example_rEmail (Edit (hd initialOrganizations)) Organization_init)"
    by (rule T [THEN conjunct1, THEN mp, OF h1_1, THEN mp, OF h1_2, THEN mp, OF h1_3, THEN mp,
        OF h1_4])
  have h2_1: "reachable Organization_init (Organization2_step example_rEmail)
      (Organization2_step example_rEmail (Edit (hd initialOrganizations)) Organization_init)"
    by (rule reachable_step [OF reachable_init])
  have h2_2: "(hd initialOrganizations) \<in> set (rows (Organization2_step example_rEmail (Edit (hd
      initialOrganizations)) Organization_init))"
    by code_simp
  have h2_3: "editingId (Organization2_step example_rEmail (Edit (hd initialOrganizations))
      Organization_init) = Some (Organization.id (hd initialOrganizations))"
    by code_simp
  have h2_4: "toLowerCase (organizationCode (Organization_sample\<lparr>organizationCode := ''aal'',
      tenantCode := ''aal''\<rparr>)) = toLowerCase (organizationCode (hd initialOrganizations))"
    by code_simp
  have c2: "\<not> Organization2_orgCodeDuplicate (Organization_sample\<lparr>organizationCode := ''aal'',
      tenantCode := ''aal''\<rparr>) (Organization2_step example_rEmail (Edit (hd
      initialOrganizations)) Organization_init)"
    by (rule T [THEN conjunct2, THEN conjunct1, THEN mp, OF h2_1, THEN mp, OF h2_2, THEN mp, OF
        h2_3, THEN mp, OF h2_4])
  have h3_1: "reachable Organization_init (Organization2_step example_rEmail)
      (Organization2_step example_rEmail (Edit (hd initialOrganizations)) Organization_init)"
    by (rule reachable_step [OF reachable_init])
  have h3_2: "(hd initialOrganizations) \<in> set (rows (Organization2_step example_rEmail (Edit (hd
      initialOrganizations)) Organization_init))"
    by code_simp
  have h3_3: "editingId (Organization2_step example_rEmail (Edit (hd initialOrganizations))
      Organization_init) = Some (Organization.id (hd initialOrganizations))"
    by code_simp
  have h3_4: "toLowerCase (tenantCode (Organization_sample\<lparr>organizationCode := ''aal'',
      tenantCode := ''aal''\<rparr>)) = toLowerCase (tenantCode (hd initialOrganizations))"
    by code_simp
  have c3: "\<not> Organization2_tenantDuplicate (Organization_sample\<lparr>organizationCode := ''aal'',
      tenantCode := ''aal''\<rparr>) (Organization2_step example_rEmail (Edit (hd
      initialOrganizations)) Organization_init)"
    by (rule T [THEN conjunct2, THEN conjunct2, THEN conjunct1, THEN mp, OF h3_1, THEN mp, OF
        h3_2, THEN mp, OF h3_3, THEN mp, OF h3_4])
  have c4: "(''subsidiaryCode'', DuplicateKey) \<notin> set (errors (Subsidiary1_handleSubmit
      Subsidiary_editing))"
    by (rule T [THEN conjunct2, THEN conjunct2, THEN conjunct2, THEN conjunct1])
  have h5_1: "unique_keys subsidiaryCode Subsidiary.id exampleSubsidiaries"
    by code_simp
  have h5_2: "reachable (Subsidiary_init exampleSubsidiaries) Subsidiary2_step (Subsidiary2_step
      (Edit (hd exampleSubsidiaries)) (Subsidiary_init exampleSubsidiaries))"
    by (rule reachable_step [OF reachable_init])
  have h5_3: "(hd exampleSubsidiaries) \<in> set (rows (Subsidiary2_step (Edit (hd
      exampleSubsidiaries)) (Subsidiary_init exampleSubsidiaries)))"
    by code_simp
  have h5_4: "editingId (Subsidiary2_step (Edit (hd exampleSubsidiaries)) (Subsidiary_init
      exampleSubsidiaries)) = Some (Subsidiary.id (hd exampleSubsidiaries))"
    by code_simp
  have h5_5: "toLowerCase (subsidiaryCode (Subsidiary_sample\<lparr>subsidiaryCode := ''aas''\<rparr>)) =
      toLowerCase (subsidiaryCode (hd exampleSubsidiaries))"
    by code_simp
  have c5: "\<not> Subsidiary2_isDuplicate (Subsidiary_sample\<lparr>subsidiaryCode := ''aas''\<rparr>)
      (Subsidiary2_step (Edit (hd exampleSubsidiaries)) (Subsidiary_init exampleSubsidiaries))"
    by (rule T [THEN conjunct2, THEN conjunct2, THEN conjunct2, THEN conjunct2, THEN conjunct1,
        THEN mp, OF h5_1, THEN mp, OF h5_2, THEN mp, OF h5_3, THEN mp, OF h5_4, THEN mp, OF h5_5])
  have c6: "(''locationCode'', DuplicateKey) \<notin> set (errors (Location1_handleSubmit
      Location_editing))"
    by (rule T [THEN conjunct2, THEN conjunct2, THEN conjunct2, THEN conjunct2, THEN conjunct2,
        THEN conjunct1])
  have h7_1: "reachable Location_init Location2_step (Location2_step (Edit (hd
      initialLocations)) Location_init)"
    by (rule reachable_step [OF reachable_init])
  have h7_2: "(hd initialLocations) \<in> set (rows (Location2_step (Edit (hd initialLocations))
      Location_init))"
    by code_simp
  have h7_3: "editingId (Location2_step (Edit (hd initialLocations)) Location_init) = Some
      (Location.id (hd initialLocations))"
    by code_simp
  have h7_4: "toLowerCase (locationCode (Location_sample\<lparr>locationCode := ''aalmys''\<rparr>)) =
      toLowerCase (locationCode (hd initialLocations))"
    by code_simp
  have c7: "\<not> Location2_isDuplicate (Location_sample\<lparr>locationCode := ''aalmys''\<rparr>)
      (Location2_step (Edit (hd initialLocations)) Location_init)"
    by (rule T [THEN conjunct2, THEN conjunct2, THEN conjunct2, THEN conjunct2, THEN conjunct2,
        THEN conjunct2, THEN conjunct1, THEN mp, OF h7_1, THEN mp, OF h7_2, THEN mp, OF h7_3,
        THEN mp, OF h7_4])
  have c8: "(''designationCode'', DuplicateKey) \<notin> set (errors (Designation1_handleSubmit
      Designation_editing))"
    by (rule T [THEN conjunct2, THEN conjunct2, THEN conjunct2, THEN conjunct2, THEN conjunct2,
        THEN conjunct2, THEN conjunct2, THEN conjunct1])
  have h9_1: "reachable Designation_init Designation2_step (Designation2_step (Edit (hd
      initialDesignations)) Designation_init)"
    by (rule reachable_step [OF reachable_init])
  have h9_2: "(hd initialDesignations) \<in> set (rows (Designation2_step (Edit (hd
      initialDesignations)) Designation_init))"
    by code_simp
  have h9_3: "editingId (Designation2_step (Edit (hd initialDesignations)) Designation_init) =
      Some (Designation.id (hd initialDesignations))"
    by code_simp
  have h9_4: "toLowerCase (designationCode (Designation_sample\<lparr>designationCode := ''drv''\<rparr>)) =
      toLowerCase (designationCode (hd initialDesignations))"
    by code_simp
  have c9: "\<not> Designation2_isDuplicate (Designation_sample\<lparr>designationCode := ''drv''\<rparr>)
      (Designation2_step (Edit (hd initialDesignations)) Designation_init)"
    by (rule T [THEN conjunct2, THEN conjunct2, THEN conjunct2, THEN conjunct2, THEN conjunct2,
        THEN conjunct2, THEN conjunct2, THEN conjunct2, THEN mp, OF h9_1, THEN mp, OF h9_2, THEN
        mp, OF h9_3, THEN mp, OF h9_4])
  show ?thesis
    using h1_1 h1_2 h1_3 h1_4 c1 h2_1 h2_2 h2_3 h2_4 c2 h3_1 h3_2 h3_3 h3_4 c3 c4 h5_1 h5_2 h5_3
      h5_4 h5_5 c5 c6 h7_1 h7_2 h7_3 h7_4 c7 c8 h9_1 h9_2 h9_3 h9_4 c9
    by blast
qed


section \<open>C8: format rules\<close>

lemma organizationSchema_format:
  "((fO, FormatViolation) \<in> set (organizationSchema rEmail dO) \<longleftrightarrow>
       fO = ''emailId'' \<and> emailId dO \<noteq> [] \<and> \<not> rEmail (emailId dO)
     \<or> fO = ''contactNumber'' \<and> contactNumber dO \<noteq> [] \<and>
       \<not> (8 \<le> length (contactNumber dO) \<and> length (contactNumber dO) \<le> 15
          \<and> list_all isDigit (contactNumber dO))
     \<or> fO = ''pinCode'' \<and> pinCode dO \<noteq> [] \<and>
       \<not> (5 \<le> length (pinCode dO) \<and> length (pinCode dO) \<le> 6
          \<and> list_all isDigit (pinCode dO)))"
  by (auto simp add: organizationSchema_def field_set required_def matches_digits_def
        email_def)

lemma subsidiarySchema_format:
  "((fS, FormatViolation) \<in> set (subsidiarySchema dS) \<longleftrightarrow>
       fS = ''subsidiaryCode'' \<and> 20 < length (subsidiaryCode dS))"
  by (auto simp add: subsidiarySchema_def field_set required_def max_length_def)

lemma locationSchema_format:
  "((fL, FormatViolation) \<in> set (locationSchema dL) \<longleftrightarrow>
       fL = ''pincode'' \<and> pincode dL \<noteq> [] \<and>
       \<not> (5 \<le> length (pincode dL) \<and> length (pincode dL) \<le> 6
          \<and> list_all isDigit (pincode dL)))"
  by (auto simp add: locationSchema_def field_set required_def matches_digits_def)

lemma designationSchema_format:
  "(fD, FormatViolation) \<notin> set (designationSchema dD)"
  by (auto simp add: designationSchema_def field_set required_def)

lemma pincode_1234:
  "(''pincode'', FormatViolation) \<in> set (locationSchema (d\<lparr>pincode := ''1234''\<rparr>))"
  by (simp add: locationSchema_format)

lemma pincode_123456:
  "(''pincode'', k) \<notin> set (locationSchema (d\<lparr>pincode := ''123456''\<rparr>))"
  by (simp add: locationSchema_def field_set required_def matches_digits_def isDigit_def)

text \<open>
  C8. The format errors of the schemas are exactly these: Organization \<open>emailId\<close>
  (not empty and not of e-mail shape), \<open>contactNumber\<close> (not empty and not 8 to 15
  digits), \<open>pinCode\<close> (not empty and not 5 to 6 digits); Subsidiary
  \<open>subsidiaryCode\<close> (longer than 20); Location \<open>pincode\<close> (not empty and not 5 to 6
  digits); Designation: none. A Location pincode 1234 is a format error, and the pincode
  123456 gives no error on that field.
\<close>

theorem schema_format_rules:
  "((fO, FormatViolation) \<in> set (organizationSchema rEmail dO) \<longleftrightarrow>
       fO = ''emailId'' \<and> emailId dO \<noteq> [] \<and> \<not> rEmail (emailId dO)
     \<or> fO = ''contactNumber'' \<and> contactNumber dO \<noteq> [] \<and>
       \<not> (8 \<le> length (contactNumber dO) \<and> length (contactNumber dO) \<le> 15
          \<and> list_all isDigit (contactNumber dO))
     \<or> fO = ''pinCode'' \<and> pinCode dO \<noteq> [] \<and>
       \<not> (5 \<le> length (pinCode dO) \<and> length (pinCode dO) \<le> 6
          \<and> list_all isDigit (pinCode dO)))
   \<and> ((fS, FormatViolation) \<in> set (subsidiarySchema dS) \<longleftrightarrow>
       fS = ''subsidiaryCode'' \<and> 20 < length (subsidiaryCode dS))
   \<and> ((fL, FormatViolation) \<in> set (locationSchema dL) \<longleftrightarrow>
       fL = ''pincode'' \<and> pincode dL \<noteq> [] \<and>
       \<not> (5 \<le> length (pincode dL) \<and> length (pincode dL) \<le> 6
          \<and> list_all isDigit (pincode dL)))
   \<and> (fD, FormatViolation) \<notin> set (designationSchema dD)
   \<and> (''pincode'', FormatViolation) \<in> set (locationSchema (d\<lparr>pincode := ''1234''\<rparr>))
   \<and> (''pincode'', k) \<notin> set (locationSchema (d\<lparr>pincode := ''123456''\<rparr>))"
  by (intro conjI organizationSchema_format subsidiarySchema_format locationSchema_format
        designationSchema_format pincode_1234 pincode_123456)

text \<open>
  The statement of C8 at the example inputs: every hypothesis holds there.
\<close>

theorem schema_format_rules_witness:
  "(((''emailId'', FormatViolation) \<in> set (organizationSchema example_rEmail
      (Organization_sample\<lparr>emailId := ''nobody''\<rparr>)) \<longleftrightarrow>
       ''emailId'' = ''emailId'' \<and> emailId (Organization_sample\<lparr>emailId := ''nobody''\<rparr>) \<noteq> [] \<and> \<not>
           example_rEmail (emailId (Organization_sample\<lparr>emailId := ''nobody''\<rparr>))
     \<or> ''emailId'' = ''contactNumber'' \<and> contactNumber (Organization_sample\<lparr>emailId :=
         ''nobody''\<rparr>) \<noteq> [] \<and>
       \<not> (8 \<le> length (contactNumber (Organization_sample\<lparr>emailId := ''nobody''\<rparr>)) \<and> length
           (contactNumber (Organization_sample\<lparr>emailId := ''nobody''\<rparr>)) \<le> 15
          \<and> list_all isDigit (contactNumber (Organization_sample\<lparr>emailId := ''nobody''\<rparr>)))
     \<or> ''emailId'' = ''pinCode'' \<and> pinCode (Organization_sample\<lparr>emailId := ''nobody''\<rparr>) \<noteq> [] \<and>
       \<not> (5 \<le> length (pinCode (Organization_sample\<lparr>emailId := ''nobody''\<rparr>)) \<and> length (pinCode
           (Organization_sample\<lparr>emailId := ''nobody''\<rparr>)) \<le> 6
          \<and> list_all isDigit (pinCode (Organization_sample\<lparr>emailId := ''nobody''\<rparr>)))))
   \<and> (((''subsidiaryCode'', FormatViolation) \<in> set (subsidiarySchema
       (Subsidiary_sample\<lparr>subsidiaryCode := ''ABCDEFGHIJKLMNOPQRSTU''\<rparr>)) \<longleftrightarrow>
       ''subsidiaryCode'' = ''subsidiaryCode'' \<and> 20 < length (subsidiaryCode
           (Subsidiary_sample\<lparr>subsidiaryCode := ''ABCDEFGHIJKLMNOPQRSTU''\<rparr>))))
   \<and> (((''pincode'', FormatViolation) \<in> set (locationSchema (Location_sample\<lparr>pincode :=
       ''12a45''\<rparr>)) \<longleftrightarrow>
       ''pincode'' = ''pincode'' \<and> pincode (Location_sample\<lparr>pincode := ''12a45''\<rparr>) \<noteq> [] \<and>
       \<not> (5 \<le> length (pincode (Location_sample\<lparr>pincode := ''12a45''\<rparr>)) \<and> length (pincode
           (Location_sample\<lparr>pincode := ''12a45''\<rparr>)) \<le> 6
          \<and> list_all isDigit (pincode (Location_sample\<lparr>pincode := ''12a45''\<rparr>)))))
   \<and> (''designationCode'', FormatViolation) \<notin> set (designationSchema Designation_sample)
   \<and> (''pincode'', FormatViolation) \<in> set (locationSchema (Location_sample\<lparr>pincode := ''1234''\<rparr>))
   \<and> (''pincode'', FormatViolation) \<notin> set (locationSchema (Location_sample\<lparr>pincode :=
       ''123456''\<rparr>))
   \<and> (''emailId'', FormatViolation)
       \<in> set (organizationSchema example_rEmail (Organization_sample\<lparr>emailId := ''nobody''\<rparr>))
   \<and> (''subsidiaryCode'', FormatViolation)
       \<in> set (subsidiarySchema (Subsidiary_sample\<lparr>subsidiaryCode := ''ABCDEFGHIJKLMNOPQRSTU''\<rparr>))
   \<and> (''pincode'', FormatViolation) \<in> set (locationSchema (Location_sample\<lparr>pincode := ''12a45''\<rparr>))
   \<and> locationSchema (Location_sample\<lparr>pincode := ''123456''\<rparr>) = []
   \<and> organizationSchema example_rEmail Organization_sample = []"
proof -
  note T = schema_format_rules
    [where rEmail = example_rEmail
       and fO = "''emailId''"
       and dO = "Organization_sample\<lparr>emailId := ''nobody''\<rparr>"
       and fS = "''subsidiaryCode''"
       and dS = "Subsidiary_sample\<lparr>subsidiaryCode := ''ABCDEFGHIJKLMNOPQRSTU''\<rparr>"
       and fL = "''pincode''"
       and dL = "Location_sample\<lparr>pincode := ''12a45''\<rparr>"
       and fD = "''designationCode''"
       and dD = "Designation_sample"
       and d = "Location_sample"
       and k = "FormatViolation"]
  have c1: "((''emailId'', FormatViolation) \<in> set (organizationSchema example_rEmail
      (Organization_sample\<lparr>emailId := ''nobody''\<rparr>)) \<longleftrightarrow>
       ''emailId'' = ''emailId'' \<and> emailId (Organization_sample\<lparr>emailId := ''nobody''\<rparr>) \<noteq> [] \<and> \<not>
           example_rEmail (emailId (Organization_sample\<lparr>emailId := ''nobody''\<rparr>))
     \<or> ''emailId'' = ''contactNumber'' \<and> contactNumber (Organization_sample\<lparr>emailId :=
         ''nobody''\<rparr>) \<noteq> [] \<and>
       \<not> (8 \<le> length (contactNumber (Organization_sample\<lparr>emailId := ''nobody''\<rparr>)) \<and> length
           (contactNumber (Organization_sample\<lparr>emailId := ''nobody''\<rparr>)) \<le> 15
          \<and> list_all isDigit (contactNumber (Organization_sample\<lparr>emailId := ''nobody''\<rparr>)))
     \<or> ''emailId'' = ''pinCode'' \<and> pinCode (Organization_sample\<lparr>emailId := ''nobody''\<rparr>) \<noteq> [] \<and>
       \<not> (5 \<le> length (pinCode (Organization_sample\<lparr>emailId := ''nobody''\<rparr>)) \<and> length (pinCode
           (Organization_sample\<lparr>emailId := ''nobody''\<rparr>)) \<le> 6
          \<and> list_all isDigit (pinCode (Organization_sample\<lparr>emailId := ''nobody''\<rparr>))))"
    by (rule T [THEN conjunct1])
  have c2: "((''subsidiaryCode'', FormatViolation) \<in> set (subsidiarySchema
      (Subsidiary_sample\<lparr>subsidiaryCode := ''ABCDEFGHIJKLMNOPQRSTU''\<rparr>)) \<longleftrightarrow>
       ''subsidiaryCode'' = ''subsidiaryCode'' \<and> 20 < length (subsidiaryCode
           (Subsidiary_sample\<lparr>subsidiaryCode := ''ABCDEFGHIJKLMNOPQRSTU''\<rparr>)))"
    by (rule T [THEN conjunct2, THEN conjunct1])
  have c3: "((''pincode'', FormatViolation) \<in> set (locationSchema (Location_sample\<lparr>pincode :=
      ''12a45''\<rparr>)) \<longleftrightarrow>
       ''pincode'' = ''pincode'' \<and> pincode (Location_sample\<lparr>pincode := ''12a45''\<rparr>) \<noteq> [] \<and>
       \<not> (5 \<le> length (pincode (Location_sample\<lparr>pincode := ''12a45''\<rparr>)) \<and> length (pincode
           (Location_sample\<lparr>pincode := ''12a45''\<rparr>)) \<le> 6
          \<and> list_all isDigit (pincode (Location_sample\<lparr>pincode := ''12a45''\<rparr>))))"
    by (rule T [THEN conjunct2, THEN conjunct2, THEN conjunct1])
  have c4: "(''designationCode'', FormatViolation) \<notin> set (designationSchema Designation_sample)"
    by (rule T [THEN conjunct2, THEN conjunct2, THEN conjunct2, THEN conjunct1])
  have c5: "(''pincode'', FormatViolation) \<in> set (locationSchema (Location_sample\<lparr>pincode :=
      ''1234''\<rparr>))"
    by (rule T [THEN conjunct2, THEN conjunct2, THEN conjunct2, THEN conjunct2, THEN conjunct1])
  have c6: "(''pincode'', FormatViolation) \<notin> set (locationSchema (Location_sample\<lparr>pincode :=
      ''123456''\<rparr>))"
    by (rule T [THEN conjunct2, THEN conjunct2, THEN conjunct2, THEN conjunct2, THEN conjunct2])
  have x1: "(''emailId'', FormatViolation)
       \<in> set (organizationSchema example_rEmail (Organization_sample\<lparr>emailId := ''nobody''\<rparr>))"
    by code_simp
  have x2: "(''subsidiaryCode'', FormatViolation)
       \<in> set (subsidiarySchema (Subsidiary_sample\<lparr>subsidiaryCode := ''ABCDEFGHIJKLMNOPQRSTU''\<rparr>))"
    by code_simp
  have x3: "(''pincode'', FormatViolation) \<in> set (locationSchema (Location_sample\<lparr>pincode :=
      ''12a45''\<rparr>))"
    by code_simp
  have x4: "locationSchema (Location_sample\<lparr>pincode := ''123456''\<rparr>) = []"
    by code_simp
  have x5: "organizationSchema example_rEmail Organization_sample = []"
    by code_simp
  show ?thesis
    using c1 c2 c3 c4 c5 c6 x1 x2 x3 x4 x5
    by blast
qed


section \<open>C9: which rules look at the store\<close>

lemma Organization1_store_dependence:
  "(formValues tO = formValues sO \<longrightarrow>
   ((\<exists>row\<in>set (rows sO). toLowerCase (organizationCode row) = toLowerCase (organizationCode
       (formValues sO))
          \<and> Some (Organization.id row) \<noteq> editingId sO)
       \<longleftrightarrow> (\<exists>row\<in>set (rows tO). toLowerCase (organizationCode row) = toLowerCase (organizationCode
           (formValues tO))
          \<and> Some (Organization.id row) \<noteq> editingId tO)) \<longrightarrow>
   errors (Organization1_handleSubmit rEmail sO)
       = errors (Organization1_handleSubmit rEmail tO))"
proof (intro impI)
  assume fv: "formValues tO = formValues sO"
    and k: "((\<exists>row\<in>set (rows sO). toLowerCase (organizationCode row) = toLowerCase
        (organizationCode (formValues sO))
          \<and> Some (Organization.id row) \<noteq> editingId sO)
       \<longleftrightarrow> (\<exists>row\<in>set (rows tO). toLowerCase (organizationCode row) = toLowerCase (organizationCode
           (formValues tO))
          \<and> Some (Organization.id row) \<noteq> editingId tO))"
  have a: "Organization1_isDuplicate (formValues sO) sO
      = Organization1_isDuplicate (formValues tO) tO"
    unfolding Organization1_isDuplicate_def list_ex_iff by (rule k)
  show "errors (Organization1_handleSubmit rEmail sO)
       = errors (Organization1_handleSubmit rEmail tO)"
    unfolding Organization1_outcome a fv ..
qed

lemma Organization2_store_dependence:
  "(formValues tO' = formValues sO' \<longrightarrow>
   ((\<exists>row\<in>set (rows sO'). toLowerCase (organizationCode row) = toLowerCase (organizationCode
       (formValues sO'))
          \<and> Some (Organization.id row) \<noteq> editingId sO')
       \<longleftrightarrow> (\<exists>row\<in>set (rows tO'). toLowerCase (organizationCode row) = toLowerCase
           (organizationCode (formValues tO'))
          \<and> Some (Organization.id row) \<noteq> editingId tO')) \<longrightarrow>
   ((\<exists>row\<in>set (rows sO'). toLowerCase (tenantCode row) = toLowerCase (tenantCode (formValues sO'))
          \<and> Some (Organization.id row) \<noteq> editingId sO')
       \<longleftrightarrow> (\<exists>row\<in>set (rows tO'). toLowerCase (tenantCode row) = toLowerCase (tenantCode
           (formValues tO'))
          \<and> Some (Organization.id row) \<noteq> editingId tO')) \<longrightarrow>
   errors (Organization2_handleSubmit rEmail sO')
       = errors (Organization2_handleSubmit rEmail tO'))"
proof (intro impI)
  assume fv: "formValues tO' = formValues sO'"
    and k: "((\<exists>row\<in>set (rows sO'). toLowerCase (organizationCode row) = toLowerCase
        (organizationCode (formValues sO'))
          \<and> Some (Organization.id row) \<noteq> editingId sO')
       \<longleftrightarrow> (\<exists>row\<in>set (rows tO'). toLowerCase (organizationCode row) = toLowerCase
           (organizationCode (formValues tO'))
          \<and> Some (Organization.id row) \<noteq> editingId tO'))"
    and tn: "((\<exists>row\<in>set (rows sO'). toLowerCase (tenantCode row) = toLowerCase (tenantCode
        (formValues sO'))
          \<and> Some (Organization.id row) \<noteq> editingId sO')
       \<longleftrightarrow> (\<exists>row\<in>set (rows tO'). toLowerCase (tenantCode row) = toLowerCase (tenantCode
           (formValues tO'))
          \<and> Some (Organization.id row) \<noteq> editingId tO'))"
  have a: "Organization2_orgCodeDuplicate (formValues sO') sO'
      = Organization2_orgCodeDuplicate (formValues tO') tO'"
    unfolding Organization2_orgCodeDuplicate_def list_ex_iff by (rule k)
  have b: "Organization2_tenantDuplicate (formValues sO') sO'
      = Organization2_tenantDuplicate (formValues tO') tO'"
    unfolding Organization2_tenantDuplicate_def list_ex_iff by (rule tn)
  show "errors (Organization2_handleSubmit rEmail sO')
       = errors (Organization2_handleSubmit rEmail tO')"
    unfolding Organization2_outcome a b fv ..
qed

lemma Subsidiary1_store_dependence:
  "(formValues tS = formValues sS \<longrightarrow>
   errors (Subsidiary1_handleSubmit sS)
       = errors (Subsidiary1_handleSubmit tS))"
proof (intro impI)
  assume fv: "formValues tS = formValues sS"
  show "errors (Subsidiary1_handleSubmit sS)
       = errors (Subsidiary1_handleSubmit tS)"
    unfolding Subsidiary1_outcome fv ..
qed

lemma Subsidiary2_store_dependence:
  "(formValues tS' = formValues sS' \<longrightarrow>
   ((\<exists>row\<in>set (rows sS'). toLowerCase (subsidiaryCode row) = toLowerCase (subsidiaryCode
       (formValues sS'))
          \<and> Some (Subsidiary.id row) \<noteq> editingId sS')
       \<longleftrightarrow> (\<exists>row\<in>set (rows tS'). toLowerCase (subsidiaryCode row) = toLowerCase (subsidiaryCode
           (formValues tS'))
          \<and> Some (Subsidiary.id row) \<noteq> editingId tS')) \<longrightarrow>
   errors (Subsidiary2_handleSubmit sS')
       = errors (Subsidiary2_handleSubmit tS'))"
proof (intro impI)
  assume fv: "formValues tS' = formValues sS'"
    and k: "((\<exists>row\<in>set (rows sS'). toLowerCase (subsidiaryCode row) = toLowerCase
        (subsidiaryCode (formValues sS'))
          \<and> Some (Subsidiary.id row) \<noteq> editingId sS')
       \<longleftrightarrow> (\<exists>row\<in>set (rows tS'). toLowerCase (subsidiaryCode row) = toLowerCase (subsidiaryCode
           (formValues tS'))
          \<and> Some (Subsidiary.id row) \<noteq> editingId tS'))"
  have a: "Subsidiary2_isDuplicate (formValues sS') sS'
      = Subsidiary2_isDuplicate (formValues tS') tS'"
    unfolding Subsidiary2_isDuplicate_def list_ex_iff by (rule k)
  show "errors (Subsidiary2_handleSubmit sS')
       = errors (Subsidiary2_handleSubmit tS')"
    unfolding Subsidiary2_outcome a fv ..
qed

lemma Location1_store_dependence:
  "(formValues tL = formValues sL \<longrightarrow>
   errors (Location1_handleSubmit sL)
       = errors (Location1_handleSubmit tL))"
proof (intro impI)
  assume fv: "formValues tL = formValues sL"
  show "errors (Location1_handleSubmit sL)
       = errors (Location1_handleSubmit tL)"
    unfolding Location1_outcome fv ..
qed

lemma Location2_store_dependence:
  "(formValues tL' = formValues sL' \<longrightarrow>
   ((\<exists>row\<in>set (rows sL'). toLowerCase (locationCode row) = toLowerCase (locationCode (formValues
       sL'))
          \<and> Some (Location.id row) \<noteq> editingId sL')
       \<longleftrightarrow> (\<exists>row\<in>set (rows tL'). toLowerCase (locationCode row) = toLowerCase (locationCode
           (formValues tL'))
          \<and> Some (Location.id row) \<noteq> editingId tL')) \<longrightarrow>
   map_sum (\<lambda>e. e) errors (Location2_handleSubmit sL')
       = map_sum (\<lambda>e. e) errors (Location2_handleSubmit tL'))"
proof (intro impI)
  assume fv: "formValues tL' = formValues sL'"
    and k: "((\<exists>row\<in>set (rows sL'). toLowerCase (locationCode row) = toLowerCase (locationCode
        (formValues sL'))
          \<and> Some (Location.id row) \<noteq> editingId sL')
       \<longleftrightarrow> (\<exists>row\<in>set (rows tL'). toLowerCase (locationCode row) = toLowerCase (locationCode
           (formValues tL'))
          \<and> Some (Location.id row) \<noteq> editingId tL'))"
  have a: "Location2_isDuplicate (formValues sL') sL'
      = Location2_isDuplicate (formValues tL') tL'"
    unfolding Location2_isDuplicate_def list_ex_iff by (rule k)
  show "map_sum (\<lambda>e. e) errors (Location2_handleSubmit sL')
       = map_sum (\<lambda>e. e) errors (Location2_handleSubmit tL')"
    unfolding Location2_outcome a fv ..
qed

lemma Designation1_store_dependence:
  "(formValues tD = formValues sD \<longrightarrow>
   errors (Designation1_handleSubmit sD)
       = errors (Designation1_handleSubmit tD))"
proof (intro impI)
  assume fv: "formValues tD = formValues sD"
  show "errors (Designation1_handleSubmit sD)
       = errors (Designation1_handleSubmit tD)"
    unfolding Designation1_outcome fv ..
qed

lemma Designation2_store_dependence:
  "(formValues tD' = formValues sD' \<longrightarrow>
   ((\<exists>row\<in>set (rows sD'). toLowerCase (designationCode row) = toLowerCase (designationCode
       (formValues sD'))
          \<and> Some (Designation.id row) \<noteq> editingId sD')
       \<longleftrightarrow> (\<exists>row\<in>set (rows tD'). toLowerCase (designationCode row) = toLowerCase (designationCode
           (formValues tD'))
          \<and> Some (Designation.id row) \<noteq> editingId tD')) \<longrightarrow>
   errors (Designation2_handleSubmit sD')
       = errors (Designation2_handleSubmit tD'))"
proof (intro impI)
  assume fv: "formValues tD' = formValues sD'"
    and k: "((\<exists>row\<in>set (rows sD'). toLowerCase (designationCode row) = toLowerCase
        (designationCode (formValues sD'))
          \<and> Some (Designation.id row) \<noteq> editingId sD')
       \<longleftrightarrow> (\<exists>row\<in>set (rows tD'). toLowerCase (designationCode row) = toLowerCase (designationCode
           (formValues tD'))
          \<and> Some (Designation.id row) \<noteq> editingId tD'))"
  have a: "Designation2_isDuplicate (formValues sD') sD'
      = Designation2_isDuplicate (formValues tD') tD'"
    unfolding Designation2_isDuplicate_def list_ex_iff by (rule k)
  show "errors (Designation2_handleSubmit sD')
       = errors (Designation2_handleSubmit tD')"
    unfolding Designation2_outcome a fv ..
qed

text \<open>
  C9 (as amended). What a submit reports depends on the store only through the duplicate
  checks of the page: given the same buffer, two stores on which the natural-key check
  agrees (on the second Organization page: on which the natural-key check and the
  tenant-code check agree) give the same errors; on the pages without a duplicate check
  the errors do not depend on the store at all.
\<close>

theorem validation_depends_on_store_through_checked_fields:
  "(formValues tO = formValues sO \<longrightarrow>
     ((\<exists>row\<in>set (rows sO). toLowerCase (organizationCode row) = toLowerCase (organizationCode
         (formValues sO))
          \<and> Some (Organization.id row) \<noteq> editingId sO)
       \<longleftrightarrow> (\<exists>row\<in>set (rows tO). toLowerCase (organizationCode row) = toLowerCase (organizationCode
           (formValues tO))
          \<and> Some (Organization.id row) \<noteq> editingId tO)) \<longrightarrow>
     errors (Organization1_handleSubmit rEmail sO)
       = errors (Organization1_handleSubmit rEmail tO))
   \<and> (formValues tO' = formValues sO' \<longrightarrow>
     ((\<exists>row\<in>set (rows sO'). toLowerCase (organizationCode row) = toLowerCase (organizationCode
         (formValues sO'))
          \<and> Some (Organization.id row) \<noteq> editingId sO')
       \<longleftrightarrow> (\<exists>row\<in>set (rows tO'). toLowerCase (organizationCode row) = toLowerCase
           (organizationCode (formValues tO'))
          \<and> Some (Organization.id row) \<noteq> editingId tO')) \<longrightarrow>
     ((\<exists>row\<in>set (rows sO'). toLowerCase (tenantCode row) = toLowerCase (tenantCode (formValues
         sO'))
          \<and> Some (Organization.id row) \<noteq> editingId sO')
       \<longleftrightarrow> (\<exists>row\<in>set (rows tO'). toLowerCase (tenantCode row) = toLowerCase (tenantCode
           (formValues tO'))
          \<and> Some (Organization.id row) \<noteq> editingId tO')) \<longrightarrow>
     errors (Organization2_handleSubmit rEmail sO')
       = errors (Organization2_handleSubmit rEmail tO'))
   \<and> (formValues tS = formValues sS \<longrightarrow>
     errors (Subsidiary1_handleSubmit sS)
       = errors (Subsidiary1_handleSubmit tS))
   \<and> (formValues tS' = formValues sS' \<longrightarrow>
     ((\<exists>row\<in>set (rows sS'). toLowerCase (subsidiaryCode row) = toLowerCase (subsidiaryCode
         (formValues sS'))
          \<and> Some (Subsidiary.id row) \<noteq> editingId sS')
       \<longleftrightarrow> (\<exists>row\<in>set (rows tS'). toLowerCase (subsidiaryCode row) = toLowerCase (subsidiaryCode
           (formValues tS'))
          \<and> Some (Subsidiary.id row) \<noteq> editingId tS')) \<longrightarrow>
     errors (Subsidiary2_handleSubmit sS')
       = errors (Subsidiary2_handleSubmit tS'))
   \<and> (formValues tL = formValues sL \<longrightarrow>
     errors (Location1_handleSubmit sL)
       = errors (Location1_handleSubmit tL))
   \<and> (formValues tL' = formValues sL' \<longrightarrow>
     ((\<exists>row\<in>set (rows sL'). toLowerCase (locationCode row) = toLowerCase (locationCode
         (formValues sL'))
          \<and> Some (Location.id row) \<noteq> editingId sL')
       \<longleftrightarrow> (\<exists>row\<in>set (rows tL'). toLowerCase (locationCode row) = toLowerCase (locationCode
           (formValues tL'))
          \<and> Some (Location.id row) \<noteq> editingId tL')) \<longrightarrow>
     map_sum (\<lambda>e. e) errors (Location2_handleSubmit sL')
       = map_sum (\<lambda>e. e) errors (Location2_handleSubmit tL'))
   \<and> (formValues tD = formValues sD \<longrightarrow>
     errors (Designation1_handleSubmit sD)
       = errors (Designation1_handleSubmit tD))
   \<and> (formValues tD' = formValues sD' \<longrightarrow>
     ((\<exists>row\<in>set (rows sD'). toLowerCase (designationCode row) = toLowerCase (designationCode
         (formValues sD'))
          \<and> Some (Designation.id row) \<noteq> editingId sD')
       \<longleftrightarrow> (\<exists>row\<in>set (rows tD'). toLowerCase (designationCode row) = toLowerCase (designationCode
           (formValues tD'))
          \<and> Some (Designation.id row) \<noteq> editingId tD')) \<longrightarrow>
     errors (Designation2_handleSubmit sD')
       = errors (Designation2_handleSubmit tD'))"
  by (intro conjI Organization1_store_dependence Organization2_store_dependence
        Subsidiary1_store_dependence Subsidiary2_store_dependence Location1_store_dependence
        Location2_store_dependence Designation1_store_dependence
        Designation2_store_dependence)

text \<open>
  The claim as stated fails on the Organization page of unnamed/part_005, which also
  checks \<open>tenantCode\<close> against the store. The buffer is valid, with the new key XYZ
  and the tenant code aal. On the seed store (key AAL, tenant code AAL) the key is not a
  duplicate, yet the submit is refused with an error on \<open>tenantCode\<close>; once the seed
  record is deleted, the same buffer is saved.
\<close>

theorem tenant_code_checked_against_store_counterexample:
  "organizationSchema example_rEmail (Organization_sample\<lparr>tenantCode := ''aal''\<rparr>) = []
   \<and> \<not> Organization2_orgCodeDuplicate (Organization_sample\<lparr>tenantCode := ''aal''\<rparr>)
         Organization_init
   \<and> errors (fold (Organization2_step example_rEmail)
          [AddNew, Input (Organization_sample\<lparr>tenantCode := ''aal''\<rparr>), Submit]
          Organization_init)
     = [(''tenantCode'', DuplicateKey)]
   \<and> rows (fold (Organization2_step example_rEmail)
          [AddNew, Input (Organization_sample\<lparr>tenantCode := ''aal''\<rparr>), Submit]
          Organization_init)
     = initialOrganizations
   \<and> errors (fold (Organization2_step example_rEmail)
          [Delete 1 True, AddNew, Input (Organization_sample\<lparr>tenantCode := ''aal''\<rparr>),
           Submit]
          Organization_init)
     = []
   \<and> rows (fold (Organization2_step example_rEmail)
          [Delete 1 True, AddNew, Input (Organization_sample\<lparr>tenantCode := ''aal''\<rparr>),
           Submit]
          Organization_init)
     = [Organization_new 1 (Organization_sample\<lparr>tenantCode := ''aal''\<rparr>)]"
  by code_simp

text \<open>
  The statement of C9 at the example inputs: every hypothesis holds there.
\<close>

theorem validation_depends_on_store_through_checked_fields_witness:
  "formValues (Organization_adding\<lparr>rows := []\<rparr>) = formValues Organization_adding
   \<and> (((\<exists>row\<in>set (rows Organization_adding). toLowerCase (organizationCode row) = toLowerCase
       (organizationCode (formValues Organization_adding))
          \<and> Some (Organization.id row) \<noteq> editingId Organization_adding)
       \<longleftrightarrow> (\<exists>row\<in>set (rows (Organization_adding\<lparr>rows := []\<rparr>)). toLowerCase (organizationCode row)
           = toLowerCase (organizationCode (formValues (Organization_adding\<lparr>rows := []\<rparr>)))
          \<and> Some (Organization.id row) \<noteq> editingId (Organization_adding\<lparr>rows := []\<rparr>))))
   \<and> errors (Organization1_handleSubmit example_rEmail Organization_adding)
       = errors (Organization1_handleSubmit example_rEmail (Organization_adding\<lparr>rows := []\<rparr>))
   \<and> formValues (Organization_adding\<lparr>rows := []\<rparr>) = formValues Organization_adding
   \<and> (((\<exists>row\<in>set (rows Organization_adding). toLowerCase (organizationCode row) = toLowerCase
       (organizationCode (formValues Organization_adding))
          \<and> Some (Organization.id row) \<noteq> editingId Organization_adding)
       \<longleftrightarrow> (\<exists>row\<in>set (rows (Organization_adding\<lparr>rows := []\<rparr>)). toLowerCase (organizationCode row)
           = toLowerCase (organizationCode (formValues (Organization_adding\<lparr>rows := []\<rparr>)))
          \<and> Some (Organization.id row) \<noteq> editingId (Organization_adding\<lparr>rows := []\<rparr>))))
   \<and> (((\<exists>row\<in>set (rows Organization_adding). toLowerCase (tenantCode row) = toLowerCase
       (tenantCode (formValues Organization_adding))
          \<and> Some (Organization.id row) \<noteq> editingId Organization_adding)
       \<longleftrightarrow> (\<exists>row\<in>set (rows (Organization_adding\<lparr>rows := []\<rparr>)). toLowerCase (tenantCode row) =
           toLowerCase (tenantCode (formValues (Organization_adding\<lparr>rows := []\<rparr>)))
          \<and> Some (Organization.id row) \<noteq> editingId (Organization_adding\<lparr>rows := []\<rparr>))))
   \<and> errors (Organization2_handleSubmit example_rEmail Organization_adding)
       = errors (Organization2_handleSubmit example_rEmail (Organization_adding\<lparr>rows := []\<rparr>))
   \<and> formValues (Subsidiary_adding\<lparr>rows := []\<rparr>) = formValues Subsidiary_adding
   \<and> errors (Subsidiary1_handleSubmit Subsidiary_adding)
       = errors (Subsidiary1_handleSubmit (Subsidiary_adding\<lparr>rows := []\<rparr>))
   \<and> formValues (Subsidiary_adding\<lparr>rows := []\<rparr>) = formValues Subsidiary_adding
   \<and> (((\<exists>row\<in>set (rows Subsidiary_adding). toLowerCase (subsidiaryCode row) = toLowerCase
       (subsidiaryCode (formValues Subsidiary_adding))
          \<and> Some (Subsidiary.id row) \<noteq> editingId Subsidiary_adding)
       \<longleftrightarrow> (\<exists>row\<in>set (rows (Subsidiary_adding\<lparr>rows := []\<rparr>)). toLowerCase (subsidiaryCode row) =
           toLowerCase (subsidiaryCode (formValues (Subsidiary_adding\<lparr>rows := []\<rparr>)))
          \<and> Some (Subsidiary.id row) \<noteq> editingId (Subsidiary_adding\<lparr>rows := []\<rparr>))))
   \<and> errors (Subsidiary2_handleSubmit Subsidiary_adding)
       = errors (Subsidiary2_handleSubmit (Subsidiary_adding\<lparr>rows := []\<rparr>))
   \<and> formValues (Location_adding\<lparr>rows := []\<rparr>) = formValues Location_adding
   \<and> errors (Location1_handleSubmit Location_adding)
       = errors (Location1_handleSubmit (Location_adding\<lparr>rows := []\<rparr>))
   \<and> formValues (Location_adding\<lparr>rows := []\<rparr>) = formValues Location_adding
   \<and> (((\<exists>row\<in>set (rows Location_adding). toLowerCase (locationCode row) = toLowerCase
       (locationCode (formValues Location_adding))
          \<and> Some (Location.id row) \<noteq> editingId Location_adding)
       \<longleftrightarrow> (\<exists>row\<in>set (rows (Location_adding\<lparr>rows := []\<rparr>)). toLowerCase (locationCode row) =
           toLowerCase (locationCode (formValues (Location_adding\<lparr>rows := []\<rparr>)))
          \<and> Some (Location.id row) \<noteq> editingId (Location_adding\<lparr>rows := []\<rparr>))))
   \<and> map_sum (\<lambda>e. e) errors (Location2_handleSubmit Location_adding)
       = map_sum (\<lambda>e. e) errors (Location2_handleSubmit (Location_adding\<lparr>rows := []\<rparr>))
   \<and> formValues (Designation_adding\<lparr>rows := []\<rparr>) = formValues Designation_adding
   \<and> errors (Designation1_handleSubmit Designation_adding)
       = errors (Designation1_handleSubmit (Designation_adding\<lparr>rows := []\<rparr>))
   \<and> formValues (Designation_adding\<lparr>rows := []\<rparr>) = formValues Designation_adding
   \<and> (((\<exists>row\<in>set (rows Designation_adding). toLowerCase (designationCode row) = toLowerCase
       (designationCode (formValues Designation_adding))
          \<and> Some (Designation.id row) \<noteq> editingId Designation_adding)
       \<longleftrightarrow> (\<exists>row\<in>set (rows (Designation_adding\<lparr>rows := []\<rparr>)). toLowerCase (designationCode row) =
           toLowerCase (designationCode (formValues (Designation_adding\<lparr>rows := []\<rparr>)))
          \<and> Some (Designation.id row) \<noteq> editingId (Designation_adding\<lparr>rows := []\<rparr>))))
   \<and> errors (Designation2_handleSubmit Designation_adding)
       = errors (Designation2_handleSubmit (Designation_adding\<lparr>rows := []\<rparr>))"
proof -
  note T = validation_depends_on_store_through_checked_fields
    [where rEmail = example_rEmail
       and sO = "Organization_adding"
       and tO = "Organization_adding\<lparr>rows := []\<rparr>"
       and sO' = "Organization_adding"
       and tO' = "Organization_adding\<lparr>rows := []\<rparr>"
       and sS = "Subsidiary_adding"
       and tS = "Subsidiary_adding\<lparr>rows := []\<rparr>"
       and sS' = "Subsidiary_adding"
       and tS' = "Subsidiary_adding\<lparr>rows := []\<rparr>"
       and sL = "Location_adding"
       and tL = "Location_adding\<lparr>rows := []\<rparr>"
       and sL' = "Location_adding"
       and tL' = "Location_adding\<lparr>rows := []\<rparr>"
       and sD = "Designation_adding"
       and tD = "Designation_adding\<lparr>rows := []\<rparr>"
       and sD' = "Designation_adding"
       and tD' = "Designation_adding\<lparr>rows := []\<rparr>"]
  have h1_1: "formValues (Organization_adding\<lparr>rows := []\<rparr>) = formValues Organization_adding"
    by code_simp
  have h1_2: "((\<exists>row\<in>set (rows Organization_adding). toLowerCase (organizationCode row) =
      toLowerCase (organizationCode (formValues Organization_adding))
          \<and> Some (Organization.id row) \<noteq> editingId Organization_adding)
       \<longleftrightarrow> (\<exists>row\<in>set (rows (Organization_adding\<lparr>rows := []\<rparr>)). toLowerCase (organizationCode row)
           = toLowerCase (organizationCode (formValues (Organization_adding\<lparr>rows := []\<rparr>)))
          \<and> Some (Organization.id row) \<noteq> editingId (Organization_adding\<lparr>rows := []\<rparr>)))"
    by code_simp
  have c1: "errors (Organization1_handleSubmit example_rEmail Organization_adding)
       = errors (Organization1_handleSubmit example_rEmail (Organization_adding\<lparr>rows := []\<rparr>))"
    by (rule T [THEN conjunct1, THEN mp, OF h1_1, THEN mp, OF h1_2])
  have h2_1: "formValues (Organization_adding\<lparr>rows := []\<rparr>) = formValues Organization_adding"
    by code_simp
  have h2_2: "((\<exists>row\<in>set (rows Organization_adding). toLowerCase (organizationCode row) =
      toLowerCase (organizationCode (formValues Organization_adding))
          \<and> Some (Organization.id row) \<noteq> editingId Organization_adding)
       \<longleftrightarrow> (\<exists>row\<in>set (rows (Organization_adding\<lparr>rows := []\<rparr>)). toLowerCase (organizationCode row)
           = toLowerCase (organizationCode (formValues (Organization_adding\<lparr>rows := []\<rparr>)))
          \<and> Some (Organization.id row) \<noteq> editingId (Organization_adding\<lparr>rows := []\<rparr>)))"
    by code_simp
  have h2_3: "((\<exists>row\<in>set (rows Organization_adding). toLowerCase (tenantCode row) = toLowerCase
      (tenantCode (formValues Organization_adding))
          \<and> Some (Organization.id row) \<noteq> editingId Organization_adding)
       \<longleftrightarrow> (\<exists>row\<in>set (rows (Organization_adding\<lparr>rows := []\<rparr>)). toLowerCase (tenantCode row) =
           toLowerCase (tenantCode (formValues (Organization_adding\<lparr>rows := []\<rparr>)))
          \<and> Some (Organization.id row) \<noteq> editingId (Organization_adding\<lparr>rows := []\<rparr>)))"
    by code_simp
  have c2: "errors (Organization2_handleSubmit example_rEmail Organization_adding)
       = errors (Organization2_handleSubmit example_rEmail (Organization_adding\<lparr>rows := []\<rparr>))"
    by (rule T [THEN conjunct2, THEN conjunct1, THEN mp, OF h2_1, THEN mp, OF h2_2, THEN mp, OF
        h2_3])
  have h3_1: "formValues (Subsidiary_adding\<lparr>rows := []\<rparr>) = formValues Subsidiary_adding"
    by code_simp
  have c3: "errors (Subsidiary1_handleSubmit Subsidiary_adding)
       = errors (Subsidiary1_handleSubmit (Subsidiary_adding\<lparr>rows := []\<rparr>))"
    by (rule T [THEN conjunct2, THEN conjunct2, THEN conjunct1, THEN mp, OF h3_1])
  have h4_1: "formValues (Subsidiary_adding\<lparr>rows := []\<rparr>) = formValues Subsidiary_adding"
    by code_simp
  have h4_2: "((\<exists>row\<in>set (rows Subsidiary_adding). toLowerCase (subsidiaryCode row) =
      toLowerCase (subsidiaryCode (formValues Subsidiary_adding))
          \<and> Some (Subsidiary.id row) \<noteq> editingId Subsidiary_adding)
       \<longleftrightarrow> (\<exists>row\<in>set (rows (Subsidiary_adding\<lparr>rows := []\<rparr>)). toLowerCase (subsidiaryCode row) =
           toLowerCase (subsidiaryCode (formValues (Subsidiary_adding\<lparr>rows := []\<rparr>)))
          \<and> Some (Subsidiary.id row) \<noteq> editingId (Subsidiary_adding\<lparr>rows := []\<rparr>)))"
    by code_simp
  have c4: "errors (Subsidiary2_handleSubmit Subsidiary_adding)
       = errors (Subsidiary2_handleSubmit (Subsidiary_adding\<lparr>rows := []\<rparr>))"
    by (rule T [THEN conjunct2, THEN conjunct2, THEN conjunct2, THEN conjunct1, THEN mp, OF
        h4_1, THEN mp, OF h4_2])
  have h5_1: "formValues (Location_adding\<lparr>rows := []\<rparr>) = formValues Location_adding"
    by code_simp
  have c5: "errors (Location1_handleSubmit Location_adding)
       = errors (Location1_handleSubmit (Location_adding\<lparr>rows := []\<rparr>))"
    by (rule T [THEN conjunct2, THEN conjunct2, THEN conjunct2, THEN conjunct2, THEN conjunct1,
        THEN mp, OF h5_1])
  have h6_1: "formValues (Location_adding\<lparr>rows := []\<rparr>) = formValues Location_adding"
    by code_simp
  have h6_2: "((\<exists>row\<in>set (rows Location_adding). toLowerCase (locationCode row) = toLowerCase
      (locationCode (formValues Location_adding))
          \<and> Some (Location.id row) \<noteq> editingId Location_adding)
       \<longleftrightarrow> (\<exists>row\<in>set (rows (Location_adding\<lparr>rows := []\<rparr>)). toLowerCase (locationCode row) =
           toLowerCase (locationCode (formValues (Location_adding\<lparr>rows := []\<rparr>)))
          \<and> Some (Location.id row) \<noteq> editingId (Location_adding\<lparr>rows := []\<rparr>)))"
    by code_simp
  have c6: "map_sum (\<lambda>e. e) errors (Location2_handleSubmit Location_adding)
       = map_sum (\<lambda>e. e) errors (Location2_handleSubmit (Location_adding\<lparr>rows := []\<rparr>))"
    by (rule T [THEN conjunct2, THEN conjunct2, THEN conjunct2, THEN conjunct2, THEN conjunct2,
        THEN conjunct1, THEN mp, OF h6_1, THEN mp, OF h6_2])
  have h7_1: "formValues (Designation_adding\<lparr>rows := []\<rparr>) = formValues Designation_adding"
    by code_simp
  have c7: "errors (Designation1_handleSubmit Designation_adding)
       = errors (Designation1_handleSubmit (Designation_adding\<lparr>rows := []\<rparr>))"
    by (rule T [THEN conjunct2, THEN conjunct2, THEN conjunct2, THEN conjunct2, THEN conjunct2,
        THEN conjunct2, THEN conjunct1, THEN mp, OF h7_1])
  have h8_1: "formValues (Designation_adding\<lparr>rows := []\<rparr>) = formValues Designation_adding"
    by code_simp
  have h8_2: "((\<exists>row\<in>set (rows Designation_adding). toLowerCase (designationCode row) =
      toLowerCase (designationCode (formValues Designation_adding))
          \<and> Some (Designation.id row) \<noteq> editingId Designation_adding)
       \<longleftrightarrow> (\<exists>row\<in>set (rows (Designation_adding\<lparr>rows := []\<rparr>)). toLowerCase (designationCode row) =
           toLowerCase (designationCode (formValues (Designation_adding\<lparr>rows := []\<rparr>)))
          \<and> Some (Designation.id row) \<noteq> editingId (Designation_adding\<lparr>rows := []\<rparr>)))"
    by code_simp
  have c8: "errors (Designation2_handleSubmit Designation_adding)
       = errors (Designation2_handleSubmit (Designation_adding\<lparr>rows := []\<rparr>))"
    by (rule T [THEN conjunct2, THEN conjunct2, THEN conjunct2, THEN conjunct2, THEN conjunct2,
        THEN conjunct2, THEN conjunct2, THEN mp, OF h8_1, THEN mp, OF h8_2])
  show ?thesis
    using h1_1 h1_2 c1 h2_1 h2_2 h2_3 c2 h3_1 c3 h4_1 h4_2 c4 h5_1 c5 h6_1 h6_2 c6 h7_1 c7 h8_1
      h8_2 c8
    by blast
qed


section \<open>C10: Edit and the view\<close>

lemma Organization1_edit_view:
  "(rowO \<in> set (rows sO) \<longrightarrow>
   editingId (Organization1_step rEmail (Edit rowO) sO) = Some (Organization.id rowO)
     \<and> isFormOpen (Organization1_step rEmail (Edit rowO) sO)
     \<and> viewRow (Organization1_step rEmail (Edit rowO) sO) = viewRow sO)"
  by (simp add: Organization1_handleEdit_def)

lemma Organization2_edit_view:
  "(rowO' \<in> set (rows sO') \<longrightarrow>
   editingId (Organization2_step rEmail (Edit rowO') sO') = Some (Organization.id rowO')
     \<and> isFormOpen (Organization2_step rEmail (Edit rowO') sO')
     \<and> viewRow (Organization2_step rEmail (Edit rowO') sO') = viewRow sO')"
  by (simp add: Organization2_handleEdit_def)

lemma Subsidiary1_edit_view:
  "(rowS \<in> set (rows sS) \<longrightarrow>
   editingId (Subsidiary1_step (Edit rowS) sS) = Some (Subsidiary.id rowS)
     \<and> isFormOpen (Subsidiary1_step (Edit rowS) sS)
     \<and> viewRow (Subsidiary1_step (Edit rowS) sS) = None)"
  by (simp add: Subsidiary1_handleEdit_def)

lemma Subsidiary2_edit_view:
  "(rowS' \<in> set (rows sS') \<longrightarrow>
   editingId (Subsidiary2_step (Edit rowS') sS') = Some (Subsidiary.id rowS')
     \<and> isFormOpen (Subsidiary2_step (Edit rowS') sS')
     \<and> viewRow (Subsidiary2_step (Edit rowS') sS') = viewRow sS')"
  by (simp add: Subsidiary2_handleEdit_def)

lemma Location1_edit_view:
  "(rowL \<in> set (rows sL) \<longrightarrow>
   editingId (Location1_step (Edit rowL) sL) = Some (Location.id rowL)
     \<and> isFormOpen (Location1_step (Edit rowL) sL)
     \<and> viewRow (Location1_step (Edit rowL) sL) = None)"
  by (simp add: Location1_handleEdit_def)

lemma Location2_edit_view:
  "(rowL' \<in> set (rows sL') \<longrightarrow>
   editingId (Location2_step (Edit rowL') sL') = Some (Location.id rowL')
     \<and> isFormOpen (Location2_step (Edit rowL') sL')
     \<and> viewRow (Location2_step (Edit rowL') sL') = viewRow sL')"
  by (simp add: Location2_handleEdit_def)

lemma Designation1_edit_view:
  "(rowD \<in> set (rows sD) \<longrightarrow>
   editingId (Designation1_step (Edit rowD) sD) = Some (Designation.id rowD)
     \<and> isFormOpen (Designation1_step (Edit rowD) sD)
     \<and> viewRow (Designation1_step (Edit rowD) sD) = None)"
  by (simp add: Designation1_handleEdit_def)

lemma Designation2_edit_view:
  "(rowD' \<in> set (rows sD') \<longrightarrow>
   editingId (Designation2_step (Edit rowD') sD') = Some (Designation.id rowD')
     \<and> isFormOpen (Designation2_step (Edit rowD') sD')
     \<and> viewRow (Designation2_step (Edit rowD') sD') = viewRow sD')"
  by (simp add: Designation2_handleEdit_def)

text \<open>
  C10 (as amended). On every page, Edit on a row of the table opens the form for that
  record. On the first Subsidiary, Location and Designation pages it closes the view; on
  the other pages (both Organization pages, the second Subsidiary, Location and
  Designation pages, which show the view in a modal) it leaves the viewed record as it
  was.
\<close>

theorem edit_opens_form_and_panel_pages_close_view:
  "(rowO \<in> set (rows sO) \<longrightarrow>
     editingId (Organization1_step rEmail (Edit rowO) sO) = Some (Organization.id rowO)
     \<and> isFormOpen (Organization1_step rEmail (Edit rowO) sO)
     \<and> viewRow (Organization1_step rEmail (Edit rowO) sO) = viewRow sO)
   \<and> (rowO' \<in> set (rows sO') \<longrightarrow>
     editingId (Organization2_step rEmail (Edit rowO') sO') = Some (Organization.id rowO')
     \<and> isFormOpen (Organization2_step rEmail (Edit rowO') sO')
     \<and> viewRow (Organization2_step rEmail (Edit rowO') sO') = viewRow sO')
   \<and> (rowS \<in> set (rows sS) \<longrightarrow>
     editingId (Subsidiary1_step (Edit rowS) sS) = Some (Subsidiary.id rowS)
     \<and> isFormOpen (Subsidiary1_step (Edit rowS) sS)
     \<and> viewRow (Subsidiary1_step (Edit rowS) sS) = None)
   \<and> (rowS' \<in> set (rows sS') \<longrightarrow>
     editingId (Subsidiary2_step (Edit rowS') sS') = Some (Subsidiary.id rowS')
     \<and> isFormOpen (Subsidiary2_step (Edit rowS') sS')
     \<and> viewRow (Subsidiary2_step (Edit rowS') sS') = viewRow sS')
   \<and> (rowL \<in> set (rows sL) \<longrightarrow>
     editingId (Location1_step (Edit rowL) sL) = Some (Location.id rowL)
     \<and> isFormOpen (Location1_step (Edit rowL) sL)
     \<and> viewRow (Location1_step (Edit rowL) sL) = None)
   \<and> (rowL' \<in> set (rows sL') \<longrightarrow>
     editingId (Location2_step (Edit rowL') sL') = Some (Location.id rowL')
     \<and> isFormOpen (Location2_step (Edit rowL') sL')
     \<and> viewRow (Location2_step (Edit rowL') sL') = viewRow sL')
   \<and> (rowD \<in> set (rows sD) \<longrightarrow>
     editingId (Designation1_step (Edit rowD) sD) = Some (Designation.id rowD)
     \<and> isFormOpen (Designation1_step (Edit rowD) sD)
     \<and> viewRow (Designation1_step (Edit rowD) sD) = None)
   \<and> (rowD' \<in> set (rows sD') \<longrightarrow>
     editingId (Designation2_step (Edit rowD') sD') = Some (Designation.id rowD')
     \<and> isFormOpen (Designation2_step (Edit rowD') sD')
     \<and> viewRow (Designation2_step (Edit rowD') sD') = viewRow sD')"
  by (intro conjI Organization1_edit_view Organization2_edit_view Subsidiary1_edit_view
        Subsidiary2_edit_view Location1_edit_view Location2_edit_view Designation1_edit_view
        Designation2_edit_view)

text \<open>
  The claim as stated fails on the Location page of src/pages/LocationPage.tsx: View
  and then Edit on the seed record leave the form open for that record and the view
  still open.
\<close>

theorem edit_leaves_view_open_counterexample:
  "editingId (fold Location2_step [View (hd initialLocations), Edit (hd initialLocations)]
              Location_init)
     = Some 1
   \<and> isFormOpen (fold Location2_step [View (hd initialLocations), Edit (hd initialLocations)]
               Location_init)
   \<and> viewRow (fold Location2_step [View (hd initialLocations), Edit (hd initialLocations)]
            Location_init)
     = Some (hd initialLocations)"
  by code_simp

text \<open>
  The statement of C10 at the example inputs: every hypothesis holds there.
\<close>

theorem edit_opens_form_and_panel_pages_close_view_witness:
  "(hd initialOrganizations) \<in> set (rows (Organization_init\<lparr>viewRow := Some (hd
      initialOrganizations)\<rparr>))
   \<and> (editingId (Organization1_step example_rEmail (Edit (hd initialOrganizations))
       (Organization_init\<lparr>viewRow := Some (hd initialOrganizations)\<rparr>)) = Some (Organization.id
       (hd initialOrganizations))
     \<and> isFormOpen (Organization1_step example_rEmail (Edit (hd initialOrganizations))
         (Organization_init\<lparr>viewRow := Some (hd initialOrganizations)\<rparr>))
     \<and> viewRow (Organization1_step example_rEmail (Edit (hd initialOrganizations))
         (Organization_init\<lparr>viewRow := Some (hd initialOrganizations)\<rparr>)) = viewRow
         (Organization_init\<lparr>viewRow := Some (hd initialOrganizations)\<rparr>))
   \<and> (hd initialOrganizations) \<in> set (rows (Organization_init\<lparr>viewRow := Some (hd
       initialOrganizations)\<rparr>))
   \<and> (editingId (Organization2_step example_rEmail (Edit (hd initialOrganizations))
       (Organization_init\<lparr>viewRow := Some (hd initialOrganizations)\<rparr>)) = Some (Organization.id
       (hd initialOrganizations))
     \<and> isFormOpen (Organization2_step example_rEmail (Edit (hd initialOrganizations))
         (Organization_init\<lparr>viewRow := Some (hd initialOrganizations)\<rparr>))
     \<and> viewRow (Organization2_step example_rEmail (Edit (hd initialOrganizations))
         (Organization_init\<lparr>viewRow := Some (hd initialOrganizations)\<rparr>)) = viewRow
         (Organization_init\<lparr>viewRow := Some (hd initialOrganizations)\<rparr>))
   \<and> (hd exampleSubsidiaries) \<in> set (rows ((Subsidiary_init exampleSubsidiaries)\<lparr>viewRow := Some
       (hd exampleSubsidiaries)\<rparr>))
   \<and> (editingId (Subsidiary1_step (Edit (hd exampleSubsidiaries)) ((Subsidiary_init
       exampleSubsidiaries)\<lparr>viewRow := Some (hd exampleSubsidiaries)\<rparr>)) = Some (Subsidiary.id
       (hd exampleSubsidiaries))
     \<and> isFormOpen (Subsidiary1_step (Edit (hd exampleSubsidiaries)) ((Subsidiary_init
         exampleSubsidiaries)\<lparr>viewRow := Some (hd exampleSubsidiaries)\<rparr>))
     \<and> viewRow (Subsidiary1_step (Edit (hd exampleSubsidiaries)) ((Subsidiary_init
         exampleSubsidiaries)\<lparr>viewRow := Some (hd exampleSubsidiaries)\<rparr>)) = None)
   \<and> (hd exampleSubsidiaries) \<in> set (rows ((Subsidiary_init exampleSubsidiaries)\<lparr>viewRow := Some
       (hd exampleSubsidiaries)\<rparr>))
   \<and> (editingId (Subsidiary2_step (Edit (hd exampleSubsidiaries)) ((Subsidiary_init
       exampleSubsidiaries)\<lparr>viewRow := Some (hd exampleSubsidiaries)\<rparr>)) = Some (Subsidiary.id
       (hd exampleSubsidiaries))
     \<and> isFormOpen (Subsidiary2_step (Edit (hd exampleSubsidiaries)) ((Subsidiary_init
         exampleSubsidiaries)\<lparr>viewRow := Some (hd exampleSubsidiaries)\<rparr>))
     \<and> viewRow (Subsidiary2_step (Edit (hd exampleSubsidiaries)) ((Subsidiary_init
         exampleSubsidiaries)\<lparr>viewRow := Some (hd exampleSubsidiaries)\<rparr>)) = viewRow
         ((Subsidiary_init exampleSubsidiaries)\<lparr>viewRow := Some (hd exampleSubsidiaries)\<rparr>))
   \<and> (hd initialLocations) \<in> set (rows (Location_init\<lparr>viewRow := Some (hd initialLocations)\<rparr>))
   \<and> (editingId (Location1_step (Edit (hd initialLocations)) (Location_init\<lparr>viewRow := Some (hd
       initialLocations)\<rparr>)) = Some (Location.id (hd initialLocations))
     \<and> isFormOpen (Location1_step (Edit (hd initialLocations)) (Location_init\<lparr>viewRow := Some
         (hd initialLocations)\<rparr>))
     \<and> viewRow (Location1_step (Edit (hd initialLocations)) (Location_init\<lparr>viewRow := Some (hd
         initialLocations)\<rparr>)) = None)
   \<and> (hd initialLocations) \<in> set (rows (Location_init\<lparr>viewRow := Some (hd initialLocations)\<rparr>))
   \<and> (editingId (Location2_step (Edit (hd initialLocations)) (Location_init\<lparr>viewRow := Some (hd
       initialLocations)\<rparr>)) = Some (Location.id (hd initialLocations))
     \<and> isFormOpen (Location2_step (Edit (hd initialLocations)) (Location_init\<lparr>viewRow := Some
         (hd initialLocations)\<rparr>))
     \<and> viewRow (Location2_step (Edit (hd initialLocations)) (Location_init\<lparr>viewRow := Some (hd
         initialLocations)\<rparr>)) = viewRow (Location_init\<lparr>viewRow := Some (hd initialLocations)\<rparr>))
   \<and> (hd initialDesignations) \<in> set (rows (Designation_init\<lparr>viewRow := Some (hd
       initialDesignations)\<rparr>))
   \<and> (editingId (Designation1_step (Edit (hd initialDesignations)) (Designation_init\<lparr>viewRow :=
       Some (hd initialDesignations)\<rparr>)) = Some (Designation.id (hd initialDesignations))
     \<and> isFormOpen (Designation1_step (Edit (hd initialDesignations)) (Designation_init\<lparr>viewRow
         := Some (hd initialDesignations)\<rparr>))
     \<and> viewRow (Designation1_step (Edit (hd initialDesignations)) (Designation_init\<lparr>viewRow :=
         Some (hd initialDesignations)\<rparr>)) = None)
   \<and> (hd initialDesignations) \<in> set (rows (Designation_init\<lparr>viewRow := Some (hd
       initialDesignations)\<rparr>))
   \<and> (editingId (Designation2_step (Edit (hd initialDesignations)) (Designation_init\<lparr>viewRow :=
       Some (hd initialDesignations)\<rparr>)) = Some (Designation.id (hd initialDesignations))
     \<and> isFormOpen (Designation2_step (Edit (hd initialDesignations)) (Designation_init\<lparr>viewRow
         := Some (hd initialDesignations)\<rparr>))
     \<and> viewRow (Designation2_step (Edit (hd initialDesignations)) (Designation_init\<lparr>viewRow :=
         Some (hd initialDesignations)\<rparr>)) = viewRow (Designation_init\<lparr>viewRow := Some (hd
         initialDesignations)\<rparr>))"
proof -
  note T = edit_opens_form_and_panel_pages_close_view
    [where rEmail = example_rEmail
       and sO = "Organization_init\<lparr>viewRow := Some (hd initialOrganizations)\<rparr>"
       and rowO = "hd initialOrganizations"
       and sO' = "Organization_init\<lparr>viewRow := Some (hd initialOrganizations)\<rparr>"
       and rowO' = "hd initialOrganizations"
       and sS = "(Subsidiary_init exampleSubsidiaries)\<lparr>viewRow := Some (hd exampleSubsidiaries)\<rparr>"
       and rowS = "hd exampleSubsidiaries"
       and sS' = "(Subsidiary_init exampleSubsidiaries)\<lparr>viewRow := Some (hd exampleSubsidiaries)\<rparr>"
       and rowS' = "hd exampleSubsidiaries"
       and sL = "Location_init\<lparr>viewRow := Some (hd initialLocations)\<rparr>"
       and rowL = "hd initialLocations"
       and sL' = "Location_init\<lparr>viewRow := Some (hd initialLocations)\<rparr>"
       and rowL' = "hd initialLocations"
       and sD = "Designation_init\<lparr>viewRow := Some (hd initialDesignations)\<rparr>"
       and rowD = "hd initialDesignations"
       and sD' = "Designation_init\<lparr>viewRow := Some (hd initialDesignations)\<rparr>"
       and rowD' = "hd initialDesignations"]
  have h1_1: "(hd initialOrganizations) \<in> set (rows (Organization_init\<lparr>viewRow := Some (hd
      initialOrganizations)\<rparr>))"
    by code_simp
  have c1: "editingId (Organization1_step example_rEmail (Edit (hd initialOrganizations))
      (Organization_init\<lparr>viewRow := Some (hd initialOrganizations)\<rparr>)) = Some (Organization.id
      (hd initialOrganizations))
     \<and> isFormOpen (Organization1_step example_rEmail (Edit (hd initialOrganizations))
         (Organization_init\<lparr>viewRow := Some (hd initialOrganizations)\<rparr>))
     \<and> viewRow (Organization1_step example_rEmail (Edit (hd initialOrganizations))
         (Organization_init\<lparr>viewRow := Some (hd initialOrganizations)\<rparr>)) = viewRow
         (Organization_init\<lparr>viewRow := Some (hd initialOrganizations)\<rparr>)"
    by (rule T [THEN conjunct1, THEN mp, OF h1_1])
  have h2_1: "(hd initialOrganizations) \<in> set (rows (Organization_init\<lparr>viewRow := Some (hd
      initialOrganizations)\<rparr>))"
    by code_simp
  have c2: "editingId (Organization2_step example_rEmail (Edit (hd initialOrganizations))
      (Organization_init\<lparr>viewRow := Some (hd initialOrganizations)\<rparr>)) = Some (Organization.id
      (hd initialOrganizations))
     \<and> isFormOpen (Organization2_step example_rEmail (Edit (hd initialOrganizations))
         (Organization_init\<lparr>viewRow := Some (hd initialOrganizations)\<rparr>))
     \<and> viewRow (Organization2_step example_rEmail (Edit (hd initialOrganizations))
         (Organization_init\<lparr>viewRow := Some (hd initialOrganizations)\<rparr>)) = viewRow
         (Organization_init\<lparr>viewRow := Some (hd initialOrganizations)\<rparr>)"
    by (rule T [THEN conjunct2, THEN conjunct1, THEN mp, OF h2_1])
  have h3_1: "(hd exampleSubsidiaries) \<in> set (rows ((Subsidiary_init
      exampleSubsidiaries)\<lparr>viewRow := Some (hd exampleSubsidiaries)\<rparr>))"
    by code_simp
  have c3: "editingId (Subsidiary1_step (Edit (hd exampleSubsidiaries)) ((Subsidiary_init
      exampleSubsidiaries)\<lparr>viewRow := Some (hd exampleSubsidiaries)\<rparr>)) = Some (Subsidiary.id (hd
      exampleSubsidiaries))
     \<and> isFormOpen (Subsidiary1_step (Edit (hd exampleSubsidiaries)) ((Subsidiary_init
         exampleSubsidiaries)\<lparr>viewRow := Some (hd exampleSubsidiaries)\<rparr>))
     \<and> viewRow (Subsidiary1_step (Edit (hd exampleSubsidiaries)) ((Subsidiary_init
         exampleSubsidiaries)\<lparr>viewRow := Some (hd exampleSubsidiaries)\<rparr>)) = None"
    by (rule T [THEN conjunct2, THEN conjunct2, THEN conjunct1, THEN mp, OF h3_1])
  have h4_1: "(hd exampleSubsidiaries) \<in> set (rows ((Subsidiary_init
      exampleSubsidiaries)\<lparr>viewRow := Some (hd exampleSubsidiaries)\<rparr>))"
    by code_simp
  have c4: "editingId (Subsidiary2_step (Edit (hd exampleSubsidiaries)) ((Subsidiary_init
      exampleSubsidiaries)\<lparr>viewRow := Some (hd exampleSubsidiaries)\<rparr>)) = Some (Subsidiary.id (hd
      exampleSubsidiaries))
     \<and> isFormOpen (Subsidiary2_step (Edit (hd exampleSubsidiaries)) ((Subsidiary_init
         exampleSubsidiaries)\<lparr>viewRow := Some (hd exampleSubsidiaries)\<rparr>))
     \<and> viewRow (Subsidiary2_step (Edit (hd exampleSubsidiaries)) ((Subsidiary_init
         exampleSubsidiaries)\<lparr>viewRow := Some (hd exampleSubsidiaries)\<rparr>)) = viewRow
         ((Subsidiary_init exampleSubsidiaries)\<lparr>viewRow := Some (hd exampleSubsidiaries)\<rparr>)"
    by (rule T [THEN conjunct2, THEN conjunct2, THEN conjunct2, THEN conjunct1, THEN mp, OF h4_1])
  have h5_1: "(hd initialLocations) \<in> set (rows (Location_init\<lparr>viewRow := Some (hd
      initialLocations)\<rparr>))"
    by code_simp
  have c5: "editingId (Location1_step (Edit (hd initialLocations)) (Location_init\<lparr>viewRow :=
      Some (hd initialLocations)\<rparr>)) = Some (Location.id (hd initialLocations))
     \<and> isFormOpen (Location1_step (Edit (hd initialLocations)) (Location_init\<lparr>viewRow := Some
         (hd initialLocations)\<rparr>))
     \<and> viewRow (Location1_step (Edit (hd initialLocations)) (Location_init\<lparr>viewRow := Some (hd
         initialLocations)\<rparr>)) = None"
    by (rule T [THEN conjunct2, THEN conjunct2, THEN conjunct2, THEN conjunct2, THEN conjunct1,
        THEN mp, OF h5_1])
  have h6_1: "(hd initialLocations) \<in> set (rows (Location_init\<lparr>viewRow := Some (hd
      initialLocations)\<rparr>))"
    by code_simp
  have c6: "editingId (Location2_step (Edit (hd initialLocations)) (Location_init\<lparr>viewRow :=
      Some (hd initialLocations)\<rparr>)) = Some (Location.id (hd initialLocations))
     \<and> isFormOpen (Location2_step (Edit (hd initialLocations)) (Location_init\<lparr>viewRow := Some
         (hd initialLocations)\<rparr>))
     \<and> viewRow (Location2_step (Edit (hd initialLocations)) (Location_init\<lparr>viewRow := Some (hd
         initialLocations)\<rparr>)) = viewRow (Location_init\<lparr>viewRow := Some (hd initialLocations)\<rparr>)"
    by (rule T [THEN conjunct2, THEN conjunct2, THEN conjunct2, THEN conjunct2, THEN conjunct2,
        THEN conjunct1, THEN mp, OF h6_1])
  have h7_1: "(hd initialDesignations) \<in> set (rows (Designation_init\<lparr>viewRow := Some (hd
      initialDesignations)\<rparr>))"
    by code_simp
  have c7: "editingId (Designation1_step (Edit (hd initialDesignations))
      (Designation_init\<lparr>viewRow := Some (hd initialDesignations)\<rparr>)) = Some (Designation.id (hd
      initialDesignations))
     \<and> isFormOpen (Designation1_step (Edit (hd initialDesignations)) (Designation_init\<lparr>viewRow
         := Some (hd initialDesignations)\<rparr>))
     \<and> viewRow (Designation1_step (Edit (hd initialDesignations)) (Designation_init\<lparr>viewRow :=
         Some (hd initialDesignations)\<rparr>)) = None"
    by (rule T [THEN conjunct2, THEN conjunct2, THEN conjunct2, THEN conjunct2, THEN conjunct2,
        THEN conjunct2, THEN conjunct1, THEN mp, OF h7_1])
  have h8_1: "(hd initialDesignations) \<in> set (rows (Designation_init\<lparr>viewRow := Some (hd
      initialDesignations)\<rparr>))"
    by code_simp
  have c8: "editingId (Designation2_step (Edit (hd initialDesignations))
      (Designation_init\<lparr>viewRow := Some (hd initialDesignations)\<rparr>)) = Some (Designation.id (hd
      initialDesignations))
     \<and> isFormOpen (Designation2_step (Edit (hd initialDesignations)) (Designation_init\<lparr>viewRow
         := Some (hd initialDesignations)\<rparr>))
     \<and> viewRow (Designation2_step (Edit (hd initialDesignations)) (Designation_init\<lparr>viewRow :=
         Some (hd initialDesignations)\<rparr>)) = viewRow (Designation_init\<lparr>viewRow := Some (hd
         initialDesignations)\<rparr>)"
    by (rule T [THEN conjunct2, THEN conjunct2, THEN conjunct2, THEN conjunct2, THEN conjunct2,
        THEN conjunct2, THEN conjunct2, THEN mp, OF h8_1])
  show ?thesis
    using h1_1 c1 h2_1 c2 h3_1 c3 h4_1 c4 h5_1 c5 h6_1 c6 h7_1 c7 h8_1 c8
    by blast
qed


end
